(* ===== verification/Prelude.thy ===== *)
theory Prelude
  imports Main "HOL-Library.Sublist"
begin

text \<open>
  Shared vocabulary of the development: the application's exceptions as values, the service monad in
  which every database-backed operation of \<^verbatim>\<open>src/app\<close> is written, Python string operations,
  key-indexed tables, and the rules by which facts about a whole transaction are composed from facts
  about its statements.

  Conventions used by all theories:
  \<^item> a point in time is an \<open>int\<close> number of microseconds since the epoch (the resolution of Python's
    \<^verbatim>\<open>datetime\<close>), always in UTC;
  \<^item> a UUID is a \<open>nat\<close>;
  \<^item> human-readable text that the code builds with an f-string is kept as its template together with
    the Python objects interpolated into it (\<open>Fmt\<close>), so that no argument is lost, while the
    rendering of the objects and the truncation of the text to a column width are left out;
  \<^item> strings are ASCII text, on which \<^verbatim>\<open>str.lower\<close>, \<^verbatim>\<open>str.upper\<close> and \<^verbatim>\<open>str.strip\<close> act character
    by character.
\<close>

named_theorems svc_simps "unfolding of the service monad"
named_theorems resp_intros "composition rules for relations respected by operations"
named_theorems string_simps "Python string operations"

section \<open>Exceptions\<close>

text \<open>
  One constructor per exception class of \<^verbatim>\<open>app/core/exceptions.py\<close> that modelled code raises or
  catches, followed by the exceptions of the language and of the database driver. Messages are
  not kept.
\<close>

datatype error =
    ConfigurationError | NotFoundError | ValidationError | ConflictError
  | AuthenticationError | PermissionDeniedError | RateLimitedError int
  | InvalidStateTransition | OutOfStockError | InsufficientStockError | CouponError
  | ProviderError bool | UnsupportedCapabilityError | IdempotencyConflictError
  | TypeError | ValueError | AttributeError | KeyError | IndexError | OverflowError
  | ZeroDivisionError | InvalidOperation | IntegrityError | DataError

text \<open>The subclass relation: what an \<^verbatim>\<open>except X\<close> clause catches.\<close>

definition is_AppError :: "error \<Rightarrow> bool" where
  "is_AppError e \<longleftrightarrow> e \<notin> {TypeError, ValueError, AttributeError, KeyError, IndexError,
     OverflowError, ZeroDivisionError, InvalidOperation, IntegrityError, DataError}"

definition is_ConflictError :: "error \<Rightarrow> bool" where
  "is_ConflictError e \<longleftrightarrow> e \<in> {ConflictError, InvalidStateTransition, OutOfStockError,
     InsufficientStockError, IdempotencyConflictError}"

section \<open>Time\<close>

type_synonym time = int

abbreviation seconds :: "int \<Rightarrow> int" where
  "seconds n \<equiv> n * 1000000"

section \<open>Optional values\<close>

text \<open>Python's \<^verbatim>\<open>x or y\<close> for an optional \<open>x\<close> whose present values are all truthy.\<close>

definition or_else :: "'a option \<Rightarrow> 'a \<Rightarrow> 'a" where
  "or_else x d = (case x of None \<Rightarrow> d | Some a \<Rightarrow> a)"

lemma or_else_simps [simp]: "or_else None d = d" "or_else (Some a) d = a"
  by (simp_all add: or_else_def)

section \<open>Python strings\<close>

definition is_space :: "char \<Rightarrow> bool" where
  "is_space c \<longleftrightarrow> (let n = (of_char c :: nat) in (9 \<le> n \<and> n \<le> 13) \<or> (28 \<le> n \<and> n \<le> 32))"

definition py_strip :: "string \<Rightarrow> string" where
  "py_strip s = rev (dropWhile is_space (rev (dropWhile is_space s)))"

definition char_lower :: "char \<Rightarrow> char" where
  "char_lower c = (let n = (of_char c :: nat) in if 65 \<le> n \<and> n \<le> 90 then char_of (n + 32) else c)"

definition char_upper :: "char \<Rightarrow> char" where
  "char_upper c = (let n = (of_char c :: nat) in if 97 \<le> n \<and> n \<le> 122 then char_of (n - 32) else c)"

definition py_lower :: "string \<Rightarrow> string" where "py_lower = map char_lower"
definition py_upper :: "string \<Rightarrow> string" where "py_upper = map char_upper"

definition startswith :: "string \<Rightarrow> string \<Rightarrow> bool" where
  "startswith s p \<longleftrightarrow> take (length p) s = p"

definition replace_char :: "char \<Rightarrow> char \<Rightarrow> string \<Rightarrow> string" where
  "replace_char a b = map (\<lambda>c. if c = a then b else c)"

fun join :: "string \<Rightarrow> string list \<Rightarrow> string" where
  "join sep [] = []"
| "join sep [x] = x"
| "join sep (x # xs) = x @ sep @ join sep xs"

definition digit_char :: "nat \<Rightarrow> char" where
  "digit_char d = char_of (48 + d)"

fun str_nat :: "nat \<Rightarrow> string" where
  "str_nat n = (if n < 10 then [digit_char n] else str_nat (n div 10) @ [digit_char (n mod 10)])"

declare str_nat.simps [simp del]

definition str_int :: "int \<Rightarrow> string" where
  "str_int i = (if i < 0 then CHR ''-'' # str_nat (nat (- i)) else str_nat (nat i))"

subsection \<open>Facts about the string operations\<close>

lemma of_char_lt_256: "(of_char c :: nat) < 256"
  by (metis nat_of_char_less_256)

lemma char_lower_idem [simp, string_simps]: "char_lower (char_lower c) = char_lower c"
  by (simp add: char_lower_def Let_def)

lemma char_upper_idem [simp, string_simps]: "char_upper (char_upper c) = char_upper c"
  by (auto simp: char_upper_def Let_def)

lemma py_lower_idem [simp, string_simps]: "py_lower (py_lower s) = py_lower s"
  by (simp add: py_lower_def)

lemma py_upper_idem [simp, string_simps]: "py_upper (py_upper s) = py_upper s"
  by (simp add: py_upper_def)

lemma py_lower_simps [simp, string_simps]:
  "py_lower [] = []" "py_lower (c # s) = char_lower c # py_lower s"
  "py_lower (s @ t) = py_lower s @ py_lower t" "length (py_lower s) = length s"
  "(py_lower s = []) = (s = [])"
  by (simp_all add: py_lower_def)

lemma py_upper_simps [simp, string_simps]:
  "py_upper [] = []" "py_upper (c # s) = char_upper c # py_upper s"
  "length (py_upper s) = length s" "(py_upper s = []) = (s = [])"
  by (simp_all add: py_upper_def)

lemma dropWhile_id: "(xs \<noteq> [] \<Longrightarrow> \<not> P (hd xs)) \<Longrightarrow> dropWhile P xs = xs"
  by (cases xs) auto

lemma dropWhile_snoc_keep: "\<not> P y \<Longrightarrow> dropWhile P (xs @ [y]) = dropWhile P xs @ [y]"
  by (induction xs) auto

lemma hd_dropWhile_not: "dropWhile P xs \<noteq> [] \<Longrightarrow> \<not> P (hd (dropWhile P xs))"
  by (induction xs) auto

text \<open>Stripping leaves a string with no white space at either end.\<close>

lemma py_strip_last: "py_strip s \<noteq> [] \<Longrightarrow> \<not> is_space (last (py_strip s))"
  unfolding py_strip_def by (metis Nil_is_rev_conv hd_dropWhile_not last_rev)

lemma py_strip_hd: "py_strip s \<noteq> [] \<Longrightarrow> \<not> is_space (hd (py_strip s))"
proof -
  assume ne: "py_strip s \<noteq> []"
  let ?d = "dropWhile is_space s"
  have "suffix (dropWhile is_space (rev ?d)) (rev ?d)" by (rule suffix_dropWhile)
  then have pre: "prefix (py_strip s) ?d"
    by (simp add: py_strip_def suffix_to_prefix)
  with ne have "?d \<noteq> []" by (metis prefix_Nil)
  moreover from pre ne have "hd (py_strip s) = hd ?d" by (auto elim!: prefixE)
  ultimately show ?thesis using hd_dropWhile_not by metis
qed

lemma py_strip_id:
  "(s \<noteq> [] \<Longrightarrow> \<not> is_space (hd s)) \<Longrightarrow> (s \<noteq> [] \<Longrightarrow> \<not> is_space (last s)) \<Longrightarrow> py_strip s = s"
proof (cases "s = []")
  case False
  assume "s \<noteq> [] \<Longrightarrow> \<not> is_space (hd s)" and "s \<noteq> [] \<Longrightarrow> \<not> is_space (last s)"
  with False have "dropWhile is_space s = s" and "dropWhile is_space (rev s) = rev s"
    by (auto intro!: dropWhile_id simp: hd_rev)
  then show ?thesis by (simp add: py_strip_def)
qed (simp add: py_strip_def)

lemma py_strip_idem [simp, string_simps]: "py_strip (py_strip s) = py_strip s"
  by (rule py_strip_id) (simp_all add: py_strip_hd py_strip_last)

lemma py_strip_Nil [simp]: "py_strip [] = []"
  by (simp add: py_strip_def)

lemma is_space_char_lower [simp]: "is_space (char_lower c) = is_space c"
  by (auto simp: is_space_def char_lower_def Let_def)

lemma digit_char_not_bar: "d < 10 \<Longrightarrow> digit_char d \<noteq> CHR ''|''"
proof -
  assume "d < 10"
  then have "(of_char (digit_char d) :: nat) \<noteq> of_char (CHR ''|'')"
    by (simp add: digit_char_def)
  then show ?thesis by metis
qed

lemma digit_char_inj: "d < 10 \<Longrightarrow> e < 10 \<Longrightarrow> digit_char d = digit_char e \<Longrightarrow> d = e"
proof -
  assume "d < 10" "e < 10" "digit_char d = digit_char e"
  then have "(of_char (digit_char d) :: nat) = of_char (digit_char e)" by simp
  with \<open>d < 10\<close> \<open>e < 10\<close> show ?thesis by (simp add: digit_char_def)
qed

lemma digit_char_not_minus: "d < 10 \<Longrightarrow> digit_char d \<noteq> CHR ''-''"
proof -
  assume "d < 10"
  then have "(of_char (digit_char d) :: nat) \<noteq> of_char (CHR ''-'')"
    by (simp add: digit_char_def)
  then show ?thesis by metis
qed

lemma str_nat_ne [simp]: "str_nat n \<noteq> []"
  by (subst str_nat.simps) simp

lemma str_nat_set: "c \<in> set (str_nat n) \<Longrightarrow> \<exists>d<10. c = digit_char d"
proof (induction n rule: str_nat.induct)
  case (1 n)
  from "1.prems" show ?case
    by (subst (asm) str_nat.simps) (auto split: if_splits dest: "1.IH" intro: exI [of _ "n mod 10"])
qed

lemma str_nat_inj: "str_nat m = str_nat n \<Longrightarrow> m = n"
proof (induction m arbitrary: n rule: str_nat.induct)
  case (1 m)
  show ?case
  proof (cases "m < 10")
    case True
    with "1.prems" have "str_nat n = [digit_char m]" by (simp add: str_nat.simps [of m])
    with True show ?thesis
      by (subst (asm) str_nat.simps) (auto split: if_splits dest: digit_char_inj)
  next
    case False
    with "1.prems" have eq: "str_nat n = str_nat (m div 10) @ [digit_char (m mod 10)]"
      by (simp add: str_nat.simps [of m])
    have n10: "\<not> n < 10"
    proof
      assume "n < 10"
      then have "length (str_nat n) = 1" by (simp add: str_nat.simps [of n])
      with eq show False by simp
    qed
    with eq have "str_nat (n div 10) = str_nat (m div 10)"
        and "digit_char (n mod 10) = digit_char (m mod 10)"
      by (simp_all add: str_nat.simps [of n])
    with False have "m div 10 = n div 10" and "m mod 10 = n mod 10"
      by (auto intro: "1.IH" digit_char_inj simp: eq_commute [of "n mod 10"])
    then show ?thesis by (metis div_mult_mod_eq)
  qed
qed

lemma str_nat_not_minus: "str_nat k \<noteq> CHR ''-'' # t"
proof
  assume "str_nat k = CHR ''-'' # t"
  then have "CHR ''-'' \<in> set (str_nat k)" by simp
  then obtain d where "d < 10" "CHR ''-'' = digit_char d" using str_nat_set by blast
  then show False using digit_char_not_minus [of d] by simp
qed

lemma str_int_inj: "str_int i = str_int j \<Longrightarrow> i = j"
proof -
  assume eq: "str_int i = str_int j"
  note nm = str_nat_not_minus
  consider "i < 0" "j < 0" | "i < 0" "0 \<le> j" | "0 \<le> i" "j < 0" | "0 \<le> i" "0 \<le> j" by linarith
  then show ?thesis
  proof cases
    case 1
    with eq have "nat (- i) = nat (- j)" by (intro str_nat_inj) (simp add: str_int_def)
    with 1 show ?thesis by simp
  next
    case 2
    with eq have "str_nat (nat j) = CHR ''-'' # str_nat (nat (- i))" by (simp add: str_int_def)
    then show ?thesis using nm by blast
  next
    case 3
    with eq have "str_nat (nat i) = CHR ''-'' # str_nat (nat (- j))" by (simp add: str_int_def)
    then show ?thesis using nm by blast
  next
    case 4
    with eq have "nat i = nat j" by (intro str_nat_inj) (simp add: str_int_def)
    with 4 show ?thesis by simp
  qed
qed

lemma str_int_no_bar: "CHR ''|'' \<notin> set (str_int i)"
proof -
  have "CHR ''|'' \<notin> set (str_nat n)" for n
  proof
    assume "CHR ''|'' \<in> set (str_nat n)"
    then obtain d where "d < 10" "CHR ''|'' = digit_char d" using str_nat_set by blast
    then show False using digit_char_not_bar [of d] by simp
  qed
  then show ?thesis by (simp add: str_int_def)
qed

text \<open>Code equation on binary integers.\<close>

function str_pos :: "int \<Rightarrow> string" where
  "str_pos n = (if n < 10 then [digit_char (nat n)] else str_pos (n div 10) @ [digit_char (nat (n mod 10))])"
  by pat_completeness auto
termination by (relation "measure nat") auto

declare str_pos.simps [simp del]

lemma str_pos_nat: "0 \<le> i \<Longrightarrow> str_pos i = str_nat (nat i)"
proof (induction i rule: str_pos.induct)
  case (1 i)
  then show ?case
    by (subst str_pos.simps, subst str_nat.simps)
      (auto simp: nat_div_distrib nat_mod_distrib nat_less_iff)
qed

lemma str_int_code [code]: "str_int i = (if i < 0 then CHR ''-'' # str_pos (- i) else str_pos i)"
  by (simp add: str_int_def str_pos_nat)

section \<open>The service monad\<close>

text \<open>
  A service operation runs inside one database session. It returns or raises, and what it wrote
  before raising stays visible to a handler inside the same session: the state is therefore threaded
  through an exception. \<open>atomic\<close> is \<^verbatim>\<open>session_scope()\<close> of \<^verbatim>\<open>app/db/session.py\<close>: commit on success,
  roll back on any exception.
\<close>

type_synonym ('s, 'a) svc = "'s \<Rightarrow> (error + 'a) \<times> 's"

definition returnS :: "'a \<Rightarrow> ('s, 'a) svc" where
  [svc_simps]: "returnS a = (\<lambda>s. (Inr a, s))"

definition raiseS :: "error \<Rightarrow> ('s, 'a) svc" where
  [svc_simps]: "raiseS e = (\<lambda>s. (Inl e, s))"

definition bindS :: "('s, 'a) svc \<Rightarrow> ('a \<Rightarrow> ('s, 'b) svc) \<Rightarrow> ('s, 'b) svc" where
  "bindS m f = (\<lambda>s. case m s of (Inl e, t) \<Rightarrow> (Inl e, t) | (Inr a, t) \<Rightarrow> f a t)"

definition getsS :: "('s \<Rightarrow> 'a) \<Rightarrow> ('s, 'a) svc" where
  [svc_simps]: "getsS f = (\<lambda>s. (Inr (f s), s))"

definition modifyS :: "('s \<Rightarrow> 's) \<Rightarrow> ('s, unit) svc" where
  [svc_simps]: "modifyS f = (\<lambda>s. (Inr (), f s))"

definition catchS :: "('s, 'a) svc \<Rightarrow> (error \<Rightarrow> ('s, 'a) svc) \<Rightarrow> ('s, 'a) svc" where
  "catchS m h = (\<lambda>s. case m s of (Inl e, t) \<Rightarrow> h e t | (Inr a, t) \<Rightarrow> (Inr a, t))"

definition guardS :: "bool \<Rightarrow> error \<Rightarrow> ('s, unit) svc" where
  [svc_simps]: "guardS b e = (if b then returnS () else raiseS e)"

definition whenS :: "bool \<Rightarrow> ('s, unit) svc \<Rightarrow> ('s, unit) svc" where
  [svc_simps]: "whenS b m = (if b then m else returnS ())"

definition liftS :: "error + 'a \<Rightarrow> ('s, 'a) svc" where
  "liftS r = (case r of Inl e \<Rightarrow> raiseS e | Inr a \<Rightarrow> returnS a)"

definition thenS :: "('s, 'a) svc \<Rightarrow> ('s, 'b) svc \<Rightarrow> ('s, 'b) svc" where
  "thenS m n = bindS m (\<lambda>_. n)"

fun mapS :: "('a \<Rightarrow> ('s, 'b) svc) \<Rightarrow> 'a list \<Rightarrow> ('s, 'b list) svc" where
  "mapS f [] = returnS []"
| "mapS f (x # xs) = bindS (f x) (\<lambda>y. bindS (mapS f xs) (\<lambda>ys. returnS (y # ys)))"

text \<open>A block of statements.\<close>

fun seqS :: "('s, unit) svc list \<Rightarrow> ('s, unit) svc" where
  "seqS [] = returnS ()"
| "seqS (m # ms) = thenS m (seqS ms)"

definition atomic :: "('s, 'a) svc \<Rightarrow> ('s, 'a) svc" where
  "atomic m = (\<lambda>s. case m s of (Inl e, _) \<Rightarrow> (Inl e, s) | (Inr a, t) \<Rightarrow> (Inr a, t))"

definition succeeds :: "('s, 'a) svc \<Rightarrow> 's \<Rightarrow> bool" where
  "succeeds m s \<longleftrightarrow> (\<exists>a. fst (m s) = Inr a)"

subsection \<open>Evaluating the monad\<close>

lemma bindS_Inr [svc_simps]: "m s = (Inr a, t) \<Longrightarrow> bindS m f s = f a t"
  by (simp add: bindS_def)

lemma bindS_Inl [svc_simps]: "m s = (Inl e, t) \<Longrightarrow> bindS m f s = (Inl e, t)"
  by (simp add: bindS_def)

lemma catchS_Inr [svc_simps]: "m s = (Inr a, t) \<Longrightarrow> catchS m h s = (Inr a, t)"
  by (simp add: catchS_def)

lemma catchS_Inl [svc_simps]: "m s = (Inl e, t) \<Longrightarrow> catchS m h s = h e t"
  by (simp add: catchS_def)

lemma bindS_return [simp]: "bindS (returnS a) f = f a"
  by (simp add: bindS_def returnS_def)

lemma bindS_raise [simp]: "bindS (raiseS e) f = raiseS e"
  by (simp add: bindS_def raiseS_def)

lemma bindS_gets [simp]: "bindS (getsS g) f s = f (g s) s"
  by (simp add: bindS_def getsS_def)

lemma bindS_modify [simp]: "bindS (modifyS u) f s = f () (u s)"
  by (simp add: bindS_def modifyS_def)

lemma thenS_return [simp]: "thenS (returnS a) n = n"
  by (simp add: thenS_def)

lemma thenS_raise [simp]: "thenS (raiseS e) n = raiseS e"
  by (simp add: thenS_def)

lemma thenS_modify [simp]: "thenS (modifyS u) n s = n (u s)"
  by (simp add: thenS_def)

lemma liftS_simps [simp]: "liftS (Inl e) = raiseS e" "liftS (Inr a) = returnS a"
  by (simp_all add: liftS_def)

lemma guardS_simps [simp]: "guardS True e = returnS ()" "guardS False e = raiseS e"
  by (simp_all add: guardS_def)

lemma whenS_simps [simp]: "whenS True m = m" "whenS False m = returnS ()"
  by (simp_all add: whenS_def)

lemma bindS_eq_Inr:
  "bindS m f s = (Inr b, u) \<longleftrightarrow> (\<exists>a t. m s = (Inr a, t) \<and> f a t = (Inr b, u))"
  by (auto simp: bindS_def split: prod.splits sum.splits)

lemma thenS_eq_Inr:
  "thenS m n s = (Inr b, u) \<longleftrightarrow> (\<exists>a t. m s = (Inr a, t) \<and> n t = (Inr b, u))"
  by (auto simp: thenS_def bindS_eq_Inr)

lemma bindS_eq_Inl:
  "bindS m f s = (Inl e, u) \<longleftrightarrow> m s = (Inl e, u) \<or> (\<exists>a t. m s = (Inr a, t) \<and> f a t = (Inl e, u))"
  by (auto simp: bindS_def split: prod.splits sum.splits)

lemma guardS_eq: "guardS b e s = (if b then (Inr (), s) else (Inl e, s))"
  by (simp add: svc_simps)

lemma getsS_eq [simp]: "getsS f s = (Inr (f s), s)"
  and modifyS_eq [simp]: "modifyS g s = (Inr (), g s)"
  and returnS_eq [simp]: "returnS a s = (Inr a, s)"
  and raiseS_eq [simp]: "raiseS e s = (Inl e, s)"
  by (simp_all add: svc_simps)

lemma liftS_eq_Inr: "liftS r s = (Inr a, t) \<longleftrightarrow> r = Inr a \<and> t = s"
  by (cases r) auto

lemmas svc_elims = bindS_eq_Inr thenS_eq_Inr guardS_eq liftS_eq_Inr

section \<open>Relations between the states before and after an operation\<close>

text \<open>
  \<open>resp R m\<close>: whatever \<open>m\<close> does, returning or raising, the state after it is related to the state
  before it. For a reflexive and transitive \<open>R\<close> the fact composes along the structure of a program,
  so that it has to be shown for the primitive writes only. Two kinds of \<open>R\<close> are used: histories that
  only grow, and preservation of an invariant.
\<close>

definition resp :: "('s \<Rightarrow> 's \<Rightarrow> bool) \<Rightarrow> ('s, 'a) svc \<Rightarrow> bool" where
  "resp R m \<longleftrightarrow> (\<forall>s. R s (snd (m s)))"

lemma respI: "(\<And>s. R s (snd (m s))) \<Longrightarrow> resp R m"
  by (simp add: resp_def)

lemma respD: "resp R m \<Longrightarrow> m s = (r, t) \<Longrightarrow> R s t"
  by (metis resp_def snd_conv)

lemma resp_modify: "(\<And>s. R s (u s)) \<Longrightarrow> resp R (modifyS u)"
  by (simp add: resp_def)

locale step_rel =
  fixes R :: "'s \<Rightarrow> 's \<Rightarrow> bool"
  assumes R_refl: "R s s"
    and R_trans: "R s t \<Longrightarrow> R t u \<Longrightarrow> R s u"
begin

lemma resp_return [resp_intros]: "resp R (returnS a)"
  by (simp add: resp_def R_refl)

lemma resp_raise [resp_intros]: "resp R (raiseS e)"
  by (simp add: resp_def R_refl)

lemma resp_gets [resp_intros]: "resp R (getsS f)"
  by (simp add: resp_def R_refl)

lemma resp_lift [resp_intros]: "resp R (liftS r)"
  by (cases r) (simp_all add: resp_def R_refl)

lemma resp_guard [resp_intros]: "resp R (guardS b e)"
  by (simp add: guardS_def resp_def R_refl)

lemma resp_bind [resp_intros]:
  assumes "resp R m" and "\<And>a. resp R (f a)"
  shows "resp R (bindS m f)"
proof (rule respI)
  fix s
  obtain r t where m: "m s = (r, t)" by fastforce
  with assms(1) have st: "R s t" by (rule respD)
  show "R s (snd (bindS m f s))"
  proof (cases r)
    case (Inl e)
    with m st show ?thesis by (simp add: bindS_Inl)
  next
    case (Inr a)
    with m have "bindS m f s = f a t" by (simp add: bindS_Inr)
    moreover have "R t (snd (f a t))" using assms(2) by (simp add: resp_def)
    ultimately show ?thesis using st R_trans by auto
  qed
qed

lemma resp_then [resp_intros]: "resp R m \<Longrightarrow> resp R n \<Longrightarrow> resp R (thenS m n)"
  unfolding thenS_def by (rule resp_bind)

lemma resp_catch [resp_intros]:
  assumes "resp R m" and "\<And>e. resp R (h e)"
  shows "resp R (catchS m h)"
proof (rule respI)
  fix s
  obtain r t where m: "m s = (r, t)" by fastforce
  with assms(1) have st: "R s t" by (rule respD)
  show "R s (snd (catchS m h s))"
  proof (cases r)
    case (Inl e)
    with m have "catchS m h s = h e t" by (simp add: catchS_Inl)
    moreover have "R t (snd (h e t))" using assms(2) by (simp add: resp_def)
    ultimately show ?thesis using st R_trans by auto
  next
    case (Inr a)
    with m st show ?thesis by (simp add: catchS_Inr)
  qed
qed

lemma resp_when [resp_intros]: "resp R m \<Longrightarrow> resp R (whenS b m)"
  by (simp add: whenS_def resp_return)

lemma resp_if [resp_intros]: "resp R m \<Longrightarrow> resp R n \<Longrightarrow> resp R (if b then m else n)"
  by simp

lemma resp_option [resp_intros]:
  "resp R m \<Longrightarrow> (\<And>x. resp R (f x)) \<Longrightarrow> resp R (case z of None \<Rightarrow> m | Some x \<Rightarrow> f x)"
  by (cases z) simp_all

lemma resp_sum [resp_intros]:
  "(\<And>x. resp R (f x)) \<Longrightarrow> (\<And>x. resp R (g x)) \<Longrightarrow> resp R (case z of Inl x \<Rightarrow> f x | Inr x \<Rightarrow> g x)"
  by (cases z) simp_all

lemma resp_prod [resp_intros]:
  "(\<And>x y. resp R (f x y)) \<Longrightarrow> resp R (case z of (x, y) \<Rightarrow> f x y)"
  by (cases z) simp

lemma resp_map [resp_intros]: "(\<And>x. resp R (f x)) \<Longrightarrow> resp R (mapS f xs)"
  by (induction xs) (auto intro!: resp_return resp_bind)

lemma resp_seq [resp_intros]: "list_all (resp R) ms \<Longrightarrow> resp R (seqS ms)"
  by (induction ms) (auto intro!: resp_return resp_then)

lemma resp_atomic [resp_intros]: "resp R m \<Longrightarrow> resp R (atomic m)"
  by (auto simp: resp_def atomic_def R_refl split: prod.splits sum.splits) (metis snd_conv)

end

text \<open>Preservation of an invariant is one such relation, whatever the invariant.\<close>

definition keeps :: "('s \<Rightarrow> bool) \<Rightarrow> 's \<Rightarrow> 's \<Rightarrow> bool" where
  "keeps I s t \<longleftrightarrow> (I s \<longrightarrow> I t)"

interpretation keep: step_rel "keeps I" for I
  by unfold_locales (auto simp: keeps_def)

lemma keepsI: "(I s \<Longrightarrow> I t) \<Longrightarrow> keeps I s t"
  by (simp add: keeps_def)

section \<open>Tables\<close>

text \<open>
  A table is the list of its rows in insertion order, each under its primary key. \<open>tupd\<close> is an
  \<^verbatim>\<open>UPDATE ... WHERE id = k\<close> and the flush of a changed ORM object, \<open>tadd\<close> an \<^verbatim>\<open>INSERT\<close> of a row
  under a fresh key, \<open>tsel\<close> a \<^verbatim>\<open>SELECT\<close> with a condition.
\<close>

type_synonym 'r table = "(nat \<times> 'r) list"

definition tget :: "'r table \<Rightarrow> nat \<Rightarrow> 'r option" where
  "tget t k = map_of t k"

definition tupd :: "nat \<Rightarrow> ('r \<Rightarrow> 'r) \<Rightarrow> 'r table \<Rightarrow> 'r table" where
  "tupd k f t = map (\<lambda>(i, r). (i, if i = k then f r else r)) t"

definition tadd :: "nat \<Rightarrow> 'r \<Rightarrow> 'r table \<Rightarrow> 'r table" where
  "tadd k r t = t @ [(k, r)]"

definition tsel :: "('r \<Rightarrow> bool) \<Rightarrow> 'r table \<Rightarrow> (nat \<times> 'r) list" where
  "tsel P t = filter (\<lambda>(i, r). P r) t"

definition texists :: "('r \<Rightarrow> bool) \<Rightarrow> 'r table \<Rightarrow> bool" where
  "texists P t \<longleftrightarrow> (\<exists>x\<in>set t. P (snd x))"

text \<open>\<^verbatim>\<open>ORDER BY key DESC LIMIT 1\<close>: among equal keys the earliest inserted row.\<close>

fun latest_by :: "('r \<Rightarrow> int) \<Rightarrow> (nat \<times> 'r) list \<Rightarrow> (nat \<times> 'r) option" where
  "latest_by key [] = None"
| "latest_by key (x # xs) =
     (case latest_by key xs of None \<Rightarrow> Some x
      | Some y \<Rightarrow> if key (snd y) > key (snd x) then Some y else Some x)"

locale row_store =
  fixes get :: "'t \<Rightarrow> nat \<Rightarrow> 'r option"
    and upd :: "nat \<Rightarrow> ('r \<Rightarrow> 'r) \<Rightarrow> 't \<Rightarrow> 't"
    and add :: "nat \<Rightarrow> 'r \<Rightarrow> 't \<Rightarrow> 't"
  assumes get_upd: "get (upd k f t) i = (if i = k then map_option f (get t i) else get t i)"
    and get_add: "get t k = None \<Longrightarrow> get (add k r t) i = (if i = k then Some r else get t i)"
begin

lemma get_upd_same: "get t k = Some r \<Longrightarrow> get (upd k f t) k = Some (f r)"
  by (simp add: get_upd)

lemma get_upd_other: "i \<noteq> k \<Longrightarrow> get (upd k f t) i = get t i"
  by (simp add: get_upd)

text \<open>A fact about every row survives an update that keeps it and an insertion that satisfies it.\<close>

lemma all_upd:
  assumes "\<And>i r. get t i = Some r \<Longrightarrow> P i r" and "\<And>r. get t k = Some r \<Longrightarrow> P k r \<Longrightarrow> P k (f r)"
    and "get (upd k f t) i = Some r"
  shows "P i r"
  using assms by (auto simp: get_upd split: if_splits)

lemma all_add:
  assumes "\<And>i r. get t i = Some r \<Longrightarrow> P i r" and "get t k = None" and "P k r0"
    and "get (add k r0 t) i = Some r"
  shows "P i r"
  using assms by (auto simp: get_add split: if_splits)

end

lemma tget_tupd [simp]: "tget (tupd k f t) i = (if i = k then map_option f (tget t i) else tget t i)"
  unfolding tget_def tupd_def by (induction t) auto

lemma tget_tadd: "tget t k = None \<Longrightarrow> tget (tadd k r t) i = (if i = k then Some r else tget t i)"
  by (auto simp: tget_def tadd_def map_add_def split: option.splits)

interpretation tab: row_store tget tupd tadd
  by unfold_locales (simp_all add: tget_tadd)

lemma fst_set_tupd [simp]: "fst ` set (tupd k f t) = fst ` set t"
  by (force simp: tupd_def image_iff)

lemma map_fst_tupd [simp]: "map fst (tupd k f t) = map fst t"
  by (auto simp: tupd_def)

lemma map_fst_tadd [simp]: "map fst (tadd k r t) = map fst t @ [k]"
  by (simp add: tadd_def)

lemma length_tupd [simp]: "length (tupd k f t) = length t"
  by (simp add: tupd_def)

lemma tget_in_set: "tget t k = Some r \<Longrightarrow> (k, r) \<in> set t"
  by (simp add: tget_def map_of_SomeD)

lemma in_set_tget: "distinct (map fst t) \<Longrightarrow> (k, r) \<in> set t \<Longrightarrow> tget t k = Some r"
  by (simp add: tget_def)

lemma tget_None_iff: "tget t k = None \<longleftrightarrow> k \<notin> fst ` set t"
  by (simp add: tget_def map_of_eq_None_iff)

lemma tsel_in: "x \<in> set (tsel P t) \<longleftrightarrow> x \<in> set t \<and> P (snd x)"
  by (auto simp: tsel_def)

lemma set_tadd [simp]: "set (tadd k r t) = insert (k, r) (set t)"
  by (auto simp: tadd_def)

lemma set_tupd: "set (tupd k f t) = (\<lambda>(i, r). (i, if i = k then f r else r)) ` set t"
  by (simp add: tupd_def)

lemma latest_by_in: "latest_by key xs = Some x \<Longrightarrow> x \<in> set xs"
  by (induction xs arbitrary: x) (auto split: option.splits if_splits)

lemma latest_by_None: "latest_by key xs = None \<longleftrightarrow> xs = []"
  by (cases xs) (auto split: option.splits)

lemma latest_by_max: "latest_by key xs = Some x \<Longrightarrow> y \<in> set xs \<Longrightarrow> key (snd y) \<le> key (snd x)"
proof (induction xs arbitrary: x)
  case (Cons a xs)
  show ?case
  proof (cases "latest_by key xs")
    case None
    with Cons.prems show ?thesis by (auto simp: latest_by_None)
  next
    case (Some z)
    with Cons.IH have "y \<in> set xs \<Longrightarrow> key (snd y) \<le> key (snd z)" by blast
    with Some Cons.prems show ?thesis by (auto split: if_splits)
  qed
qed simp

end
