(* ===== verification/Money.thy ===== *)
theory Money
  imports Prelude Complex_Main
begin

text \<open>
  \<^verbatim>\<open>app/core/money.py\<close> on top of Python's \<^verbatim>\<open>decimal.Decimal\<close>.

  A finite decimal is a signed coefficient and an exponent, exactly as Python keeps it, so that
  trailing zeros and the exponent rules of each operation are part of the model. Arithmetic follows
  the default context: 28 significant digits, half-even rounding of inexact results,
  \<^verbatim>\<open>InvalidOperation\<close> from \<^verbatim>\<open>quantize\<close> when the result would need more than 28 digits. NaN,
  infinities, the sign of zero and the exponent limits of the context (about a million) are left out.
\<close>

section \<open>Python decimals\<close>

datatype decimal = Dec (coef: int) (expo: int)

datatype rounding = ROUND_HALF_EVEN | ROUND_HALF_UP | ROUND_UP

definition context_prec :: nat where "context_prec = 28"

function ndigits :: "int \<Rightarrow> nat" where
  "ndigits n = (if n < 10 then 1 else Suc (ndigits (n div 10)))"
  by pat_completeness auto
termination by (relation "measure nat") auto

declare ndigits.simps [simp del]

text \<open>Division of a magnitude by \<open>b\<close>, rounded, and its extension to signed coefficients.\<close>

definition round_mag :: "rounding \<Rightarrow> int \<Rightarrow> int \<Rightarrow> int" where
  "round_mag m a b =
     (let q = a div b; r = a mod b in
      if (case m of
            ROUND_HALF_EVEN \<Rightarrow> b < 2 * r \<or> (2 * r = b \<and> odd q)
          | ROUND_HALF_UP \<Rightarrow> b \<le> 2 * r
          | ROUND_UP \<Rightarrow> 0 < r)
      then q + 1 else q)"

definition div_round :: "rounding \<Rightarrow> int \<Rightarrow> nat \<Rightarrow> int" where
  "div_round m c k = sgn c * round_mag m \<bar>c\<bar> (10 ^ k)"

definition rescale :: "rounding \<Rightarrow> decimal \<Rightarrow> int \<Rightarrow> decimal" where
  "rescale m d e =
     (if e \<le> expo d then Dec (coef d * 10 ^ nat (expo d - e)) e
      else Dec (div_round m (coef d) (nat (e - expo d))) e)"

text \<open>Rounding of a result to the precision of the context.\<close>

definition fix_prec :: "decimal \<Rightarrow> decimal" where
  "fix_prec d =
     (let n = ndigits \<bar>coef d\<bar> in
      if n \<le> context_prec then d
      else let e = expo d + int (n - context_prec);
               r = rescale ROUND_HALF_EVEN d e in
           if ndigits \<bar>coef r\<bar> \<le> context_prec then r
           else Dec (coef r div 10) (e + 1))"

definition dquantize :: "decimal \<Rightarrow> int \<Rightarrow> rounding \<Rightarrow> error + decimal" where
  "dquantize d e m =
     (let r = rescale m d e in
      if ndigits \<bar>coef r\<bar> \<le> context_prec then Inr r else Inl InvalidOperation)"

definition dadd :: "decimal \<Rightarrow> decimal \<Rightarrow> decimal" where
  "dadd a b = (let e = min (expo a) (expo b) in
     fix_prec (Dec (coef a * 10 ^ nat (expo a - e) + coef b * 10 ^ nat (expo b - e)) e))"

definition dneg :: "decimal \<Rightarrow> decimal" where
  "dneg a = fix_prec (Dec (- coef a) (expo a))"

definition dsub :: "decimal \<Rightarrow> decimal \<Rightarrow> decimal" where
  "dsub a b = dadd a (Dec (- coef b) (expo b))"

definition dmul :: "decimal \<Rightarrow> decimal \<Rightarrow> decimal" where
  "dmul a b = fix_prec (Dec (coef a * coef b) (expo a + expo b))"

text \<open>Removal of trailing zeros while the exponent is below a bound.\<close>

function strip_zeros :: "int \<Rightarrow> int \<Rightarrow> int \<Rightarrow> int \<times> int" where
  "strip_zeros c e limit =
     (if e < limit \<and> c \<noteq> 0 \<and> c mod 10 = 0 then strip_zeros (c div 10) (e + 1) limit else (c, e))"
  by pat_completeness auto
termination by (relation "measure (\<lambda>(c, e, limit). nat (limit - e))") auto

declare strip_zeros.simps [simp del]

definition ddiv :: "decimal \<Rightarrow> decimal \<Rightarrow> error + decimal" where
  "ddiv a b =
     (if coef b = 0 then Inl (if coef a = 0 then InvalidOperation else ZeroDivisionError)
      else if coef a = 0 then Inr (fix_prec (Dec 0 (expo a - expo b)))
      else
        let sgn_ab = sgn (coef a) * sgn (coef b);
            m = \<bar>coef a\<bar>; n = \<bar>coef b\<bar>;
            shift = int (ndigits n) - int (ndigits m) + int context_prec + 1;
            num = (if 0 \<le> shift then m * 10 ^ nat shift else m);
            den = (if 0 \<le> shift then n else n * 10 ^ nat (- shift));
            q = num div den;
            e = expo a - expo b - shift in
        if num mod den \<noteq> 0
        then Inr (fix_prec (Dec (sgn_ab * (if q mod 5 = 0 then q + 1 else q)) e))
        else (let (c', e') = strip_zeros q e (expo a - expo b)
              in Inr (fix_prec (Dec (sgn_ab * c') e'))))"

definition scaleb :: "decimal \<Rightarrow> int \<Rightarrow> decimal" where
  "scaleb a k = fix_prec (Dec (coef a) (expo a + k))"

text \<open>\<^verbatim>\<open>normalize\<close>: a zero becomes \<^verbatim>\<open>Decimal(0)\<close>, trailing zeros go whatever the exponent.\<close>

definition dnormalize :: "decimal \<Rightarrow> decimal" where
  "dnormalize a =
     (let r = fix_prec a in
      if coef r = 0 then Dec 0 0
      else (let (c, e) = strip_zeros (coef r) (expo r) (expo r + int (ndigits \<bar>coef r\<bar>))
            in Dec c e))"

definition to_integral_value :: "decimal \<Rightarrow> decimal" where
  "to_integral_value a = (if 0 \<le> expo a then a else rescale ROUND_HALF_EVEN a 0)"

definition int_of_decimal :: "decimal \<Rightarrow> int" where
  "int_of_decimal a =
     (if 0 \<le> expo a then coef a * 10 ^ nat (expo a)
      else sgn (coef a) * (\<bar>coef a\<bar> div 10 ^ nat (- expo a)))"

text \<open>Comparison is exact: both coefficients are brought to the smaller exponent.\<close>

definition dle :: "decimal \<Rightarrow> decimal \<Rightarrow> bool" where
  "dle a b \<longleftrightarrow> (let e = min (expo a) (expo b) in
     coef a * 10 ^ nat (expo a - e) \<le> coef b * 10 ^ nat (expo b - e))"

definition dlt :: "decimal \<Rightarrow> decimal \<Rightarrow> bool" where
  "dlt a b \<longleftrightarrow> \<not> dle b a"

definition deq :: "decimal \<Rightarrow> decimal \<Rightarrow> bool" where
  "deq a b \<longleftrightarrow> dle a b \<and> dle b a"

definition dmin :: "decimal \<Rightarrow> decimal \<Rightarrow> decimal" where
  "dmin a b = (if dlt b a then b else a)"

abbreviation D0 :: decimal where "D0 \<equiv> Dec 0 0"

section \<open>The money module\<close>

definition MONEY_SCALE :: nat where "MONEY_SCALE = 8"

datatype AmountMatch = EXACT | UNDERPAID | OVERPAID

definition quantize_to :: "decimal \<Rightarrow> int \<Rightarrow> error + decimal" where
  "quantize_to dec scale = dquantize dec (expo (scaleb (Dec 1 0) (- scale))) ROUND_HALF_UP"

abbreviation quantize_money :: "decimal \<Rightarrow> error + decimal" where
  "quantize_money dec \<equiv> quantize_to dec (int MONEY_SCALE)"

definition base_units :: "decimal \<Rightarrow> int \<Rightarrow> error + int" where
  "base_units amount decimals =
     (let scaled = scaleb amount decimals in
      if \<not> deq scaled (to_integral_value scaled) then Inl ValueError
      else Inr (int_of_decimal scaled))"

definition from_base_units :: "int \<Rightarrow> int \<Rightarrow> decimal" where
  "from_base_units units decimals =
     dadd (dnormalize (scaleb (Dec units 0) (- decimals))) D0"

text \<open>
  A column \<^verbatim>\<open>Numeric(78, 0, asdecimal=False)\<close> (\<open>BaseUnits\<close> of \<^verbatim>\<open>app/db/base.py\<close>) is read back as a Python float, so
  \<^verbatim>\<open>int\<close> of it is the integer with 53 significant bits that is nearest to the stored one, ties to even.
\<close>

function excess_bits :: "int \<Rightarrow> nat" where
  "excess_bits n = (if n < 2 ^ 53 then 0 else Suc (excess_bits (n div 2)))"
  by pat_completeness auto
termination by (relation "measure nat") auto

declare excess_bits.simps [simp del]

definition float53 :: "int \<Rightarrow> int" where
  "float53 i = (let b = 2 ^ excess_bits \<bar>i\<bar> in sgn i * (round_mag ROUND_HALF_EVEN \<bar>i\<bar> b * b))"

definition compare_amounts :: "decimal \<Rightarrow> decimal \<Rightarrow> decimal \<Rightarrow> decimal \<Rightarrow> error + AmountMatch" where
  "compare_amounts expected received underpayment_tolerance overpayment_tolerance =
     (case quantize_money expected of Inl e \<Rightarrow> Inl e | Inr expected_q \<Rightarrow>
      (case quantize_money received of Inl e \<Rightarrow> Inl e | Inr received_q \<Rightarrow>
       (let delta = dsub received_q expected_q in
        if deq delta D0 then Inr EXACT
        else if dlt delta D0 then
          (case quantize_money underpayment_tolerance of Inl e \<Rightarrow> Inl e
           | Inr tol \<Rightarrow> Inr (if dle (dneg delta) tol then EXACT else UNDERPAID))
        else
          (case quantize_money overpayment_tolerance of Inl e \<Rightarrow> Inl e
           | Inr tol \<Rightarrow> Inr (if dle delta tol then EXACT else OVERPAID)))))"

text \<open>\<^verbatim>\<open>quote_expected_amount\<close> of \<^verbatim>\<open>app/domain/payments/verification.py\<close>.\<close>

definition quote_expected_amount :: "decimal \<Rightarrow> decimal \<Rightarrow> int \<Rightarrow> error + decimal" where
  "quote_expected_amount order_amount quote_rate decimals =
     (if dle quote_rate D0 then Inl ValueError
      else case ddiv order_amount quote_rate of Inl e \<Rightarrow> Inl e
      | Inr raw \<Rightarrow> dquantize raw (expo (scaleb (Dec 1 0) (- decimals))) ROUND_UP)"

text \<open>
  \<^verbatim>\<open>format_amount\<close>. \<open>digits_f\<close> is \<^verbatim>\<open>format(d, "f")\<close> of a magnitude: plain positional notation with
  exactly as many fractional digits as the exponent asks for.
\<close>

definition zfill :: "nat \<Rightarrow> string \<Rightarrow> string" where
  "zfill n s = replicate (n - length s) (CHR ''0'') @ s"

definition digits_f :: "int \<Rightarrow> int \<Rightarrow> string \<times> string" where
  "digits_f c e =
     (if 0 \<le> e then (str_int (c * 10 ^ nat e), [])
      else let s = zfill (nat (- e) + 1) (str_int c); k = length s - nat (- e)
           in (take k s, drop k s))"

definition rstrip_zeros :: "string \<Rightarrow> string" where
  "rstrip_zeros s = rev (dropWhile (\<lambda>c. c = CHR ''0'') (rev s))"

definition format_amount :: "decimal \<Rightarrow> string option \<Rightarrow> nat \<Rightarrow> error + string" where
  "format_amount dec currency dp =
     (case quantize_to dec (int (max dp 8)) of Inl e \<Rightarrow> Inl e
      | Inr quant \<Rightarrow>
        (let n = dnormalize quant;
             (integer, frac0) = digits_f \<bar>coef n\<bar> (expo n);
             minus = (if coef dec < 0 then ''-'' else []);
             frac1 = rstrip_zeros frac0;
             frac = frac1 @ replicate (dp - length frac1) (CHR ''0'');
             shown = (if frac0 \<noteq> []
                      then minus @ integer @ (if frac \<noteq> [] then ''.'' @ frac else [])
                      else minus @ integer @ (if dp \<noteq> 0 then ''.'' @ replicate dp (CHR ''0'') else []))
         in Inr (case currency of Some c \<Rightarrow> if c \<noteq> [] then shown @ '' '' @ c else shown
                 | None \<Rightarrow> shown)))"

section \<open>Digits and rounding\<close>

lemma ndigits_pos [simp]: "0 < ndigits n" "ndigits n \<noteq> 0" "Suc 0 \<le> ndigits n"
  by (subst ndigits.simps, simp)+

lemma ndigits_0 [simp]: "ndigits 0 = 1"
  by (simp add: ndigits.simps)

lemma ndigits_le: "0 < k \<Longrightarrow> ndigits n \<le> k \<longleftrightarrow> n < 10 ^ k"
proof (induction n arbitrary: k rule: ndigits.induct)
  case (1 n)
  show ?case
  proof (cases "n < 10")
    case True
    have "(10::int) ^ 1 \<le> 10 ^ k" using "1.prems" by (intro power_increasing) auto
    with True show ?thesis using "1.prems" by (simp add: ndigits.simps [of n])
  next
    case False
    have "ndigits n \<le> k \<longleftrightarrow> ndigits (n div 10) \<le> k - 1"
      using False "1.prems" by (subst ndigits.simps) auto
    also have "\<dots> \<longleftrightarrow> n < 10 ^ k"
    proof (cases "k = 1")
      case True
      with False show ?thesis by simp
    next
      case k: False
      then have "ndigits (n div 10) \<le> k - 1 \<longleftrightarrow> n div 10 < 10 ^ (k - 1)"
        using "1.IH" [OF False] "1.prems" by simp
      also have "\<dots> \<longleftrightarrow> n < 10 * 10 ^ (k - 1)" by linarith
      also have "(10::int) * 10 ^ (k - 1) = 10 ^ k"
        using "1.prems" by (metis power_eq_if less_numeral_extra(3))
      finally show ?thesis .
    qed
    finally show ?thesis .
  qed
qed

lemma ndigits_prec: "ndigits n \<le> context_prec \<longleftrightarrow> n < 10 ^ context_prec"
  by (rule ndigits_le) (simp add: context_prec_def)

lemma ndigits_eqI: "10 ^ k \<le> n \<Longrightarrow> n < 10 ^ Suc k \<Longrightarrow> ndigits n = Suc k"
  using ndigits_le [of "Suc k" n] ndigits_le [of k n] by (cases k) (auto simp: ndigits.simps [of n])

lemma round_mag_exact: "0 < b \<Longrightarrow> round_mag m (q * b) b = q"
  by (cases m) (auto simp: round_mag_def)

lemma round_mag_cases: "round_mag m a b = a div b \<or> round_mag m a b = a div b + 1"
  by (simp add: round_mag_def Let_def)

lemma div_mod_parts:
  assumes "(0::int) < b"
  obtains q r where "a div b = q" "a mod b = r" "a = q * b + r" "0 \<le> r" "r < b"
  using assms that by (metis div_mult_mod_eq pos_mod_bound pos_mod_sign)

lemma round_mag_up:
  assumes "0 < b" shows "a \<le> round_mag ROUND_UP a b * b" and "round_mag ROUND_UP a b * b < a + b"
proof -
  from assms obtain q r where p: "a div b = q" "a mod b = r" "a = q * b + r" "0 \<le> r" "r < b"
    by (rule div_mod_parts)
  have "round_mag ROUND_UP a b = (if 0 < r then q + 1 else q)" using p by (simp add: round_mag_def)
  then show "a \<le> round_mag ROUND_UP a b * b" "round_mag ROUND_UP a b * b < a + b"
    using p(3,4,5) by (auto simp: algebra_simps)
qed

lemma round_mag_half:
  assumes "0 < b" and "m \<noteq> ROUND_UP"
  shows "2 * \<bar>round_mag m a b * b - a\<bar> \<le> b"
proof -
  from assms(1) obtain q r where p: "a div b = q" "a mod b = r" "a = q * b + r" "0 \<le> r" "r < b"
    by (rule div_mod_parts)
  then have "round_mag m a b = q \<and> 2 * r \<le> b \<or> round_mag m a b = q + 1 \<and> b \<le> 2 * r"
    using assms(2) by (cases m) (auto simp: round_mag_def Let_def)
  then show ?thesis using p(3,4,5) by (auto simp: algebra_simps)
qed

text \<open>
  Integers of up to 53 bits survive the float; a larger one is off by at most one part in \<open>2 ^ 53\<close>, and
  some are off.
\<close>

lemma excess_bits_bound: "excess_bits n = Suc k \<Longrightarrow> 2 ^ 53 * 2 ^ k \<le> n"
proof (induction n arbitrary: k rule: excess_bits.induct)
  case (1 n)
  have "2 ^ 53 \<le> n \<and> excess_bits (n div 2) = k"
    using "1.prems" excess_bits.simps [of n] by (simp split: if_splits)
  then have n: "2 ^ 53 \<le> n" and k: "excess_bits (n div 2) = k" by simp_all
  show ?case
  proof (cases k)
    case (Suc j)
    with "1.IH" [OF _ k [unfolded Suc]] n have "2 ^ 53 * 2 ^ j \<le> n div 2" by simp
    then show ?thesis by (simp add: Suc)
  qed (use n in simp)
qed

lemma float53_small [simp]: "\<bar>i\<bar> < 2 ^ 53 \<Longrightarrow> float53 i = i"
  using round_mag_exact [of 1 ROUND_HALF_EVEN "\<bar>i\<bar>"]
  by (subst float53_def, subst excess_bits.simps) (simp add: mult_sgn_abs)

lemma float53_close: "2 ^ 53 * \<bar>float53 i - i\<bar> \<le> \<bar>i\<bar>"
proof (cases "excess_bits \<bar>i\<bar>")
  case 0
  then have "\<bar>i\<bar> < 2 ^ 53" by (subst (asm) excess_bits.simps) (simp split: if_splits)
  then show ?thesis by simp
next
  case (Suc k)
  define b :: int where "b = 2 ^ excess_bits \<bar>i\<bar>"
  let ?r = "round_mag ROUND_HALF_EVEN \<bar>i\<bar> b * b"
  have "2 * \<bar>?r - \<bar>i\<bar>\<bar> \<le> b" by (rule round_mag_half) (simp_all add: b_def)
  then have "2 ^ 53 * \<bar>?r - \<bar>i\<bar>\<bar> \<le> 2 ^ 53 * 2 ^ k" by (simp add: b_def Suc)
  also have "\<dots> \<le> \<bar>i\<bar>" by (rule excess_bits_bound [OF Suc])
  finally have "2 ^ 53 * \<bar>?r - \<bar>i\<bar>\<bar> \<le> \<bar>i\<bar>" .
  moreover have "\<bar>float53 i - i\<bar> = \<bar>?r - \<bar>i\<bar>\<bar>" if "i \<noteq> 0"
    using that by (cases "i < 0") (simp_all add: float53_def b_def Let_def sgn_if)
  ultimately show ?thesis by (cases "i = 0") simp_all
qed

lemma float53_loses_units: "float53 10000000000000000001 = 10000000000000000000"
  by code_simp

lemma round_mag_nonneg: "0 < b \<Longrightarrow> 0 \<le> a \<Longrightarrow> 0 \<le> round_mag m a b"
  using round_mag_cases [of m a b] pos_imp_zdiv_nonneg_iff [of b a] by linarith

lemma round_mag_mono_le: "0 < b \<Longrightarrow> a \<le> q * b \<Longrightarrow> round_mag m a b \<le> q"
proof -
  assume b: "0 < b" and le: "a \<le> q * b"
  have "a div b \<le> q" using zdiv_mono1 [OF le b] b by simp
  moreover have "round_mag m a b = a div b" if "a div b = q"
  proof -
    from that le have "a mod b = 0"
      using b by (metis add_le_same_cancel1 div_mult_mod_eq dual_order.antisym pos_mod_sign)
    with b show ?thesis by (cases m) (auto simp: round_mag_def)
  qed
  ultimately show ?thesis using round_mag_cases [of m a b] by linarith
qed

lemma div_round_half:
  assumes "m \<noteq> ROUND_UP" shows "2 * \<bar>div_round m c k * 10 ^ k - c\<bar> \<le> 10 ^ k"
proof -
  have "2 * \<bar>round_mag m \<bar>c\<bar> (10 ^ k) * 10 ^ k - \<bar>c\<bar>\<bar> \<le> 10 ^ k"
    by (rule round_mag_half) (simp_all add: assms)
  then show ?thesis
    by (cases c "0 :: int" rule: linorder_cases) (auto simp: div_round_def abs_if split: if_splits)
qed

lemma div_round_exact: "div_round m (q * 10 ^ k) k = q"
proof -
  have "\<bar>q * 10 ^ k\<bar> = \<bar>q\<bar> * 10 ^ k" by (simp add: abs_mult)
  then show ?thesis by (simp add: div_round_def round_mag_exact sgn_mult mult_sgn_abs)
qed

section \<open>The value of a decimal\<close>

definition dval :: "decimal \<Rightarrow> rat" where
  "dval d = of_int (coef d) * 10 powi expo d"

lemma powi_pos [simp]: "(0::rat) < 10 powi e"
  by (simp add: zero_less_power_int)

lemma powi_not_neg [simp]: "\<not> 10 powi e < (0::rat)"
  using powi_pos [of e] by (simp only: not_less less_imp_le)

lemma powi_shift: "e \<le> e' \<Longrightarrow> (10::rat) powi e' = 10 powi e * 10 ^ nat (e' - e)"
proof -
  assume "e \<le> e'"
  then have "(10::rat) powi (e + int (nat (e' - e))) = 10 powi e * 10 powi int (nat (e' - e))"
    by (subst power_int_add) auto
  with \<open>e \<le> e'\<close> show ?thesis by (simp add: power_int_def)
qed

lemma dval_scale: "e \<le> expo d \<Longrightarrow> of_int (coef d * 10 ^ nat (expo d - e)) * 10 powi e = dval d"
  by (simp add: dval_def powi_shift [of e "expo d"])

lemma dle_iff: "dle a b \<longleftrightarrow> dval a \<le> dval b"
proof -
  let ?e = "min (expo a) (expo b)"
  have "dval a \<le> dval b \<longleftrightarrow>
      of_int (coef a * 10 ^ nat (expo a - ?e)) * (10::rat) powi ?e
      \<le> of_int (coef b * 10 ^ nat (expo b - ?e)) * 10 powi ?e"
    by (subst (1 2) dval_scale) simp_all
  also have "\<dots> \<longleftrightarrow> dle a b"
    unfolding dle_def Let_def by (simp only: mult_le_cancel_right_pos powi_pos of_int_le_iff)
  finally show ?thesis by simp
qed

lemma dlt_iff: "dlt a b \<longleftrightarrow> dval a < dval b"
  by (simp add: dlt_def dle_iff not_le)

lemma deq_iff: "deq a b \<longleftrightarrow> dval a = dval b"
  by (auto simp: deq_def dle_iff)

lemma dval_Dec_0 [simp]: "dval (Dec 0 e) = 0"
  by (simp add: dval_def)

lemma dval_same_expo: "dval (Dec a e) \<le> dval (Dec b e) \<longleftrightarrow> a \<le> b"
  by (simp add: dval_def)

lemma dval_eq_same_expo: "dval (Dec a e) = dval (Dec b e) \<longleftrightarrow> a = b"
  by (simp add: dval_def)

lemma dval_zero: "dval d = 0 \<longleftrightarrow> coef d = 0" "0 < dval d \<longleftrightarrow> 0 < coef d" "dval d < 0 \<longleftrightarrow> coef d < 0"
  by (auto simp: dval_def zero_less_mult_iff mult_less_0_iff)

lemma fix_prec_id [simp]: "\<bar>coef d\<bar> < 10 ^ context_prec \<Longrightarrow> fix_prec d = d"
  by (simp add: fix_prec_def ndigits_prec)

lemma rescale_expo [simp]: "expo (rescale m d e) = e"
  by (simp add: rescale_def)

text \<open>Half-rounding moves a value by at most half a unit of the new exponent.\<close>

lemma rescale_half:
  assumes "m \<noteq> ROUND_UP" shows "2 * \<bar>dval (rescale m d e) - dval d\<bar> \<le> 10 powi e"
proof (cases "e \<le> expo d")
  case True
  then have "dval (rescale m d e) = dval d"
    using dval_scale [OF True] by (simp add: rescale_def dval_def)
  then show ?thesis by (simp add: less_imp_le)
next
  case False
  define k where "k = nat (e - expo d)"
  have e: "(10::rat) powi e = 10 powi expo d * 10 ^ k"
    using False by (simp add: k_def powi_shift [of "expo d" e])
  let ?q = "div_round m (coef d) k"
  have "dval (rescale m d e) - dval d = of_int (?q * 10 ^ k - coef d) * 10 powi expo d"
    using False by (simp add: rescale_def dval_def k_def [symmetric] e algebra_simps)
  then have "2 * \<bar>dval (rescale m d e) - dval d\<bar>
      = of_int (2 * \<bar>?q * 10 ^ k - coef d\<bar>) * 10 powi expo d"
    by (simp add: abs_mult)
  also have "\<dots> \<le> of_int (10 ^ k) * 10 powi expo d"
    using div_round_half [OF assms, of "coef d" k]
    by (intro mult_right_mono) (simp_all only: of_int_le_iff less_imp_le powi_pos)
  finally show ?thesis by (simp add: e mult.commute)
qed

section \<open>Quantisation\<close>

lemma quantum_expo [simp]: "expo (scaleb (Dec 1 0) k) = k"
  by (simp add: scaleb_def context_prec_def)

lemma dquantize_Inr:
  "dquantize d e m = Inr r \<Longrightarrow> r = rescale m d e \<and> expo r = e \<and> \<bar>coef r\<bar> < 10 ^ context_prec"
  by (auto simp: dquantize_def Let_def ndigits_prec split: if_splits)

lemma quantize_to_Inr:
  assumes "quantize_to d k = Inr r"
  shows "expo r = - k" and "\<bar>coef r\<bar> < 10 ^ context_prec" and "2 * \<bar>dval r - dval d\<bar> \<le> 10 powi - k"
proof -
  from assms have r: "r = rescale ROUND_HALF_UP d (- k)" "\<bar>coef r\<bar> < 10 ^ context_prec"
    using dquantize_Inr [of d "- k" ROUND_HALF_UP r] by (auto simp: quantize_to_def)
  then show "expo r = - k" "\<bar>coef r\<bar> < 10 ^ context_prec" by simp_all
  show "2 * \<bar>dval r - dval d\<bar> \<le> 10 powi - k" unfolding r by (rule rescale_half) simp
qed

text \<open>A value already on the grid is not moved.\<close>

lemma rescale_same: "rescale m d (expo d) = d"
  by (cases d) (simp add: rescale_def)

lemma quantize_to_id: "expo d = - k \<Longrightarrow> \<bar>coef d\<bar> < 10 ^ context_prec \<Longrightarrow> quantize_to d k = Inr d"
  using rescale_same [of ROUND_HALF_UP d] by (simp add: quantize_to_def dquantize_def ndigits_prec)

lemma quantize_to_idem: "quantize_to d k = Inr r \<Longrightarrow> quantize_to r k = Inr r"
  using quantize_to_Inr [of d k r] quantize_to_id by blast

lemma quantize_zero: "quantize_to D0 k = Inr (Dec 0 (- k))"
  by (simp add: quantize_to_def dquantize_def rescale_def div_round_def Let_def ndigits_prec
        context_prec_def)

lemma div_round_sgn: "0 \<le> c \<Longrightarrow> 0 \<le> div_round m c k" "c \<le> 0 \<Longrightarrow> div_round m c k \<le> 0"
proof -
  have "0 \<le> round_mag m \<bar>c\<bar> (10 ^ k)" by (rule round_mag_nonneg) simp_all
  then show "0 \<le> c \<Longrightarrow> 0 \<le> div_round m c k" "c \<le> 0 \<Longrightarrow> div_round m c k \<le> 0"
    by (auto simp: div_round_def sgn_if)
qed

lemma rescale_sgn: "0 \<le> coef d \<Longrightarrow> 0 \<le> coef (rescale m d e)" "coef d \<le> 0 \<Longrightarrow> coef (rescale m d e) \<le> 0"
  by (simp_all add: rescale_def div_round_sgn mult_nonpos_nonneg)

lemma quantize_to_nonneg: "quantize_to d k = Inr r \<Longrightarrow> 0 \<le> dval d \<Longrightarrow> 0 \<le> dval r"
  using dquantize_Inr [of d "- k" ROUND_HALF_UP r] rescale_sgn(1) [of d] dval_zero
  by (metis not_less quantize_to_def quantum_expo)

section \<open>Sums and differences on a common grid\<close>

text \<open>
  The difference of two amounts of the same scale is exact when it fits the context; when it does not,
  it is rounded, but stays beyond every value that fits.
\<close>

lemma fix_prec_wide:
  assumes "10 ^ context_prec \<le> \<bar>c\<bar>" and "\<bar>c\<bar> < 10 ^ Suc context_prec"
  shows "10 powi e * 10 ^ context_prec \<le> \<bar>dval (fix_prec (Dec c e))\<bar>"
    and "sgn (coef (fix_prec (Dec c e))) = sgn c"
    and "\<bar>coef (fix_prec (Dec c e))\<bar> < 10 ^ context_prec"
proof -
  have n: "ndigits \<bar>c\<bar> = Suc context_prec" by (rule ndigits_eqI) (use assms in simp_all)
  define r where "r = div_round ROUND_HALF_EVEN c 1"
  have resc: "rescale ROUND_HALF_EVEN (Dec c e) (e + 1) = Dec r (e + 1)"
    by (simp add: rescale_def r_def)
  have half: "2 * \<bar>r * 10 - c\<bar> \<le> 10"
    using div_round_half [of ROUND_HALF_EVEN c 1] by (simp add: r_def)
  have ten: "(10::int) ^ Suc context_prec = 10 * 10 ^ context_prec" by simp
  have r_ge: "10 ^ (context_prec - 1) \<le> \<bar>r\<bar>" and r_le: "\<bar>r\<bar> \<le> 10 ^ context_prec"
    and s: "sgn r = sgn c"
    using half assms by (auto simp: context_prec_def abs_if sgn_if split: if_splits)
  have fx: "fix_prec (Dec c e) = (if \<bar>r\<bar> < 10 ^ context_prec then Dec r (e + 1) else Dec (r div 10) (e + 2))"
    using n resc by (simp add: fix_prec_def Let_def ndigits_prec)
  have big: "10 ^ context_prec \<le> 10 * \<bar>r\<bar>" using r_ge by (simp add: context_prec_def)
  have p1: "10 powi (1 + e) = (10::rat) * 10 powi e" by (simp add: power_int_add)
  show "10 powi e * 10 ^ context_prec \<le> \<bar>dval (fix_prec (Dec c e))\<bar>"
  proof (cases "\<bar>r\<bar> < 10 ^ context_prec")
    case True
    have "(10::rat) powi e * of_int (10 ^ context_prec) \<le> 10 powi e * of_int (10 * \<bar>r\<bar>)"
      using big by (intro mult_left_mono) (simp_all only: of_int_le_iff less_imp_le powi_pos)
    with True show ?thesis by (simp add: fx dval_def p1 abs_mult ac_simps)
  next
    case False
    with r_le have "r = 10 ^ context_prec \<or> r = - (10 ^ context_prec)" by linarith
    then have "\<bar>r div 10\<bar> = 10 ^ (context_prec - 1)" by (auto simp: context_prec_def)
    moreover have "10 powi (e + 2) = (100::rat) * 10 powi e" by (simp add: power_int_add)
    ultimately show ?thesis using False
      by (simp add: fx dval_def abs_mult of_int_abs [symmetric] del: of_int_abs)
        (simp add: context_prec_def)
  qed
  show "sgn (coef (fix_prec (Dec c e))) = sgn c"
  proof (cases "\<bar>r\<bar> < 10 ^ context_prec")
    case False
    with r_le have "r = 10 ^ context_prec \<or> r = - (10 ^ context_prec)" by linarith
    then show ?thesis using s by (auto simp: fx context_prec_def)
  qed (simp add: fx s)
  show "\<bar>coef (fix_prec (Dec c e))\<bar> < 10 ^ context_prec"
  proof (cases "\<bar>r\<bar> < 10 ^ context_prec")
    case False
    with r_le have "r = 10 ^ context_prec \<or> r = - (10 ^ context_prec)" by linarith
    then show ?thesis by (auto simp: fx context_prec_def)
  qed (simp add: fx)
qed

lemma sgn_eq_iff: "sgn a = sgn (b::int) \<Longrightarrow> (a = 0 \<longleftrightarrow> b = 0) \<and> (a < 0 \<longleftrightarrow> b < 0)"
  by (auto simp: sgn_if split: if_splits)

lemma fix_prec_compare:
  fixes k :: int
  assumes x: "\<bar>x\<bar> < 10 ^ Suc context_prec" and t: "\<bar>t\<bar> < 10 ^ context_prec"
    and d_def: "d = fix_prec (Dec x k)"
  shows "deq d D0 \<longleftrightarrow> x = 0" and "dlt d D0 \<longleftrightarrow> x < 0"
    and "0 < x \<Longrightarrow> dle d (Dec t k) \<longleftrightarrow> x \<le> t"
    and "x < 0 \<Longrightarrow> dle (dneg d) (Dec t k) \<longleftrightarrow> - x \<le> t"
proof -
  have sg: "(coef d = 0 \<longleftrightarrow> x = 0) \<and> (coef d < 0 \<longleftrightarrow> x < 0)" and small: "\<bar>coef d\<bar> < 10 ^ context_prec"
    and far: "\<bar>x\<bar> < 10 ^ context_prec \<or> dval (Dec t k) < \<bar>dval d\<bar> \<and> t < \<bar>x\<bar>"
  proof -
    have tv: "dval (Dec t k) < 10 powi k * 10 ^ context_prec"
    proof -
      have "of_int t < (of_int (10 ^ context_prec) :: rat)" using t by (simp only: of_int_less_iff)
      then show ?thesis by (simp add: dval_def mult.commute)
    qed
    have "((coef d = 0 \<longleftrightarrow> x = 0) \<and> (coef d < 0 \<longleftrightarrow> x < 0)) \<and> \<bar>coef d\<bar> < 10 ^ context_prec \<and>
      (\<bar>x\<bar> < 10 ^ context_prec \<or> dval (Dec t k) < \<bar>dval d\<bar> \<and> t < \<bar>x\<bar>)"
    proof (cases "\<bar>x\<bar> < 10 ^ context_prec")
      case True
      then show ?thesis by (simp add: d_def)
    next
      case False
      then have "10 ^ context_prec \<le> \<bar>x\<bar>" by simp
      note w = fix_prec_wide [OF this x, of k, folded d_def]
      from w(1) tv t False w(3) sgn_eq_iff [OF w(2)] show ?thesis by auto
    qed
    then show "(coef d = 0 \<longleftrightarrow> x = 0) \<and> (coef d < 0 \<longleftrightarrow> x < 0)" "\<bar>coef d\<bar> < 10 ^ context_prec"
      "\<bar>x\<bar> < 10 ^ context_prec \<or> dval (Dec t k) < \<bar>dval d\<bar> \<and> t < \<bar>x\<bar>" by blast+
  qed
  from sg show "deq d D0 \<longleftrightarrow> x = 0" "dlt d D0 \<longleftrightarrow> x < 0"
    by (simp_all add: deq_iff dlt_iff dval_zero)
  show "dle d (Dec t k) \<longleftrightarrow> x \<le> t" if "0 < x"
    using far
  proof
    assume "\<bar>x\<bar> < 10 ^ context_prec"
    then show ?thesis by (simp add: d_def dle_iff dval_same_expo)
  next
    assume "dval (Dec t k) < \<bar>dval d\<bar> \<and> t < \<bar>x\<bar>"
    moreover from that sg have "0 \<le> dval d" using dval_zero [of d] by linarith
    ultimately show ?thesis using that by (simp add: dle_iff)
  qed
  have dn: "dneg d = Dec (- coef d) (expo d)" "dval (dneg d) = - dval d"
    using small by (simp_all add: dneg_def dval_def)
  show "dle (dneg d) (Dec t k) \<longleftrightarrow> - x \<le> t" if "x < 0"
    using far
  proof
    assume "\<bar>x\<bar> < 10 ^ context_prec"
    then show ?thesis by (simp add: dn(1)) (simp add: d_def dle_iff dval_same_expo)
  next
    assume "dval (Dec t k) < \<bar>dval d\<bar> \<and> t < \<bar>x\<bar>"
    moreover from that sg have "dval d \<le> 0" using dval_zero [of d] by linarith
    ultimately show ?thesis using that by (simp add: dle_iff dn(2))
  qed
qed

text \<open>The classification as a comparison of integer numbers of storage units.\<close>

lemma compare_amounts_units:
  assumes "quantize_money expected = Inr (Dec e (- 8))" "quantize_money received = Inr (Dec r (- 8))"
    and "quantize_money under_tol = Inr (Dec ut (- 8))" "quantize_money over_tol = Inr (Dec ot (- 8))"
  shows "compare_amounts expected received under_tol over_tol =
    Inr (if r = e \<or> (r < e \<and> e - r \<le> ut) \<or> (e < r \<and> r - e \<le> ot) then EXACT
         else if r < e then UNDERPAID else OVERPAID)"
proof -
  have b: "\<bar>e\<bar> < 10 ^ context_prec" "\<bar>r\<bar> < 10 ^ context_prec" "\<bar>ut\<bar> < 10 ^ context_prec"
    "\<bar>ot\<bar> < 10 ^ context_prec"
    using assms [THEN quantize_to_Inr(2)] by simp_all
  have "\<bar>r - e\<bar> < 10 ^ Suc context_prec" using b by (simp add: context_prec_def)
  note cmp = fix_prec_compare [OF this _ refl, of _ "- 8"]
  have "dsub (Dec r (- 8)) (Dec e (- 8)) = fix_prec (Dec (r - e) (- 8))"
    by (simp add: dsub_def dadd_def)
  then show ?thesis
    using cmp [OF b(3)] cmp [OF b(4)] by (simp add: compare_amounts_def assms Let_def)
qed

section \<open>Base units\<close>

lemma strip_zeros_value:
  "strip_zeros c e l = (c', e') \<Longrightarrow> e \<le> e' \<and> c = c' * 10 ^ nat (e' - e)"
proof (induction c e l rule: strip_zeros.induct)
  case (1 c e l)
  show ?case
  proof (cases "e < l \<and> c \<noteq> 0 \<and> c mod 10 = 0")
    case True
    with "1.prems" have eq: "strip_zeros (c div 10) (e + 1) l = (c', e')"
      by (subst (asm) strip_zeros.simps) simp
    from "1.IH" [OF True eq] have ih: "e + 1 \<le> e'" "c div 10 = c' * 10 ^ nat (e' - (e + 1))" by auto
    have "nat (e' - e) = Suc (nat (e' - (e + 1)))" using ih(1) by simp
    then have "c' * 10 ^ nat (e' - e) = 10 * (c div 10)" by (simp add: ih(2))
    moreover have "10 * (c div 10) = c" using True by presburger
    ultimately show ?thesis using ih(1) by simp
  next
    case False
    with "1.prems" show ?thesis by (subst (asm) strip_zeros.simps) auto
  qed
qed

lemma mult_pow_le: "\<bar>c\<bar> \<le> \<bar>c * 10 ^ n :: int\<bar>"
proof -
  have "\<bar>c\<bar> * 1 \<le> \<bar>c\<bar> * 10 ^ n" by (intro mult_left_mono) simp_all
  then show ?thesis by (simp add: abs_mult)
qed

lemma dnormalize_value:
  assumes "\<bar>c\<bar> < 10 ^ context_prec" and "dnormalize (Dec c e) = Dec c' e'"
  shows "if c = 0 then c' = 0 \<and> e' = 0 else e \<le> e' \<and> c' * 10 ^ nat (e' - e) = c"
proof -
  obtain x y where s: "strip_zeros c e (e + int (ndigits \<bar>c\<bar>)) = (x, y)" by fastforce
  with assms have "c = 0 \<and> c' = 0 \<and> e' = 0 \<or> c \<noteq> 0 \<and> c' = x \<and> e' = y"
    by (auto simp: dnormalize_def Let_def split: if_splits)
  then show ?thesis using strip_zeros_value [OF s] by auto
qed

lemma from_base_units_value:
  assumes "\<bar>u\<bar> < 10 ^ context_prec" and "0 \<le> d"
  shows "- d \<le> expo (from_base_units u d)" and "\<bar>coef (from_base_units u d)\<bar> < 10 ^ context_prec"
    and "coef (from_base_units u d) * 10 ^ nat (expo (from_base_units u d) + d) = u"
proof -
  obtain c e where n: "dnormalize (Dec u (- d)) = Dec c e" by (cases "dnormalize (Dec u (- d))")
  note v = dnormalize_value [OF assms(1) n]
  let ?e = "min e 0" let ?c = "c * 10 ^ nat (e - ?e)"
  have prod: "- d \<le> ?e \<and> ?c * 10 ^ nat (?e + d) = u"
  proof (cases "u = 0")
    case False
    then have e: "- d \<le> e" "c * 10 ^ nat (e + d) = u" using v by simp_all
    have "nat (e + d) = nat (e - ?e) + nat (?e + d)" using e(1) assms(2) by simp
    then have "?c * 10 ^ nat (?e + d) = c * 10 ^ nat (e + d)" by (simp add: power_add)
    with e assms(2) show ?thesis by simp
  qed (use v assms(2) in simp)
  have small: "\<bar>?c\<bar> < 10 ^ context_prec"
    using prod mult_pow_le [of ?c "nat (?e + d)"] assms(1) by auto
  have "from_base_units u d = Dec ?c ?e"
    using assms(1) small by (simp add: from_base_units_def scaleb_def n dadd_def Let_def)
  with prod small show "- d \<le> expo (from_base_units u d)"
    "\<bar>coef (from_base_units u d)\<bar> < 10 ^ context_prec"
    "coef (from_base_units u d) * 10 ^ nat (expo (from_base_units u d) + d) = u" by simp_all
qed

lemma base_units_grid:
  assumes "\<bar>coef q\<bar> < 10 ^ context_prec" and "- d \<le> expo q"
  shows "base_units q d = Inr (coef q * 10 ^ nat (expo q + d))"
  using assms by (simp add: base_units_def scaleb_def to_integral_value_def int_of_decimal_def
      deq_iff Let_def)

text \<open>A result of \<open>base_units\<close> is the exact value in base units.\<close>

lemma int_of_decimal_integral:
  assumes "dval x = dval (to_integral_value x)" shows "of_int (int_of_decimal x) = dval x"
proof (cases "0 \<le> expo x")
  case True
  then show ?thesis by (simp add: int_of_decimal_def dval_def power_int_def)
next
  case False
  define k where "k = nat (- expo x)"
  have p: "(10::rat) powi expo x * 10 ^ k = 1"
    using False by (simp add: k_def power_int_def divide_simps)
  obtain q where q: "to_integral_value x = Dec q 0" using False
    by (simp add: to_integral_value_def rescale_def)
  with assms have "of_int (coef x) * 10 powi expo x = (of_int q :: rat)" by (simp add: dval_def)
  then have "of_int (coef x) * (10 powi expo x * 10 ^ k) = (of_int q * 10 ^ k :: rat)" by (simp add: mult.assoc)
  then have "(of_int (coef x) :: rat) = of_int (q * 10 ^ k)" by (simp add: p)
  then have c: "coef x = q * 10 ^ k" by (simp only: of_int_eq_iff)
  then have "int_of_decimal x = q"
    using False by (simp add: int_of_decimal_def k_def [symmetric] abs_mult sgn_mult mult_sgn_abs)
  with q assms show ?thesis by (simp add: dval_def)
qed

lemma base_units_Inr:
  assumes "base_units a d = Inr u" and "\<bar>coef a\<bar> < 10 ^ context_prec"
  shows "of_int u = dval a * 10 powi d"
proof -
  have s: "scaleb a d = Dec (coef a) (expo a + d)" using assms(2) by (simp add: scaleb_def)
  from assms(1) have "dval (scaleb a d) = dval (to_integral_value (scaleb a d))"
    and u: "u = int_of_decimal (scaleb a d)"
    by (auto simp: base_units_def deq_iff Let_def split: if_splits)
  then have "of_int u = dval (scaleb a d)" by (simp add: int_of_decimal_integral)
  then show ?thesis by (simp add: s dval_def power_int_add)
qed

section \<open>Quotes\<close>

lemma rescale_up:
  assumes "0 \<le> coef d"
  shows "dval d \<le> dval (rescale ROUND_UP d e)" and "dval (rescale ROUND_UP d e) < dval d + 10 powi e"
proof -
  have "dval d \<le> dval (rescale ROUND_UP d e) \<and> dval (rescale ROUND_UP d e) < dval d + 10 powi e"
  proof (cases "e \<le> expo d")
    case True
    then have "dval (rescale ROUND_UP d e) = dval d"
      using dval_scale [OF True] by (simp add: rescale_def dval_def)
    then show ?thesis by simp
  next
    case False
    define k where "k = nat (e - expo d)"
    have e: "(10::rat) powi e = 10 powi expo d * 10 ^ k"
      using False by (simp add: k_def powi_shift [of "expo d" e])
    let ?q = "div_round ROUND_UP (coef d) k"
    have v: "dval (rescale ROUND_UP d e) = of_int (?q * 10 ^ k) * 10 powi expo d"
      using False by (simp add: rescale_def dval_def k_def [symmetric] e)
    have q: "coef d \<le> ?q * 10 ^ k" "?q * 10 ^ k < coef d + 10 ^ k"
      using round_mag_up [of "10 ^ k" "coef d"] assms
      by (cases "coef d = 0"; simp add: div_round_def)+
    have "of_int (coef d) * (10::rat) powi expo d \<le> of_int (?q * 10 ^ k) * 10 powi expo d"
      using q(1) by (intro mult_right_mono) (simp_all only: of_int_le_iff less_imp_le powi_pos)
    moreover have "of_int (?q * 10 ^ k) * (10::rat) powi expo d < of_int (coef d + 10 ^ k) * 10 powi expo d"
      using q(2) by (intro mult_strict_right_mono) (simp_all only: of_int_less_iff powi_pos)
    ultimately show ?thesis unfolding v e by (simp add: dval_def algebra_simps)
  qed
  then show "dval d \<le> dval (rescale ROUND_UP d e)" "dval (rescale ROUND_UP d e) < dval d + 10 powi e"
    by blast+
qed

lemma quote_expected_amount_Inr:
  assumes "quote_expected_amount amount rate decimals = Inr q"
  obtains raw where "0 < dval rate" "ddiv amount rate = Inr raw" "q = rescale ROUND_UP raw (- decimals)"
    "expo q = - decimals" "\<bar>coef q\<bar> < 10 ^ context_prec"
  using assms dquantize_Inr
  by (fastforce simp: quote_expected_amount_def dle_iff split: if_splits sum.splits)

lemma fix_prec_nonneg: "0 \<le> coef d \<Longrightarrow> 0 \<le> coef (fix_prec d)"
  using rescale_sgn(1) [of d ROUND_HALF_EVEN] by (simp add: fix_prec_def Let_def pos_imp_zdiv_nonneg_iff)

lemma strip_zeros_nonneg: "strip_zeros c e l = (c', e') \<Longrightarrow> 0 \<le> c \<Longrightarrow> 0 \<le> c'"
proof (induction c e l rule: strip_zeros.induct)
  case (1 c e l)
  then show ?case
    by (subst (asm) (2) strip_zeros.simps) (auto split: if_splits simp: pos_imp_zdiv_nonneg_iff)
qed

text \<open>The quotient of positive operands, with numerator and denominator named.\<close>

lemma ddiv_pos:
  assumes "0 < coef a" and "0 < coef b"
  obtains num den e where "0 < num" "0 < den"
    "ddiv a b = (if num mod den \<noteq> 0
       then Inr (fix_prec (Dec (if num div den mod 5 = 0 then num div den + 1 else num div den) e))
       else case strip_zeros (num div den) e (expo a - expo b) of
         (c', e') \<Rightarrow> Inr (fix_prec (Dec c' e')))"
proof -
  define shift where "shift = int (ndigits (coef b)) - int (ndigits (coef a)) + int context_prec + 1"
  define num where "num = (if 0 \<le> shift then coef a * 10 ^ nat shift else coef a)"
  define den where "den = (if 0 \<le> shift then coef b else coef b * 10 ^ nat (- shift))"
  show thesis
  proof (rule that [of num den "expo a - expo b - shift"])
    show "0 < num" "0 < den" using assms by (simp_all add: num_def den_def)
    have "coef b \<noteq> 0" "coef a \<noteq> 0" "\<bar>coef a\<bar> = coef a" "\<bar>coef b\<bar> = coef b" "sgn (coef a) = 1"
      "sgn (coef b) = 1" using assms by simp_all
    then show "ddiv a b = (if num mod den \<noteq> 0
       then Inr (fix_prec (Dec (if num div den mod 5 = 0 then num div den + 1 else num div den)
              (expo a - expo b - shift)))
       else case strip_zeros (num div den) (expo a - expo b - shift) (expo a - expo b) of
         (c', e') \<Rightarrow> Inr (fix_prec (Dec c' e')))"
      by (simp only: ddiv_def Let_def num_def den_def shift_def if_False simp_thms mult_1)
  qed
qed

lemma ddiv_nonneg:
  assumes "ddiv a b = Inr r" and b: "0 < coef b" and "0 \<le> coef a" shows "0 \<le> coef r"
proof (cases "coef a = 0")
  case True
  with assms(1) b show ?thesis by (auto simp: ddiv_def intro!: fix_prec_nonneg)
next
  case False
  with assms(3) have "0 < coef a" by simp
  then obtain num den e where p: "0 < num" "0 < den"
    and eq: "ddiv a b = (if num mod den \<noteq> 0
       then Inr (fix_prec (Dec (if num div den mod 5 = 0 then num div den + 1 else num div den) e))
       else case strip_zeros (num div den) e (expo a - expo b) of
         (c', e') \<Rightarrow> Inr (fix_prec (Dec c' e')))"
    by (rule ddiv_pos [OF _ b])
  have q: "0 \<le> num div den" using p by (simp add: pos_imp_zdiv_nonneg_iff)
  obtain c' e' where s: "strip_zeros (num div den) e (expo a - expo b) = (c', e')" by fastforce
  have c': "0 \<le> c'" by (rule strip_zeros_nonneg [OF s q])
  have q1: "0 \<le> (if num div den mod 5 = 0 then num div den + 1 else num div den)" using q by simp
  show ?thesis
  proof (cases "num mod den \<noteq> 0")
    case True
    with assms(1) eq have "r = fix_prec (Dec (if num div den mod 5 = 0 then num div den + 1 else num div den) e)"
      by (simp only: if_True not_False_eq_True) simp
    then show ?thesis using fix_prec_nonneg q1 by simp
  next
    case False
    with assms(1) eq s have "r = fix_prec (Dec c' e')" by simp
    then show ?thesis using fix_prec_nonneg c' by simp
  qed
qed

lemma half_twice: "2 * \<bar>a - b\<bar> \<le> u \<Longrightarrow> 2 * \<bar>a - c\<bar> \<le> u \<Longrightarrow> \<bar>c - b\<bar> \<le> (u :: rat)"
  using abs_triangle_ineq [of "c - a" "a - b"] by (simp add: abs_minus_commute)

lemma quantize_exact:
  assumes "quantize_money x = Inr q" and "- 8 \<le> expo x" shows "dval q = dval x"
proof -
  from assms(1) have "q = rescale ROUND_HALF_UP x (- 8)"
    using dquantize_Inr by (auto simp: quantize_to_def MONEY_SCALE_def)
  with dval_scale [OF assms(2)] assms(2) show ?thesis by (simp add: rescale_def dval_def)
qed

lemma compare_amounts_Inr:
  assumes "compare_amounts a b u ov = Inr m"
  obtains aq bq where "quantize_money a = Inr aq" "quantize_money b = Inr bq"
  using assms by (auto simp: compare_amounts_def split: sum.splits)

lemma exact_zero_tolerance:
  assumes "compare_amounts a b D0 D0 = Inr EXACT"
  shows "\<bar>dval b - dval a\<bar> \<le> 1 / 10 ^ 8"
    and "- 8 \<le> expo a \<Longrightarrow> - 8 \<le> expo b \<Longrightarrow> dval b = dval a"
proof -
  from assms obtain aq bq where q: "quantize_money a = Inr aq" "quantize_money b = Inr bq"
    by (rule compare_amounts_Inr)
  have z: "quantize_money D0 = Inr (Dec 0 (- 8))" by (simp add: quantize_zero MONEY_SCALE_def)
  have grid: "\<exists>c. x = Dec c (- 8)" if "quantize_money y = Inr x" for x y
    using quantize_to_Inr(1) [OF that] by (cases x) (simp add: MONEY_SCALE_def)
  obtain ca cb where c: "aq = Dec ca (- 8)" "bq = Dec cb (- 8)" using q [THEN grid] by blast
  have eq: "cb = ca"
    using compare_amounts_units [of a ca b cb D0 0 D0 0] assms q z by (auto simp: c split: if_splits)
  have "2 * \<bar>dval aq - dval a\<bar> \<le> 1 / 10 ^ 8" "2 * \<bar>dval aq - dval b\<bar> \<le> 1 / 10 ^ 8"
    using quantize_to_Inr(3) [OF q(1)] quantize_to_Inr(3) [OF q(2)] eq
    by (simp_all add: MONEY_SCALE_def c power_int_def power_one_over)
  then show "\<bar>dval b - dval a\<bar> \<le> 1 / 10 ^ 8" by (rule half_twice)
  show "- 8 \<le> expo a \<Longrightarrow> - 8 \<le> expo b \<Longrightarrow> dval b = dval a"
    using quantize_exact [OF q(1)] quantize_exact [OF q(2)] eq c by simp
qed

lemma base_units_roundtrip_value:
  assumes "\<bar>u\<bar> < 10 ^ context_prec" and "0 \<le> d"
  shows "dval (from_base_units u d) * 10 powi d = of_int u"
  using base_units_Inr [OF base_units_grid [OF from_base_units_value(2,1) [OF assms]] from_base_units_value(2) [OF assms]]
    from_base_units_value(3) [OF assms] by simp

section \<open>Results\<close>

lemma compare_amounts_classifies_parts:
  assumes "quantize_money expected = Inr e" and "quantize_money received = Inr r"
    and "quantize_money under_tol = Inr ut" and "quantize_money over_tol = Inr ot"
  shows "compare_amounts expected received under_tol over_tol =
      Inr (if dval r = dval e \<or> (dval r < dval e \<and> dval e - dval r \<le> dval ut)
              \<or> (dval e < dval r \<and> dval r - dval e \<le> dval ot) then EXACT
           else if dval r < dval e then UNDERPAID else OVERPAID)"
    and "compare_amounts expected received D0 D0 = Inr EXACT \<Longrightarrow>
      \<bar>dval received - dval expected\<bar> \<le> 1 / 10 ^ 8"
proof -
  have grid: "\<exists>c. x = Dec c (- 8)" if "quantize_money y = Inr x" for x y
    using quantize_to_Inr(1) [OF that] by (cases x) (simp add: MONEY_SCALE_def)
  obtain ce cr cu co where q: "e = Dec ce (- 8)" "r = Dec cr (- 8)" "ut = Dec cu (- 8)" "ot = Dec co (- 8)"
    using assms [THEN grid] by blast
  have unit: "dval (Dec a (- 8)) - dval (Dec b (- 8)) = dval (Dec (a - b) (- 8))" for a b
    by (simp add: dval_def algebra_simps)
  have less: "dval (Dec a (- 8)) < dval (Dec b (- 8)) \<longleftrightarrow> a < b" for a b
    by (simp add: not_le [symmetric] dval_same_expo)
  show "compare_amounts expected received under_tol over_tol =
      Inr (if dval r = dval e \<or> (dval r < dval e \<and> dval e - dval r \<le> dval ut)
              \<or> (dval e < dval r \<and> dval r - dval e \<le> dval ot) then EXACT
           else if dval r < dval e then UNDERPAID else OVERPAID)"
    using compare_amounts_units [of expected ce received cr under_tol cu over_tol co] assms
    by (simp add: q unit less dval_same_expo dval_eq_same_expo)
  show "compare_amounts expected received D0 D0 = Inr EXACT \<Longrightarrow>
      \<bar>dval received - dval expected\<bar> \<le> 1 / 10 ^ 8"
    by (rule exact_zero_tolerance)
qed

text \<open>
  The classification of a received amount is the comparison of the two amounts after rounding to
  the storage scale, with the tolerances read at that scale too. An amount accepted with zero
  tolerances differs from the expected one by at most one storage unit.
\<close>

lemma compare_amounts_classifies:
  assumes "quantize_money expected = Inr e" and "quantize_money received = Inr r"
    and "quantize_money under_tol = Inr ut" and "quantize_money over_tol = Inr ot"
  shows "compare_amounts expected received under_tol over_tol =
      Inr (if dval r = dval e \<or> (dval r < dval e \<and> dval e - dval r \<le> dval ut)
              \<or> (dval e < dval r \<and> dval r - dval e \<le> dval ot) then EXACT
           else if dval r < dval e then UNDERPAID else OVERPAID)
    \<and> (compare_amounts expected received D0 D0 = Inr EXACT \<longrightarrow>
      \<bar>dval received - dval expected\<bar> \<le> 1 / 10 ^ 8)"
  using compare_amounts_classifies_parts [OF assms] by blast

lemma base_units_roundtrip_parts:
  assumes "\<bar>u\<bar> < 10 ^ context_prec" and "0 \<le> d"
  shows "base_units (from_base_units u d) d = Inr u"
    and "dval (from_base_units u d) * 10 powi d = of_int u"
    and "base_units a d = Inr v \<Longrightarrow> \<bar>coef a\<bar> < 10 ^ context_prec \<Longrightarrow> of_int v = dval a * 10 powi d"
proof -
  note f = from_base_units_value [OF assms]
  show r: "base_units (from_base_units u d) d = Inr u"
    using base_units_grid [OF f(2) f(1)] f(3) by simp
  show "dval (from_base_units u d) * 10 powi d = of_int u" by (rule base_units_roundtrip_value [OF assms])
  show "base_units a d = Inr v \<Longrightarrow> \<bar>coef a\<bar> < 10 ^ context_prec \<Longrightarrow> of_int v = dval a * 10 powi d"
    by (rule base_units_Inr)
qed

text \<open>
  C20: converting an integer number of base units to an amount and back loses nothing, for every number
  of at most 28 digits; and whatever \<open>base_units\<close> returns is the exact amount times the power of ten
  (it never truncates: a non-integral product raises \<open>ValueError\<close>).
\<close>

theorem base_units_roundtrip:
  assumes "\<bar>u\<bar> < 10 ^ context_prec" and "0 \<le> d"
  shows "base_units (from_base_units u d) d = Inr u
    \<and> dval (from_base_units u d) * 10 powi d = of_int u
    \<and> (\<forall>a v. base_units a d = Inr v \<longrightarrow> \<bar>coef a\<bar> < 10 ^ context_prec \<longrightarrow> of_int v = dval a * 10 powi d)"
  using base_units_roundtrip_parts [OF assms] by blast

theorem base_units_roundtrip_witness:
  "base_units (from_base_units 1500000 6) 6 = Inr 1500000"
  using base_units_roundtrip [of 1500000 6] by (simp add: context_prec_def)

lemma quote_expected_amount_rounds_up_parts:
  assumes "quote_expected_amount amount rate decimals = Inr q" and "0 \<le> coef amount"
  shows "base_units q decimals = Inr (coef q)"
    and "\<exists>raw. ddiv amount rate = Inr raw \<and> dval raw \<le> dval q \<and> dval q < dval raw + 10 powi (- decimals)"
    and "0 < dval rate"
proof -
  from assms(1) obtain raw where raw: "0 < dval rate" "ddiv amount rate = Inr raw"
      "q = rescale ROUND_UP raw (- decimals)" "expo q = - decimals" "\<bar>coef q\<bar> < 10 ^ context_prec"
    by (rule quote_expected_amount_Inr)
  show "0 < dval rate" by (rule raw)
  show "base_units q decimals = Inr (coef q)"
    using base_units_grid [OF raw(5), of decimals] raw(4) by simp
  have "0 \<le> coef raw" using ddiv_nonneg [OF raw(2)] raw(1) assms(2) dval_zero(2) [of rate] by simp
  from rescale_up [OF this, of "- decimals"] raw(2,3)
  show "\<exists>raw. ddiv amount rate = Inr raw \<and> dval raw \<le> dval q \<and> dval q < dval raw + 10 powi (- decimals)"
    by blast
qed

text \<open>
  C19: a quoted amount is on the asset's grid, so that its base units are exactly its coefficient, and it
  is rounded up: it is never below the quotient of the order amount by the rate and exceeds it by
  less than one base unit. A non-positive rate is refused.
\<close>

theorem quote_expected_amount_rounds_up:
  assumes "quote_expected_amount amount rate decimals = Inr q" and "0 \<le> coef amount"
  shows "base_units q decimals = Inr (coef q) \<and> 0 < dval rate
    \<and> (\<exists>raw. ddiv amount rate = Inr raw \<and> dval raw \<le> dval q \<and> dval q < dval raw + 10 powi (- decimals))"
  using quote_expected_amount_rounds_up_parts [OF assms] by blast

theorem quote_expected_amount_rounds_up_witness:
  "base_units (Dec 3333334 (- 6)) 6 = Inr 3333334"
proof -
  have "quote_expected_amount (Dec 1000 (- 2)) (Dec 3 0) 6 = Inr (Dec 3333334 (- 6))" by code_simp
  from quote_expected_amount_rounds_up [OF this] show ?thesis by simp
qed

end
