(* ===== verification/Enums.thy ===== *)
theory Enums
  imports Prelude
begin

text \<open>
  The enumerations of \<^verbatim>\<open>app/domain/enums.py\<close>, one datatype per class with the source's members, the
  predicates the classes carry, and the two transition tables. A member is always written with its
  class, as in the source (\<open>OrderStatus.CREATED\<close>). The string values of the members are given where
  other code stores or compares them.
\<close>

section \<open>Catalog\<close>

datatype UserStatus = ACTIVE | RESTRICTED | BANNED

datatype RoleName =
    SUPER_ADMIN | ADMIN | PAYMENT_MANAGER | PRODUCT_MANAGER | SUPPORT_AGENT | ANALYST
  | RESELLER_MANAGER

datatype ProductStatus = DRAFT | ACTIVE | INACTIVE | HIDDEN | ARCHIVED

definition is_purchasable :: "ProductStatus \<Rightarrow> bool" where
  "is_purchasable s \<longleftrightarrow> s = ProductStatus.ACTIVE"

datatype DeliveryType = STOCK_ITEM | STATIC_PAYLOAD | FILE | MANUAL

datatype StockItemStatus = AVAILABLE | RESERVED | SOLD | INVALID

datatype ReservationStatus = ACTIVE | CONSUMED | RELEASED | EXPIRED

section \<open>Orders\<close>

datatype OrderStatus =
    CREATED | PAYMENT_PENDING | PAYMENT_VERIFIED | FULFILLING | DELIVERED | COMPLETED
  | CANCELLED | EXPIRED | MANUAL_REVIEW | DELIVERY_FAILED | REFUNDED

definition order_is_terminal :: "OrderStatus \<Rightarrow> bool" where
  "order_is_terminal s \<longleftrightarrow> s \<in> {OrderStatus.COMPLETED, OrderStatus.CANCELLED, OrderStatus.EXPIRED,
     OrderStatus.REFUNDED}"

definition order_is_paid :: "OrderStatus \<Rightarrow> bool" where
  "order_is_paid s \<longleftrightarrow> s \<in> {OrderStatus.PAYMENT_VERIFIED, OrderStatus.FULFILLING, OrderStatus.DELIVERED,
     OrderStatus.COMPLETED, OrderStatus.DELIVERY_FAILED, OrderStatus.REFUNDED}"

fun ORDER_TRANSITIONS :: "OrderStatus \<Rightarrow> OrderStatus set" where
  "ORDER_TRANSITIONS OrderStatus.CREATED =
     {OrderStatus.PAYMENT_PENDING, OrderStatus.CANCELLED, OrderStatus.EXPIRED}"
| "ORDER_TRANSITIONS OrderStatus.PAYMENT_PENDING =
     {OrderStatus.PAYMENT_VERIFIED, OrderStatus.CANCELLED, OrderStatus.EXPIRED,
      OrderStatus.MANUAL_REVIEW, OrderStatus.PAYMENT_PENDING}"
| "ORDER_TRANSITIONS OrderStatus.PAYMENT_VERIFIED =
     {OrderStatus.FULFILLING, OrderStatus.MANUAL_REVIEW, OrderStatus.REFUNDED}"
| "ORDER_TRANSITIONS OrderStatus.FULFILLING =
     {OrderStatus.DELIVERED, OrderStatus.DELIVERY_FAILED, OrderStatus.MANUAL_REVIEW}"
| "ORDER_TRANSITIONS OrderStatus.DELIVERED = {OrderStatus.COMPLETED, OrderStatus.REFUNDED}"
| "ORDER_TRANSITIONS OrderStatus.DELIVERY_FAILED =
     {OrderStatus.FULFILLING, OrderStatus.MANUAL_REVIEW, OrderStatus.REFUNDED}"
| "ORDER_TRANSITIONS OrderStatus.MANUAL_REVIEW =
     {OrderStatus.PAYMENT_VERIFIED, OrderStatus.FULFILLING, OrderStatus.CANCELLED,
      OrderStatus.REFUNDED, OrderStatus.PAYMENT_PENDING}"
| "ORDER_TRANSITIONS OrderStatus.EXPIRED = {OrderStatus.PAYMENT_PENDING, OrderStatus.MANUAL_REVIEW}"
| "ORDER_TRANSITIONS OrderStatus.COMPLETED = {OrderStatus.REFUNDED}"
| "ORDER_TRANSITIONS OrderStatus.CANCELLED = {}"
| "ORDER_TRANSITIONS OrderStatus.REFUNDED = {}"

section \<open>Payments\<close>

datatype PaymentStatus =
    CREATED | AWAITING_PAYMENT | SUBMITTED | DETECTING | DETECTED | VERIFYING
  | PENDING_CONFIRMATION | VERIFIED | UNDER_REVIEW | FAILED | EXPIRED | CANCELLED

definition payment_is_terminal :: "PaymentStatus \<Rightarrow> bool" where
  "payment_is_terminal s \<longleftrightarrow> s \<in> {PaymentStatus.VERIFIED, PaymentStatus.FAILED, PaymentStatus.EXPIRED,
     PaymentStatus.CANCELLED}"

definition payment_is_open :: "PaymentStatus \<Rightarrow> bool" where
  "payment_is_open s \<longleftrightarrow> s \<in> {PaymentStatus.CREATED, PaymentStatus.AWAITING_PAYMENT,
     PaymentStatus.SUBMITTED, PaymentStatus.DETECTING, PaymentStatus.DETECTED,
     PaymentStatus.VERIFYING, PaymentStatus.PENDING_CONFIRMATION}"

fun PAYMENT_TRANSITIONS :: "PaymentStatus \<Rightarrow> PaymentStatus set" where
  "PAYMENT_TRANSITIONS PaymentStatus.CREATED =
     {PaymentStatus.AWAITING_PAYMENT, PaymentStatus.CANCELLED, PaymentStatus.EXPIRED}"
| "PAYMENT_TRANSITIONS PaymentStatus.AWAITING_PAYMENT =
     {PaymentStatus.SUBMITTED, PaymentStatus.DETECTING, PaymentStatus.DETECTED,
      PaymentStatus.EXPIRED, PaymentStatus.CANCELLED, PaymentStatus.UNDER_REVIEW}"
| "PAYMENT_TRANSITIONS PaymentStatus.SUBMITTED =
     {PaymentStatus.DETECTING, PaymentStatus.DETECTED, PaymentStatus.VERIFYING,
      PaymentStatus.FAILED, PaymentStatus.EXPIRED, PaymentStatus.UNDER_REVIEW,
      PaymentStatus.CANCELLED}"
| "PAYMENT_TRANSITIONS PaymentStatus.DETECTING =
     {PaymentStatus.DETECTED, PaymentStatus.VERIFYING, PaymentStatus.FAILED,
      PaymentStatus.EXPIRED, PaymentStatus.UNDER_REVIEW, PaymentStatus.CANCELLED}"
| "PAYMENT_TRANSITIONS PaymentStatus.DETECTED =
     {PaymentStatus.VERIFYING, PaymentStatus.PENDING_CONFIRMATION, PaymentStatus.VERIFIED,
      PaymentStatus.FAILED, PaymentStatus.UNDER_REVIEW, PaymentStatus.EXPIRED}"
| "PAYMENT_TRANSITIONS PaymentStatus.VERIFYING =
     {PaymentStatus.PENDING_CONFIRMATION, PaymentStatus.VERIFIED, PaymentStatus.FAILED,
      PaymentStatus.UNDER_REVIEW, PaymentStatus.DETECTED, PaymentStatus.EXPIRED}"
| "PAYMENT_TRANSITIONS PaymentStatus.PENDING_CONFIRMATION =
     {PaymentStatus.VERIFIED, PaymentStatus.VERIFYING, PaymentStatus.FAILED,
      PaymentStatus.UNDER_REVIEW, PaymentStatus.EXPIRED}"
| "PAYMENT_TRANSITIONS PaymentStatus.VERIFIED = {}"
| "PAYMENT_TRANSITIONS PaymentStatus.UNDER_REVIEW =
     {PaymentStatus.VERIFIED, PaymentStatus.FAILED, PaymentStatus.VERIFYING,
      PaymentStatus.CANCELLED}"
| "PAYMENT_TRANSITIONS PaymentStatus.FAILED = {PaymentStatus.UNDER_REVIEW, PaymentStatus.VERIFYING}"
| "PAYMENT_TRANSITIONS PaymentStatus.EXPIRED = {PaymentStatus.UNDER_REVIEW, PaymentStatus.VERIFYING}"
| "PAYMENT_TRANSITIONS PaymentStatus.CANCELLED = {}"

datatype VerificationOutcome =
    VERIFIED | NOT_FOUND | PENDING_CONFIRMATION | UNDERPAID | OVERPAID | WRONG_NETWORK
  | WRONG_ASSET | WRONG_RECEIVER | DUPLICATE | FAILED_TRANSACTION | OUTSIDE_WINDOW
  | PROVIDER_ERROR | UNSUPPORTED | MEMO_MISMATCH

definition is_success :: "VerificationOutcome \<Rightarrow> bool" where
  "is_success v \<longleftrightarrow> v = VerificationOutcome.VERIFIED"

definition is_retryable :: "VerificationOutcome \<Rightarrow> bool" where
  "is_retryable v \<longleftrightarrow> v \<in> {VerificationOutcome.NOT_FOUND, VerificationOutcome.PENDING_CONFIRMATION,
     VerificationOutcome.PROVIDER_ERROR}"

definition needs_review :: "VerificationOutcome \<Rightarrow> bool" where
  "needs_review v \<longleftrightarrow> v \<in> {VerificationOutcome.UNDERPAID, VerificationOutcome.OVERPAID,
     VerificationOutcome.WRONG_NETWORK, VerificationOutcome.WRONG_ASSET,
     VerificationOutcome.WRONG_RECEIVER, VerificationOutcome.DUPLICATE,
     VerificationOutcome.OUTSIDE_WINDOW, VerificationOutcome.MEMO_MISMATCH,
     VerificationOutcome.UNSUPPORTED}"

fun outcome_value :: "VerificationOutcome \<Rightarrow> string" where
  "outcome_value VerificationOutcome.VERIFIED = ''verified''"
| "outcome_value VerificationOutcome.NOT_FOUND = ''not_found''"
| "outcome_value VerificationOutcome.PENDING_CONFIRMATION = ''pending_confirmation''"
| "outcome_value VerificationOutcome.UNDERPAID = ''underpaid''"
| "outcome_value VerificationOutcome.OVERPAID = ''overpaid''"
| "outcome_value VerificationOutcome.WRONG_NETWORK = ''wrong_network''"
| "outcome_value VerificationOutcome.WRONG_ASSET = ''wrong_asset''"
| "outcome_value VerificationOutcome.WRONG_RECEIVER = ''wrong_receiver''"
| "outcome_value VerificationOutcome.DUPLICATE = ''duplicate''"
| "outcome_value VerificationOutcome.FAILED_TRANSACTION = ''failed_transaction''"
| "outcome_value VerificationOutcome.OUTSIDE_WINDOW = ''outside_window''"
| "outcome_value VerificationOutcome.PROVIDER_ERROR = ''provider_error''"
| "outcome_value VerificationOutcome.UNSUPPORTED = ''unsupported''"
| "outcome_value VerificationOutcome.MEMO_MISMATCH = ''memo_mismatch''"

datatype PaymentProviderKind = EXCHANGE | BLOCKCHAIN

datatype ProviderCode =
    BINANCE | BINANCE_PAY | BYBIT | OKX | TRON | EVM | TON | SOLANA | UTXO

fun provider_value :: "ProviderCode \<Rightarrow> string" where
  "provider_value ProviderCode.BINANCE = ''binance''"
| "provider_value ProviderCode.BINANCE_PAY = ''binance_pay''"
| "provider_value ProviderCode.BYBIT = ''bybit''"
| "provider_value ProviderCode.OKX = ''okx''"
| "provider_value ProviderCode.TRON = ''tron''"
| "provider_value ProviderCode.EVM = ''evm''"
| "provider_value ProviderCode.TON = ''ton''"
| "provider_value ProviderCode.SOLANA = ''solana''"
| "provider_value ProviderCode.UTXO = ''utxo''"

datatype NetworkCode =
    TRC20 | BEP20 | ERC20 | TON | SOL | AVAXC | ARBITRUM | POLYGON | BTC | LTC
  | EXCHANGE_INTERNAL

fun network_value :: "NetworkCode \<Rightarrow> string" where
  "network_value NetworkCode.TRC20 = ''trc20''"
| "network_value NetworkCode.BEP20 = ''bep20''"
| "network_value NetworkCode.ERC20 = ''erc20''"
| "network_value NetworkCode.TON = ''ton''"
| "network_value NetworkCode.SOL = ''sol''"
| "network_value NetworkCode.AVAXC = ''avaxc''"
| "network_value NetworkCode.ARBITRUM = ''arbitrum''"
| "network_value NetworkCode.POLYGON = ''polygon''"
| "network_value NetworkCode.BTC = ''btc''"
| "network_value NetworkCode.LTC = ''ltc''"
| "network_value NetworkCode.EXCHANGE_INTERNAL = ''exchange_internal''"

section \<open>Fulfilment, promotion, resellers, support\<close>

datatype DeliveryStatus = PENDING | PROCESSING | COMPLETED | FAILED | CANCELLED

datatype RefundStatus = REQUESTED | APPROVED | PROCESSING | COMPLETED | REJECTED | FAILED

datatype CouponType = PERCENTAGE | FIXED

datatype ReferralStatus = PENDING | QUALIFIED | REWARDED | REJECTED

datatype NotificationKind = PAYMENT | ORDER | DELIVERY | SUPPORT | REFERRAL | SYSTEM | RESTOCK

datatype LedgerEntryType =
    ORDER_CREATED | PAYMENT_VERIFIED | PAYMENT_OVERPAID | PAYMENT_UNDERPAID | REFUND
  | MANUAL_ADJUSTMENT | REFERRAL_REWARD

datatype ReconciliationKind =
    UNMATCHED_TRANSACTION | DUPLICATE_TRANSACTION | LATE_PAYMENT | WRONG_NETWORK
  | AMOUNT_MISMATCH | EXPIRED_WITH_FUNDS | PROVIDER_INCONSISTENCY | STUCK_DELIVERY
  | ORPHAN_PAYMENT

datatype ReconciliationStatus = OPEN | INVESTIGATING | RESOLVED | IGNORED

section \<open>Facts about the tables\<close>

lemma PaymentStatus_UNIV:
  "(UNIV :: PaymentStatus set) =
     {PaymentStatus.CREATED, PaymentStatus.AWAITING_PAYMENT, PaymentStatus.SUBMITTED,
      PaymentStatus.DETECTING, PaymentStatus.DETECTED, PaymentStatus.VERIFYING,
      PaymentStatus.PENDING_CONFIRMATION, PaymentStatus.VERIFIED, PaymentStatus.UNDER_REVIEW,
      PaymentStatus.FAILED, PaymentStatus.EXPIRED, PaymentStatus.CANCELLED}"
  using PaymentStatus.exhaust by auto

instance PaymentStatus :: finite
  by standard (simp add: PaymentStatus_UNIV)

lemma OrderStatus_UNIV:
  "(UNIV :: OrderStatus set) =
     {OrderStatus.CREATED, OrderStatus.PAYMENT_PENDING, OrderStatus.PAYMENT_VERIFIED,
      OrderStatus.FULFILLING, OrderStatus.DELIVERED, OrderStatus.COMPLETED, OrderStatus.CANCELLED,
      OrderStatus.EXPIRED, OrderStatus.MANUAL_REVIEW, OrderStatus.DELIVERY_FAILED,
      OrderStatus.REFUNDED}"
  using OrderStatus.exhaust by auto

instance OrderStatus :: finite
  by standard (simp add: OrderStatus_UNIV)

lemma provider_value_inj: "provider_value p = provider_value q \<Longrightarrow> p = q"
  by (cases p; cases q) simp_all

lemma network_value_inj: "network_value p = network_value q \<Longrightarrow> p = q"
  by (cases p; cases q) simp_all

lemma provider_value_no_bar: "CHR ''|'' \<notin> set (provider_value p)"
  by (cases p) simp_all

lemma network_value_no_bar: "CHR ''|'' \<notin> set (network_value n)"
  by (cases n) simp_all

end
