(* ===== verification/Fingerprint.thy ===== *)
theory Fingerprint
  imports Enums
begin

text \<open>
  \<^verbatim>\<open>app/domain/payments/fingerprint.py\<close>: comparison-safe forms of addresses and transaction ids, and
  the identity under which a transfer can be consumed once. The digest \<^verbatim>\<open>hashlib.sha256(...)\<close> with
  its hexadecimal rendering is the parameter \<open>sha256\<close>; where a result needs it to be collision free
  on the identities it is given, the result says so.

  A network argument that is a string is looked up in \<open>NetworkCode\<close> by the caller's side of the
  model: \<open>None\<close> is both a missing network and a string that names none.
\<close>

definition HEX_ADDRESS_NETWORKS :: "NetworkCode list" where
  "HEX_ADDRESS_NETWORKS = [NetworkCode.BEP20, NetworkCode.ERC20, NetworkCode.AVAXC,
     NetworkCode.ARBITRUM, NetworkCode.POLYGON]"

definition normalize_address :: "string option \<Rightarrow> NetworkCode option \<Rightarrow> string" where
  "normalize_address address network =
     (case address of None \<Rightarrow> [] | Some a \<Rightarrow>
      if a = [] then []
      else let v = py_strip a in
       if network \<in> set (map Some HEX_ADDRESS_NETWORKS) \<or> startswith v ''0x'' then py_lower v
       else if network = Some NetworkCode.TON
       then replace_char (CHR ''/'') (CHR ''_'') (replace_char (CHR ''+'') (CHR ''-'') v)
       else if (network = Some NetworkCode.BTC \<or> network = Some NetworkCode.LTC)
         \<and> (startswith (py_lower v) ''bc1'' \<or> startswith (py_lower v) ''ltc1''
            \<or> startswith (py_lower v) ''tb1'')
       then py_lower v
       else v)"

definition hex_digits :: string where "hex_digits = ''0123456789abcdef''"

definition normalize_txid :: "string option \<Rightarrow> string" where
  "normalize_txid txid =
     (case txid of None \<Rightarrow> [] | Some t \<Rightarrow>
      if t = [] then []
      else let v0 = py_strip t;
               v = (if startswith v0 ''0x'' \<or> startswith v0 ''0X'' then drop 2 v0 else v0);
               lowered = py_lower v in
       if set lowered \<subseteq> set hex_digits then lowered else v)"

definition fingerprint_identity :: "ProviderCode \<Rightarrow> NetworkCode \<Rightarrow> string \<Rightarrow> int \<Rightarrow> string" where
  "fingerprint_identity provider network external_id log_index =
     join ''|'' [provider_value provider, network_value network,
       normalize_txid (Some external_id), str_int log_index]"

definition transaction_fingerprint ::
    "(string \<Rightarrow> string) \<Rightarrow> ProviderCode \<Rightarrow> NetworkCode \<Rightarrow> string \<Rightarrow> int \<Rightarrow> string" where
  "transaction_fingerprint sha256 provider network external_id log_index =
     sha256 (fingerprint_identity provider network external_id log_index)"

definition payload_fingerprint :: "(string \<Rightarrow> string) \<Rightarrow> string \<Rightarrow> string" where
  "payload_fingerprint sha256 payload = sha256 (py_strip payload)"

section \<open>Normal forms\<close>

lemma char_lower_vals: "char_lower (CHR ''0'') = CHR ''0''" "char_lower (CHR ''x'') = CHR ''x''"
  "char_lower (CHR ''X'') = CHR ''x''"
  by code_simp+

lemma startswith_two: "startswith w [a, b] \<longleftrightarrow> (\<exists>t. w = a # b # t)"
  by (cases w; cases "tl w") (auto simp: startswith_def)

lemma startswith_lower: "py_lower p = p \<Longrightarrow> startswith v p \<Longrightarrow> startswith (py_lower v) p"
  by (simp add: startswith_def py_lower_def take_map)

lemma py_strip_map:
  assumes "\<And>c. is_space (f c) = is_space c" and "py_strip v = v"
  shows "py_strip (map f v) = map f v"
proof (cases "v = []")
  case False
  with py_strip_hd [of v] py_strip_last [of v] assms(2)
  have "\<not> is_space (hd v)" "\<not> is_space (last v)" by simp_all
  with False assms(1) show ?thesis by (intro py_strip_id) (simp_all add: hd_map last_map)
qed simp

lemma py_strip_lower: "py_strip v = v \<Longrightarrow> py_strip (py_lower v) = py_lower v"
  unfolding py_lower_def by (rule py_strip_map) simp_all

lemma is_space_replace: "\<not> is_space a \<Longrightarrow> \<not> is_space b \<Longrightarrow>
    is_space (if c = a then b else c) = is_space c"
  by auto

lemma not_space_punct: "\<not> is_space (CHR ''+'')" "\<not> is_space (CHR ''-'')" "\<not> is_space (CHR ''/'')"
    "\<not> is_space (CHR ''_'')"
  by (simp_all add: is_space_def)

definition ton_alphabet :: "string \<Rightarrow> string" where
  "ton_alphabet v = replace_char (CHR ''/'') (CHR ''_'') (replace_char (CHR ''+'') (CHR ''-'') v)"

lemma ton_alphabet_idem: "ton_alphabet (ton_alphabet v) = ton_alphabet v"
  by (induction v) (auto simp: ton_alphabet_def replace_char_def)

lemma ton_alphabet_strip: "py_strip v = v \<Longrightarrow> py_strip (ton_alphabet v) = ton_alphabet v"
  unfolding ton_alphabet_def replace_char_def map_map comp_def
  by (rule py_strip_map) (auto simp: not_space_punct)

lemma ton_alphabet_0x: "startswith (ton_alphabet v) ''0x'' = startswith v ''0x''"
proof -
  show ?thesis
    unfolding startswith_two by (cases v; cases "tl v") (auto simp: ton_alphabet_def replace_char_def)
qed

lemma normalize_address_eq:
  "normalize_address (Some a) network =
     (let v = py_strip a in
      if network \<in> set (map Some HEX_ADDRESS_NETWORKS) \<or> startswith v ''0x'' then py_lower v
      else if network = Some NetworkCode.TON then ton_alphabet v
      else if (network = Some NetworkCode.BTC \<or> network = Some NetworkCode.LTC)
         \<and> (startswith (py_lower v) ''bc1'' \<or> startswith (py_lower v) ''ltc1''
            \<or> startswith (py_lower v) ''tb1'')
      then py_lower v else v)"
  by (simp add: normalize_address_def ton_alphabet_def Let_def replace_char_def)

lemma normalize_address_Nil [simp]: "normalize_address None n = []" "normalize_address (Some []) n = []"
  by (simp_all add: normalize_address_def)

lemma normalize_address_idem_lemma:
  "normalize_address (Some (normalize_address (Some a) n)) n = normalize_address (Some a) n"
proof (cases "normalize_address (Some a) n = []")
  case False
  define v where "v = py_strip a"
  have strip: "py_strip v = v" "py_strip (py_lower v) = py_lower v"
    "py_strip (ton_alphabet v) = ton_alphabet v"
    by (simp_all add: v_def py_strip_lower ton_alphabet_strip)
  have low: "startswith (py_lower v) ''0x''" if "startswith v ''0x''"
    using that by (rule startswith_lower [rotated]) (simp add: char_lower_vals)
  from strip low show ?thesis
    unfolding normalize_address_eq [of a] v_def [symmetric] Let_def
    by (auto simp: normalize_address_eq ton_alphabet_0x ton_alphabet_idem Let_def)
qed simp

lemma normalize_txid_hex:
  assumes "set (py_lower h) \<subseteq> set hex_digits"
  shows "normalize_txid (Some h) = py_lower h" and "normalize_txid (Some (''0x'' @ h)) = py_lower h"
proof -
  have nospace: "\<not> is_space c" if "c \<in> set h" for c
  proof -
    from that have "char_lower c \<in> set hex_digits" using assms by (auto simp: py_lower_def)
    then have "\<not> is_space (char_lower c)" by (auto simp: hex_digits_def is_space_def)
    then show ?thesis by simp
  qed
  have strip: "py_strip h = h"
    by (rule py_strip_id) (simp_all add: nospace)
  have strip0: "py_strip (CHR ''0'' # CHR ''x'' # h) = CHR ''0'' # CHR ''x'' # h"
  proof (rule py_strip_id)
    have x: "\<not> is_space (CHR ''0'')" "\<not> is_space (CHR ''x'')" by (simp_all add: is_space_def)
    then show "\<not> is_space (hd (CHR ''0'' # CHR ''x'' # h))" by simp
    show "\<not> is_space (last (CHR ''0'' # CHR ''x'' # h))"
      using nospace [OF last_in_set] x by (cases "h = []") simp_all
  qed
  have no_x: "\<not> startswith h ''0x''" "\<not> startswith h ''0X''"
  proof -
    have "CHR ''x'' \<notin> set (py_lower h)" using assms by (auto simp: hex_digits_def)
    then have "c \<in> set h \<Longrightarrow> char_lower c \<noteq> CHR ''x''" for c
      unfolding py_lower_def by (metis image_eqI list.set_map)
    then have "CHR ''x'' \<notin> set h" "CHR ''X'' \<notin> set h"
      using char_lower_vals(2,3) by blast+
    then show "\<not> startswith h ''0x''" "\<not> startswith h ''0X''"
      by (auto simp: startswith_two)
  qed
  show "normalize_txid (Some h) = py_lower h"
    using assms no_x by (simp add: normalize_txid_def strip Let_def)
  show "normalize_txid (Some (''0x'' @ h)) = py_lower h"
    using assms by (simp add: normalize_txid_def strip0 Let_def startswith_def)
qed

section \<open>The identity determines the transfer\<close>

lemma split_at_bar:
  assumes "CHR ''|'' \<notin> set a" "CHR ''|'' \<notin> set b" and "a @ ''|'' @ s = b @ ''|'' @ t"
  shows "a = b \<and> s = t"
  using assms by (induction a arbitrary: b) (case_tac b; auto)+

lemma split_at_last_bar:
  assumes "CHR ''|'' \<notin> set s" "CHR ''|'' \<notin> set t" and "a @ ''|'' @ s = b @ ''|'' @ t"
  shows "a = b \<and> s = t"
proof -
  have "rev s @ ''|'' @ rev a = rev t @ ''|'' @ rev b"
    using arg_cong [OF assms(3), of rev] by simp
  with split_at_bar [of "rev s" "rev t" "rev a" "rev b"] assms(1,2) show ?thesis by simp
qed

lemma fingerprint_identity_inj:
  assumes "fingerprint_identity p n x i = fingerprint_identity q m y j"
  shows "p = q \<and> n = m \<and> normalize_txid (Some x) = normalize_txid (Some y) \<and> i = j"
proof -
  have "provider_value p @ ''|'' @ (network_value n @ ''|'' @ (normalize_txid (Some x) @ ''|'' @ str_int i))
      = provider_value q @ ''|'' @ (network_value m @ ''|'' @ (normalize_txid (Some y) @ ''|'' @ str_int j))"
    using assms by (simp add: fingerprint_identity_def)
  from split_at_bar [OF provider_value_no_bar provider_value_no_bar this]
  have 1: "provider_value p = provider_value q"
    and rest: "network_value n @ ''|'' @ (normalize_txid (Some x) @ ''|'' @ str_int i)
      = network_value m @ ''|'' @ (normalize_txid (Some y) @ ''|'' @ str_int j)" by auto
  from split_at_bar [OF network_value_no_bar network_value_no_bar rest]
  have 2: "network_value n = network_value m"
    and tail: "normalize_txid (Some x) @ ''|'' @ str_int i = normalize_txid (Some y) @ ''|'' @ str_int j"
    by auto
  from split_at_last_bar [OF str_int_no_bar str_int_no_bar tail]
  have "normalize_txid (Some x) = normalize_txid (Some y)" "str_int i = str_int j" by auto
  with 1 2 show ?thesis
    by (auto intro: provider_value_inj network_value_inj dest: str_int_inj)
qed

section \<open>Results\<close>

text \<open>
  C13: two transfers are given the same fingerprint only if provider, network, normalised transaction
  id and index agree, for any digest that does not collide on their two identities. The separator
  cannot be forged: a \<open>|\<close> inside the provider-supplied id is harmless.
\<close>

theorem transaction_fingerprint_identifies:
  assumes "transaction_fingerprint sha256 p n x i = transaction_fingerprint sha256 q m y j"
    and "inj_on sha256 {fingerprint_identity p n x i, fingerprint_identity q m y j}"
  shows "p = q \<and> n = m \<and> normalize_txid (Some x) = normalize_txid (Some y) \<and> i = j"
proof -
  have "fingerprint_identity p n x i = fingerprint_identity q m y j"
    by (rule inj_onD [OF assms(2) assms(1) [unfolded transaction_fingerprint_def]]) simp_all
  then show ?thesis by (rule fingerprint_identity_inj)
qed

theorem transaction_fingerprint_identifies_witness:
  "normalize_txid (Some ''0xAB'') = normalize_txid (Some ''ab'')"
proof -
  have "transaction_fingerprint (\<lambda>s. s) ProviderCode.TRON NetworkCode.TRC20 ''0xAB'' 0
      = transaction_fingerprint (\<lambda>s. s) ProviderCode.TRON NetworkCode.TRC20 ''ab'' 0"
    by code_simp
  from transaction_fingerprint_identifies [OF this] show ?thesis by (simp only: inj_on_id2 simp_thms)
qed

lemma normalization_stable_parts:
  shows "normalize_address (Some (normalize_address a n)) n = normalize_address a n"
    and "set (py_lower h) \<subseteq> set hex_digits \<Longrightarrow>
      normalize_txid (Some (''0x'' @ h)) = py_lower h \<and> normalize_txid (Some h) = py_lower h
      \<and> normalize_txid (Some (normalize_txid (Some (''0x'' @ h)))) = normalize_txid (Some h)"
proof -
  show "normalize_address (Some (normalize_address a n)) n = normalize_address a n"
    by (cases a) (simp_all add: normalize_address_idem_lemma)
  assume h: "set (py_lower h) \<subseteq> set hex_digits"
  then have "set (py_lower (py_lower h)) \<subseteq> set hex_digits" by simp
  from normalize_txid_hex [OF h] normalize_txid_hex(1) [OF this]
  show "normalize_txid (Some (''0x'' @ h)) = py_lower h \<and> normalize_txid (Some h) = py_lower h
      \<and> normalize_txid (Some (normalize_txid (Some (''0x'' @ h)))) = normalize_txid (Some h)"
    by simp
qed

text \<open>
  C14: normal forms are stable. An address that has been normalised for a network is not changed by a
  second normalisation, and a hexadecimal transaction id has one form, with or without the
  \<open>0x\<close> prefix and in any letter case, which the function leaves alone.
\<close>

theorem normalization_stable:
  "normalize_address (Some (normalize_address a n)) n = normalize_address a n
    \<and> (set (py_lower h) \<subseteq> set hex_digits \<longrightarrow>
      normalize_txid (Some (''0x'' @ h)) = py_lower h \<and> normalize_txid (Some h) = py_lower h
      \<and> normalize_txid (Some (normalize_txid (Some (''0x'' @ h)))) = normalize_txid (Some h))"
  using normalization_stable_parts by blast

theorem normalization_stable_witness:
  "normalize_txid (Some ''0xAb01'') = ''ab01''"
proof -
  have "set (py_lower ''Ab01'') \<subseteq> set hex_digits" by code_simp
  then have "normalize_txid (Some (''0x'' @ ''Ab01'')) = py_lower ''Ab01''"
    using normalization_stable by blast
  moreover have "py_lower ''Ab01'' = ''ab01''" by code_simp
  ultimately show ?thesis by simp
qed

end
