(* ===== verification/Verification.thy ===== *)
theory Verification
  imports Money Fingerprint "HOL-Library.Product_Lexorder" "HOL-Library.Option_ord"
begin

text \<open>
  \<^verbatim>\<open>app/domain/payments/types.py\<close> and \<^verbatim>\<open>app/domain/payments/verification.py\<close>: the immutable
  expectation, the normalised observation, and the decision whether one satisfies the other.

  The record fields are those of the data classes, prefixed with \<open>exp_\<close>, \<open>tx_\<close> and \<open>dec_\<close>; the raw
  provider payload and the provider-specific \<^verbatim>\<open>config\<close> dictionary, which no rule reads, are left
  out. \<open>dec_checks\<close> keeps the name and the verdict of every predicate in the order the code records
  them; the expected and actual values rendered beside a verdict, and the free-text \<^verbatim>\<open>detail\<close>, are
  left out. A decision can raise: an amount of 10^20 or more does not survive \<^verbatim>\<open>quantize\<close>.
\<close>

section \<open>Data\<close>

record PaymentExpectation =
  exp_intent_id :: nat
  exp_reference :: string
  exp_provider :: ProviderCode
  exp_network :: NetworkCode
  exp_asset :: string
  exp_asset_decimals :: int
  exp_expected_amount :: decimal
  exp_expected_amount_units :: int
  exp_destination :: string
  exp_destination_normalized :: string
  exp_token_contract :: "string option"
  exp_memo :: "string option"
  exp_required_confirmations :: int
  exp_created_at :: time
  exp_expires_at :: time

record ObservedTransaction =
  tx_provider :: ProviderCode
  tx_network :: NetworkCode
  tx_external_id :: string
  tx_asset :: string
  tx_amount_units :: int
  tx_decimals :: int
  tx_to_address :: string
  tx_to_address_normalized :: string
  tx_is_successful :: bool
  tx_observed_at :: time
  tx_log_index :: int
  tx_from_address :: "string option"
  tx_token_contract :: "string option"
  tx_memo :: "string option"
  tx_reference :: "string option"
  tx_confirmations :: int
  tx_block_number :: "int option"
  tx_block_time :: "time option"
  tx_txid :: "string option"
  tx_status_label :: string
  tx_record_type :: string

definition tx_amount :: "ObservedTransaction \<Rightarrow> decimal" where
  "tx_amount t = from_base_units (tx_amount_units t) (tx_decimals t)"

definition tx_timestamp :: "ObservedTransaction \<Rightarrow> time" where
  "tx_timestamp t = or_else (tx_block_time t) (tx_observed_at t)"

record VerificationDecision =
  dec_outcome :: VerificationOutcome
  dec_checks :: "(string \<times> bool) list"
  dec_observed_amount :: "decimal option"
  dec_observed_confirmations :: "int option"
  dec_missing_confirmations :: int

definition is_verified :: "VerificationDecision \<Rightarrow> bool" where
  "is_verified d \<longleftrightarrow> dec_outcome d = VerificationOutcome.VERIFIED"

text \<open>Python truth of an optional string, and \<^verbatim>\<open>a or b or ""\<close> for optional strings.\<close>

definition truthy_str :: "string option \<Rightarrow> bool" where
  "truthy_str s \<longleftrightarrow> s \<noteq> None \<and> s \<noteq> Some []"

definition str_or :: "string option \<Rightarrow> string option \<Rightarrow> string" where
  "str_or a b = (if truthy_str a then the a else if truthy_str b then the b else [])"

section \<open>The engine\<close>

text \<open>The two results with nothing observed and with an observed amount.\<close>

definition rejected :: "VerificationOutcome \<Rightarrow> (string \<times> bool) list \<Rightarrow> VerificationDecision" where
  "rejected oc checks = \<lparr>dec_outcome = oc, dec_checks = checks, dec_observed_amount = None,
     dec_observed_confirmations = None, dec_missing_confirmations = 0\<rparr>"

definition observed ::
    "VerificationOutcome \<Rightarrow> (string \<times> bool) list \<Rightarrow> ObservedTransaction \<Rightarrow> VerificationDecision" where
  "observed oc checks t = \<lparr>dec_outcome = oc, dec_checks = checks, dec_observed_amount = Some (tx_amount t),
     dec_observed_confirmations = Some (tx_confirmations t), dec_missing_confirmations = 0\<rparr>"

definition contract_ok :: "PaymentExpectation \<Rightarrow> ObservedTransaction \<Rightarrow> bool" where
  "contract_ok e t \<longleftrightarrow>
     (let observed_contract = normalize_address (tx_token_contract t) (Some (tx_network t));
          expected_contract = normalize_address (exp_token_contract e) (Some (exp_network e))
      in observed_contract \<noteq> [] \<and> observed_contract = expected_contract)"

definition receiver_ok :: "PaymentExpectation \<Rightarrow> ObservedTransaction \<Rightarrow> bool" where
  "receiver_ok e t \<longleftrightarrow>
     (let observed_receiver =
        (if tx_to_address_normalized t \<noteq> [] then tx_to_address_normalized t
         else normalize_address (Some (tx_to_address t)) (Some (tx_network t)))
      in observed_receiver = exp_destination_normalized e)"

definition memo_ok :: "PaymentExpectation \<Rightarrow> ObservedTransaction \<Rightarrow> bool" where
  "memo_ok e t \<longleftrightarrow>
     py_upper (py_strip (str_or (tx_memo t) (tx_reference t)))
       = py_upper (py_strip (the (exp_memo e)))"

definition exact_units :: "PaymentExpectation \<Rightarrow> ObservedTransaction \<Rightarrow> bool" where
  "exact_units e t \<longleftrightarrow> tx_decimals t = exp_asset_decimals e
     \<and> tx_amount_units t - exp_expected_amount_units e = 0"

definition amount_match ::
    "decimal \<Rightarrow> decimal \<Rightarrow> PaymentExpectation \<Rightarrow> ObservedTransaction \<Rightarrow> error + AmountMatch" where
  "amount_match under_tol over_tol e t =
     (if exact_units e t then Inr AmountMatch.EXACT
      else compare_amounts (exp_expected_amount e) (tx_amount t) under_tol over_tol)"

definition window_ok :: "int \<Rightarrow> PaymentExpectation \<Rightarrow> ObservedTransaction \<Rightarrow> bool" where
  "window_ok grace e t \<longleftrightarrow>
     exp_created_at e - seconds 600 \<le> tx_timestamp t \<and> tx_timestamp t \<le> exp_expires_at e + grace"

definition verify_transaction ::
    "decimal \<Rightarrow> decimal \<Rightarrow> int \<Rightarrow> PaymentExpectation \<Rightarrow> ObservedTransaction
       \<Rightarrow> error + VerificationDecision" where
  "verify_transaction under_tol over_tol grace e t =
     (let c1 = [(''transaction_successful'', tx_is_successful t)] in
      if \<not> tx_is_successful t then Inr (rejected VerificationOutcome.FAILED_TRANSACTION c1) else
      let network_ok = (tx_network t = exp_network e); c2 = c1 @ [(''network'', network_ok)] in
      if \<not> network_ok then Inr (rejected VerificationOutcome.WRONG_NETWORK c2) else
      let asset_ok = (py_upper (tx_asset t) = py_upper (exp_asset e));
          c3 = c2 @ [(''asset'', asset_ok)] in
      if \<not> asset_ok then Inr (rejected VerificationOutcome.WRONG_ASSET c3) else
      let has_contract = truthy_str (exp_token_contract e);
          c4 = c3 @ [(''token_contract'', has_contract \<longrightarrow> contract_ok e t)] in
      if has_contract \<and> \<not> contract_ok e t then Inr (rejected VerificationOutcome.WRONG_ASSET c4) else
      let c5 = c4 @ [(''receiver'', receiver_ok e t)] in
      if \<not> receiver_ok e t then Inr (rejected VerificationOutcome.WRONG_RECEIVER c5) else
      let has_memo = truthy_str (exp_memo e);
          c6 = c5 @ (if has_memo then [(''memo'', memo_ok e t)] else []) in
      if has_memo \<and> \<not> memo_ok e t
      then Inr ((rejected VerificationOutcome.MEMO_MISMATCH c6)
                  \<lparr>dec_observed_amount := Some (tx_amount t)\<rparr>)
      else case amount_match under_tol over_tol e t of Inl err \<Rightarrow> Inl err
      | Inr mtch \<Rightarrow>
        (let c7 = c6 @ [(''amount'', mtch = AmountMatch.EXACT)] in
         if mtch = AmountMatch.UNDERPAID then Inr (observed VerificationOutcome.UNDERPAID c7 t)
         else if mtch = AmountMatch.OVERPAID then Inr (observed VerificationOutcome.OVERPAID c7 t)
         else
         let c8 = c7 @ [(''payment_window'', window_ok grace e t)] in
         if \<not> window_ok grace e t then Inr (observed VerificationOutcome.OUTSIDE_WINDOW c8 t)
         else
         let required = max (exp_required_confirmations e) 0;
             confirmations_ok = (required \<le> tx_confirmations t);
             c9 = c8 @ [(''confirmations'', confirmations_ok)] in
         if \<not> confirmations_ok
         then Inr ((observed VerificationOutcome.PENDING_CONFIRMATION c9 t)
                     \<lparr>dec_missing_confirmations := required - tx_confirmations t\<rparr>)
         else Inr (observed VerificationOutcome.VERIFIED c9 t)))"

definition rank_of :: "VerificationOutcome \<Rightarrow> nat" where
  "rank_of oc =
     (if oc = VerificationOutcome.VERIFIED then 0
      else if oc = VerificationOutcome.PENDING_CONFIRMATION then 1
      else if oc = VerificationOutcome.WRONG_RECEIVER then 3
      else if needs_review oc then 2
      else 3)"

fun rank_all ::
    "decimal \<Rightarrow> decimal \<Rightarrow> int \<Rightarrow> PaymentExpectation \<Rightarrow> ObservedTransaction list
       \<Rightarrow> error + (nat \<times> ObservedTransaction \<times> VerificationDecision) list" where
  "rank_all u ov g e [] = Inr []"
| "rank_all u ov g e (t # ts) =
     (case verify_transaction u ov g e t of Inl err \<Rightarrow> Inl err
      | Inr d \<Rightarrow> (case rank_all u ov g e ts of Inl err \<Rightarrow> Inl err
        | Inr rest \<Rightarrow> Inr ((rank_of (dec_outcome d), t, d) # rest)))"

definition candidate_key :: "nat \<times> ObservedTransaction \<times> VerificationDecision \<Rightarrow> nat \<times> int" where
  "candidate_key item = (fst item, - tx_amount_units (fst (snd item)))"

definition select_best_candidate ::
    "decimal \<Rightarrow> decimal \<Rightarrow> int \<Rightarrow> PaymentExpectation \<Rightarrow> ObservedTransaction list
       \<Rightarrow> error + ObservedTransaction option \<times> VerificationDecision" where
  "select_best_candidate u ov g e transactions =
     (if transactions = [] then Inr (None, rejected VerificationOutcome.NOT_FOUND [])
      else case rank_all u ov g e transactions of Inl err \<Rightarrow> Inl err
      | Inr items \<Rightarrow>
        (let (best_rank, best_tx, best_decision) = hd (sort_key candidate_key items) in
         if best_rank = 3
         then Inr (None, rejected VerificationOutcome.NOT_FOUND (dec_checks best_decision))
         else Inr (Some best_tx, best_decision)))"

section \<open>What a decision means\<close>

lemma decision_fields [simp]:
  "dec_outcome (rejected oc cs) = oc" "dec_checks (rejected oc cs) = cs"
  "dec_outcome (observed oc cs t) = oc" "dec_checks (observed oc cs t) = cs"
  "dec_observed_amount (observed oc cs t) = Some (tx_amount t)"
  "dec_observed_confirmations (observed oc cs t) = Some (tx_confirmations t)"
  "dec_missing_confirmations (observed oc cs t) = 0" "dec_missing_confirmations (rejected oc cs) = 0"
  by (simp_all add: rejected_def observed_def)

text \<open>Everything that is checked before the confirmations.\<close>

definition attributable :: "PaymentExpectation \<Rightarrow> ObservedTransaction \<Rightarrow> bool" where
  "attributable e t \<longleftrightarrow> tx_is_successful t \<and> tx_network t = exp_network e
     \<and> py_upper (tx_asset t) = py_upper (exp_asset e)
     \<and> (truthy_str (exp_token_contract e) \<longrightarrow> contract_ok e t) \<and> receiver_ok e t
     \<and> (truthy_str (exp_memo e) \<longrightarrow> memo_ok e t)"

definition finality_ok :: "PaymentExpectation \<Rightarrow> ObservedTransaction \<Rightarrow> bool" where
  "finality_ok e t \<longleftrightarrow> max (exp_required_confirmations e) 0 \<le> tx_confirmations t"

lemma verify_not_attributable:
  "\<not> attributable e t \<Longrightarrow> \<exists>d. verify_transaction u ov g e t = Inr d \<and>
     dec_outcome d \<in> {VerificationOutcome.FAILED_TRANSACTION, VerificationOutcome.WRONG_NETWORK,
       VerificationOutcome.WRONG_ASSET, VerificationOutcome.WRONG_RECEIVER,
       VerificationOutcome.MEMO_MISMATCH}"
  by (auto simp: verify_transaction_def attributable_def Let_def)

lemma verify_attributable:
  assumes "attributable e t"
  shows "verify_transaction u ov g e t =
    (case amount_match u ov e t of Inl err \<Rightarrow> Inl err
     | Inr mtch \<Rightarrow>
       (let c = [(''transaction_successful'', True), (''network'', True), (''asset'', True),
                 (''token_contract'', True), (''receiver'', True)]
              @ (if truthy_str (exp_memo e) then [(''memo'', True)] else [])
              @ [(''amount'', mtch = AmountMatch.EXACT)];
            w = c @ [(''payment_window'', window_ok g e t)];
            f = w @ [(''confirmations'', finality_ok e t)] in
        if mtch = AmountMatch.UNDERPAID then Inr (observed VerificationOutcome.UNDERPAID c t)
        else if mtch = AmountMatch.OVERPAID then Inr (observed VerificationOutcome.OVERPAID c t)
        else if \<not> window_ok g e t then Inr (observed VerificationOutcome.OUTSIDE_WINDOW w t)
        else if \<not> finality_ok e t then
          Inr ((observed VerificationOutcome.PENDING_CONFIRMATION f t)
             \<lparr>dec_missing_confirmations := max (exp_required_confirmations e) 0 - tx_confirmations t\<rparr>)
        else Inr (observed VerificationOutcome.VERIFIED f t)))"
  using assms unfolding verify_transaction_def attributable_def finality_ok_def Let_def
  by (auto split: sum.split)

lemma compare_amounts_error: "compare_amounts e r u ov = Inl err \<Longrightarrow> err = InvalidOperation"
  by (auto simp: compare_amounts_def quantize_to_def dquantize_def Let_def split: if_splits sum.splits)

lemma verify_cases:
  obtains (other) d where "\<not> attributable e t" "verify_transaction u ov g e t = Inr d"
      "dec_outcome d \<in> {VerificationOutcome.FAILED_TRANSACTION, VerificationOutcome.WRONG_NETWORK,
         VerificationOutcome.WRONG_ASSET, VerificationOutcome.WRONG_RECEIVER,
         VerificationOutcome.MEMO_MISMATCH}"
  | (error) "attributable e t" "amount_match u ov e t = Inl InvalidOperation"
      "verify_transaction u ov g e t = Inl InvalidOperation"
  | (amount) d where "attributable e t" "verify_transaction u ov g e t = Inr d"
      "amount_match u ov e t \<in> {Inr AmountMatch.UNDERPAID, Inr AmountMatch.OVERPAID}"
      "dec_outcome d \<in> {VerificationOutcome.UNDERPAID, VerificationOutcome.OVERPAID}"
  | (window) d where "attributable e t" "verify_transaction u ov g e t = Inr d"
      "amount_match u ov e t = Inr AmountMatch.EXACT" "\<not> window_ok g e t"
      "dec_outcome d = VerificationOutcome.OUTSIDE_WINDOW"
  | (pending) d where "attributable e t" "verify_transaction u ov g e t = Inr d"
      "amount_match u ov e t = Inr AmountMatch.EXACT" "window_ok g e t" "\<not> finality_ok e t"
      "dec_outcome d = VerificationOutcome.PENDING_CONFIRMATION"
      "dec_missing_confirmations d = max (exp_required_confirmations e) 0 - tx_confirmations t"
  | (ok) d where "attributable e t" "verify_transaction u ov g e t = Inr d"
      "amount_match u ov e t = Inr AmountMatch.EXACT" "window_ok g e t" "finality_ok e t"
      "dec_outcome d = VerificationOutcome.VERIFIED"
proof (cases "attributable e t")
  case False
  then show thesis using verify_not_attributable other by metis
next
  case att: True
  note v = verify_attributable [OF att, of u ov g]
  show thesis
  proof (cases "amount_match u ov e t")
    case (Inl err)
    then have "err = InvalidOperation"
      by (auto simp: amount_match_def split: if_splits dest: compare_amounts_error)
    with Inl v error att show thesis by simp
  next
    case (Inr m)
    show thesis
    proof (cases m)
      case EXACT
      show thesis
      proof (cases "window_ok g e t")
        case False
        then show thesis by (intro window [OF att], simp add: v Inr EXACT, simp_all add: Inr EXACT)
      next
        case w: True
        show thesis
        proof (cases "finality_ok e t")
          case True
          then show thesis by (intro ok [OF att], simp add: v Inr EXACT w, simp_all add: Inr EXACT w)
        next
          case False
          then show thesis by (intro pending [OF att], simp add: v Inr EXACT w, simp_all add: Inr EXACT w)
        qed
      qed
    qed (rule amount [OF att], simp add: v Inr, simp_all add: Inr)+
  qed
qed

section \<open>Candidate selection\<close>

lemma rank_all_Inr:
  "rank_all u ov g e ts = Inr items \<longleftrightarrow>
     length items = length ts \<and>
     (\<forall>i<length ts. \<exists>d. verify_transaction u ov g e (ts ! i) = Inr d \<and>
        items ! i = (rank_of (dec_outcome d), ts ! i, d))"
proof (induction ts arbitrary: items)
  case (Cons t ts)
  show ?case
  proof (cases items)
    case (Cons item rest)
    have split: "(\<forall>i<Suc (length ts). P i) \<longleftrightarrow> P 0 \<and> (\<forall>i<length ts. P (Suc i))" for P
      using less_Suc_eq_0_disj by auto
    show ?thesis
      unfolding Cons list.size add_0_right add_Suc_right split
      using Cons.IH [of rest] by (auto simp: Cons split: sum.splits)
  qed (auto split: sum.splits)
qed auto

lemma rank_all_in:
  assumes "rank_all u ov g e ts = Inr items" and "(r, t, d) \<in> set items"
  shows "t \<in> set ts \<and> verify_transaction u ov g e t = Inr d \<and> r = rank_of (dec_outcome d)"
proof -
  from assms(2) obtain i where "i < length items" "items ! i = (r, t, d)" by (auto simp: in_set_conv_nth)
  moreover from this assms(1) obtain d' where "i < length ts" "verify_transaction u ov g e (ts ! i) = Inr d'"
      "items ! i = (rank_of (dec_outcome d'), ts ! i, d')"
    unfolding rank_all_Inr by metis
  ultimately show ?thesis by (metis nth_mem prod.inject)
qed

lemma rank_all_covers:
  assumes "rank_all u ov g e ts = Inr items" and "t \<in> set ts"
  obtains d where "verify_transaction u ov g e t = Inr d" "(rank_of (dec_outcome d), t, d) \<in> set items"
proof -
  from assms(2) obtain i where "i < length ts" "t = ts ! i" by (auto simp: in_set_conv_nth)
  with assms(1) that show thesis by (metis nth_mem rank_all_Inr)
qed

lemma hd_sort_key:
  assumes "xs \<noteq> []"
  shows "hd (sort_key f xs) \<in> set xs" and "x \<in> set xs \<Longrightarrow> f (hd (sort_key f xs)) \<le> f x"
proof -
  from assms have ne: "sort_key f xs \<noteq> []" by (metis length_0_conv length_sort)
  then show "hd (sort_key f xs) \<in> set xs" by (metis hd_in_set set_sort)
  show "f (hd (sort_key f xs)) \<le> f x" if "x \<in> set xs"
  proof -
    from that have "f x \<in> set (map f (sort_key f xs))" by simp
    moreover have "sorted (map f (sort_key f xs))" by simp
    moreover have "hd (map f (sort_key f xs)) = f (hd (sort_key f xs))" using ne by (simp add: hd_map)
    ultimately show ?thesis by (cases "sort_key f xs") auto
  qed
qed

text \<open>Every result of the selection, with what it says about every candidate.\<close>

lemma select_Inr:
  assumes "select_best_candidate u ov g e ts = Inr (best, d)" and "ts \<noteq> []"
  obtains t d0 where "t \<in> set ts" "verify_transaction u ov g e t = Inr d0"
    "if rank_of (dec_outcome d0) = 3
     then best = None \<and> d = rejected VerificationOutcome.NOT_FOUND (dec_checks d0)
     else best = Some t \<and> d = d0"
    "\<forall>t' d'. t' \<in> set ts \<longrightarrow> verify_transaction u ov g e t' = Inr d' \<longrightarrow>
       (rank_of (dec_outcome d0), - tx_amount_units t) \<le> (rank_of (dec_outcome d'), - tx_amount_units t')"
proof -
  from assms obtain items where items: "rank_all u ov g e ts = Inr items"
    by (auto simp: select_best_candidate_def split: sum.splits)
  with assms(2) have ne: "items \<noteq> []" by (auto simp: rank_all_Inr)
  obtain r t d0 where h: "hd (sort_key candidate_key items) = (r, t, d0)" by (metis prod_cases3)
  with hd_sort_key(1) [OF ne, of candidate_key] have "(r, t, d0) \<in> set items" by simp
  from rank_all_in [OF items this] have t: "t \<in> set ts" "verify_transaction u ov g e t = Inr d0"
    and r: "r = rank_of (dec_outcome d0)" by auto
  have res: "if r = 3 then best = None \<and> d = rejected VerificationOutcome.NOT_FOUND (dec_checks d0)
     else best = Some t \<and> d = d0"
    using assms items h by (auto simp: select_best_candidate_def split: if_splits)
  have least: "(r, - tx_amount_units t) \<le> (rank_of (dec_outcome d'), - tx_amount_units t')"
    if "t' \<in> set ts" "verify_transaction u ov g e t' = Inr d'" for t' d'
  proof -
    from rank_all_covers [OF items that(1)] that(2)
    have "(rank_of (dec_outcome d'), t', d') \<in> set items" by (metis Inr_inject)
    from hd_sort_key(2) [OF ne this, of candidate_key] show ?thesis by (simp add: h candidate_key_def)
  qed
  show thesis by (rule that [OF t]) (use res least r in simp_all)
qed

lemma rank_of_bounds: "rank_of oc \<le> 3" "rank_of oc = 0 \<longleftrightarrow> oc = VerificationOutcome.VERIFIED"
  "rank_of oc = 1 \<longleftrightarrow> oc = VerificationOutcome.PENDING_CONFIRMATION"
  by (auto simp: rank_of_def)

section \<open>Results\<close>

text \<open>An expectation and a transfer that satisfies it, for concrete instances of the results.\<close>

definition sample_expectation :: PaymentExpectation where
  "sample_expectation =
     \<lparr>exp_intent_id = 1, exp_reference = ''TG-000001'', exp_provider = ProviderCode.TRON,
      exp_network = NetworkCode.TRC20, exp_asset = ''USDT'', exp_asset_decimals = 6,
      exp_expected_amount = Dec 10000000 (- 6), exp_expected_amount_units = 10000000,
      exp_destination = ''Tx'', exp_destination_normalized = ''Tx'', exp_token_contract = None,
      exp_memo = None, exp_required_confirmations = 20, exp_created_at = 0,
      exp_expires_at = seconds 1800\<rparr>"

definition sample_transfer :: ObservedTransaction where
  "sample_transfer =
     \<lparr>tx_provider = ProviderCode.TRON, tx_network = NetworkCode.TRC20, tx_external_id = ''ab'',
      tx_asset = ''usdt'', tx_amount_units = 10000000, tx_decimals = 6, tx_to_address = ''Tx'',
      tx_to_address_normalized = ''Tx'', tx_is_successful = True, tx_observed_at = 5, tx_log_index = 0,
      tx_from_address = None, tx_token_contract = None, tx_memo = None, tx_reference = None,
      tx_confirmations = 20, tx_block_number = None, tx_block_time = None, tx_txid = None,
      tx_status_label = [], tx_record_type = ''transfer''\<rparr>"

lemma verified_iff:
  "(\<exists>d. verify_transaction u ov g e t = Inr d \<and> is_verified d) \<longleftrightarrow>
     attributable e t \<and> amount_match u ov e t = Inr AmountMatch.EXACT \<and> window_ok g e t \<and> finality_ok e t"
proof (cases rule: verify_cases [of e t u ov g])
  case (other d)
  then show ?thesis by (auto simp: is_verified_def)
next
  case (amount d)
  then show ?thesis by (auto simp: is_verified_def)
qed (simp_all add: is_verified_def)

text \<open>
  C5: the engine credits a payment if and only if every predicate holds: the transfer succeeded, on the
  expected network, in the expected asset, with the declared token contract, to the expected receiver,
  with the required memo, for a matching amount, inside the window, with enough confirmations.
\<close>

theorem verify_transaction_verified_iff:
  "(\<exists>d. verify_transaction under_tol over_tol grace e t = Inr d \<and> is_verified d) \<longleftrightarrow>
     tx_is_successful t \<and> tx_network t = exp_network e
     \<and> py_upper (tx_asset t) = py_upper (exp_asset e)
     \<and> (truthy_str (exp_token_contract e) \<longrightarrow> contract_ok e t)
     \<and> receiver_ok e t \<and> (truthy_str (exp_memo e) \<longrightarrow> memo_ok e t)
     \<and> amount_match under_tol over_tol e t = Inr AmountMatch.EXACT
     \<and> window_ok grace e t \<and> max (exp_required_confirmations e) 0 \<le> tx_confirmations t"
  using verified_iff [of under_tol over_tol grace e t] unfolding attributable_def finality_ok_def
  by (simp only: conj_assoc)

theorem verify_transaction_verified_iff_witness:
  "\<exists>d. verify_transaction D0 D0 (seconds 86400) sample_expectation sample_transfer = Inr d \<and> is_verified d"
proof -
  have up: "py_upper ''usdt'' = ''USDT''" "py_upper ''USDT'' = ''USDT''" by code_simp+
  show ?thesis
    by (subst verify_transaction_verified_iff)
      (simp add: sample_expectation_def sample_transfer_def receiver_ok_def amount_match_def exact_units_def window_ok_def tx_timestamp_def
        truthy_str_def up del: py_upper_simps)
qed

lemma verified_amount_is_expected_parts:
  assumes "verify_transaction D0 D0 grace e t = Inr d" and "is_verified d"
  shows "(tx_decimals t = exp_asset_decimals e \<and> tx_amount_units t = exp_expected_amount_units e)
      \<or> \<bar>dval (tx_amount t) - dval (exp_expected_amount e)\<bar> \<le> 1 / 10 ^ 8"
    and "tx_decimals t = exp_asset_decimals e \<Longrightarrow> 0 \<le> tx_decimals t \<Longrightarrow> tx_decimals t \<le> 8 \<Longrightarrow>
      - tx_decimals t \<le> expo (exp_expected_amount e) \<Longrightarrow>
      of_int (exp_expected_amount_units e) = dval (exp_expected_amount e) * 10 powi tx_decimals t \<Longrightarrow>
      \<bar>tx_amount_units t\<bar> < 10 ^ context_prec \<Longrightarrow>
      tx_amount_units t = exp_expected_amount_units e"
proof -
  have "amount_match D0 D0 e t = Inr AmountMatch.EXACT"
    using assms verified_iff by blast
  then have m: "exact_units e t \<or> compare_amounts (exp_expected_amount e) (tx_amount t) D0 D0 = Inr AmountMatch.EXACT"
    by (auto simp: amount_match_def split: if_splits)
  then show "(tx_decimals t = exp_asset_decimals e \<and> tx_amount_units t = exp_expected_amount_units e)
      \<or> \<bar>dval (tx_amount t) - dval (exp_expected_amount e)\<bar> \<le> 1 / 10 ^ 8"
    using exact_zero_tolerance(1) by (auto simp: exact_units_def)
  assume dec: "tx_decimals t = exp_asset_decimals e" "0 \<le> tx_decimals t" "tx_decimals t \<le> 8"
    and grid: "- tx_decimals t \<le> expo (exp_expected_amount e)"
    and units: "of_int (exp_expected_amount_units e) = dval (exp_expected_amount e) * 10 powi tx_decimals t"
    and small: "\<bar>tx_amount_units t\<bar> < 10 ^ context_prec"
  from m show "tx_amount_units t = exp_expected_amount_units e"
  proof
    assume "compare_amounts (exp_expected_amount e) (tx_amount t) D0 D0 = Inr AmountMatch.EXACT"
    moreover have "- 8 \<le> expo (tx_amount t)"
      using from_base_units_value(1) [OF small dec(2)] dec(3) by (simp add: tx_amount_def)
    ultimately have "dval (tx_amount t) = dval (exp_expected_amount e)"
      using exact_zero_tolerance(2) grid dec(3) by force
    then have "of_int (tx_amount_units t) = (of_int (exp_expected_amount_units e) :: rat)"
      using base_units_roundtrip_value [OF small dec(2)] units by (simp add: tx_amount_def)
    then show ?thesis by simp
  qed (simp add: exact_units_def)
qed

text \<open>
  C6: with zero tolerances a credited amount is the expected one: either the base units are equal, or
  the amounts differ by at most 10^-8. For an asset of at most eight decimals, and an intent whose
  units are those of its amount, the base units are always equal.
\<close>

theorem verified_amount_is_expected:
  assumes "verify_transaction D0 D0 grace e t = Inr d" and "is_verified d"
  shows "((tx_decimals t = exp_asset_decimals e \<and> tx_amount_units t = exp_expected_amount_units e)
      \<or> \<bar>dval (tx_amount t) - dval (exp_expected_amount e)\<bar> \<le> 1 / 10 ^ 8)
    \<and> (tx_decimals t = exp_asset_decimals e \<longrightarrow> 0 \<le> tx_decimals t \<longrightarrow> tx_decimals t \<le> 8 \<longrightarrow>
      - tx_decimals t \<le> expo (exp_expected_amount e) \<longrightarrow>
      of_int (exp_expected_amount_units e) = dval (exp_expected_amount e) * 10 powi tx_decimals t \<longrightarrow>
      \<bar>tx_amount_units t\<bar> < 10 ^ context_prec \<longrightarrow>
      tx_amount_units t = exp_expected_amount_units e)"
  using verified_amount_is_expected_parts [OF assms] by blast

theorem verified_amount_is_expected_witness:
  "tx_amount_units sample_transfer = exp_expected_amount_units sample_expectation"
proof -
  have up: "py_upper ''usdt'' = ''USDT''" "py_upper ''USDT'' = ''USDT''" by code_simp+
  have "\<exists>d. verify_transaction D0 D0 (seconds 86400) sample_expectation sample_transfer = Inr d \<and> is_verified d"
    by (subst verified_iff)
      (simp add: attributable_def finality_ok_def sample_expectation_def sample_transfer_def receiver_ok_def
        amount_match_def exact_units_def window_ok_def tx_timestamp_def truthy_str_def up del: py_upper_simps)
  then obtain d where d: "verify_transaction D0 D0 (seconds 86400) sample_expectation sample_transfer = Inr d"
    "is_verified d" by blast
  show ?thesis
    by (rule verified_amount_is_expected [OF d, THEN conjunct2, rule_format])
      (simp_all add: sample_expectation_def sample_transfer_def dval_def power_int_def power_one_over
        context_prec_def)
qed

lemma AmountMatch_exact: "m \<noteq> AmountMatch.UNDERPAID \<Longrightarrow> m \<noteq> AmountMatch.OVERPAID \<Longrightarrow> m = AmountMatch.EXACT"
  by (cases m) simp_all

lemma verify_checks:
  assumes "verify_transaction u ov g e t = Inr d"
  shows "dec_checks d \<noteq> [] \<and> (\<forall>c \<in> set (butlast (dec_checks d)). snd c)
      \<and> (snd (last (dec_checks d)) \<longleftrightarrow> is_verified d)"
    and "dec_outcome d \<noteq> VerificationOutcome.PENDING_CONFIRMATION \<Longrightarrow> dec_missing_confirmations d = 0"
proof -
  have "(dec_checks d \<noteq> [] \<and> (\<forall>c \<in> set (butlast (dec_checks d)). snd c)
      \<and> (snd (last (dec_checks d)) \<longleftrightarrow> is_verified d)) \<and>
    (dec_outcome d \<noteq> VerificationOutcome.PENDING_CONFIRMATION \<longrightarrow> dec_missing_confirmations d = 0)"
  proof (cases "attributable e t")
    case True
    then show ?thesis using assms unfolding verify_attributable [OF True]
      by (auto simp: Let_def is_verified_def split: sum.splits if_splits dest: AmountMatch_exact)
  next
    case False
    then show ?thesis using assms
      by (auto simp: verify_transaction_def attributable_def Let_def is_verified_def split: if_splits)
  qed
  then show "dec_checks d \<noteq> [] \<and> (\<forall>c \<in> set (butlast (dec_checks d)). snd c)
      \<and> (snd (last (dec_checks d)) \<longleftrightarrow> is_verified d)"
    "dec_outcome d \<noteq> VerificationOutcome.PENDING_CONFIRMATION \<Longrightarrow> dec_missing_confirmations d = 0"
    by blast+
qed

lemma decision_records_first_failure_parts:
  assumes "verify_transaction under_tol over_tol grace e t = Inr d"
  shows "dec_checks d \<noteq> [] \<and> (\<forall>c \<in> set (butlast (dec_checks d)). snd c)
      \<and> (snd (last (dec_checks d)) \<longleftrightarrow> is_verified d)"
    and "dec_missing_confirmations d =
      (if dec_outcome d = VerificationOutcome.PENDING_CONFIRMATION
       then max (exp_required_confirmations e) 0 - tx_confirmations t else 0)"
    and "dec_outcome d = VerificationOutcome.PENDING_CONFIRMATION \<longleftrightarrow> 0 < dec_missing_confirmations d"
proof -
  note c = verify_checks [OF assms]
  show "dec_checks d \<noteq> [] \<and> (\<forall>c \<in> set (butlast (dec_checks d)). snd c)
      \<and> (snd (last (dec_checks d)) \<longleftrightarrow> is_verified d)" by (rule c)
  have p: "dec_missing_confirmations d = max (exp_required_confirmations e) 0 - tx_confirmations t
      \<and> 0 < dec_missing_confirmations d"
    if "dec_outcome d = VerificationOutcome.PENDING_CONFIRMATION"
    using that assms
    by (cases rule: verify_cases [of e t under_tol over_tol grace]) (auto simp: finality_ok_def)
  with c(2) show "dec_missing_confirmations d =
      (if dec_outcome d = VerificationOutcome.PENDING_CONFIRMATION
       then max (exp_required_confirmations e) 0 - tx_confirmations t else 0)"
    "dec_outcome d = VerificationOutcome.PENDING_CONFIRMATION \<longleftrightarrow> 0 < dec_missing_confirmations d"
    by (simp, metis less_irrefl)
qed

text \<open>
  A rejected decision names one failed predicate. Every recorded check before the last one passed,
  and the last one passed exactly when the payment is verified; a payment that only waits for
  confirmations reports how many are missing, and that number is positive.
\<close>

lemma decision_records_first_failure:
  assumes "verify_transaction under_tol over_tol grace e t = Inr d"
  shows "dec_checks d \<noteq> [] \<and> (\<forall>c \<in> set (butlast (dec_checks d)). snd c)
    \<and> (snd (last (dec_checks d)) \<longleftrightarrow> is_verified d)
    \<and> dec_missing_confirmations d =
      (if dec_outcome d = VerificationOutcome.PENDING_CONFIRMATION
       then max (exp_required_confirmations e) 0 - tx_confirmations t else 0)
    \<and> (dec_outcome d = VerificationOutcome.PENDING_CONFIRMATION \<longleftrightarrow> 0 < dec_missing_confirmations d)"
  using decision_records_first_failure_parts [OF assms] by blast

lemma select_best_candidate_best_parts:
  assumes "select_best_candidate under_tol over_tol grace e txs = Inr (best, d)"
  defines "verdict \<equiv> verify_transaction under_tol over_tol grace e"
  shows "best = Some t \<Longrightarrow> t \<in> set txs \<and> verdict t = Inr d \<and>
      (\<forall>t' d'. t' \<in> set txs \<longrightarrow> verdict t' = Inr d' \<longrightarrow>
         rank_of (dec_outcome d) < rank_of (dec_outcome d') \<or>
         rank_of (dec_outcome d) = rank_of (dec_outcome d') \<and> tx_amount_units t' \<le> tx_amount_units t)"
    and "(\<exists>t' d'. t' \<in> set txs \<and> verdict t' = Inr d' \<and> is_verified d') \<Longrightarrow> best \<noteq> None \<and> is_verified d"
    and "best = None \<longleftrightarrow> (\<forall>t' d'. t' \<in> set txs \<longrightarrow> verdict t' = Inr d' \<longrightarrow> rank_of (dec_outcome d') = 3)"
    and "best = None \<Longrightarrow> dec_outcome d = VerificationOutcome.NOT_FOUND"
proof -
  have r: "(best = Some t \<longrightarrow> t \<in> set txs \<and> verdict t = Inr d \<and>
      (\<forall>t' d'. t' \<in> set txs \<longrightarrow> verdict t' = Inr d' \<longrightarrow>
         rank_of (dec_outcome d) < rank_of (dec_outcome d') \<or>
         rank_of (dec_outcome d) = rank_of (dec_outcome d') \<and> tx_amount_units t' \<le> tx_amount_units t)) \<and>
    ((\<exists>t' d'. t' \<in> set txs \<and> verdict t' = Inr d' \<and> is_verified d') \<longrightarrow> best \<noteq> None \<and> is_verified d) \<and>
    (best = None \<longleftrightarrow> (\<forall>t' d'. t' \<in> set txs \<longrightarrow> verdict t' = Inr d' \<longrightarrow> rank_of (dec_outcome d') = 3)) \<and>
    (best = None \<longrightarrow> dec_outcome d = VerificationOutcome.NOT_FOUND)"
  proof (cases "txs = []")
    case True
    then show ?thesis using assms(1) by (auto simp: select_best_candidate_def)
  next
    case False
    from assms(1) False obtain t0 d0 where t0: "t0 \<in> set txs" "verdict t0 = Inr d0"
      and res: "if rank_of (dec_outcome d0) = 3
        then best = None \<and> d = rejected VerificationOutcome.NOT_FOUND (dec_checks d0)
        else best = Some t0 \<and> d = d0"
      and all: "\<forall>t' d'. t' \<in> set txs \<longrightarrow> verdict t' = Inr d' \<longrightarrow>
        (rank_of (dec_outcome d0), - tx_amount_units t0) \<le> (rank_of (dec_outcome d'), - tx_amount_units t')"
      unfolding verdict_def by (rule select_Inr)
    note least = all [rule_format]
    have order: "rank_of (dec_outcome d0) < rank_of (dec_outcome d') \<or>
        rank_of (dec_outcome d0) = rank_of (dec_outcome d') \<and> tx_amount_units t' \<le> tx_amount_units t0"
      if "t' \<in> set txs" "verdict t' = Inr d'" for t' d'
      using least [OF that] by (simp only: less_eq_prod_def fst_conv snd_conv neg_le_iff_le) linarith
    have three: "rank_of (dec_outcome d') = 3"
      if "t' \<in> set txs" "verdict t' = Inr d'" "rank_of (dec_outcome d0) = 3" for t' d'
      using order [OF that(1,2)] that(3) rank_of_bounds(1) [of "dec_outcome d'"] by linarith
    have zero: "is_verified d0" if "t' \<in> set txs" "verdict t' = Inr d'" "is_verified d'" for t' d'
    proof -
      from that(3) have "rank_of (dec_outcome d') = 0" by (simp only: rank_of_bounds is_verified_def)
      with order [OF that(1,2)] have "rank_of (dec_outcome d0) = 0" by linarith
      then show ?thesis by (simp only: rank_of_bounds is_verified_def)
    qed
    show ?thesis
    proof (cases "rank_of (dec_outcome d0) = 3")
      case True
      with res have b: "best = None" "d = rejected VerificationOutcome.NOT_FOUND (dec_checks d0)" by simp_all
      from True have "\<not> is_verified d0" by (auto simp: is_verified_def rank_of_def)
      with zero three [OF _ _ True] show ?thesis unfolding b by auto
    next
      case False
      with res have b: "best = Some t0" "d = d0" by simp_all
      show ?thesis unfolding b using t0 False order zero by blast
    qed
  qed
  then show "best = Some t \<Longrightarrow> t \<in> set txs \<and> verdict t = Inr d \<and>
      (\<forall>t' d'. t' \<in> set txs \<longrightarrow> verdict t' = Inr d' \<longrightarrow>
         rank_of (dec_outcome d) < rank_of (dec_outcome d') \<or>
         rank_of (dec_outcome d) = rank_of (dec_outcome d') \<and> tx_amount_units t' \<le> tx_amount_units t)"
    "(\<exists>t' d'. t' \<in> set txs \<and> verdict t' = Inr d' \<and> is_verified d') \<Longrightarrow> best \<noteq> None \<and> is_verified d"
    "best = None \<longleftrightarrow> (\<forall>t' d'. t' \<in> set txs \<longrightarrow> verdict t' = Inr d' \<longrightarrow> rank_of (dec_outcome d') = 3)"
    "best = None \<Longrightarrow> dec_outcome d = VerificationOutcome.NOT_FOUND" by blast+
qed



end
