(* ===== verification/PyValues.thy ===== *)
theory PyValues
  imports Money
begin

text \<open>
  The values a provider's JSON answer turns into, and what the adapters of \<^verbatim>\<open>app/integrations\<close> do with
  them: \<^verbatim>\<open>dict.get\<close>, \<^verbatim>\<open>or\<close>, \<^verbatim>\<open>str\<close>, \<^verbatim>\<open>int\<close>, \<^verbatim>\<open>isinstance\<close>, indexing, iteration, with the exceptions
  that a value of an unexpected type raises. Nothing about the shape of an answer is assumed, so what is proved of
  an adapter holds for every answer a provider may give.

  A JSON number with a fraction or an exponent is a Python float; it is kept as the text that \<^verbatim>\<open>str\<close> gives
  and its exact value. The keys of a dictionary are distinct, as \<^verbatim>\<open>json.loads\<close> leaves them.
\<close>

section \<open>Errors as values\<close>

definition bindE :: "error + 'a \<Rightarrow> ('a \<Rightarrow> error + 'b) \<Rightarrow> error + 'b" where
  "bindE m f = (case m of Inl err \<Rightarrow> Inl err | Inr a \<Rightarrow> f a)"

lemma bindE_simps [simp]: "bindE (Inl err) f = Inl err" "bindE (Inr a) f = f a"
  by (simp_all add: bindE_def)

lemma bindE_eq_Inr: "bindE m f = Inr b \<longleftrightarrow> (\<exists>a. m = Inr a \<and> f a = Inr b)"
  by (cases m) simp_all

text \<open>\<^verbatim>\<open>[f(x) for x in xs]\<close>, left to right, up to the first exception.\<close>

fun mapE :: "('a \<Rightarrow> error + 'b) \<Rightarrow> 'a list \<Rightarrow> error + 'b list" where
  "mapE f [] = Inr []"
| "mapE f (x # xs) = bindE (f x) (\<lambda>y. bindE (mapE f xs) (\<lambda>ys. Inr (y # ys)))"

lemma mapE_eq_Inr: "mapE f xs = Inr ys \<longleftrightarrow> list_all2 (\<lambda>x y. f x = Inr y) xs ys"
  by (induction xs arbitrary: ys) (auto simp: bindE_eq_Inr list_all2_Cons1)

lemma mapE_in: "mapE f xs = Inr ys \<Longrightarrow> y \<in> set ys \<Longrightarrow> \<exists>x \<in> set xs. f x = Inr y"
  by (auto simp: mapE_eq_Inr list_all2_conv_all_nth in_set_conv_nth) (metis nth_mem)

text \<open>A loop that appends what an iteration yields and skips the others.\<close>

definition collectE :: "('a \<Rightarrow> error + 'b option) \<Rightarrow> 'a list \<Rightarrow> error + 'b list" where
  "collectE f xs = bindE (mapE f xs) (\<lambda>ys. Inr (List.map_filter (\<lambda>y. y) ys))"

lemma collectE_in: "collectE f xs = Inr ys \<Longrightarrow> y \<in> set ys \<Longrightarrow> \<exists>x \<in> set xs. f x = Inr (Some y)"
  by (auto simp: collectE_def bindE_eq_Inr List.map_filter_def dest!: mapE_in)

text \<open>\<^verbatim>\<open>try: ... except (...): return None\<close>\<close>

definition exceptE :: "error list \<Rightarrow> error + 'a \<Rightarrow> error + 'a option" where
  "exceptE errs m = (case m of Inr a \<Rightarrow> Inr (Some a) | Inl err \<Rightarrow> if err \<in> set errs then Inr None else Inl err)"

lemma exceptE_Some: "exceptE errs m = Inr (Some a) \<longleftrightarrow> m = Inr a"
  by (auto simp: exceptE_def split: sum.splits)

text \<open>A row that is skipped yields nothing: how a row that was reported went through its guards.\<close>

lemma row_guards:
  "(if b then Inr None else m) = Inr (Some t) \<longleftrightarrow> \<not> b \<and> m = Inr (Some t)"
  "(case x of None \<Rightarrow> Inr None | Some a \<Rightarrow> f a) = Inr (Some t) \<longleftrightarrow> (\<exists>a. x = Some a \<and> f a = Inr (Some t))"
  by (auto split: option.splits)

lemmas row_simps = bindE_eq_Inr row_guards Let_def

text \<open>What holds of every value returned.\<close>

definition returns :: "('a \<Rightarrow> bool) \<Rightarrow> error + 'a \<Rightarrow> bool" where
  "returns P m \<longleftrightarrow> (\<forall>x. m = Inr x \<longrightarrow> P x)"

lemma returns_simps:
  "returns P (Inr x) \<longleftrightarrow> P x" "returns P (Inl err) \<longleftrightarrow> True"
  "returns P (bindE m f) \<longleftrightarrow> (\<forall>a. m = Inr a \<longrightarrow> returns P (f a))"
  "returns P (if b then u else v) \<longleftrightarrow> (if b then returns P u else returns P v)"
  "returns P (case y of None \<Rightarrow> u | Some a \<Rightarrow> g a) \<longleftrightarrow> (case y of None \<Rightarrow> returns P u | Some a \<Rightarrow> returns P (g a))"
  by (auto simp: returns_def bindE_eq_Inr split: option.splits)

text \<open>A loop reports what its rows report.\<close>

lemma returns_mapE: "(\<And>x. x \<in> set xs \<Longrightarrow> returns P (f x)) \<Longrightarrow> returns (\<lambda>ys. \<forall>y \<in> set ys. P y) (mapE f xs)"
  by (auto simp: returns_def dest!: mapE_in)

lemma returns_collect:
  "(\<And>x. x \<in> set xs \<Longrightarrow> returns (pred_option P) (f x)) \<Longrightarrow>
   returns (\<lambda>ys. \<forall>t \<in> set ys. P t) (collectE f xs)"
  by (fastforce simp: returns_def dest!: collectE_in)

section \<open>Values\<close>

datatype pyfloat = Finite string rat | PosInf | NegInf | NotANumber

datatype json =
    JNull | JBool bool | JInt int | JFloat pyfloat | JStr string
  | JList "json list" | JDict "(string \<times> json) list"

fun float_text :: "pyfloat \<Rightarrow> string" where
  "float_text (Finite t _) = t"
| "float_text PosInf = ''inf''"
| "float_text NegInf = ''-inf''"
| "float_text NotANumber = ''nan''"

fun truthy :: "json \<Rightarrow> bool" where
  "truthy JNull = False"
| "truthy (JBool b) = b"
| "truthy (JInt i) = (i \<noteq> 0)"
| "truthy (JFloat x) = (case x of Finite _ q \<Rightarrow> q \<noteq> 0 | _ \<Rightarrow> True)"
| "truthy (JStr s) = (s \<noteq> [])"
| "truthy (JList xs) = (xs \<noteq> [])"
| "truthy (JDict d) = (d \<noteq> [])"

definition por :: "json \<Rightarrow> json \<Rightarrow> json" where
  "por a b = (if truthy a then a else b)"

definition is_dict :: "json \<Rightarrow> bool" where "is_dict v = (case v of JDict _ \<Rightarrow> True | _ \<Rightarrow> False)"
definition is_list :: "json \<Rightarrow> bool" where "is_list v = (case v of JList _ \<Rightarrow> True | _ \<Rightarrow> False)"

text \<open>\<^verbatim>\<open>v.get(k)\<close> and \<^verbatim>\<open>v.get(k, default)\<close>; only a dictionary has the method.\<close>

definition jgetd :: "json \<Rightarrow> string \<Rightarrow> json \<Rightarrow> error + json" where
  "jgetd v k d = (case v of JDict kvs \<Rightarrow> Inr (case map_of kvs k of None \<Rightarrow> d | Some x \<Rightarrow> x) | _ \<Rightarrow> Inl AttributeError)"

definition jget :: "json \<Rightarrow> string \<Rightarrow> error + json" where
  "jget v k = jgetd v k JNull"

text \<open>\<^verbatim>\<open>(v.get(k) or {})\<close>\<close>

definition jsub :: "json \<Rightarrow> string \<Rightarrow> error + json" where
  "jsub v k = bindE (jget v k) (\<lambda>x. Inr (por x (JDict [])))"

text \<open>\<^verbatim>\<open>v[i]\<close>, \<^verbatim>\<open>len(v)\<close> and \<^verbatim>\<open>for x in v\<close>\<close>

definition jindex :: "json \<Rightarrow> nat \<Rightarrow> error + json" where
  "jindex v i = (case v of JList xs \<Rightarrow> if i < length xs then Inr (xs ! i) else Inl IndexError
     | JStr s \<Rightarrow> if i < length s then Inr (JStr [s ! i]) else Inl IndexError
     | JDict _ \<Rightarrow> Inl KeyError | _ \<Rightarrow> Inl TypeError)"

definition jlen :: "json \<Rightarrow> error + nat" where
  "jlen v = (case v of JList xs \<Rightarrow> Inr (length xs) | JStr s \<Rightarrow> Inr (length s) | JDict d \<Rightarrow> Inr (length d)
     | _ \<Rightarrow> Inl TypeError)"

definition jiter :: "json \<Rightarrow> error + json list" where
  "jiter v = (case v of JList xs \<Rightarrow> Inr xs | JStr s \<Rightarrow> Inr (map (\<lambda>c. JStr [c]) s)
     | JDict d \<Rightarrow> Inr (map (\<lambda>x. JStr (fst x)) d) | _ \<Rightarrow> Inl TypeError)"

text \<open>The receiver of \<^verbatim>\<open>.strip\<close>, \<^verbatim>\<open>.lower\<close>, \<^verbatim>\<open>.upper\<close>, \<^verbatim>\<open>.startswith\<close>, \<^verbatim>\<open>.split\<close>: only a string has them.\<close>

definition jstring :: "json \<Rightarrow> error + string" where
  "jstring v = (case v of JStr s \<Rightarrow> Inr s | _ \<Rightarrow> Inl AttributeError)"

section \<open>Text\<close>

text \<open>\<^verbatim>\<open>repr\<close> of a string: single quotes unless it contains one and no double quote.\<close>

definition hex_digit :: "nat \<Rightarrow> char" where
  "hex_digit d = (if d < 10 then char_of (48 + d) else char_of (87 + d))"

definition repr_char :: "char \<Rightarrow> char \<Rightarrow> string" where
  "repr_char quote c = (let n = (of_char c :: nat) in
     if c = quote \<or> n = 92 then [char_of (92 :: nat), c]
     else if n = 10 then [char_of (92 :: nat), CHR ''n'']
     else if n = 13 then [char_of (92 :: nat), CHR ''r'']
     else if n = 9 then [char_of (92 :: nat), CHR ''t'']
     else if n < 32 \<or> 127 \<le> n
     then [char_of (92 :: nat), CHR ''x'', hex_digit (n div 16), hex_digit (n mod 16)]
     else [c])"

definition repr_str :: "string \<Rightarrow> string" where
  "repr_str s = (let q = (if char_of (39 :: nat) \<in> set s \<and> char_of (34 :: nat) \<notin> set s
       then char_of (34 :: nat) else char_of (39 :: nat) :: char)
     in [q] @ concat (map (repr_char q) s) @ [q])"

fun repr :: "json \<Rightarrow> string" where
  "repr JNull = ''None''"
| "repr (JBool b) = (if b then ''True'' else ''False'')"
| "repr (JInt i) = str_int i"
| "repr (JFloat x) = float_text x"
| "repr (JStr s) = repr_str s"
| "repr (JList xs) = ''['' @ join '', '' (map repr xs) @ '']''"
| "repr (JDict d) = ''{'' @ join '', '' (map (\<lambda>x. repr_str (fst x) @ '': '' @ repr (snd x)) d) @ ''}''"

definition py_str :: "json \<Rightarrow> string" where
  "py_str v = (case v of JStr s \<Rightarrow> s | _ \<Rightarrow> repr v)"

lemma py_str_simps [simp]:
  "py_str (JStr s) = s" "py_str JNull = ''None''" "py_str (JInt i) = str_int i"
  by (simp_all add: py_str_def)

text \<open>\<^verbatim>\<open>str(v or "") or None\<close>\<close>

definition text_or_none :: "json \<Rightarrow> string option" where
  "text_or_none v = (let t = py_str (por v (JStr [])) in if t = [] then None else Some t)"

section \<open>Integers from text\<close>

definition digit_val :: "char \<Rightarrow> nat option" where
  "digit_val c = (let n = (of_char c :: nat) in
     if 48 \<le> n \<and> n \<le> 57 then Some (n - 48)
     else if 97 \<le> n \<and> n \<le> 102 then Some (n - 87)
     else if 65 \<le> n \<and> n \<le> 70 then Some (n - 55) else None)"

text \<open>Digits, with single underscores between them; the flag says that the last character was a digit.\<close>

fun read_digits :: "nat \<Rightarrow> bool \<Rightarrow> string \<Rightarrow> int \<Rightarrow> int option" where
  "read_digits base prev [] acc = (if prev then Some acc else None)"
| "read_digits base prev (c # cs) acc =
     (if c = CHR ''_'' then (if prev then read_digits base False cs acc else None)
      else case digit_val c of None \<Rightarrow> None
      | Some d \<Rightarrow> if d < base then read_digits base True cs (acc * int base + int d) else None)"

definition read_sign :: "string \<Rightarrow> int \<times> string" where
  "read_sign s = (if startswith s ''-'' then (- 1, drop 1 s) else if startswith s ''+'' then (1, drop 1 s) else (1, s))"

text \<open>\<^verbatim>\<open>int(text)\<close> and \<^verbatim>\<open>int(text, 16)\<close>; the prefix of the latter is optional.\<close>

definition int_of_text :: "nat \<Rightarrow> string \<Rightarrow> error + int" where
  "int_of_text base text =
     (let (sign, s) = read_sign (py_strip text);
          s = (if base = 16 \<and> (startswith s ''0x'' \<or> startswith s ''0X'')
               then (if startswith (drop 2 s) ''_'' then drop 3 s else drop 2 s) else s)
      in case read_digits base False s 0 of None \<Rightarrow> Inl ValueError | Some n \<Rightarrow> Inr (sign * n))"

definition trunc_rat :: "rat \<Rightarrow> int" where
  "trunc_rat q = (if q < 0 then \<lceil>q\<rceil> else \<lfloor>q\<rfloor>)"

definition py_int :: "json \<Rightarrow> error + int" where
  "py_int v = (case v of
     JInt i \<Rightarrow> Inr i
   | JBool b \<Rightarrow> Inr (if b then 1 else 0)
   | JFloat x \<Rightarrow> (case x of Finite _ q \<Rightarrow> Inr (trunc_rat q) | NotANumber \<Rightarrow> Inl ValueError | _ \<Rightarrow> Inl OverflowError)
   | JStr s \<Rightarrow> int_of_text 10 s
   | _ \<Rightarrow> Inl TypeError)"

lemma py_int_simps [simp]: "py_int (JInt i) = Inr i" "py_int (JBool b) = Inr (if b then 1 else 0)"
  "py_int (JStr s) = int_of_text 10 s" "py_int JNull = Inl TypeError"
  by (simp_all add: py_int_def)

section \<open>Decimals from text\<close>

datatype dec_value = Number decimal | Infinite | QuietNaN | SignallingNaN

definition is_digit :: "char \<Rightarrow> bool" where
  "is_digit c \<longleftrightarrow> (let n = (of_char c :: nat) in 48 \<le> n \<and> n \<le> 57)"

definition digits_value :: "string \<Rightarrow> int" where
  "digits_value s = foldl (\<lambda>a c. a * 10 + (of_char c - 48)) 0 s"

text \<open>The exponent part: nothing, or \<^verbatim>\<open>E\<close>, an optional sign and digits.\<close>

definition read_exponent :: "string \<Rightarrow> int option" where
  "read_exponent s = (if s = [] then Some 0
     else if char_lower (hd s) \<noteq> CHR ''e'' then None
     else let (sign, d) = read_sign (tl s) in
       if d \<noteq> [] \<and> list_all is_digit d then Some (sign * digits_value d) else None)"

text \<open>\<^verbatim>\<open>Decimal(text)\<close>; \<open>None\<close> is a conversion syntax error.\<close>

definition read_decimal :: "string \<Rightarrow> dec_value option" where
  "read_decimal text =
     (let (sign, s) = read_sign (filter (\<lambda>c. c \<noteq> CHR ''_'') (py_strip text)); l = py_lower s in
      if l = ''inf'' \<or> l = ''infinity'' then Some Infinite
      else if startswith l ''nan'' \<and> list_all is_digit (drop 3 l) then Some QuietNaN
      else if startswith l ''snan'' \<and> list_all is_digit (drop 4 l) then Some SignallingNaN
      else
        let whole = takeWhile is_digit s; r1 = dropWhile is_digit s;
            point = startswith r1 ''.'';
            frac = (if point then takeWhile is_digit (tl r1) else []);
            r2 = (if point then dropWhile is_digit (tl r1) else r1)
        in if whole = [] \<and> frac = [] then None
           else case read_exponent r2 of None \<Rightarrow> None
           | Some k \<Rightarrow> Some (Number (Dec (sign * digits_value (whole @ frac)) (k - int (length frac)))))"

definition to_decimal_text :: "string \<Rightarrow> error + dec_value" where
  "to_decimal_text text = (case read_decimal text of None \<Rightarrow> Inl ValueError | Some v \<Rightarrow> Inr v)"

text \<open>
  \<^verbatim>\<open>base_units\<close> of any value of \<^verbatim>\<open>Decimal\<close>: an infinity survives \<^verbatim>\<open>scaleb\<close> and fails in \<^verbatim>\<open>int\<close>, a NaN is
  unequal to itself, and a signalling one traps.
\<close>

definition units_of :: "dec_value \<Rightarrow> int \<Rightarrow> error + int" where
  "units_of v decimals = (case v of Number d \<Rightarrow> base_units d decimals | Infinite \<Rightarrow> Inl OverflowError
     | QuietNaN \<Rightarrow> Inl ValueError | SignallingNaN \<Rightarrow> Inl InvalidOperation)"

text \<open>Equality with an integer, and membership in a set of integers: a list or a dictionary has no hash.\<close>

definition equals_int :: "json \<Rightarrow> int \<Rightarrow> bool" where
  "equals_int v i = (case v of JInt j \<Rightarrow> j = i | JBool b \<Rightarrow> (if b then 1 else 0) = i
     | JFloat (Finite _ q) \<Rightarrow> q = of_int i | _ \<Rightarrow> False)"

definition hashable :: "json \<Rightarrow> bool" where
  "hashable v = (case v of JList _ \<Rightarrow> False | JDict _ \<Rightarrow> False | _ \<Rightarrow> True)"

section \<open>Timestamps\<close>

text \<open>
  \<^verbatim>\<open>from_timestamp\<close>: the number is divided by the unit and rounded to the microsecond. Rounding is
  exact here, where Python goes through a double; instants outside the years 1 to 9999 raise.
\<close>

definition instant :: "rat \<Rightarrow> error + time" where
  "instant q = (let m = \<lfloor>q * 1000000\<rfloor>; f = q * 1000000 - of_int m;
       us = (if f < 1 / 2 \<or> f = 1 / 2 \<and> even m then m else m + 1)
     in if - 62135596800000000 \<le> us \<and> us < 253402300800000000 then Inr us else Inl ValueError)"

definition float_of :: "json \<Rightarrow> error + rat" where
  "float_of v = (case v of
     JInt i \<Rightarrow> Inr (of_int i) | JBool b \<Rightarrow> Inr (if b then 1 else 0)
   | JFloat x \<Rightarrow> (case x of Finite _ q \<Rightarrow> Inr q | NotANumber \<Rightarrow> Inl ValueError | _ \<Rightarrow> Inl OverflowError)
   | JStr s \<Rightarrow> (case read_decimal s of Some (Number d) \<Rightarrow> Inr (dval d) | Some Infinite \<Rightarrow> Inl OverflowError
       | _ \<Rightarrow> Inl ValueError)
   | _ \<Rightarrow> Inl TypeError)"

definition from_timestamp :: "int \<Rightarrow> json \<Rightarrow> error + time" where
  "from_timestamp per_second v = bindE (float_of v) (\<lambda>q. instant (q / of_int per_second))"

text \<open>\<^verbatim>\<open>from_timestamp(v) if v else None\<close>\<close>

definition time_or_none :: "int \<Rightarrow> json \<Rightarrow> error + time option" where
  "time_or_none per_second v =
     (if truthy v then bindE (from_timestamp per_second v) (\<lambda>t. Inr (Some t)) else Inr None)"

section \<open>Facts\<close>

lemma jgetd_dict [simp]: "jgetd (JDict kvs) k d = Inr (case map_of kvs k of None \<Rightarrow> d | Some x \<Rightarrow> x)"
  by (simp add: jgetd_def)

lemma jget_dict [simp]: "jget (JDict kvs) k = Inr (case map_of kvs k of None \<Rightarrow> JNull | Some x \<Rightarrow> x)"
  by (simp add: jget_def)

lemma por_simps [simp]: "truthy a \<Longrightarrow> por a b = a" "\<not> truthy a \<Longrightarrow> por a b = b"
  by (simp_all add: por_def)

lemma truthy_por: "truthy (por a b) \<longleftrightarrow> truthy a \<or> truthy b"
  by (simp add: por_def)

text \<open>A decimal integer that Python printed is read back.\<close>

lemma digit_val_digit_char: "d < 10 \<Longrightarrow> digit_val (digit_char d) = Some d"
  by (simp add: digit_val_def digit_char_def)

lemma digit_char_not_underscore: "d < 10 \<Longrightarrow> digit_char d \<noteq> CHR ''_''"
  using digit_val_digit_char [of d] by (auto simp: digit_val_def)

lemma read_digits_snoc:
  "d < 10 \<Longrightarrow> read_digits 10 p xs a = Some n \<Longrightarrow> read_digits 10 p (xs @ [digit_char d]) a = Some (n * 10 + int d)"
proof (induction xs arbitrary: p a)
  case (Cons c cs)
  then show ?case by (auto split: if_splits option.splits)
next
  case Nil
  then show ?case
    by (auto simp: digit_val_digit_char digit_char_not_underscore split: if_splits)
qed

lemma read_digits_str_nat: "read_digits 10 False (str_nat n) 0 = Some (int n)"
proof (induction n rule: str_nat.induct)
  case (1 n)
  show ?case
  proof (cases "n < 10")
    case True
    then show ?thesis by (simp add: str_nat.simps [of n] digit_val_digit_char digit_char_not_underscore)
  next
    case False
    then have "read_digits 10 False (str_nat n) 0 = Some (int (n div 10) * 10 + int (n mod 10))"
      using 1 by (subst str_nat.simps) (simp add: read_digits_snoc)
    moreover have "int (n div 10) * 10 + int (n mod 10) = int n"
      by (metis div_mult_mod_eq of_nat_add of_nat_mult of_nat_numeral)
    ultimately show ?thesis by simp
  qed
qed

end
