(* ===== verification/Transport.thy ===== *)
theory Transport
  imports PyValues
begin

text \<open>
  \<^verbatim>\<open>ProviderHTTPClient\<close> of \<^verbatim>\<open>app/integrations/base.py\<close>: one request to a provider with its retries and
  the translation of everything that can go wrong into a \<open>ProviderError\<close>. The network is a parameter: the
  reply to the n-th attempt. \<open>ProviderError b\<close> stands for the class and its subclasses; \<open>b\<close> is \<^verbatim>\<open>retryable\<close>.
\<close>

section \<open>Replies\<close>

text \<open>
  A transport failure that is retried (\<^verbatim>\<open>ConnectError\<close>, \<^verbatim>\<open>ConnectTimeout\<close>, \<^verbatim>\<open>ReadTimeout\<close>), one that is
  not, and a response: its status, its \<^verbatim>\<open>Retry-After\<close> header and its body (\<open>None\<close>: not JSON).
\<close>

datatype reply = Unreachable | Broken | Response int "string option" "json option"

definition RETRYABLE_STATUS :: "int list" where
  "RETRYABLE_STATUS = [408, 425, 429, 500, 502, 503, 504]"

definition raise_for_status :: "int \<Rightarrow> error + unit" where
  "raise_for_status code =
     (if code < 400 then Inr ()
      else if code = 401 \<or> code = 403 then Inl (ProviderError False)
      else if code = 429 then Inl (ProviderError True)
      else if 500 \<le> code then Inl (ProviderError True)
      else Inl (ProviderError False))"

text \<open>
  How long \<^verbatim>\<open>_backoff\<close> sleeps: what the header asks for, at most 30 seconds, or twice the last time, with jitter.
  A header that reads as NaN is treated like one that is no number (from Python 3.13 on \<^verbatim>\<open>asyncio.sleep\<close> raises the
  \<^verbatim>\<open>ValueError\<close> that leads there; before, a sleep of NaN seconds has no documented meaning).
\<close>

datatype wait = Asked rat | Jittered rat

definition backoff :: "nat \<Rightarrow> string option \<Rightarrow> wait" where
  "backoff attempt header =
     (let own = Jittered (min (2 ^ attempt / 2) 8) in
      if header = None \<or> header = Some [] then own
      else case read_decimal (the header) of
             Some (Number d) \<Rightarrow> Asked (min (dval d) 30)
           | Some Infinite \<Rightarrow> Asked 30
           | _ \<Rightarrow> own)"

section \<open>The request\<close>

text \<open>
  \<open>more\<close> is \<^verbatim>\<open>max_retries - attempt\<close>: the attempts left after this one. The result carries the sleeps between the
  attempts, in order.
\<close>

fun request_from :: "(nat \<Rightarrow> reply) \<Rightarrow> nat \<Rightarrow> nat \<Rightarrow> (error + json) \<times> wait list" where
  "request_from send attempt more =
     (case send attempt of
        Unreachable \<Rightarrow>
          (if 0 < more then
             let (res, ws) = request_from send (Suc attempt) (more - 1) in (res, backoff attempt None # ws)
           else (Inl (ProviderError True), []))
      | Broken \<Rightarrow> (Inl (ProviderError True), [])
      | Response code header content \<Rightarrow>
          (if code \<in> set RETRYABLE_STATUS \<and> 0 < more then
             let (res, ws) = request_from send (Suc attempt) (more - 1) in (res, backoff attempt header # ws)
           else
             (case raise_for_status code of Inl err \<Rightarrow> Inl err
              | Inr _ \<Rightarrow> (case content of None \<Rightarrow> Inl (ProviderError True) | Some v \<Rightarrow> Inr v), [])))"

declare request_from.simps [simp del]

definition request :: "nat \<Rightarrow> (nat \<Rightarrow> reply) \<Rightarrow> (error + json) \<times> wait list" where
  "request max_retries send = request_from send 0 max_retries"

section \<open>What a request does\<close>

definition transient :: "reply \<Rightarrow> bool" where
  "transient r \<longleftrightarrow> (case r of Unreachable \<Rightarrow> True | Broken \<Rightarrow> False | Response code _ _ \<Rightarrow> code \<in> set RETRYABLE_STATUS)"

definition verdict :: "reply \<Rightarrow> error + json" where
  "verdict r = (case r of Response code _ content \<Rightarrow>
       if code < 400 then (case content of None \<Rightarrow> Inl (ProviderError True) | Some v \<Rightarrow> Inr v)
       else Inl (ProviderError (code = 429 \<or> 500 \<le> code))
     | _ \<Rightarrow> Inl (ProviderError True))"

fun wait_seconds :: "wait \<Rightarrow> rat" where
  "wait_seconds (Asked q) = q"
| "wait_seconds (Jittered q) = q + q / 2"

lemma backoff_bound: "wait_seconds (backoff attempt header) \<le> 30"
proof -
  have "min ((2::rat) ^ attempt / 2) 8 \<le> 8" by simp
  then have "wait_seconds (Jittered (min (2 ^ attempt / 2) 8)) \<le> 30" by simp
  then show ?thesis by (simp add: backoff_def Let_def split: option.split dec_value.split)
qed

text \<open>One attempt: stop with its verdict, or wait and go on.\<close>

lemma request_from_step:
  "request_from send attempt more =
     (if transient (send attempt) \<and> more \<noteq> 0
      then let (res, ws) = request_from send (Suc attempt) (more - 1) in
        (res, backoff attempt (case send attempt of Response _ h _ \<Rightarrow> h | _ \<Rightarrow> None) # ws)
      else (verdict (send attempt), []))"
  by (subst request_from.simps)
    (auto simp: transient_def verdict_def raise_for_status_def split: reply.split option.split)

lemma request_from_result:
  "request_from send attempt more = (res, ws) \<Longrightarrow>
     length ws \<le> more \<and> res = verdict (send (attempt + length ws))
   \<and> (\<forall>k < length ws. transient (send (attempt + k)))
   \<and> (length ws < more \<longrightarrow> \<not> transient (send (attempt + length ws)))
   \<and> (\<forall>w \<in> set ws. wait_seconds w \<le> 30)"
proof (induction more arbitrary: attempt res ws)
  case 0
  then show ?case by (subst (asm) request_from_step) auto
next
  case (Suc m)
  show ?case
  proof (cases "transient (send attempt)")
    case True
    with Suc.prems obtain us where us: "request_from send (Suc attempt) m = (res, us)"
      "ws = backoff attempt (case send attempt of Response _ h _ \<Rightarrow> h | _ \<Rightarrow> None) # us"
      by (subst (asm) request_from_step) (auto split: prod.splits)
    from Suc.IH [OF us(1)] True show ?thesis
      by (auto simp: us(2) backoff_bound less_Suc_eq_0_disj)
  next
    case False
    with Suc.prems show ?thesis by (subst (asm) request_from_step) auto
  qed
qed

text \<open>
  C32: a request ends after at most \<^verbatim>\<open>max_retries\<close> repetitions, each after a sleep of at most 30 seconds; it repeats
  exactly the transient failures, and its result is the verdict on the last reply: a body comes only from a status below
  400, and every failure is a \<open>ProviderError\<close>.
\<close>

theorem request_bounded:
  "\<forall>res ws. request max_retries send = (res, ws) \<longrightarrow>
     length ws \<le> max_retries \<and> res = verdict (send (length ws))
   \<and> (\<forall>k < length ws. transient (send k))
   \<and> (length ws < max_retries \<longrightarrow> \<not> transient (send (length ws)))
   \<and> (\<forall>w \<in> set ws. wait_seconds w \<le> 30)"
  using request_from_result [of send 0 max_retries] by (simp add: request_def)

theorem request_bounded_witness:
  "fst (request 3 (\<lambda>k. if k < 2 then Unreachable else Response 200 None (Some (JInt 7)))) = Inr (JInt 7)"
proof -
  let ?send = "\<lambda>k::nat. if k < 2 then Unreachable else Response 200 None (Some (JInt 7))"
  have "request 3 ?send = (Inr (JInt 7), [backoff 0 None, backoff 1 None])"
    by (simp add: request_def request_from.simps RETRYABLE_STATUS_def raise_for_status_def)
  with request_bounded [of 3 ?send] show ?thesis by simp
qed

end
