(* ===== verification/Chains.thy ===== *)
theory Chains
  imports Verification Transport
begin

text \<open>
  The adapters of \<^verbatim>\<open>app/integrations/blockchain\<close>: what they make of the answers of a node or an indexer. The
  node is a parameter, a function from a request to the JSON it returned or the error the transport raised;
  base58 and the digest of \<^verbatim>\<open>hashlib\<close> are the record \<open>codec\<close>. Concurrent requests (\<^verbatim>\<open>asyncio.gather\<close>) fail with
  the error of the first that failed, taken in the order of the call. The raw record that is kept beside a transfer is
  left out.
\<close>

record codec =
  b58_encode :: "nat list \<Rightarrow> string"
  b58_decode :: "string \<Rightarrow> nat list option"
  b58_decode_check :: "string \<Rightarrow> nat list option"
  digest :: "nat list \<Rightarrow> nat list"

text \<open>\<^verbatim>\<open>normalize_address\<close> applied to a value of the answer.\<close>

definition normalize_value :: "json \<Rightarrow> NetworkCode \<Rightarrow> error + string" where
  "normalize_value v network =
     (if truthy v then bindE (jstring v) (\<lambda>s. Inr (normalize_address (Some s) (Some network))) else Inr [])"

abbreviation not_found :: "error + 'a" where
  "not_found \<equiv> Inl (ProviderError True)"

definition depth :: "int \<Rightarrow> int \<Rightarrow> int" where
  "depth head_number block_number = (if block_number \<noteq> 0 then max (head_number - block_number + 1) 0 else 0)"

section \<open>EVM networks\<close>

definition TRANSFER_TOPIC :: string where
  "TRANSFER_TOPIC = ''0xddf252ad1be2c89b69c2b068fc378daa952ba7f163c4a11628f55a4df523b3ef''"

definition last_chars :: "nat \<Rightarrow> string \<Rightarrow> string" where
  "last_chars n s = drop (length s - n) s"

definition topic_to_address :: "json \<Rightarrow> error + string" where
  "topic_to_address topic = bindE (jstring topic) (\<lambda>t.
     let cleaned = (if startswith t ''0x'' then drop 2 t else t) in
     Inr (''0x'' @ py_lower (last_chars 40 cleaned)))"

definition hex_to_int :: "json \<Rightarrow> error + int" where
  "hex_to_int v = (case v of
     JNull \<Rightarrow> Inr 0 | JInt i \<Rightarrow> Inr i | JBool b \<Rightarrow> Inr (if b then 1 else 0)
   | _ \<Rightarrow> let text = py_str v in
       if startswith text ''0x'' \<or> startswith text ''0X'' then int_of_text 16 text else int_of_text 10 text)"

type_synonym rpc = "string \<Rightarrow> json list \<Rightarrow> error + json"

definition evm_rpc :: "rpc \<Rightarrow> string \<Rightarrow> json list \<Rightarrow> error + json" where
  "evm_rpc post meth params =
     bindE (post meth params) (\<lambda>payload.
     if \<not> is_dict payload then Inl (ProviderError True)
     else bindE (jget payload ''error'') (\<lambda>err.
       if truthy err then Inl (ProviderError True) else jget payload ''result''))"

definition evm_block_time :: "rpc \<Rightarrow> json \<Rightarrow> error + time option" where
  "evm_block_time post block_number =
     (if \<not> truthy block_number then Inr None
      else case evm_rpc post ''eth_getBlockByNumber'' [block_number, JBool False] of
        Inl err \<Rightarrow> (case err of ProviderError _ \<Rightarrow> Inr None | _ \<Rightarrow> Inl err)
      | Inr block \<Rightarrow>
          if \<not> truthy block then Inr None
          else bindE (jget block ''timestamp'') (\<lambda>ts.
            if \<not> truthy ts then Inr None
            else bindE (hex_to_int ts) (\<lambda>n. bindE (from_timestamp 1 (JInt n)) (\<lambda>t. Inr (Some t)))))"

definition is_transfer_log :: "string \<Rightarrow> json \<Rightarrow> error + bool" where
  "is_transfer_log signature topics =
     bindE (jlen topics) (\<lambda>n. if n < 3 then Inr False
       else bindE (jindex topics 0) (\<lambda>t0. bindE (jstring t0) (\<lambda>s. Inr (py_lower s = signature))))"

definition evm_token_transfer ::
    "time \<Rightarrow> NetworkCode \<Rightarrow> PaymentExpectation \<Rightarrow> json \<Rightarrow> int \<Rightarrow> bool \<Rightarrow> time option \<Rightarrow> string \<Rightarrow> json
       \<Rightarrow> error + ObservedTransaction option" where
  "evm_token_transfer now network e receipt confirmations succeeded block_time tx_hash log_entry =
     bindE (jget log_entry ''topics'') (\<lambda>raw_topics. let topics = por raw_topics (JList []) in
     bindE (is_transfer_log TRANSFER_TOPIC topics) (\<lambda>transfer.
     if \<not> transfer then Inr None else
     bindE (bindE (jget log_entry ''address'') (\<lambda>a. normalize_value a network)) (\<lambda>contract.
     bindE (bindE (jindex topics 2) topic_to_address) (\<lambda>to_address.
     bindE (bindE (jget log_entry ''data'') (\<lambda>d. hex_to_int (por d (JStr ''0x0'')))) (\<lambda>amount_units.
     bindE (bindE (jget log_entry ''logIndex'') hex_to_int) (\<lambda>log_index.
     bindE (bindE (jindex topics 1) topic_to_address) (\<lambda>from_address.
     bindE (bindE (jget receipt ''blockNumber'') hex_to_int) (\<lambda>block_number.
     Inr (Some \<lparr>tx_provider = ProviderCode.EVM, tx_network = network, tx_external_id = tx_hash,
       tx_asset = exp_asset e, tx_amount_units = amount_units, tx_decimals = exp_asset_decimals e,
       tx_to_address = to_address,
       tx_to_address_normalized = normalize_address (Some to_address) (Some network),
       tx_is_successful = succeeded, tx_observed_at = now, tx_log_index = log_index,
       tx_from_address = Some from_address, tx_token_contract = Some contract, tx_memo = None,
       tx_reference = None, tx_confirmations = confirmations, tx_block_number = Some block_number,
       tx_block_time = block_time, tx_txid = Some tx_hash,
       tx_status_label = (if succeeded then ''success'' else ''reverted''),
       tx_record_type = ''erc20_transfer''\<rparr>)))))))))"

definition evm_native_transfer ::
    "time \<Rightarrow> NetworkCode \<Rightarrow> PaymentExpectation \<Rightarrow> json \<Rightarrow> int \<Rightarrow> bool \<Rightarrow> time option \<Rightarrow> string
       \<Rightarrow> error + ObservedTransaction list" where
  "evm_native_transfer now network e transaction confirmations succeeded block_time tx_hash =
     bindE (bindE (jget transaction ''to'') (\<lambda>a. normalize_value a network)) (\<lambda>to_address.
     bindE (bindE (jget transaction ''value'') hex_to_int) (\<lambda>amount_units.
     bindE (bindE (jget transaction ''from'') (\<lambda>a. normalize_value a network)) (\<lambda>from_address.
     bindE (bindE (jget transaction ''blockNumber'') hex_to_int) (\<lambda>block_number.
     Inr [\<lparr>tx_provider = ProviderCode.EVM, tx_network = network, tx_external_id = tx_hash,
       tx_asset = exp_asset e, tx_amount_units = amount_units, tx_decimals = exp_asset_decimals e,
       tx_to_address = to_address, tx_to_address_normalized = to_address,
       tx_is_successful = succeeded, tx_observed_at = now, tx_log_index = 0,
       tx_from_address = Some from_address, tx_token_contract = None, tx_memo = None,
       tx_reference = None, tx_confirmations = confirmations, tx_block_number = Some block_number,
       tx_block_time = block_time, tx_txid = Some tx_hash,
       tx_status_label = (if succeeded then ''success'' else ''reverted''),
       tx_record_type = ''native_transfer''\<rparr>]))))"

definition evm_find ::
    "time \<Rightarrow> rpc \<Rightarrow> NetworkCode \<Rightarrow> PaymentExpectation \<Rightarrow> string option \<Rightarrow> error + ObservedTransaction list" where
  "evm_find now post network e reference =
     (let txid = normalize_txid reference in
      if txid = [] then Inr []
      else let tx_hash = (if startswith txid ''0x'' then txid else ''0x'' @ txid) in
        bindE (evm_rpc post ''eth_getTransactionReceipt'' [JStr tx_hash]) (\<lambda>receipt.
        bindE (evm_rpc post ''eth_getTransactionByHash'' [JStr tx_hash]) (\<lambda>transaction.
        bindE (evm_rpc post ''eth_blockNumber'' []) (\<lambda>head_block.
        if \<not> truthy receipt \<or> \<not> truthy transaction then not_found
        else
          bindE (bindE (jget receipt ''blockNumber'') hex_to_int) (\<lambda>block_number.
          bindE (hex_to_int head_block) (\<lambda>head_number.
          bindE (bindE (jget receipt ''status'') hex_to_int) (\<lambda>status_code.
          bindE (bindE (jget receipt ''blockNumber'') (evm_block_time post)) (\<lambda>block_time.
          let confirmations = depth head_number block_number; succeeded = (status_code = 1) in
          if truthy_str (exp_token_contract e) then
            bindE (bindE (jget receipt ''logs'') (\<lambda>ls. jiter (por ls (JList [])))) (\<lambda>entries.
            collectE (evm_token_transfer now network e receipt confirmations succeeded block_time tx_hash) entries)
          else evm_native_transfer now network e transaction confirmations succeeded block_time tx_hash))))))))"

section \<open>TRON\<close>

definition TRON_TRANSFER_TOPIC :: string where
  "TRON_TRANSFER_TOPIC = ''ddf252ad1be2c89b69c2b068fc378daa952ba7f163c4a11628f55a4df523b3ef''"

text \<open>\<^verbatim>\<open>bytes.fromhex\<close>: two digits a byte, white space between bytes.\<close>

fun from_hex :: "string \<Rightarrow> nat list option" where
  "from_hex [] = Some []"
| "from_hex [c] = (if of_char c \<in> {9, 10, 11, 12, 13, 32 :: nat} then Some [] else None)"
| "from_hex (c # d # cs) =
     (if of_char c \<in> {9, 10, 11, 12, 13, 32 :: nat} then from_hex (d # cs)
      else case (digit_val c, digit_val d) of
        (Some h, Some l) \<Rightarrow> map_option (\<lambda>bs. (h * 16 + l) # bs) (from_hex cs)
      | _ \<Rightarrow> None)"

definition hex_to_base58_address :: "codec \<Rightarrow> json \<Rightarrow> error + string" where
  "hex_to_base58_address c v = bindE (jstring v) (\<lambda>hex_address.
     let lowered = py_lower hex_address;
         short = (if startswith lowered ''0x'' then drop 2 lowered else lowered);
         cleaned = (if length short = 40 then ''41'' @ short else short) in
     if length cleaned \<noteq> 42 \<or> \<not> startswith cleaned ''41'' then Inr hex_address
     else case from_hex cleaned of None \<Rightarrow> Inl ValueError
     | Some payload \<Rightarrow> Inr (b58_encode c (payload @ take 4 (digest c (digest c payload)))))"

definition hex_byte :: "nat \<Rightarrow> string" where
  "hex_byte b = [hex_digit (b div 16), hex_digit (b mod 16)]"

definition base58_to_hex_address :: "codec \<Rightarrow> string \<Rightarrow> string" where
  "base58_to_hex_address c address =
     (case b58_decode c address of None \<Rightarrow> py_lower address
      | Some decoded \<Rightarrow> if length decoded \<noteq> 25 then py_lower address else concat (map hex_byte (take 21 decoded)))"

text \<open>\<^verbatim>\<open>topic[-40:]\<close>; the slice of a list has no \<^verbatim>\<open>lower\<close>, a dictionary has no such key.\<close>

definition topic_tail :: "json \<Rightarrow> error + json" where
  "topic_tail v = (case v of JStr s \<Rightarrow> Inr (JStr (last_chars 40 s)) | JList xs \<Rightarrow> Inr (JList (drop (length xs - 40) xs))
     | JDict _ \<Rightarrow> Inl KeyError | _ \<Rightarrow> Inl TypeError)"

definition tron_post :: "rpc \<Rightarrow> string \<Rightarrow> json list \<Rightarrow> error + json" where
  "tron_post post path params =
     bindE (post path params) (\<lambda>r. if is_dict r then Inr r else Inl (ProviderError True))"

definition tron_transfer ::
    "time \<Rightarrow> codec \<Rightarrow> PaymentExpectation \<Rightarrow> int \<Rightarrow> bool \<Rightarrow> time option \<Rightarrow> string \<Rightarrow> int \<Rightarrow> nat \<times> json
       \<Rightarrow> error + ObservedTransaction option" where
  "tron_transfer now c e confirmations succeeded block_time txid block_number item =
     (let (index, entry) = item in
     bindE (jget entry ''topics'') (\<lambda>raw_topics. let topics = por raw_topics (JList []) in
     bindE (is_transfer_log TRON_TRANSFER_TOPIC topics) (\<lambda>transfer.
     if \<not> transfer then Inr None else
     bindE (bindE (jgetd entry ''address'' (JStr [])) (hex_to_base58_address c)) (\<lambda>contract.
     bindE (bindE (bindE (jindex topics 2) topic_tail) (hex_to_base58_address c)) (\<lambda>to_address.
     bindE (bindE (bindE (jindex topics 1) topic_tail) (hex_to_base58_address c)) (\<lambda>from_address.
     bindE (jget entry ''data'') (\<lambda>data.
     bindE (exceptE [ValueError] (case por data (JStr ''0'') of JStr s \<Rightarrow> int_of_text 16 s | _ \<Rightarrow> Inl TypeError)) (\<lambda>units.
     Inr (map_option (\<lambda>amount_units.
       \<lparr>tx_provider = ProviderCode.TRON, tx_network = NetworkCode.TRC20, tx_external_id = txid,
        tx_asset = exp_asset e, tx_amount_units = amount_units, tx_decimals = exp_asset_decimals e,
        tx_to_address = to_address,
        tx_to_address_normalized = normalize_address (Some to_address) (Some NetworkCode.TRC20),
        tx_is_successful = succeeded, tx_observed_at = now, tx_log_index = int index,
        tx_from_address = Some from_address, tx_token_contract = Some contract, tx_memo = None,
        tx_reference = None, tx_confirmations = confirmations, tx_block_number = Some block_number,
        tx_block_time = block_time, tx_txid = Some txid,
        tx_status_label = (if succeeded then ''success'' else ''failed''),
        tx_record_type = ''trc20_transfer''\<rparr>) units)))))))))"

definition tron_native_transfer ::
    "time \<Rightarrow> codec \<Rightarrow> PaymentExpectation \<Rightarrow> json \<Rightarrow> int \<Rightarrow> bool \<Rightarrow> time option \<Rightarrow> string \<Rightarrow> int
       \<Rightarrow> error + ObservedTransaction list" where
  "tron_native_transfer now c e transaction confirmations succeeded block_time txid block_number =
     bindE (bindE (jsub transaction ''raw_data'') (\<lambda>d. jget d ''contract'')) (\<lambda>raw_contracts.
     let contracts = por raw_contracts (JList []) in
     if \<not> truthy contracts then Inr [] else
     bindE (jindex contracts 0) (\<lambda>first_contract.
     bindE (bindE (jsub first_contract ''parameter'') (\<lambda>p. jsub p ''value'')) (\<lambda>contract_value.
     bindE (jget first_contract ''type'') (\<lambda>kind.
     if kind \<noteq> JStr ''TransferContract'' then Inr [] else
     bindE (bindE (jgetd contract_value ''to_address'' (JStr [])) (hex_to_base58_address c)) (\<lambda>to_address.
     bindE (bindE (jget contract_value ''amount'') (\<lambda>a. py_int (por a (JInt 0)))) (\<lambda>amount_units.
     bindE (bindE (jgetd contract_value ''owner_address'' (JStr [])) (hex_to_base58_address c)) (\<lambda>from_address.
     Inr [\<lparr>tx_provider = ProviderCode.TRON, tx_network = NetworkCode.TRC20, tx_external_id = txid,
        tx_asset = exp_asset e, tx_amount_units = amount_units, tx_decimals = exp_asset_decimals e,
        tx_to_address = to_address,
        tx_to_address_normalized = normalize_address (Some to_address) (Some NetworkCode.TRC20),
        tx_is_successful = succeeded, tx_observed_at = now, tx_log_index = 0,
        tx_from_address = Some from_address, tx_token_contract = None, tx_memo = None,
        tx_reference = None, tx_confirmations = confirmations, tx_block_number = Some block_number,
        tx_block_time = block_time, tx_txid = Some txid,
        tx_status_label = (if succeeded then ''success'' else ''failed''),
        tx_record_type = ''trx_transfer''\<rparr>])))))))"

definition tron_succeeded :: "json \<Rightarrow> json \<Rightarrow> error + bool" where
  "tron_succeeded transaction info =
     bindE (bindE (jget transaction ''ret'') (\<lambda>r. jindex (por r (JList [JDict []])) 0)) (\<lambda>ret.
     bindE (jgetd ret ''contractRet'' (JStr [])) (\<lambda>code.
     bindE (bindE (jsub info ''receipt'') (\<lambda>r. jgetd r ''result'' (JStr []))) (\<lambda>result.
     let receipt_result = py_upper (py_str result) in
     Inr (py_upper (py_str code) = ''SUCCESS'' \<and> (receipt_result = [] \<or> receipt_result = ''SUCCESS'')))))"

definition tron_find ::
    "time \<Rightarrow> codec \<Rightarrow> rpc \<Rightarrow> PaymentExpectation \<Rightarrow> string option \<Rightarrow> error + ObservedTransaction list" where
  "tron_find now c post e reference =
     (let txid = normalize_txid reference in
      if txid = [] then Inr []
      else
        bindE (tron_post post ''/wallet/gettransactionbyid'' [JStr txid]) (\<lambda>transaction.
        bindE (tron_post post ''/wallet/gettransactioninfobyid'' [JStr txid]) (\<lambda>info.
        bindE (tron_post post ''/wallet/getnowblock'' []) (\<lambda>head_block.
        bindE (jget transaction ''txID'') (\<lambda>known.
        if \<not> truthy known then not_found
        else
          bindE (tron_succeeded transaction info) (\<lambda>succeeded.
          bindE (bindE (jget info ''blockNumber'') (\<lambda>b. py_int (por b (JInt 0)))) (\<lambda>block_number.
          bindE (bindE (jsub head_block ''block_header'') (\<lambda>h. bindE (jsub h ''raw_data'') (\<lambda>d.
            bindE (jget d ''number'') (\<lambda>n. py_int (por n (JInt 0)))))) (\<lambda>head_number.
          bindE (bindE (jget info ''blockTimeStamp'') (time_or_none 1000)) (\<lambda>block_time.
          let confirmations = depth head_number block_number in
          bindE (bindE (jget info ''log'') (\<lambda>ls. jiter (por ls (JList [])))) (\<lambda>entries.
          bindE (collectE (tron_transfer now c e confirmations succeeded block_time txid block_number)
             (enumerate 0 entries)) (\<lambda>transfers.
          if transfers \<noteq> [] \<or> truthy_str (exp_token_contract e) then Inr transfers
          else tron_native_transfer now c e transaction confirmations succeeded block_time txid block_number)))))))))))"

end
