(* ===== verification/Indexed.thy ===== *)
theory Indexed
  imports Chains
begin

text \<open>
  The remaining adapters of \<^verbatim>\<open>app/integrations/blockchain\<close>: Bitcoin and Litecoin through an Esplora index, Solana
  through JSON-RPC and TON through the Toncenter index. A request is a path with its parameters.
\<close>

type_synonym web = "string \<Rightarrow> (string \<times> json) list \<Rightarrow> error + json"

section \<open>Bitcoin and Litecoin\<close>

definition SATOSHI_DECIMALS :: int where "SATOSHI_DECIMALS = 8"

text \<open>A sender that is not text is dropped.\<close>

definition text_value :: "json \<Rightarrow> string option" where
  "text_value v = (case v of JStr s \<Rightarrow> Some s | _ \<Rightarrow> None)"

definition utxo_output ::
    "time \<Rightarrow> NetworkCode \<Rightarrow> PaymentExpectation \<Rightarrow> json \<Rightarrow> bool \<Rightarrow> int \<Rightarrow> time option \<Rightarrow> string \<Rightarrow> string option
       \<Rightarrow> nat \<times> json \<Rightarrow> error + ObservedTransaction option" where
  "utxo_output now network e block_height confirmed confirmations block_time txid sender item =
     (let (index, vout) = item in
     bindE (jget vout ''scriptpubkey_address'') (\<lambda>raw. let address = py_str (por raw (JStr [])) in
     if address = [] then Inr None
     else if normalize_address (Some address) (Some network) \<noteq> exp_destination_normalized e then Inr None
     else
       bindE (bindE (jget vout ''value'') (\<lambda>v. py_int (por v (JInt 0)))) (\<lambda>amount_units.
       bindE (if truthy block_height then bindE (py_int block_height) (\<lambda>h. Inr (Some h)) else Inr None) (\<lambda>block_number.
       Inr (Some \<lparr>tx_provider = ProviderCode.UTXO, tx_network = network, tx_external_id = txid,
         tx_asset = exp_asset e, tx_amount_units = amount_units, tx_decimals = SATOSHI_DECIMALS,
         tx_to_address = address,
         tx_to_address_normalized = normalize_address (Some address) (Some network),
         tx_is_successful = True, tx_observed_at = now, tx_log_index = int index,
         tx_from_address = sender, tx_token_contract = None, tx_memo = None, tx_reference = None,
         tx_confirmations = confirmations, tx_block_number = block_number, tx_block_time = block_time,
         tx_txid = Some txid, tx_status_label = (if confirmed then ''confirmed'' else ''mempool''),
         tx_record_type = ''utxo_output''\<rparr>)))))"

definition utxo_sender :: "json \<Rightarrow> error + string option" where
  "utxo_sender transaction =
     bindE (jget transaction ''vin'') (\<lambda>raw. let vins = por raw (JList []) in
     if \<not> truthy vins then Inr None
     else bindE (jindex vins 0) (\<lambda>first_input.
       bindE (jsub (por first_input (JDict [])) ''prevout'') (\<lambda>prevout.
       bindE (jget prevout ''scriptpubkey_address'') (\<lambda>a. Inr (text_value a)))))"

definition outputs_to_us ::
    "time \<Rightarrow> NetworkCode \<Rightarrow> json \<Rightarrow> PaymentExpectation \<Rightarrow> int \<Rightarrow> error + ObservedTransaction list" where
  "outputs_to_us now network transaction e tip =
     bindE (jsub transaction ''status'') (\<lambda>status.
     bindE (jget status ''confirmed'') (\<lambda>flag. let confirmed = truthy flag in
     bindE (jget status ''block_height'') (\<lambda>block_height.
     bindE (if confirmed \<and> truthy block_height
            then bindE (py_int block_height) (\<lambda>h. Inr (max (tip - h + 1) 0)) else Inr 0) (\<lambda>confirmations.
     bindE (bindE (jget status ''block_time'') (time_or_none 1)) (\<lambda>block_time.
     bindE (jget transaction ''txid'') (\<lambda>raw_txid. let txid = py_str (por raw_txid (JStr [])) in
     bindE (utxo_sender transaction) (\<lambda>sender.
     bindE (bindE (jget transaction ''vout'') (\<lambda>v. jiter (por v (JList [])))) (\<lambda>vouts.
     collectE (utxo_output now network e block_height confirmed confirmations block_time txid sender)
       (enumerate 0 vouts)))))))))"

text \<open>\<^verbatim>\<open>_tip_height\<close>: the body is plain text.\<close>

definition tip_height :: "error + string \<Rightarrow> error + int" where
  "tip_height raw = bindE raw (\<lambda>text. case int_of_text 10 text of Inl _ \<Rightarrow> Inl (ProviderError True) | Inr n \<Rightarrow> Inr n)"

definition utxo_find ::
    "time \<Rightarrow> web \<Rightarrow> error + string \<Rightarrow> NetworkCode \<Rightarrow> PaymentExpectation \<Rightarrow> string option
       \<Rightarrow> error + ObservedTransaction list" where
  "utxo_find now get tip_text network e reference =
     (let txid = normalize_txid reference in
      if txid \<noteq> [] then
        bindE (get (''/api/tx/'' @ txid) []) (\<lambda>transaction.
        bindE (tip_height tip_text) (\<lambda>tip.
        bindE (if is_dict transaction then jget transaction ''txid'' else Inr JNull) (\<lambda>known.
        if \<not> truthy known then not_found
        else outputs_to_us now network transaction e tip)))
      else
        bindE (get (''/api/address/'' @ exp_destination e @ ''/txs'') []) (\<lambda>answer.
        bindE (tip_height tip_text) (\<lambda>tip.
        case answer of
          JList transactions \<Rightarrow>
            bindE (mapE (\<lambda>t. outputs_to_us now network t e tip) (take 50 transactions)) (\<lambda>found. Inr (concat found))
        | _ \<Rightarrow> Inr [])))"

section \<open>Solana\<close>

definition LAMPORTS_DECIMALS :: int where "LAMPORTS_DECIMALS = 9"

definition solana_rpc :: "rpc \<Rightarrow> string \<Rightarrow> json list \<Rightarrow> error + json" where
  "solana_rpc post meth params =
     bindE (post meth params) (\<lambda>payload.
     if \<not> is_dict payload then Inl (ProviderError True)
     else bindE (jget payload ''error'') (\<lambda>err.
       if truthy err then Inl (ProviderError True) else jget payload ''result''))"

definition index_key :: "json \<Rightarrow> error + string" where
  "index_key entry = bindE (jget entry ''accountIndex'') (\<lambda>i. bindE (jget entry ''mint'') (\<lambda>m.
     Inr (py_str i @ '':'' @ py_str m)))"

text \<open>The dictionary of the balances before, later entries first.\<close>

definition balance_index :: "json list \<Rightarrow> error + (string \<times> json) list" where
  "balance_index entries =
     bindE (mapE (\<lambda>entry. bindE (index_key entry) (\<lambda>k. Inr (k, entry))) entries) (\<lambda>ps. Inr (rev ps))"

definition token_amount_of :: "json \<Rightarrow> error + int" where
  "token_amount_of entry = bindE (jsub entry ''uiTokenAmount'') (\<lambda>ui.
     bindE (jget ui ''amount'') (\<lambda>a. py_int (por a (JInt 0))))"

definition spl_transfer ::
    "time \<Rightarrow> PaymentExpectation \<Rightarrow> (string \<times> json) list \<Rightarrow> int \<Rightarrow> bool \<Rightarrow> time option \<Rightarrow> string \<Rightarrow> int \<Rightarrow> nat \<times> json
       \<Rightarrow> error + ObservedTransaction option" where
  "spl_transfer now e pre confirmations succeeded block_time signature slot item =
     (let (position, post) = item; mint = the (exp_token_contract e) in
     bindE (jgetd post ''mint'' (JStr [])) (\<lambda>m.
     if py_str m \<noteq> mint then Inr None else
     bindE (jgetd post ''owner'' (JStr [])) (\<lambda>raw_owner. let owner = py_str raw_owner in
     bindE (token_amount_of post) (\<lambda>post_amount.
     bindE (bindE (jsub post ''uiTokenAmount'') (\<lambda>ui. bindE (jget ui ''decimals'') (\<lambda>d.
        py_int (por d (JInt (exp_asset_decimals e)))))) (\<lambda>decimals.
     bindE (index_key post) (\<lambda>key.
     bindE (case map_of pre key of None \<Rightarrow> Inr 0
            | Some previous \<Rightarrow> if truthy previous then token_amount_of previous else Inr 0) (\<lambda>pre_amount.
     let delta = post_amount - pre_amount in
     if delta \<le> 0 then Inr None
     else Inr (Some \<lparr>tx_provider = ProviderCode.SOLANA, tx_network = NetworkCode.SOL, tx_external_id = signature,
       tx_asset = exp_asset e, tx_amount_units = delta, tx_decimals = decimals, tx_to_address = owner,
       tx_to_address_normalized = normalize_address (Some owner) (Some NetworkCode.SOL),
       tx_is_successful = succeeded, tx_observed_at = now, tx_log_index = int position,
       tx_from_address = None, tx_token_contract = Some mint, tx_memo = None, tx_reference = None,
       tx_confirmations = confirmations, tx_block_number = Some slot, tx_block_time = block_time,
       tx_txid = Some signature, tx_status_label = (if succeeded then ''success'' else ''failed''),
       tx_record_type = ''spl_transfer''\<rparr>))))))))"

definition sol_transfer ::
    "time \<Rightarrow> PaymentExpectation \<Rightarrow> json \<Rightarrow> json \<Rightarrow> int \<Rightarrow> bool \<Rightarrow> time option \<Rightarrow> string \<Rightarrow> int \<Rightarrow> nat \<times> json
       \<Rightarrow> error + ObservedTransaction option" where
  "sol_transfer now e pre_balances post_balances confirmations succeeded block_time signature slot item =
     (let (index, key) = item in
     bindE (if is_dict key then jget key ''pubkey'' else Inr (JStr (py_str key))) (\<lambda>address.
     if \<not> truthy address then Inr None else
     bindE (jlen pre_balances) (\<lambda>n. if n \<le> index then Inr None else
     bindE (jlen post_balances) (\<lambda>n. if n \<le> index then Inr None else
     bindE (bindE (jindex post_balances index) py_int) (\<lambda>after.
     bindE (bindE (jindex pre_balances index) py_int) (\<lambda>earlier.
     let delta = after - earlier in
     if delta \<le> 0 then Inr None
     else Inr (Some \<lparr>tx_provider = ProviderCode.SOLANA, tx_network = NetworkCode.SOL, tx_external_id = signature,
       tx_asset = exp_asset e, tx_amount_units = delta, tx_decimals = LAMPORTS_DECIMALS,
       tx_to_address = py_str address,
       tx_to_address_normalized = normalize_address (Some (py_str address)) (Some NetworkCode.SOL),
       tx_is_successful = succeeded, tx_observed_at = now, tx_log_index = int index,
       tx_from_address = None, tx_token_contract = None, tx_memo = None, tx_reference = None,
       tx_confirmations = confirmations, tx_block_number = Some slot, tx_block_time = block_time,
       tx_txid = Some signature, tx_status_label = (if succeeded then ''success'' else ''failed''),
       tx_record_type = ''sol_transfer''\<rparr>)))))))"

definition solana_find ::
    "time \<Rightarrow> rpc \<Rightarrow> PaymentExpectation \<Rightarrow> string option \<Rightarrow> error + ObservedTransaction list" where
  "solana_find now post e reference =
     (let signature = py_strip (or_else reference []) in
      if signature = [] then Inr []
      else
        bindE (solana_rpc post ''getTransaction'' [JStr signature, JDict [(''encoding'', JStr ''jsonParsed''),
           (''commitment'', JStr ''confirmed''), (''maxSupportedTransactionVersion'', JInt 0)]]) (\<lambda>transaction.
        bindE (solana_rpc post ''getSlot'' [JDict [(''commitment'', JStr ''confirmed'')]]) (\<lambda>current_slot.
        if \<not> truthy transaction then not_found
        else
          bindE (jsub transaction ''meta'') (\<lambda>meta.
          bindE (jget meta ''err'') (\<lambda>failure. let succeeded = (failure = JNull) in
          bindE (bindE (jget transaction ''slot'') (\<lambda>n. py_int (por n (JInt 0)))) (\<lambda>slot.
          bindE (py_int (por current_slot (JInt 0))) (\<lambda>current. let confirmations = max (current - slot) 0 in
          bindE (bindE (jget transaction ''blockTime'') (time_or_none 1)) (\<lambda>block_time.
          if truthy_str (exp_token_contract e) then
            bindE (bindE (jget meta ''preTokenBalances'') (\<lambda>b. jiter (por b (JList [])))) (\<lambda>pre_entries.
            bindE (balance_index pre_entries) (\<lambda>pre.
            bindE (bindE (jget meta ''postTokenBalances'') (\<lambda>b. jiter (por b (JList [])))) (\<lambda>post_entries.
            collectE (spl_transfer now e pre confirmations succeeded block_time signature slot)
              (enumerate 0 post_entries))))
          else
            bindE (bindE (jsub transaction ''transaction'') (\<lambda>t. bindE (jsub t ''message'') (\<lambda>m.
              bindE (jget m ''accountKeys'') (\<lambda>ks. Inr (por ks (JList [])))))) (\<lambda>account_keys.
            bindE (bindE (jget meta ''preBalances'') (\<lambda>b. Inr (por b (JList [])))) (\<lambda>pre_balances.
            bindE (bindE (jget meta ''postBalances'') (\<lambda>b. Inr (por b (JList [])))) (\<lambda>post_balances.
            bindE (jiter account_keys) (\<lambda>keys.
            collectE (sol_transfer now e pre_balances post_balances confirmations succeeded block_time signature slot)
              (enumerate 0 keys)))))))))))))"

section \<open>TON\<close>

definition TON_DECIMALS :: int where "TON_DECIMALS = 9"

definition ton_get :: "web \<Rightarrow> string \<Rightarrow> (string \<times> json) list \<Rightarrow> error + json" where
  "ton_get get path params =
     bindE (get path params) (\<lambda>payload. if is_dict payload then Inr payload else Inl (ProviderError True))"

text \<open>\<^verbatim>\<open>int(created_at.timestamp()) - lookback_minutes * 60\<close>, not before the epoch.\<close>

definition lookback_start :: "PaymentExpectation \<Rightarrow> int \<Rightarrow> int" where
  "lookback_start e lookback_minutes = max (exp_created_at e div 1000000 - lookback_minutes * 60) 0"

definition normalize_jetton :: "time \<Rightarrow> json \<Rightarrow> PaymentExpectation \<Rightarrow> error + ObservedTransaction option" where
  "normalize_jetton now row e =
     bindE (jget row ''amount'') (\<lambda>raw_amount.
     bindE (exceptE [TypeError, ValueError] (int_of_text 10 (py_str (por raw_amount (JInt 0))))) (\<lambda>parsed.
     case parsed of None \<Rightarrow> Inr None | Some amount_units \<Rightarrow>
     bindE (jget row ''destination'') (\<lambda>raw_destination. let destination = py_str (por raw_destination (JStr [])) in
     bindE (jget row ''transaction_hash'') (\<lambda>h. bindE (jget row ''trace_id'') (\<lambda>tr.
     let external_id = py_str (por h (por tr (JStr []))) in
     if external_id = [] then Inr None else
     bindE (bindE (jget row ''comment'') (\<lambda>comment.
        if comment \<noteq> JNull then Inr comment
        else bindE (jget row ''forward_payload'') (\<lambda>payload.
          if is_dict payload
          then bindE (jget payload ''comment'') (\<lambda>c. bindE (jget payload ''text'') (\<lambda>t. Inr (por c t)))
          else Inr JNull))) (\<lambda>comment.
     bindE (jget row ''transaction_now'') (\<lambda>n. bindE (jget row ''utime'') (\<lambda>u. let utime = por n u in
     bindE (jget row ''transaction_aborted'') (\<lambda>a. let aborted = truthy a in
     bindE (jget row ''source'') (\<lambda>source.
     bindE (jget row ''jetton_master'') (\<lambda>master.
     bindE (time_or_none 1 utime) (\<lambda>block_time.
     Inr (Some \<lparr>tx_provider = ProviderCode.TON, tx_network = NetworkCode.TON, tx_external_id = external_id,
       tx_asset = exp_asset e, tx_amount_units = amount_units, tx_decimals = exp_asset_decimals e,
       tx_to_address = destination,
       tx_to_address_normalized = normalize_address (Some destination) (Some NetworkCode.TON),
       tx_is_successful = (\<not> aborted), tx_observed_at = now, tx_log_index = 0,
       tx_from_address = text_or_none source,
       tx_token_contract = Some (py_str (por master (JStr (or_else (exp_token_contract e) [])))),
       tx_memo = (if truthy comment then Some (py_str comment) else None), tx_reference = None,
       tx_confirmations = (if aborted then 0 else 1), tx_block_number = None, tx_block_time = block_time,
       tx_txid = Some external_id, tx_status_label = (if aborted then ''aborted'' else ''committed''),
       tx_record_type = ''jetton_transfer''\<rparr>)))))))))))))"

definition ton_message :: "time \<Rightarrow> PaymentExpectation \<Rightarrow> json \<Rightarrow> error + ObservedTransaction option" where
  "ton_message now e row =
     bindE (jsub row ''in_msg'') (\<lambda>in_msg.
     bindE (jget in_msg ''value'') (\<lambda>v.
     if \<not> truthy v then Inr None else
     bindE (exceptE [TypeError, ValueError] (int_of_text 10 (py_str v))) (\<lambda>parsed.
     case parsed of None \<Rightarrow> Inr None | Some amount_units \<Rightarrow>
     bindE (jget in_msg ''destination'') (\<lambda>d. let destination = py_str (por d (JStr (exp_destination e))) in
     bindE (jget row ''hash'') (\<lambda>h. let external_id = py_str (por h (JStr [])) in
     if external_id = [] then Inr None else
     bindE (jsub in_msg ''message_content'') (\<lambda>decoded.
     bindE (if is_dict decoded
            then bindE (jgetd decoded ''decoded'' (JDict [])) (\<lambda>inner. jget inner ''comment'') else Inr JNull) (\<lambda>comment.
     bindE (jget row ''now'') (\<lambda>utime.
     bindE (bindE (jsub row ''description'') (\<lambda>d. jget d ''aborted'')) (\<lambda>a. let aborted = truthy a in
     bindE (jget in_msg ''source'') (\<lambda>source.
     bindE (time_or_none 1 utime) (\<lambda>block_time.
     Inr (Some \<lparr>tx_provider = ProviderCode.TON, tx_network = NetworkCode.TON, tx_external_id = external_id,
       tx_asset = exp_asset e, tx_amount_units = amount_units, tx_decimals = TON_DECIMALS,
       tx_to_address = destination,
       tx_to_address_normalized = normalize_address (Some destination) (Some NetworkCode.TON),
       tx_is_successful = (\<not> aborted), tx_observed_at = now, tx_log_index = 0,
       tx_from_address = text_or_none source, tx_token_contract = None,
       tx_memo = (if truthy comment then Some (py_str comment) else None), tx_reference = None,
       tx_confirmations = (if aborted then 0 else 1), tx_block_number = None, tx_block_time = block_time,
       tx_txid = Some external_id, tx_status_label = (if aborted then ''aborted'' else ''committed''),
       tx_record_type = ''ton_transfer''\<rparr>))))))))))))"

definition ton_find ::
    "time \<Rightarrow> web \<Rightarrow> int \<Rightarrow> PaymentExpectation \<Rightarrow> error + ObservedTransaction list" where
  "ton_find now get lookback_minutes e =
     (if truthy_str (exp_token_contract e) then
        bindE (ton_get get ''/api/v3/jettonTransfers'' [(''owner_address'', JStr (exp_destination e)),
           (''jetton_master'', JStr (the (exp_token_contract e))), (''direction'', JStr ''in''),
           (''start_utime'', JInt (lookback_start e lookback_minutes)), (''limit'', JInt 100), (''sort'', JStr ''desc'')]) (\<lambda>payload.
        bindE (bindE (jget payload ''jetton_transfers'') (\<lambda>rs. jiter (por rs (JList [])))) (\<lambda>rows.
        collectE (\<lambda>row. normalize_jetton now row e) rows))
      else
        bindE (ton_get get ''/api/v3/transactions'' [(''account'', JStr (exp_destination e)),
           (''start_utime'', JInt (lookback_start e lookback_minutes)), (''limit'', JInt 100), (''sort'', JStr ''desc'')]) (\<lambda>payload.
        bindE (bindE (jget payload ''transactions'') (\<lambda>rs. jiter (por rs (JList [])))) (\<lambda>rows.
        collectE (ton_message now e) rows)))"

end
