(* ===== verification/Exchanges.thy ===== *)
theory Exchanges
  imports Indexed
begin

text \<open>
  The adapters of \<^verbatim>\<open>app/integrations/binance\<close>, \<^verbatim>\<open>bybit\<close> and \<^verbatim>\<open>okx\<close>: deposits that an exchange reports for
  the account of the shop. The signature of a request is left out; the answer is a function of its path and
  parameters.
\<close>

text \<open>\<^verbatim>\<open>to_millis\<close>\<close>

definition to_millis :: "time \<Rightarrow> int" where
  "to_millis t = (if 0 \<le> t then t div 1000 else - (- t div 1000))"

definition start_millis :: "PaymentExpectation \<Rightarrow> int \<Rightarrow> int" where
  "start_millis e lookback_minutes = max (to_millis (exp_created_at e) - lookback_minutes * 60000) 0"

definition lookup_network :: "(string \<times> NetworkCode) list \<Rightarrow> string \<Rightarrow> NetworkCode option" where
  "lookup_network table name = map_of table (py_upper (py_strip name))"

section \<open>Binance deposits\<close>

definition BINANCE_DEPOSIT_SUCCESS :: int where "BINANCE_DEPOSIT_SUCCESS = 1"

definition BINANCE_NETWORK_MAP :: "(string \<times> NetworkCode) list" where
  "BINANCE_NETWORK_MAP = [(''TRX'', NetworkCode.TRC20), (''BSC'', NetworkCode.BEP20),
     (''ETH'', NetworkCode.ERC20), (''TON'', NetworkCode.TON), (''SOL'', NetworkCode.SOL),
     (''AVAXC'', NetworkCode.AVAXC), (''ARBITRUM'', NetworkCode.ARBITRUM), (''MATIC'', NetworkCode.POLYGON),
     (''POLYGON'', NetworkCode.POLYGON), (''BTC'', NetworkCode.BTC), (''LTC'', NetworkCode.LTC)]"

definition map_binance_network :: "json \<Rightarrow> error + NetworkCode option" where
  "map_binance_network v =
     (if \<not> truthy v then Inr None
      else bindE (jstring v) (\<lambda>s. Inr (lookup_network BINANCE_NETWORK_MAP s)))"

text \<open>The part of a text before its first slash.\<close>

definition parse_confirmations :: "json \<Rightarrow> int" where
  "parse_confirmations v =
     (if v = JNull then 0
      else case int_of_text 10 (takeWhile (\<lambda>c. c \<noteq> CHR ''/'') (py_str v)) of Inl _ \<Rightarrow> 0 | Inr n \<Rightarrow> n)"

definition normalize_deposit :: "time \<Rightarrow> json \<Rightarrow> PaymentExpectation \<Rightarrow> error + ObservedTransaction option" where
  "normalize_deposit now row e =
     bindE (exceptE [ValueError, TypeError]
       (bindE (jgetd row ''amount'' (JStr ''0'')) (\<lambda>a. bindE (to_decimal_text (py_str a)) (\<lambda>amount.
        bindE (jgetd row ''coin'' (JStr [])) (\<lambda>c.
        bindE (bindE (jgetd row ''status'' (JInt (- 1))) py_int) (\<lambda>status.
        bindE (bindE (jget row ''network'') map_binance_network) (\<lambda>network.
        bindE (jgetd row ''address'' (JStr [])) (\<lambda>address.
        bindE (units_of amount (exp_asset_decimals e)) (\<lambda>units.
        Inr (py_upper (py_str c), status, network, py_str address, units)))))))))) (\<lambda>parsed.
     case parsed of None \<Rightarrow> Inr None
     | Some (coin, status, network, address, units) \<Rightarrow>
     bindE (jget row ''network'') (\<lambda>raw_network.
     if network = None \<and> truthy raw_network then Inr None else
     let resolved_network = or_else network (exp_network e) in
     bindE (jget row ''id'') (\<lambda>k. bindE (jget row ''txId'') (\<lambda>txid.
     let external_id = py_str (por k (por txid (JStr []))) in
     if external_id = [] then Inr None else
     bindE (bindE (jget row ''insertTime'') (time_or_none 1000)) (\<lambda>block_time.
     bindE (jget row ''confirmTimes'') (\<lambda>confirm_times.
     bindE (jget row ''addressTag'') (\<lambda>tag.
     Inr (Some \<lparr>tx_provider = ProviderCode.BINANCE, tx_network = resolved_network, tx_external_id = external_id,
       tx_asset = coin, tx_amount_units = units, tx_decimals = exp_asset_decimals e, tx_to_address = address,
       tx_to_address_normalized = normalize_address (Some address) (Some resolved_network),
       tx_is_successful = (status = BINANCE_DEPOSIT_SUCCESS), tx_observed_at = now, tx_log_index = 0,
       tx_from_address = None, tx_token_contract = exp_token_contract e, tx_memo = text_or_none tag,
       tx_reference = None, tx_confirmations = parse_confirmations confirm_times, tx_block_number = None,
       tx_block_time = block_time, tx_txid = text_or_none txid,
       tx_status_label = ''status='' @ str_int status, tx_record_type = ''deposit''\<rparr>))))))))"

definition binance_find ::
    "time \<Rightarrow> web \<Rightarrow> int \<Rightarrow> PaymentExpectation \<Rightarrow> error + ObservedTransaction list" where
  "binance_find now get lookback_minutes e =
     bindE (get ''/sapi/v1/capital/deposit/hisrec'' [(''coin'', JStr (py_upper (exp_asset e))),
        (''startTime'', JInt (start_millis e lookback_minutes)), (''endTime'', JInt (to_millis now)),
        (''limit'', JInt 100)]) (\<lambda>payload.
     case payload of JList rows \<Rightarrow> collectE (\<lambda>row. normalize_deposit now row e) rows
     | _ \<Rightarrow> Inl (ProviderError True))"

section \<open>Binance Pay\<close>

definition binance_pay_post :: "web \<Rightarrow> string \<Rightarrow> (string \<times> json) list \<Rightarrow> error + json" where
  "binance_pay_post post path params =
     bindE (post path params) (\<lambda>response.
     if \<not> is_dict response then Inl (ProviderError True)
     else bindE (jget response ''status'') (\<lambda>status.
       if status = JStr ''SUCCESS'' then Inr response
       else bindE (jget response ''code'') (\<lambda>code.
         if \<not> hashable code then Inl TypeError
         else Inl (ProviderError (code \<noteq> JStr ''400001'' \<and> code \<noteq> JStr ''400201'')))))"

definition PAID_STATUSES :: "string list" where "PAID_STATUSES = [''PAID'']"

definition binance_pay_find ::
    "time \<Rightarrow> web \<Rightarrow> PaymentExpectation \<Rightarrow> string option \<Rightarrow> error + ObservedTransaction list" where
  "binance_pay_find now post e reference =
     (let trade_no = str_or reference (Some (exp_reference e)) in
     bindE (binance_pay_post post ''/binancepay/openapi/order/query'' [(''merchantTradeNo'', JStr trade_no)]) (\<lambda>response.
     bindE (jsub response ''data'') (\<lambda>data.
     if \<not> truthy data then Inr [] else
     bindE (jgetd data ''status'' (JStr [])) (\<lambda>st. let status = py_upper (py_str st) in
     bindE (jgetd data ''currency'' (JStr [])) (\<lambda>c.
     bindE (exceptE [ValueError, TypeError]
        (bindE (jgetd data ''orderAmount'' (JStr ''0'')) (\<lambda>a. bindE (to_decimal_text (py_str a)) (\<lambda>amount.
         units_of amount (exp_asset_decimals e))))) (\<lambda>parsed.
     case parsed of None \<Rightarrow> Inr [] | Some units \<Rightarrow>
     bindE (jget data ''transactionId'') (\<lambda>k. bindE (jget data ''prepayId'') (\<lambda>p.
     bindE (bindE (jget data ''transactTime'') (time_or_none 1000)) (\<lambda>block_time.
     Inr [\<lparr>tx_provider = ProviderCode.BINANCE_PAY, tx_network = NetworkCode.EXCHANGE_INTERNAL,
       tx_external_id = py_str (por k (por p (JStr trade_no))), tx_asset = py_upper (py_str c),
       tx_amount_units = units, tx_decimals = exp_asset_decimals e, tx_to_address = exp_destination e,
       tx_to_address_normalized = exp_destination_normalized e,
       tx_is_successful = (status \<in> set PAID_STATUSES), tx_observed_at = now, tx_log_index = 0,
       tx_from_address = None, tx_token_contract = None, tx_memo = None, tx_reference = Some trade_no,
       tx_confirmations = (if status \<in> set PAID_STATUSES then 1 else 0), tx_block_number = None,
       tx_block_time = block_time, tx_txid = None, tx_status_label = status,
       tx_record_type = ''pay_order''\<rparr>])))))))))"

section \<open>Bybit\<close>

definition BYBIT_DEPOSIT_SUCCESS :: int where "BYBIT_DEPOSIT_SUCCESS = 3"

definition BYBIT_CHAIN_MAP :: "(string \<times> NetworkCode) list" where
  "BYBIT_CHAIN_MAP = [(''TRX'', NetworkCode.TRC20), (''TRC20'', NetworkCode.TRC20),
     (''BSC'', NetworkCode.BEP20), (''BEP20'', NetworkCode.BEP20), (''ETH'', NetworkCode.ERC20),
     (''ERC20'', NetworkCode.ERC20), (''TON'', NetworkCode.TON), (''SOL'', NetworkCode.SOL),
     (''CAVAX'', NetworkCode.AVAXC), (''AVAXC'', NetworkCode.AVAXC), (''ARBI'', NetworkCode.ARBITRUM),
     (''ARBITRUM'', NetworkCode.ARBITRUM), (''MATIC'', NetworkCode.POLYGON), (''POLYGON'', NetworkCode.POLYGON),
     (''BTC'', NetworkCode.BTC), (''LTC'', NetworkCode.LTC)]"

definition map_bybit_chain :: "json \<Rightarrow> error + NetworkCode option" where
  "map_bybit_chain v =
     (if \<not> truthy v then Inr None else bindE (jstring v) (\<lambda>s. Inr (lookup_network BYBIT_CHAIN_MAP s)))"

definition bybit_get :: "web \<Rightarrow> string \<Rightarrow> (string \<times> json) list \<Rightarrow> error + json" where
  "bybit_get get path params =
     bindE (get path params) (\<lambda>payload.
     if \<not> is_dict payload then Inl (ProviderError True)
     else bindE (jget payload ''retCode'') (\<lambda>ret_code.
       if equals_int ret_code 0 then jsub payload ''result''
       else if \<not> hashable ret_code then Inl TypeError
       else Inl (ProviderError (\<not> list_ex (equals_int ret_code) [10003, 10004, 10005, 10016, 33004]))))"

text \<open>The amount and the status of a row; a row whose values do not parse is skipped.\<close>

definition bybit_amounts :: "json \<Rightarrow> PaymentExpectation \<Rightarrow> error + (int \<times> int) option" where
  "bybit_amounts row e =
     exceptE [ValueError, TypeError]
       (bindE (jgetd row ''amount'' (JStr ''0'')) (\<lambda>a. bindE (to_decimal_text (py_str a)) (\<lambda>amount.
        bindE (units_of amount (exp_asset_decimals e)) (\<lambda>units.
        bindE (bindE (jgetd row ''status'' (JInt (- 1))) py_int) (\<lambda>status. Inr (units, status))))))"

definition bybit_onchain :: "time \<Rightarrow> PaymentExpectation \<Rightarrow> json \<Rightarrow> error + ObservedTransaction option" where
  "bybit_onchain now e row =
     bindE (bindE (jget row ''chain'') map_bybit_chain) (\<lambda>chain.
     case chain of None \<Rightarrow> Inr None | Some network \<Rightarrow>
     bindE (bybit_amounts row e) (\<lambda>parsed.
     case parsed of None \<Rightarrow> Inr None | Some (units, status) \<Rightarrow>
     bindE (jget row ''txID'') (\<lambda>k. let txid = py_str (por k (JStr [])) in
     if txid = [] then Inr None else
     bindE (jget row ''toAddress'') (\<lambda>a. let address = py_str (por a (JStr [])) in
     bindE (jget row ''successAt'') (\<lambda>success_at.
     bindE (jgetd row ''coin'' (JStr [])) (\<lambda>c.
     bindE (time_or_none 1000 success_at) (\<lambda>block_time.
     bindE (bindE (jget row ''confirmations'') (\<lambda>n. py_int (por n (JInt 0)))) (\<lambda>confirmations.
     bindE (jget row ''tag'') (\<lambda>tag.
     Inr (Some \<lparr>tx_provider = ProviderCode.BYBIT, tx_network = network, tx_external_id = txid,
       tx_asset = py_upper (py_str c), tx_amount_units = units, tx_decimals = exp_asset_decimals e,
       tx_to_address = address, tx_to_address_normalized = normalize_address (Some address) (Some network),
       tx_is_successful = (status = BYBIT_DEPOSIT_SUCCESS), tx_observed_at = now, tx_log_index = 0,
       tx_from_address = None, tx_token_contract = exp_token_contract e, tx_memo = text_or_none tag,
       tx_reference = None, tx_confirmations = confirmations, tx_block_number = None,
       tx_block_time = block_time, tx_txid = Some txid, tx_status_label = ''status='' @ str_int status,
       tx_record_type = ''deposit''\<rparr>))))))))))"

definition bybit_internal :: "time \<Rightarrow> PaymentExpectation \<Rightarrow> json \<Rightarrow> error + ObservedTransaction option" where
  "bybit_internal now e row =
     bindE (bybit_amounts row e) (\<lambda>parsed.
     case parsed of None \<Rightarrow> Inr None | Some (units, status) \<Rightarrow>
     bindE (jget row ''id'') (\<lambda>k. bindE (jget row ''txID'') (\<lambda>t.
     let record_id = py_str (por k (por t (JStr []))) in
     if record_id = [] then Inr None else
     bindE (jget row ''createdTime'') (\<lambda>created.
     bindE (jgetd row ''coin'' (JStr [])) (\<lambda>c.
     bindE (time_or_none 1000 created) (\<lambda>block_time.
     Inr (Some \<lparr>tx_provider = ProviderCode.BYBIT, tx_network = NetworkCode.EXCHANGE_INTERNAL,
       tx_external_id = record_id, tx_asset = py_upper (py_str c), tx_amount_units = units,
       tx_decimals = exp_asset_decimals e, tx_to_address = exp_destination e,
       tx_to_address_normalized = exp_destination_normalized e,
       tx_is_successful = (status = 2), tx_observed_at = now, tx_log_index = 0, tx_from_address = None,
       tx_token_contract = None, tx_memo = None, tx_reference = None,
       tx_confirmations = (if status = 2 then 1 else 0), tx_block_number = None, tx_block_time = block_time,
       tx_txid = None, tx_status_label = ''status='' @ str_int status,
       tx_record_type = ''internal_deposit''\<rparr>)))))))"

definition bybit_find ::
    "time \<Rightarrow> web \<Rightarrow> int \<Rightarrow> PaymentExpectation \<Rightarrow> error + ObservedTransaction list" where
  "bybit_find now get lookback_minutes e =
     (let params = [(''coin'', JStr (py_upper (exp_asset e))), (''endTime'', JInt (to_millis now)),
         (''limit'', JInt 50), (''startTime'', JInt (start_millis e lookback_minutes))];
        internal = (exp_network e = NetworkCode.EXCHANGE_INTERNAL) in
     bindE (bybit_get get (if internal then ''/v5/asset/deposit/query-internal-record''
        else ''/v5/asset/deposit/query-record'') params) (\<lambda>result.
     bindE (bindE (jget result ''rows'') (\<lambda>rs. jiter (por rs (JList [])))) (\<lambda>rows.
     collectE (if internal then bybit_internal now e else bybit_onchain now e) rows)))"

section \<open>OKX\<close>

definition DEFAULT_CREDITED_STATES :: "string list" where "DEFAULT_CREDITED_STATES = [''2'']"

definition OKX_CHAIN_SUFFIX_MAP :: "(string \<times> NetworkCode) list" where
  "OKX_CHAIN_SUFFIX_MAP = [(''TRC20'', NetworkCode.TRC20), (''TRX'', NetworkCode.TRC20),
     (''BSC'', NetworkCode.BEP20), (''BEP20'', NetworkCode.BEP20), (''ERC20'', NetworkCode.ERC20),
     (''ETH'', NetworkCode.ERC20), (''TON'', NetworkCode.TON), (''SOL'', NetworkCode.SOL),
     (''SOLANA'', NetworkCode.SOL), (''AVAX C-CHAIN'', NetworkCode.AVAXC), (''AVAXC'', NetworkCode.AVAXC),
     (''ARBITRUM ONE'', NetworkCode.ARBITRUM), (''ARBITRUM'', NetworkCode.ARBITRUM),
     (''POLYGON'', NetworkCode.POLYGON), (''MATIC'', NetworkCode.POLYGON), (''BTC'', NetworkCode.BTC),
     (''LTC'', NetworkCode.LTC)]"

definition map_okx_chain :: "json \<Rightarrow> error + NetworkCode option" where
  "map_okx_chain v =
     (if \<not> truthy v then Inr None
      else case v of
        JStr s \<Rightarrow> let suffix = (if CHR ''-'' \<in> set s then tl (dropWhile (\<lambda>c. c \<noteq> CHR ''-'') s) else s) in
                Inr (lookup_network OKX_CHAIN_SUFFIX_MAP suffix)
      | JList _ \<Rightarrow> Inl AttributeError | JDict _ \<Rightarrow> Inl AttributeError | _ \<Rightarrow> Inl TypeError)"

definition okx_get :: "web \<Rightarrow> string \<Rightarrow> (string \<times> json) list \<Rightarrow> error + json list" where
  "okx_get get path params =
     bindE (get path params) (\<lambda>payload.
     if \<not> is_dict payload then Inl (ProviderError True)
     else bindE (jgetd payload ''code'' (JStr [])) (\<lambda>c. let code = py_str c in
       if code \<noteq> ''0'' then Inl (ProviderError (\<not> startswith code ''501''))
       else bindE (jget payload ''data'') (\<lambda>data. Inr (case data of JList rows \<Rightarrow> rows | _ \<Rightarrow> []))))"

definition parse_int :: "json \<Rightarrow> int" where
  "parse_int v = (case int_of_text 10 (py_str v) of Inl _ \<Rightarrow> 0 | Inr n \<Rightarrow> n)"

definition okx_deposit ::
    "time \<Rightarrow> string list \<Rightarrow> PaymentExpectation \<Rightarrow> json \<Rightarrow> error + ObservedTransaction option" where
  "okx_deposit now credited_states e row =
     bindE (bindE (jget row ''chain'') map_okx_chain) (\<lambda>chain.
     case chain of None \<Rightarrow> Inr None | Some network \<Rightarrow>
     bindE (exceptE [ValueError, TypeError]
       (bindE (jgetd row ''amt'' (JStr ''0'')) (\<lambda>a. bindE (to_decimal_text (py_str a)) (\<lambda>amount.
        units_of amount (exp_asset_decimals e))))) (\<lambda>parsed.
     case parsed of None \<Rightarrow> Inr None | Some units \<Rightarrow>
     bindE (jget row ''depId'') (\<lambda>k. bindE (jget row ''txId'') (\<lambda>txid.
     let external_id = py_str (por k (por txid (JStr []))) in
     if external_id = [] then Inr None else
     bindE (jgetd row ''state'' (JStr [])) (\<lambda>st. let state = py_str st in
     bindE (jget row ''to'') (\<lambda>a. let address = py_str (por a (JStr [])) in
     bindE (jget row ''ts'') (\<lambda>ts.
     bindE (jgetd row ''ccy'' (JStr [])) (\<lambda>c.
     bindE (jget row ''from'') (\<lambda>sender.
     bindE (time_or_none 1000 ts) (\<lambda>block_time.
     bindE (jget row ''actualDepBlkConfirm'') (\<lambda>confirmations.
     Inr (Some \<lparr>tx_provider = ProviderCode.OKX, tx_network = network, tx_external_id = external_id,
       tx_asset = py_upper (py_str c), tx_amount_units = units, tx_decimals = exp_asset_decimals e,
       tx_to_address = address, tx_to_address_normalized = normalize_address (Some address) (Some network),
       tx_is_successful = (state \<in> set credited_states), tx_observed_at = now, tx_log_index = 0,
       tx_from_address = text_or_none sender, tx_token_contract = exp_token_contract e, tx_memo = None,
       tx_reference = None, tx_confirmations = parse_int confirmations, tx_block_number = None,
       tx_block_time = block_time, tx_txid = text_or_none txid,
       tx_status_label = ''state='' @ state, tx_record_type = ''deposit''\<rparr>))))))))))))"

definition okx_find ::
    "time \<Rightarrow> web \<Rightarrow> int \<Rightarrow> string list \<Rightarrow> PaymentExpectation \<Rightarrow> error + ObservedTransaction list" where
  "okx_find now get lookback_minutes credited_states e =
     bindE (okx_get get ''/api/v5/asset/deposit-history'' [(''ccy'', JStr (py_upper (exp_asset e))),
        (''after'', JInt (start_millis e lookback_minutes)), (''before'', JInt (to_millis now)),
        (''limit'', JStr ''100'')]) (\<lambda>rows.
     collectE (okx_deposit now credited_states e) rows)"

end
