(* ===== verification/StateMachines.thy ===== *)
theory StateMachines
  imports Enums
begin

text \<open>
  \<^verbatim>\<open>app/domain/state_machines.py\<close>: the guards around the two status columns and the breadth-first
  search that expands one verification result into a sequence of legal payment transitions.

  Python iterates a \<^verbatim>\<open>frozenset\<close> of string-valued members in an order that differs between
  processes. The search therefore takes that order as a parameter \<open>succ\<close>, and every result about
  it holds for any \<open>succ\<close> that enumerates the transition table (\<open>iteration_order\<close>).
\<close>

section \<open>Guards\<close>

definition can_transition_order :: "OrderStatus \<Rightarrow> OrderStatus \<Rightarrow> bool" where
  "can_transition_order current target \<longleftrightarrow> target \<in> ORDER_TRANSITIONS current"

definition assert_order_transition :: "OrderStatus \<Rightarrow> OrderStatus \<Rightarrow> error + unit" where
  "assert_order_transition current target =
     (if current = target then Inr ()
      else if \<not> can_transition_order current target then Inl InvalidStateTransition
      else Inr ())"

definition can_transition_payment :: "PaymentStatus \<Rightarrow> PaymentStatus \<Rightarrow> bool" where
  "can_transition_payment current target \<longleftrightarrow> target \<in> PAYMENT_TRANSITIONS current"

definition assert_payment_transition :: "PaymentStatus \<Rightarrow> PaymentStatus \<Rightarrow> error + unit" where
  "assert_payment_transition current target =
     (if current = target then Inr ()
      else if \<not> can_transition_payment current target then Inl InvalidStateTransition
      else Inr ())"

section \<open>The shortest legal path\<close>

text \<open>The inner \<^verbatim>\<open>for nxt in ...\<close> loop: \<open>Inl\<close> is the early \<^verbatim>\<open>return\<close>.\<close>

fun bfs_expand :: "'a \<Rightarrow> 'a list \<Rightarrow> 'a list \<Rightarrow> 'a list \<Rightarrow> ('a \<times> 'a list) list
    \<Rightarrow> 'a list + 'a list \<times> ('a \<times> 'a list) list" where
  "bfs_expand target [] path seen queue = Inr (seen, queue)"
| "bfs_expand target (nxt # rest) path seen queue =
     (if nxt \<in> set seen then bfs_expand target rest path seen queue
      else if nxt = target then Inl (path @ [nxt])
      else bfs_expand target rest path (nxt # seen) (queue @ [(nxt, path @ [nxt])]))"

lemma bfs_expand_measure:
  "bfs_expand target succs path seen queue = Inr (seen', queue') \<Longrightarrow>
   2 * card (UNIV - set seen' :: 'a::finite set) + length queue' \<le>
   2 * card (UNIV - set seen) + length queue"
proof (induction target succs path seen queue rule: bfs_expand.induct)
  case (2 target nxt rest path seen queue)
  show ?case
  proof (cases "nxt \<in> set seen \<or> nxt = target")
    case True
    with 2 show ?thesis by (auto split: if_splits)
  next
    case False
    then have "UNIV - set (nxt # seen) = (UNIV - set seen) - {nxt}" and "nxt \<in> UNIV - set seen"
      by auto
    then have "card (UNIV - set seen) = Suc (card (UNIV - set (nxt # seen)))"
      by (metis card.remove finite)
    moreover from False "2.prems" have "bfs_expand target rest path (nxt # seen)
        (queue @ [(nxt, path @ [nxt])]) = Inr (seen', queue')" by simp
    with False "2.IH"(2) have "2 * card (UNIV - set seen') + length queue'
        \<le> 2 * card (UNIV - set (nxt # seen)) + length (queue @ [(nxt, path @ [nxt])])" by blast
    ultimately show ?thesis by (simp del: set_simps)
  qed
qed simp

function bfs :: "('a::finite \<Rightarrow> 'a list) \<Rightarrow> 'a \<Rightarrow> ('a \<times> 'a list) list \<Rightarrow> 'a list \<Rightarrow> 'a list option" where
  "bfs succ target [] seen = None"
| "bfs succ target ((state, path) # queue) seen =
     (case bfs_expand target (succ state) path seen queue of
        Inl found \<Rightarrow> Some found
      | Inr (seen', queue') \<Rightarrow> bfs succ target queue' seen')"
  by pat_completeness auto
termination
  by (relation "measure (\<lambda>(succ, target, queue, seen). 2 * card (UNIV - set seen) + length queue)")
    (auto intro!: le_imp_less_Suc bfs_expand_measure)

definition payment_path ::
    "(PaymentStatus \<Rightarrow> PaymentStatus list) \<Rightarrow> PaymentStatus \<Rightarrow> PaymentStatus
       \<Rightarrow> error + PaymentStatus list" where
  "payment_path succ current target =
     (if current = target then Inr []
      else case bfs succ target [(current, [])] [current] of
        Some path \<Rightarrow> Inr path
      | None \<Rightarrow> Inl InvalidStateTransition)"

definition iteration_order :: "(PaymentStatus \<Rightarrow> PaymentStatus list) \<Rightarrow> bool" where
  "iteration_order succ \<longleftrightarrow> (\<forall>s. set (succ s) = PAYMENT_TRANSITIONS s)"

text \<open>One concrete order, the one in which the source lists the members.\<close>

fun listed_order :: "PaymentStatus \<Rightarrow> PaymentStatus list" where
  "listed_order PaymentStatus.CREATED =
     [PaymentStatus.AWAITING_PAYMENT, PaymentStatus.CANCELLED, PaymentStatus.EXPIRED]"
| "listed_order PaymentStatus.AWAITING_PAYMENT =
     [PaymentStatus.SUBMITTED, PaymentStatus.DETECTING, PaymentStatus.DETECTED,
      PaymentStatus.EXPIRED, PaymentStatus.CANCELLED, PaymentStatus.UNDER_REVIEW]"
| "listed_order PaymentStatus.SUBMITTED =
     [PaymentStatus.DETECTING, PaymentStatus.DETECTED, PaymentStatus.VERIFYING,
      PaymentStatus.FAILED, PaymentStatus.EXPIRED, PaymentStatus.UNDER_REVIEW,
      PaymentStatus.CANCELLED]"
| "listed_order PaymentStatus.DETECTING =
     [PaymentStatus.DETECTED, PaymentStatus.VERIFYING, PaymentStatus.FAILED,
      PaymentStatus.EXPIRED, PaymentStatus.UNDER_REVIEW, PaymentStatus.CANCELLED]"
| "listed_order PaymentStatus.DETECTED =
     [PaymentStatus.VERIFYING, PaymentStatus.PENDING_CONFIRMATION, PaymentStatus.VERIFIED,
      PaymentStatus.FAILED, PaymentStatus.UNDER_REVIEW, PaymentStatus.EXPIRED]"
| "listed_order PaymentStatus.VERIFYING =
     [PaymentStatus.PENDING_CONFIRMATION, PaymentStatus.VERIFIED, PaymentStatus.FAILED,
      PaymentStatus.UNDER_REVIEW, PaymentStatus.DETECTED, PaymentStatus.EXPIRED]"
| "listed_order PaymentStatus.PENDING_CONFIRMATION =
     [PaymentStatus.VERIFIED, PaymentStatus.VERIFYING, PaymentStatus.FAILED,
      PaymentStatus.UNDER_REVIEW, PaymentStatus.EXPIRED]"
| "listed_order PaymentStatus.VERIFIED = []"
| "listed_order PaymentStatus.UNDER_REVIEW =
     [PaymentStatus.VERIFIED, PaymentStatus.FAILED, PaymentStatus.VERIFYING,
      PaymentStatus.CANCELLED]"
| "listed_order PaymentStatus.FAILED = [PaymentStatus.UNDER_REVIEW, PaymentStatus.VERIFYING]"
| "listed_order PaymentStatus.EXPIRED = [PaymentStatus.UNDER_REVIEW, PaymentStatus.VERIFYING]"
| "listed_order PaymentStatus.CANCELLED = []"

section \<open>Order status implied by a payment status\<close>

fun order_status_for_payment :: "PaymentStatus \<Rightarrow> OrderStatus option" where
  "order_status_for_payment PaymentStatus.AWAITING_PAYMENT = Some OrderStatus.PAYMENT_PENDING"
| "order_status_for_payment PaymentStatus.SUBMITTED = Some OrderStatus.PAYMENT_PENDING"
| "order_status_for_payment PaymentStatus.DETECTING = Some OrderStatus.PAYMENT_PENDING"
| "order_status_for_payment PaymentStatus.DETECTED = Some OrderStatus.PAYMENT_PENDING"
| "order_status_for_payment PaymentStatus.VERIFYING = Some OrderStatus.PAYMENT_PENDING"
| "order_status_for_payment PaymentStatus.PENDING_CONFIRMATION = Some OrderStatus.PAYMENT_PENDING"
| "order_status_for_payment PaymentStatus.VERIFIED = Some OrderStatus.PAYMENT_VERIFIED"
| "order_status_for_payment PaymentStatus.UNDER_REVIEW = Some OrderStatus.MANUAL_REVIEW"
| "order_status_for_payment PaymentStatus.EXPIRED = Some OrderStatus.EXPIRED"
| "order_status_for_payment _ = None"

section \<open>Breadth-first search is correct\<close>

text \<open>\<open>walk succ s path t\<close>: following \<open>path\<close> from \<open>s\<close> takes legal steps only and ends in \<open>t\<close>.\<close>

fun walk :: "('a \<Rightarrow> 'a list) \<Rightarrow> 'a \<Rightarrow> 'a list \<Rightarrow> 'a \<Rightarrow> bool" where
  "walk succ s [] t \<longleftrightarrow> s = t"
| "walk succ s (x # xs) t \<longleftrightarrow> x \<in> set (succ s) \<and> walk succ x xs t"

lemma walk_snoc: "walk succ s (xs @ [x]) t \<longleftrightarrow> (\<exists>u. walk succ s xs u \<and> x \<in> set (succ u) \<and> x = t)"
  by (induction xs arbitrary: s) auto

lemma walk_last: "walk succ s xs t \<Longrightarrow> xs \<noteq> [] \<Longrightarrow> last xs = t"
  by (induction xs arbitrary: s) (auto split: if_splits)

lemma iteration_order_set: "iteration_order succ \<Longrightarrow> set (succ s) = PAYMENT_TRANSITIONS s"
  by (simp add: iteration_order_def)

lemma listed_order_ok: "iteration_order listed_order"
  unfolding iteration_order_def
proof
  fix s show "set (listed_order s) = PAYMENT_TRANSITIONS s" by (cases s) auto
qed

text \<open>
  What the search keeps true. \<open>lv n v\<close> says that \<open>v\<close> can be reached in at most \<open>n\<close> steps. All states
  within the length of the path at the head of the queue have been seen, a queue holds at most two
  consecutive lengths in ascending order, and a seen state that has left the queue has only seen
  successors.
\<close>

definition within :: "('a \<Rightarrow> 'a list) \<Rightarrow> 'a \<Rightarrow> nat \<Rightarrow> 'a \<Rightarrow> bool" where
  "within succ s n t \<longleftrightarrow> (\<exists>xs. walk succ s xs t \<and> length xs \<le> n)"

lemma within_Suc: "within succ s (Suc n) t \<longleftrightarrow> within succ s n t \<or> (\<exists>u. within succ s n u \<and> t \<in> set (succ u))"
proof
  assume "within succ s (Suc n) t"
  then obtain xs where xs: "walk succ s xs t" "length xs \<le> Suc n" by (auto simp: within_def)
  show "within succ s n t \<or> (\<exists>u. within succ s n u \<and> t \<in> set (succ u))"
  proof (cases xs rule: rev_cases)
    case Nil
    with xs show ?thesis by (auto simp: within_def intro!: exI [of _ "[]"])
  next
    case (snoc ys y)
    with xs obtain u where "walk succ s ys u" "t \<in> set (succ u)" by (auto simp: walk_snoc)
    with snoc xs show ?thesis by (auto simp: within_def)
  qed
next
  assume "within succ s n t \<or> (\<exists>u. within succ s n u \<and> t \<in> set (succ u))"
  then show "within succ s (Suc n) t"
  proof
    assume "within succ s n t"
    then show ?thesis unfolding within_def using le_SucI by blast
  next
    assume "\<exists>u. within succ s n u \<and> t \<in> set (succ u)"
    then obtain u xs where "walk succ s xs u" "length xs \<le> n" "t \<in> set (succ u)"
      by (auto simp: within_def)
    then have "walk succ s (xs @ [t]) t" and "length (xs @ [t]) \<le> Suc n" by (auto simp: walk_snoc)
    then show ?thesis unfolding within_def by blast
  qed
qed

lemma within_mono: "within succ s m t \<Longrightarrow> m \<le> n \<Longrightarrow> within succ s n t"
  unfolding within_def using order_trans by blast

lemma within_0: "within succ s 0 t \<longleftrightarrow> s = t"
  by (auto simp: within_def)

text \<open>The effect of expanding one state.\<close>

lemma bfs_expand_Inl:
  "bfs_expand target xs path seen queue = Inl p \<Longrightarrow>
     p = path @ [target] \<and> target \<in> set xs"
  by (induction target xs path seen queue rule: bfs_expand.induct) (auto split: if_splits)

lemma bfs_expand_Inr:
  "bfs_expand target xs path seen queue = Inr (seen', queue') \<Longrightarrow>
     \<exists>new. queue' = queue @ map (\<lambda>v. (v, path @ [v])) new \<and> set seen' = set seen \<union> set new \<and>
       set new \<subseteq> set xs \<and> set xs \<subseteq> set seen' \<and> set new \<inter> set seen = {} \<and> (target \<notin> set seen \<longrightarrow> target \<notin> set seen')"
proof (induction target xs path seen queue rule: bfs_expand.induct)
  case (1 target path seen queue)
  then show ?case by (auto intro!: exI [of _ "[]"])
next
  case (2 target nxt rest path seen queue)
  consider "nxt \<in> set seen" | "nxt \<notin> set seen" "nxt \<noteq> target"
    using "2.prems" by (auto split: if_splits)
  then show ?case
  proof cases
    case 1
    with "2.prems" have "bfs_expand target rest path seen queue = Inr (seen', queue')" by simp
    with 1 "2.IH"(1) obtain new where
      "queue' = queue @ map (\<lambda>v. (v, path @ [v])) new" "set seen' = set seen \<union> set new"
      "set new \<subseteq> set rest" "set rest \<subseteq> set seen'" "set new \<inter> set seen = {}"
      "target \<notin> set seen \<longrightarrow> target \<notin> set seen'" by blast
    with 1 show ?thesis by (intro exI [of _ new]) (simp, blast)
  next
    case 2
    with "2.prems" have "bfs_expand target rest path (nxt # seen) (queue @ [(nxt, path @ [nxt])])
        = Inr (seen', queue')" by simp
    with 2 "2.IH"(2) obtain new where
      "queue' = (queue @ [(nxt, path @ [nxt])]) @ map (\<lambda>v. (v, path @ [v])) new"
      "set seen' = set (nxt # seen) \<union> set new" "set new \<subseteq> set rest" "set rest \<subseteq> set seen'"
      "set new \<inter> set (nxt # seen) = {}" "target \<notin> set (nxt # seen) \<longrightarrow> target \<notin> set seen'" by blast
    with 2 show ?thesis by (intro exI [of _ "nxt # new"]) (simp, blast)
  qed
qed

text \<open>The loop invariant of the search from \<open>s\<close>, and that one round keeps it.\<close>

definition bfs_inv :: "('a \<Rightarrow> 'a list) \<Rightarrow> 'a \<Rightarrow> 'a \<Rightarrow> ('a \<times> 'a list) list \<Rightarrow> 'a list \<Rightarrow> bool" where
  "bfs_inv succ s target queue seen \<longleftrightarrow>
     s \<in> set seen \<and> target \<notin> set seen \<and>
     (\<forall>(v, p) \<in> set queue. v \<in> set seen \<and> walk succ s p v \<and> (\<forall>m<length p. \<not> within succ s m v)) \<and>
     (\<forall>v \<in> set seen. v \<in> fst ` set queue \<or> set (succ v) \<subseteq> set seen) \<and>
     sorted (map (length \<circ> snd) queue) \<and>
     (\<forall>v p rest. queue = (v, p) # rest \<longrightarrow>
        (\<forall>x \<in> set queue. length (snd x) \<le> Suc (length p)) \<and>
        (\<forall>u. within succ s (length p) u \<longrightarrow> u \<in> set seen))"

lemma bfs_inv_start: "s \<noteq> target \<Longrightarrow> bfs_inv succ s target [(s, [])] [s]"
  by (simp add: bfs_inv_def within_0)

lemma bfs_inv_step:
  assumes inv: "bfs_inv succ s target ((st, p) # q) seen"
    and ex: "bfs_expand target (succ st) p seen q = Inr (seen', q')"
  shows "bfs_inv succ s target q' seen'"
proof -
  let ?n = "length p"
  obtain new where q': "q' = q @ map (\<lambda>v. (v, p @ [v])) new"
    and seen': "set seen' = set seen \<union> set new" and new: "set new \<subseteq> set (succ st)"
    and cov: "set (succ st) \<subseteq> set seen'" and tgt: "target \<notin> set seen'"
    and fresh: "set new \<inter> set seen = {}"
    using bfs_expand_Inr [OF ex] inv by (auto simp: bfs_inv_def)
  from inv have w: "walk succ s p st" and lvl: "\<And>u. within succ s ?n u \<Longrightarrow> u \<in> set seen"
    and bound: "\<And>x. x \<in> set q \<Longrightarrow> ?n \<le> length (snd x) \<and> length (snd x) \<le> Suc ?n"
    and old: "\<And>v r. (v, r) \<in> set q \<Longrightarrow> v \<in> set seen \<and> walk succ s r v \<and> (\<forall>m<length r. \<not> within succ s m v)"
    and closed: "\<And>v. v \<in> set seen \<Longrightarrow> v = st \<or> v \<in> fst ` set q \<or> set (succ v) \<subseteq> set seen"
    by (auto simp: bfs_inv_def)
  have far: "\<not> within succ s m v" if "v \<in> set new" "m \<le> ?n" for v m
    using that fresh lvl within_mono [of succ s m v ?n] by blast
  have rows: "v \<in> set seen' \<and> walk succ s r v \<and> (\<forall>m<length r. \<not> within succ s m v)"
    if "(v, r) \<in> set q'" for v r
  proof (cases "(v, r) \<in> set q")
    case True
    with old seen' show ?thesis by blast
  next
    case False
    with that have "v \<in> set new" "r = p @ [v]" by (auto simp: q')
    with w new seen' far show ?thesis by (auto simp: walk_snoc less_Suc_eq_le)
  qed
  have clos: "v \<in> fst ` set q' \<or> set (succ v) \<subseteq> set seen'" if "v \<in> set seen'" for v
  proof -
    have q'_fst: "fst ` set q' = fst ` set q \<union> set new" by (force simp: q')
    from that consider "v \<in> set new" | "v \<in> set seen" by (auto simp: seen')
    then show ?thesis
    proof cases
      case 2
      from closed [OF this] cov q'_fst seen' show ?thesis by blast
    qed (simp add: q'_fst)
  qed
  have len: "?n \<le> length (snd x) \<and> length (snd x) \<le> Suc ?n" if "x \<in> set q'" for x
    using that bound [of x] by (auto simp: q')
  have sorted: "sorted (map (length \<circ> snd) q')"
    using inv bound by (auto simp: bfs_inv_def q' sorted_append comp_def map_replicate_const)
  have levels: "u \<in> set seen'" if q'c: "q' = (v, r) # rest" and u: "within succ s (length r) u" for v r rest u
  proof (cases "length r = ?n")
    case True
    with u lvl seen' show ?thesis by auto
  next
    case False
    with q'c len [of "(v, r)"] have r: "length r = Suc ?n" by auto
    have long: "length (snd x) = Suc ?n" if "x \<in> set q'" for x
      using that sorted q'c r len [OF that] by (cases "x = (v, r)") fastforce+
    show ?thesis
    proof (cases "within succ s ?n u")
      case True
      with lvl seen' show ?thesis by auto
    next
      case False
      with u r obtain w where w: "within succ s ?n w" "u \<in> set (succ w)" by (auto simp: within_Suc)
      have "w \<notin> fst ` set q'"
      proof
        assume "w \<in> fst ` set q'"
        then obtain rw where "(w, rw) \<in> set q'" by force
        with rows long [of "(w, rw)"] w(1) show False by auto
      qed
      moreover from w(1) lvl seen' have "w \<in> set seen'" by auto
      ultimately show ?thesis using clos w(2) by auto
    qed
  qed
  show ?thesis unfolding bfs_inv_def
  proof (intro conjI)
    show "\<forall>v p rest. q' = (v, p) # rest \<longrightarrow>
        (\<forall>x \<in> set q'. length (snd x) \<le> Suc (length p)) \<and>
        (\<forall>u. within succ s (length p) u \<longrightarrow> u \<in> set seen')"
    proof (intro allI impI conjI ballI)
      fix v r rest x assume q'c: "q' = (v, r) # rest" and "x \<in> set q'"
      with len [of x] len [of "(v, r)"] show "length (snd x) \<le> Suc (length r)" by auto
    qed (use levels in blast)
  qed (use inv seen' tgt rows clos sorted in \<open>auto simp: bfs_inv_def\<close>)
qed

lemma bfs_sound:
  "bfs succ target queue seen = Some path \<Longrightarrow> bfs_inv succ s target queue seen \<Longrightarrow>
   walk succ s path target \<and> (\<forall>other. walk succ s other target \<longrightarrow> length path \<le> length other)"
proof (induction succ target queue seen rule: bfs.induct)
  case (2 succ target st p q seen)
  show ?case
  proof (cases "bfs_expand target (succ st) p seen q")
    case (Inl found)
    with "2.prems" bfs_expand_Inl [OF Inl] have path: "path = p @ [target]"
      and t: "target \<in> set (succ st)" by auto
    from "2.prems"(2) have w: "walk succ s p st" and far: "\<not> within succ s (length p) target"
      by (auto simp: bfs_inv_def)
    show ?thesis
      using w t far not_less_eq_eq by (auto simp: path walk_snoc within_def)
  next
    case (Inr sq)
    then obtain seen' q' where sq: "bfs_expand target (succ st) p seen q = Inr (seen', q')"
      by (cases sq) auto
    from "2.prems" sq have "bfs succ target q' seen' = Some path" by simp
    with "2.IH" [OF sq refl] bfs_inv_step [OF "2.prems"(2) sq] show ?thesis by blast
  qed
qed simp

lemma closed_walk: "walk succ s xs t \<Longrightarrow> s \<in> S \<Longrightarrow> (\<And>v. v \<in> S \<Longrightarrow> set (succ v) \<subseteq> S) \<Longrightarrow> t \<in> S"
  by (induction xs arbitrary: s) auto

lemma bfs_complete:
  "bfs succ target queue seen = None \<Longrightarrow> bfs_inv succ s target queue seen \<Longrightarrow> \<not> walk succ s path target"
proof (induction succ target queue seen rule: bfs.induct)
  case (1 succ target seen)
  then have "s \<in> set seen" "target \<notin> set seen" and cl: "\<And>v. v \<in> set seen \<Longrightarrow> set (succ v) \<subseteq> set seen"
    by (auto simp: bfs_inv_def)
  then show ?case using closed_walk [of succ s path target "set seen"] by blast
next
  case (2 succ target st p q seen)
  then obtain seen' q' where sq: "bfs_expand target (succ st) p seen q = Inr (seen', q')"
    and none: "bfs succ target q' seen' = None"
    by (auto split: sum.splits)
  with "2.IH" [OF sq refl none] bfs_inv_step [OF "2.prems"(2) sq] show ?case by blast
qed

lemma walk_iteration_order:
  "iteration_order succ \<Longrightarrow> walk succ s xs t \<longleftrightarrow> walk listed_order s xs t"
  by (induction xs arbitrary: s)
    (auto simp: iteration_order_set iteration_order_set [OF listed_order_ok])

lemma payment_path_cases:
  "payment_path succ a b = Inr p \<Longrightarrow>
     walk succ a p b \<and> (\<forall>other. walk succ a other b \<longrightarrow> length p \<le> length other)"
  unfolding payment_path_def using bfs_sound [OF _ bfs_inv_start]
  by (auto split: if_splits option.splits)

lemma payment_path_fails: "payment_path succ a b = Inl e \<Longrightarrow> e = InvalidStateTransition \<and> \<not> walk succ a p b"
  unfolding payment_path_def using bfs_complete [OF _ bfs_inv_start]
  by (auto split: if_splits option.splits)

section \<open>Results\<close>

text \<open>\<open>legal_walk a p b\<close>: every step of \<open>p\<close> is one the guard accepts, from \<open>a\<close> to \<open>b\<close>.\<close>

fun legal_walk :: "PaymentStatus \<Rightarrow> PaymentStatus list \<Rightarrow> PaymentStatus \<Rightarrow> bool" where
  "legal_walk s [] t \<longleftrightarrow> s = t"
| "legal_walk s (x # xs) t \<longleftrightarrow> can_transition_payment s x \<and> legal_walk x xs t"

lemma legal_walk_iff: "iteration_order succ \<Longrightarrow> walk succ s xs t \<longleftrightarrow> legal_walk s xs t"
  by (induction xs arbitrary: s) (auto simp: iteration_order_set can_transition_payment_def)

lemma legal_walk_VERIFIED: "legal_walk PaymentStatus.VERIFIED xs t \<longleftrightarrow> xs = [] \<and> t = PaymentStatus.VERIFIED"
  by (cases xs) (auto simp: can_transition_payment_def)

lemma legal_walk_CANCELLED: "legal_walk PaymentStatus.CANCELLED xs t \<longleftrightarrow> xs = [] \<and> t = PaymentStatus.CANCELLED"
  by (cases xs) (auto simp: can_transition_payment_def)

lemma payment_path_total:
  assumes "iteration_order succ"
  shows "(\<exists>p. payment_path succ a b = Inr p) \<longleftrightarrow> (\<exists>p. legal_walk a p b)"
proof (cases "payment_path succ a b")
  case (Inl e)
  then show ?thesis using payment_path_fails [OF Inl] by (simp add: legal_walk_iff [OF assms])
next
  case (Inr p)
  then show ?thesis using payment_path_cases [OF Inr] by (auto simp: legal_walk_iff [OF assms])
qed

text \<open>
  C11: whatever order the hash-randomised frozenset is iterated in, the path that
  \<open>payment_path\<close> returns consists of transitions the guard accepts, ends in the target, and no legal
  path is shorter.
\<close>

theorem payment_path_shortest:
  assumes "iteration_order succ" and "payment_path succ a b = Inr p"
  shows "legal_walk a p b \<and> (\<forall>q. legal_walk a q b \<longrightarrow> length p \<le> length q)"
  using payment_path_cases [OF assms(2)] by (simp add: legal_walk_iff [OF assms(1)])

theorem payment_path_shortest_witness:
  "payment_path listed_order PaymentStatus.EXPIRED PaymentStatus.VERIFIED
     = Inr [PaymentStatus.UNDER_REVIEW, PaymentStatus.VERIFIED] \<and>
   legal_walk PaymentStatus.EXPIRED [PaymentStatus.UNDER_REVIEW, PaymentStatus.VERIFIED]
     PaymentStatus.VERIFIED"
proof -
  have p: "payment_path listed_order PaymentStatus.EXPIRED PaymentStatus.VERIFIED
     = Inr [PaymentStatus.UNDER_REVIEW, PaymentStatus.VERIFIED]"
    by (simp add: payment_path_def)
  with payment_path_shortest [OF listed_order_ok p] show ?thesis by simp
qed

lemma payment_path_complete_parts:
  assumes "iteration_order succ"
  shows "payment_path succ a b = Inl InvalidStateTransition \<longleftrightarrow> (\<nexists>p. legal_walk a p b)"
    and "b \<noteq> PaymentStatus.VERIFIED \<Longrightarrow>
           payment_path succ PaymentStatus.VERIFIED b = Inl InvalidStateTransition"
    and "(\<exists>p. payment_path succ a PaymentStatus.VERIFIED = Inr p) \<longleftrightarrow> a \<noteq> PaymentStatus.CANCELLED"
proof -
  have fail: "payment_path succ a b = Inl InvalidStateTransition \<longleftrightarrow> (\<nexists>p. legal_walk a p b)" for a b
    using payment_path_total [OF assms, of a b] payment_path_fails [of succ a b]
    by (cases "payment_path succ a b") auto
  then show "payment_path succ a b = Inl InvalidStateTransition \<longleftrightarrow> (\<nexists>p. legal_walk a p b)" .
  show "b \<noteq> PaymentStatus.VERIFIED \<Longrightarrow>
      payment_path succ PaymentStatus.VERIFIED b = Inl InvalidStateTransition"
    by (simp add: fail legal_walk_VERIFIED)
  have V: "PaymentStatus.VERIFIED \<in> PAYMENT_TRANSITIONS a \<or> a = PaymentStatus.VERIFIED \<or>
      PaymentStatus.VERIFYING \<in> PAYMENT_TRANSITIONS a \<or> a = PaymentStatus.CANCELLED \<or>
      PaymentStatus.AWAITING_PAYMENT \<in> PAYMENT_TRANSITIONS a \<or> PaymentStatus.DETECTED \<in> PAYMENT_TRANSITIONS a"
    by (cases a) simp_all
  have "\<exists>p. legal_walk a p PaymentStatus.VERIFIED" if "a \<noteq> PaymentStatus.CANCELLED"
  proof -
    have 1: "legal_walk PaymentStatus.VERIFYING [PaymentStatus.VERIFIED] PaymentStatus.VERIFIED"
      "legal_walk PaymentStatus.DETECTED [PaymentStatus.VERIFIED] PaymentStatus.VERIFIED"
      "legal_walk PaymentStatus.AWAITING_PAYMENT [PaymentStatus.DETECTED, PaymentStatus.VERIFIED]
         PaymentStatus.VERIFIED"
      by (simp_all add: can_transition_payment_def)
    from V that consider "a = PaymentStatus.VERIFIED"
      | q x where "x \<in> PAYMENT_TRANSITIONS a" "legal_walk x q PaymentStatus.VERIFIED"
      using 1 legal_walk.simps(1) by metis
    then show ?thesis
    proof cases
      case (2 q x)
      then show ?thesis by (intro exI [of _ "x # q"]) (simp add: can_transition_payment_def)
    qed (auto intro: exI [of _ "[]"])
  qed
  then show "(\<exists>p. payment_path succ a PaymentStatus.VERIFIED = Inr p) \<longleftrightarrow> a \<noteq> PaymentStatus.CANCELLED"
    using payment_path_total [OF assms] by (auto simp: legal_walk_CANCELLED)
qed

text \<open>
  C12: the search is complete and its failure is the documented exception: it returns a path exactly
  when a legal one exists and raises \<open>InvalidStateTransition\<close> otherwise. In particular a verified
  payment can be moved nowhere, and every status but CANCELLED has a path to VERIFIED.
\<close>

theorem payment_path_complete:
  assumes "iteration_order succ"
  shows "(payment_path succ a b = Inl InvalidStateTransition \<longleftrightarrow> (\<nexists>p. legal_walk a p b))
    \<and> (b \<noteq> PaymentStatus.VERIFIED \<longrightarrow>
           payment_path succ PaymentStatus.VERIFIED b = Inl InvalidStateTransition)
    \<and> ((\<exists>p. payment_path succ a PaymentStatus.VERIFIED = Inr p) \<longleftrightarrow> a \<noteq> PaymentStatus.CANCELLED)"
  using payment_path_complete_parts [OF assms] by simp

theorem payment_path_complete_witness:
  "payment_path listed_order PaymentStatus.VERIFIED PaymentStatus.FAILED = Inl InvalidStateTransition \<and>
   (\<exists>p. payment_path listed_order PaymentStatus.FAILED PaymentStatus.VERIFIED = Inr p)"
  using payment_path_complete [OF listed_order_ok, of PaymentStatus.FAILED PaymentStatus.FAILED] by simp

end
