(* ===== verification/Store.thy ===== *)
theory Store
  imports StateMachines Verification
begin

text \<open>
  The database of the application: the rows of \<^verbatim>\<open>app/db/models\<close>, the state they make up, the
  statements of the repositories that change it, and the environment an operation reads (clock,
  settings, cryptography, the adapter of the payment provider).

  A row record carries the columns that some modelled operation reads or writes; its fields have the
  column's name with a prefix. Columns that hold text for people, display metadata or correlation ids
  are left out. Relationships are ids. All tables draw their primary keys from one counter, which is
  what makes a new key fresh. \<open>created_at\<close> is set by the database to the time of the insertion.
\<close>

section \<open>Rows\<close>

record User =
  u_orders_count :: int
  u_completed_orders_count :: int
  u_total_spent :: decimal
  u_status :: UserStatus
  u_referral_code :: string
  u_referred_by_id :: "nat option"
  u_referral_balance :: decimal
  u_is_bot_blocked :: bool
  u_notifications_enabled :: bool

record Referral =
  rl_referrer_id :: nat
  rl_referred_user_id :: nat
  rl_status :: ReferralStatus
  rl_qualifying_order_id :: "nat option"
  rl_reward_amount :: decimal
  rl_reward_currency :: string
  rl_rewarded_at :: "time option"

record Product =
  p_sku :: string
  p_category_id :: "nat option"
  p_name :: string
  p_price :: decimal
  p_currency :: string
  p_status :: ProductStatus
  p_delivery_type :: DeliveryType
  p_delivery_payload :: "string option"
  p_delivery_file_id :: "string option"
  p_min_quantity :: int
  p_max_quantity :: "int option"
  p_stock_override :: "int option"
  p_low_stock_threshold :: int
  p_available_to_customers :: bool
  p_available_to_resellers :: bool
  p_reseller_price :: "decimal option"
  p_sales_count :: int
  p_deleted_at :: "time option"

record InventoryItem =
  ii_product_id :: nat
  ii_status :: StockItemStatus
  ii_secret_payload :: string
  ii_fingerprint :: string
  ii_order_item_id :: "nat option"
  ii_sold_at :: "time option"
  ii_created_at :: time

record InventoryReservation =
  ir_inventory_item_id :: nat
  ir_order_id :: nat
  ir_order_item_id :: "nat option"
  ir_status :: ReservationStatus
  ir_expires_at :: time
  ir_released_at :: "time option"
  ir_consumed_at :: "time option"

record InventoryAdjustment =
  ia_product_id :: nat
  ia_inventory_item_id :: "nat option"
  ia_actor_id :: "nat option"
  ia_action :: string
  ia_quantity :: int

record Coupon =
  c_code :: string
  c_coupon_type :: CouponType
  c_value :: decimal
  c_currency :: string
  c_max_discount :: "decimal option"
  c_min_order_amount :: decimal
  c_max_redemptions :: "int option"
  c_max_redemptions_per_user :: int
  c_redemptions_count :: int
  c_starts_at :: "time option"
  c_expires_at :: "time option"
  c_is_active :: bool
  c_product_ids :: "nat list"
  c_category_ids :: "nat list"
  c_reseller_only :: bool

record CouponUsage =
  cu_coupon_id :: nat
  cu_user_id :: nat
  cu_order_id :: nat
  cu_discount_amount :: decimal
  cu_reverted_at :: "time option"

record Order =
  o_reference :: string
  o_user_id :: "nat option"
  o_reseller_id :: "nat option"
  o_idempotency_key :: "string option"
  o_customer_reference :: "string option"
  o_reseller_reference :: "string option"
  o_status :: OrderStatus
  o_currency :: string
  o_subtotal :: decimal
  o_discount_total :: decimal
  o_total :: decimal
  o_coupon_id :: "nat option"
  o_coupon_code :: "string option"
  o_channel :: string
  o_paid_at :: "time option"
  o_delivered_at :: "time option"
  o_completed_at :: "time option"
  o_cancelled_at :: "time option"
  o_created_at :: time

record OrderItem =
  oi_order_id :: nat
  oi_product_id :: "nat option"
  oi_product_name :: string
  oi_product_sku :: string
  oi_delivery_type :: DeliveryType
  oi_quantity :: int
  oi_unit_price :: decimal
  oi_line_total :: decimal
  oi_currency :: string

record Delivery =
  d_order_id :: nat
  d_order_item_id :: nat
  d_status :: DeliveryStatus
  d_delivery_type :: DeliveryType
  d_encrypted_payload :: "string option"
  d_file_id :: "string option"
  d_inventory_item_ids :: "nat list"
  d_attempts :: nat
  d_next_attempt_at :: "time option"
  d_delivered_at :: "time option"
  d_first_viewed_at :: "time option"
  d_created_at :: time

record Refund =
  rf_order_id :: nat
  rf_payment_intent_id :: "nat option"
  rf_amount :: decimal
  rf_currency :: string
  rf_status :: RefundStatus
  rf_destination :: "string option"
  rf_destination_network :: "string option"
  rf_external_reference :: "string option"
  rf_requested_by_id :: "nat option"
  rf_approved_by_id :: "nat option"
  rf_processed_at :: "time option"

record LedgerEntry =
  l_entry_type :: LedgerEntryType
  l_amount :: decimal
  l_currency :: string
  l_order_id :: "nat option"
  l_payment_intent_id :: "nat option"
  l_user_id :: "nat option"
  l_actor_id :: "nat option"
  l_dedupe_key :: string
  l_created_at :: time

record PaymentProvider =
  pp_code :: ProviderCode
  pp_kind :: PaymentProviderKind
  pp_is_enabled :: bool
  pp_healthy :: "bool option"
  pp_health_checked_at :: "time option"
  pp_consecutive_failures :: int
  pp_last_success_at :: "time option"

record PaymentMethod =
  pm_code :: string
  pm_provider_id :: nat
  pm_is_enabled :: bool
  pm_asset :: string
  pm_asset_decimals :: int
  pm_network :: NetworkCode
  pm_receiving_address :: "string option"
  pm_token_contract :: "string option"
  pm_requires_memo :: bool
  pm_memo_template :: "string option"
  pm_required_confirmations :: int
  pm_payment_window_seconds :: int
  pm_min_amount :: "decimal option"
  pm_max_amount :: "decimal option"
  pm_quote_rate :: "decimal option"

text \<open>The columns of a payment intent that are written when it is created and never again.\<close>

record intent_snapshot =
  sn_reference :: string
  sn_order_id :: nat
  sn_payment_method_id :: nat
  sn_provider_code :: ProviderCode
  sn_network :: NetworkCode
  sn_order_amount :: decimal
  sn_order_currency :: string
  sn_expected_amount :: decimal
  sn_expected_amount_units :: int
  sn_asset :: string
  sn_asset_decimals :: int
  sn_destination :: string
  sn_destination_normalized :: string
  sn_token_contract :: "string option"
  sn_memo :: "string option"
  sn_required_confirmations :: int
  sn_quote_rate :: decimal
  sn_expires_at :: time
  sn_created_at :: time

record PaymentIntent =
  i_snap :: intent_snapshot
  i_status :: PaymentStatus
  i_submitted_at :: "time option"
  i_detected_at :: "time option"
  i_verified_at :: "time option"
  i_failed_at :: "time option"
  i_received_amount :: "decimal option"
  i_received_amount_units :: "int option"
  i_confirmations :: int
  i_verification_attempts :: int
  i_next_poll_at :: "time option"
  i_last_outcome :: "VerificationOutcome option"

record PaymentAttempt =
  a_payment_intent_id :: nat
  a_provider_code :: ProviderCode
  a_network :: NetworkCode
  a_submitted_reference :: "string option"
  a_submitted_txid :: "string option"
  a_submitted_at :: time
  a_verification_count :: int
  a_last_outcome :: "VerificationOutcome option"
  a_source :: string

record ProviderTransaction =
  pt_provider_code :: ProviderCode
  pt_external_id :: string
  pt_record_type :: string
  pt_asset :: string
  pt_network :: NetworkCode
  pt_amount :: decimal
  pt_status :: string
  pt_txid :: "string option"
  pt_address :: string
  pt_reference :: "string option"
  pt_confirmations :: int
  pt_observed_at :: time

record BlockchainTransaction =
  bt_network :: NetworkCode
  bt_txid :: string
  bt_log_index :: int
  bt_asset :: string
  bt_token_contract :: "string option"
  bt_from_address :: "string option"
  bt_to_address :: string
  bt_to_address_normalized :: string
  bt_amount_units :: int
  bt_amount :: decimal
  bt_decimals :: int
  bt_memo :: "string option"
  bt_block_number :: "int option"
  bt_block_time :: "time option"
  bt_confirmations :: int
  bt_is_successful :: bool
  bt_observed_at :: time

record VerificationAttempt =
  v_payment_intent_id :: nat
  v_payment_attempt_id :: "nat option"
  v_provider_code :: ProviderCode
  v_outcome :: VerificationOutcome
  v_checks :: "(string \<times> bool) list"
  v_observed_amount :: "decimal option"
  v_observed_confirmations :: "int option"
  v_external_reference :: "string option"

record PaymentConsumption =
  pc_fingerprint :: string
  pc_payment_intent_id :: nat
  pc_order_id :: nat
  pc_provider_code :: ProviderCode
  pc_network :: NetworkCode
  pc_external_id :: string
  pc_amount :: decimal
  pc_amount_units :: int
  pc_asset :: string
  pc_consumed_at :: time

record ReconciliationRecord =
  rr_kind :: ReconciliationKind
  rr_status :: ReconciliationStatus
  rr_dedupe_key :: string
  rr_payment_intent_id :: "nat option"
  rr_order_id :: "nat option"
  rr_resolved_by_id :: "nat option"
  rr_resolved_at :: "time option"

record Notification =
  n_user_id :: nat
  n_kind :: NotificationKind
  n_created_at :: time
  n_read_at :: "time option"
  n_pushed_at :: "time option"

section \<open>The database\<close>

record db =
  db_next :: nat
  users :: "User table"
  referrals :: "Referral table"
  products :: "Product table"
  inventory_items :: "InventoryItem table"
  inventory_reservations :: "InventoryReservation table"
  inventory_adjustments :: "InventoryAdjustment table"
  coupons :: "Coupon table"
  coupon_usages :: "CouponUsage table"
  orders :: "Order table"
  order_items :: "OrderItem table"
  deliveries :: "Delivery table"
  refunds :: "Refund table"
  ledger_entries :: "LedgerEntry table"
  payment_providers :: "PaymentProvider table"
  payment_methods :: "PaymentMethod table"
  payment_intents :: "PaymentIntent table"
  payment_attempts :: "PaymentAttempt table"
  provider_transactions :: "ProviderTransaction table"
  blockchain_transactions :: "BlockchainTransaction table"
  verification_attempts :: "VerificationAttempt table"
  payment_consumptions :: "PaymentConsumption table"
  reconciliation_records :: "ReconciliationRecord table"
  notifications :: "Notification table"

definition empty_db :: db where
  "empty_db = \<lparr>db_next = 0, users = [], referrals = [], products = [], inventory_items = [],
     inventory_reservations = [], inventory_adjustments = [], coupons = [], coupon_usages = [],
     orders = [], order_items = [], deliveries = [], refunds = [], ledger_entries = [],
     payment_providers = [], payment_methods = [], payment_intents = [], payment_attempts = [],
     provider_transactions = [], blockchain_transactions = [], verification_attempts = [],
     payment_consumptions = [], reconciliation_records = [], notifications = []\<rparr>"

section \<open>The environment of an operation\<close>

text \<open>
  The clock is read once per operation. \<open>env_fetch\<close> is \<^verbatim>\<open>build_adapter\<close> followed by
  \<^verbatim>\<open>find_transactions\<close>: it may raise \<open>ConfigurationError\<close> or \<open>ProviderError\<close>. \<open>env_succ\<close> is the
  iteration order of the transition sets in this process, \<open>env_uuid\<close> the hexadecimal digits of the
  UUID an operation draws, \<open>env_encrypt\<close> and \<open>env_decrypt\<close> are the secret box. \<open>env_health\<close> is the
  health probe of an adapter (\<open>None\<close>: it raised), \<open>env_lock\<close> the answer of the distributed lock,
  \<open>env_bot\<close> whether a Telegram bot is configured, \<open>env_forbidden\<close> the users whose chat rejects a message,
  \<open>env_updated_at\<close> the time of the last change of an intent, which the database stamps.
\<close>

record env =
  env_now :: time
  env_succ :: "PaymentStatus \<Rightarrow> PaymentStatus list"
  env_sha256 :: "string \<Rightarrow> string"
  env_encrypt :: "string \<Rightarrow> string"
  env_decrypt :: "string \<Rightarrow> error + string"
  env_uuid :: string
  env_fetch :: "PaymentProvider \<Rightarrow> PaymentMethod \<Rightarrow> PaymentExpectation \<Rightarrow> string option
                  \<Rightarrow> error + ObservedTransaction list"
  env_health :: "PaymentProvider \<Rightarrow> PaymentMethod option \<Rightarrow> bool option"
  env_lock :: bool
  env_bot :: bool
  env_forbidden :: "nat \<Rightarrow> bool"
  env_updated_at :: "nat \<Rightarrow> time"
  set_default_window_seconds :: int
  set_underpayment_tolerance :: decimal
  set_overpayment_tolerance :: decimal
  set_late_payment_grace_seconds :: int
  set_verification_poll_interval :: int
  set_max_verification_attempts :: int
  set_reservation_ttl_seconds :: int
  set_delivery_max_attempts :: nat
  set_order_reference_prefix :: string
  set_coupons_enabled :: bool

section \<open>Statements\<close>

type_synonym 'a dbm = "(db, 'a) svc"

definition insS :: "(('r table \<Rightarrow> 'r table) \<Rightarrow> db \<Rightarrow> db) \<Rightarrow> 'r \<Rightarrow> nat dbm" where
  "insS up r = (\<lambda>s. (Inr (db_next s), up (tadd (db_next s) r) (s\<lparr>db_next := Suc (db_next s)\<rparr>)))"

definition updS :: "(('r table \<Rightarrow> 'r table) \<Rightarrow> db \<Rightarrow> db) \<Rightarrow> nat \<Rightarrow> ('r \<Rightarrow> 'r) \<Rightarrow> unit dbm" where
  "updS up k f = modifyS (up (tupd k f))"

definition loadS :: "(db \<Rightarrow> 'r table) \<Rightarrow> nat \<Rightarrow> 'r dbm" where
  "loadS sel k = (\<lambda>s. case tget (sel s) k of None \<Rightarrow> (Inl NotFoundError, s) | Some r \<Rightarrow> (Inr r, s))"

text \<open>A violated UNIQUE or CHECK constraint surfaces as \<open>IntegrityError\<close> when the change is flushed.\<close>

definition uniqueS :: "(db \<Rightarrow> 'r table) \<Rightarrow> ('r \<Rightarrow> bool) \<Rightarrow> unit dbm" where
  "uniqueS sel P = bindS (getsS (\<lambda>s. texists P (sel s))) (\<lambda>b. guardS (\<not> b) IntegrityError)"

definition checkS :: "bool \<Rightarrow> unit dbm" where
  "checkS b = guardS b IntegrityError"

text \<open>Writing a decimal into a \<^verbatim>\<open>NUMERIC(30, 8)\<close> column rounds it half away from zero.\<close>

definition numeric_30_8 :: "decimal \<Rightarrow> error + decimal" where
  "numeric_30_8 d = (let r = rescale ROUND_HALF_UP d (- 8) in
     if \<bar>coef r\<bar> < 10 ^ 30 then Inr r else Inl DataError)"

text \<open>Sum of a \<open>NUMERIC\<close> column as the database returns it.\<close>

definition numeric_sum :: "decimal list \<Rightarrow> decimal" where
  "numeric_sum ds = foldr (\<lambda>d a. let e = min (expo d) (expo a) in
     Dec (coef d * 10 ^ nat (expo d - e) + coef a * 10 ^ nat (expo a - e)) e) ds D0"

section \<open>Insertions under their constraints\<close>

definition insert_order :: "Order \<Rightarrow> nat dbm" where
  "insert_order r =
     thenS (uniqueS orders (\<lambda>x. o_reference x = o_reference r))
    (thenS (uniqueS orders (\<lambda>x. o_reseller_id r \<noteq> None \<and> o_idempotency_key r \<noteq> None
        \<and> o_reseller_id x = o_reseller_id r \<and> o_idempotency_key x = o_idempotency_key r))
    (thenS (checkS (dle D0 (o_total r) \<and> dle D0 (o_subtotal r) \<and> dle D0 (o_discount_total r)))
    (insS orders_update r)))"

definition insert_order_item :: "OrderItem \<Rightarrow> nat dbm" where
  "insert_order_item r =
     thenS (checkS (0 < oi_quantity r \<and> dle D0 (oi_unit_price r))) (insS order_items_update r)"

definition insert_coupon_usage :: "CouponUsage \<Rightarrow> nat dbm" where
  "insert_coupon_usage r =
     thenS (uniqueS coupon_usages (\<lambda>x. cu_order_id x = cu_order_id r)) (insS coupon_usages_update r)"

definition insert_inventory_item :: "InventoryItem \<Rightarrow> nat dbm" where
  "insert_inventory_item r =
     thenS (uniqueS inventory_items (\<lambda>x. ii_product_id x = ii_product_id r
        \<and> ii_fingerprint x = ii_fingerprint r))
    (insS inventory_items_update r)"

definition insert_reservation :: "InventoryReservation \<Rightarrow> nat dbm" where
  "insert_reservation r =
     thenS (uniqueS inventory_reservations (\<lambda>x. ir_inventory_item_id x = ir_inventory_item_id r
        \<and> ir_status x = ir_status r))
    (insS inventory_reservations_update r)"

text \<open>An UPDATE of a reservation's status checks the same UNIQUE constraint against the other rows.\<close>

definition set_reservation_status ::
    "nat \<Rightarrow> ReservationStatus \<Rightarrow> (InventoryReservation \<Rightarrow> InventoryReservation) \<Rightarrow> unit dbm" where
  "set_reservation_status k st f =
     bindS (loadS inventory_reservations k) (\<lambda>r.
     bindS (getsS (\<lambda>s. \<exists>(j, x) \<in> set (inventory_reservations s). j \<noteq> k
        \<and> ir_inventory_item_id x = ir_inventory_item_id r \<and> ir_status x = st)) (\<lambda>clash.
     thenS (guardS (\<not> clash) IntegrityError)
    (updS inventory_reservations_update k (\<lambda>x. (f x)\<lparr>ir_status := st\<rparr>))))"

definition insert_delivery :: "Delivery \<Rightarrow> nat dbm" where
  "insert_delivery r =
     thenS (uniqueS deliveries (\<lambda>x. d_order_item_id x = d_order_item_id r)) (insS deliveries_update r)"

definition insert_refund :: "Refund \<Rightarrow> nat dbm" where
  "insert_refund r = thenS (checkS (dlt D0 (rf_amount r))) (insS refunds_update r)"

definition insert_ledger_entry :: "LedgerEntry \<Rightarrow> nat dbm" where
  "insert_ledger_entry r =
     thenS (uniqueS ledger_entries (\<lambda>x. l_dedupe_key x = l_dedupe_key r)) (insS ledger_entries_update r)"

definition insert_intent :: "PaymentIntent \<Rightarrow> nat dbm" where
  "insert_intent r =
     thenS (uniqueS payment_intents (\<lambda>x. sn_reference (i_snap x) = sn_reference (i_snap r)))
    (thenS (checkS (dlt D0 (sn_expected_amount (i_snap r))))
    (insS payment_intents_update r))"

definition insert_consumption :: "PaymentConsumption \<Rightarrow> nat dbm" where
  "insert_consumption r =
     thenS (uniqueS payment_consumptions (\<lambda>x. pc_fingerprint x = pc_fingerprint r))
    (thenS (uniqueS payment_consumptions (\<lambda>x. pc_payment_intent_id x = pc_payment_intent_id r))
    (insS payment_consumptions_update r))"

definition insert_referral :: "Referral \<Rightarrow> nat dbm" where
  "insert_referral r =
     thenS (uniqueS referrals (\<lambda>x. rl_referred_user_id x = rl_referred_user_id r))
    (insS referrals_update r)"

end
