(* ===== verification/Adapters.thy ===== *)
theory Adapters
  imports Exchanges Store
begin

text \<open>
  \<^verbatim>\<open>app/domain/payments/registry.py\<close>: which adapter serves a provider and a method, and what an adapter does
  once built. The columns of a provider that only the registry reads are the record \<open>ProviderSetup\<close>; the
  secret box is \<open>env_decrypt\<close>. A \<open>world\<close> is what answers at the address an adapter was given.
\<close>

section \<open>Building an adapter\<close>

record ProviderSetup =
  ps_code :: ProviderCode
  ps_base_url :: "string option"
  ps_config :: json
  ps_encrypted_api_key :: "string option"
  ps_encrypted_api_secret :: "string option"
  ps_encrypted_passphrase :: "string option"
  ps_account_identifier :: "string option"

record ProviderCredentials =
  cr_api_key :: "string option"
  cr_api_secret :: "string option"
  cr_passphrase :: "string option"
  cr_account_identifier :: "string option"

definition is_complete :: "ProviderCredentials \<Rightarrow> bool" where
  "is_complete c \<longleftrightarrow> truthy_str (cr_api_key c) \<and> truthy_str (cr_api_secret c)"

definition decrypt_column :: "env \<Rightarrow> string option \<Rightarrow> error + string option" where
  "decrypt_column env c = (if truthy_str c then bindE (env_decrypt env (the c)) (\<lambda>p. Inr (Some p)) else Inr None)"

definition decrypt_credentials :: "env \<Rightarrow> ProviderSetup \<Rightarrow> error + ProviderCredentials" where
  "decrypt_credentials env p =
     bindE (decrypt_column env (ps_encrypted_api_key p)) (\<lambda>k.
     bindE (decrypt_column env (ps_encrypted_api_secret p)) (\<lambda>s.
     bindE (decrypt_column env (ps_encrypted_passphrase p)) (\<lambda>w.
     Inr \<lparr>cr_api_key = k, cr_api_secret = s, cr_passphrase = w, cr_account_identifier = ps_account_identifier p\<rparr>)))"

datatype adapter =
    BinanceDepositAdapter string int int
  | BinancePayAdapter string
  | BybitAdapter string int int
  | OKXAdapter string int "string list"
  | TronAdapter string "json"
  | EVMAdapter string NetworkCode
  | TONAdapter string "json" int
  | SolanaAdapter string
  | UTXOAdapter string NetworkCode

definition EVM_NETWORKS :: "NetworkCode list" where
  "EVM_NETWORKS = [NetworkCode.BEP20, NetworkCode.ERC20, NetworkCode.AVAXC, NetworkCode.ARBITRUM, NetworkCode.POLYGON]"

text \<open>\<^verbatim>\<open>provider.base_url or DEFAULT\<close>\<close>

definition base_url_or :: "ProviderSetup \<Rightarrow> string \<Rightarrow> string" where
  "base_url_or p d = str_or (ps_base_url p) (Some d)"

text \<open>The address of the node of one network: an entry of a dictionary of the configuration, else the base URL.\<close>

definition network_url :: "ProviderSetup \<Rightarrow> string \<Rightarrow> NetworkCode \<Rightarrow> error + string" where
  "network_url p key network =
     bindE (jsub (por (ps_config p) (JDict [])) key) (\<lambda>urls.
     bindE (jget urls (network_value network)) (\<lambda>u.
     let url = (if truthy u then py_str u else or_else (ps_base_url p) []) in
     if url = [] then Inl ConfigurationError else Inr url))"

definition credited_states_of :: "json \<Rightarrow> error + string list" where
  "credited_states_of v = (if truthy v then bindE (jiter v) (\<lambda>xs. Inr (map py_str xs)) else Inr DEFAULT_CREDITED_STATES)"

definition build_adapter :: "env \<Rightarrow> ProviderSetup \<Rightarrow> NetworkCode option \<Rightarrow> error + adapter" where
  "build_adapter env p network =
     (let code = ps_code p; config = por (ps_config p) (JDict []);
          number = (\<lambda>key d. bindE (jgetd config key (JInt d)) py_int) in
      if code \<in> {ProviderCode.BINANCE, ProviderCode.BINANCE_PAY, ProviderCode.BYBIT, ProviderCode.OKX} then
        bindE (decrypt_credentials env p) (\<lambda>c.
        if \<not> is_complete c then Inl ConfigurationError
        else if code = ProviderCode.BINANCE then
          bindE (number ''recv_window'' 5000) (\<lambda>w. bindE (number ''lookback_minutes'' 240) (\<lambda>l.
          Inr (BinanceDepositAdapter (base_url_or p ''https://api.binance.com'') w l)))
        else if code = ProviderCode.BINANCE_PAY then
          Inr (BinancePayAdapter (base_url_or p ''https://bpay.binanceapi.com''))
        else if code = ProviderCode.BYBIT then
          bindE (number ''recv_window'' 5000) (\<lambda>w. bindE (number ''lookback_minutes'' 240) (\<lambda>l.
          Inr (BybitAdapter (base_url_or p ''https://api.bybit.com'') w l)))
        else if \<not> truthy_str (cr_passphrase c) then Inl ConfigurationError
        else
          bindE (jget config ''credited_states'') (\<lambda>states.
          bindE (number ''lookback_minutes'' 240) (\<lambda>l.
          bindE (credited_states_of states) (\<lambda>cs.
          Inr (OKXAdapter (base_url_or p ''https://www.okx.com'') l cs)))))
      else if code = ProviderCode.TRON then
        bindE (jget config ''api_key'') (\<lambda>k. Inr (TronAdapter (base_url_or p ''https://api.trongrid.io'') k))
      else if code = ProviderCode.EVM then
        (case network of
           Some n \<Rightarrow> if n \<in> set EVM_NETWORKS
             then bindE (network_url p ''rpc_urls'' n) (\<lambda>url. Inr (EVMAdapter url n)) else Inl ConfigurationError
         | None \<Rightarrow> Inl ConfigurationError)
      else if code = ProviderCode.TON then
        bindE (jget config ''api_key'') (\<lambda>k. bindE (number ''lookback_minutes'' 240) (\<lambda>l.
        Inr (TONAdapter (base_url_or p ''https://toncenter.com'') k l)))
      else if code = ProviderCode.SOLANA then
        Inr (SolanaAdapter (base_url_or p ''https://api.mainnet-beta.solana.com''))
      else if code = ProviderCode.UTXO then
        (case network of
           Some n \<Rightarrow> if n \<in> {NetworkCode.BTC, NetworkCode.LTC}
             then bindE (network_url p ''esplora_urls'' n) (\<lambda>url. Inr (UTXOAdapter url n)) else Inl ConfigurationError
         | None \<Rightarrow> Inl ConfigurationError)
      else Inl UnsupportedCapabilityError)"

section \<open>Using it\<close>

record world =
  w_codec :: codec
  w_rpc :: "string \<Rightarrow> rpc"
  w_web :: "string \<Rightarrow> web"
  w_tip :: "string \<Rightarrow> error + string"
  w_pay_probe :: "string \<Rightarrow> error + bool"

definition find_transactions ::
    "time \<Rightarrow> world \<Rightarrow> adapter \<Rightarrow> PaymentExpectation \<Rightarrow> string option \<Rightarrow> error + ObservedTransaction list" where
  "find_transactions now w a e reference =
     (case a of
        BinanceDepositAdapter url _ l \<Rightarrow> binance_find now (w_web w url) l e
      | BinancePayAdapter url \<Rightarrow> binance_pay_find now (w_web w url) e reference
      | BybitAdapter url _ l \<Rightarrow> bybit_find now (w_web w url) l e
      | OKXAdapter url l cs \<Rightarrow> okx_find now (w_web w url) l (if cs = [] then DEFAULT_CREDITED_STATES else cs) e
      | TronAdapter url _ \<Rightarrow> tron_find now (w_codec w) (w_rpc w url) e reference
      | EVMAdapter url n \<Rightarrow> evm_find now (w_rpc w url) n e reference
      | TONAdapter url _ l \<Rightarrow> ton_find now (w_web w url) l e
      | SolanaAdapter url \<Rightarrow> solana_find now (w_rpc w url) e reference
      | UTXOAdapter url n \<Rightarrow> utxo_find now (w_web w url) (w_tip w url) n e reference)"

text \<open>
  \<^verbatim>\<open>healthy\<close> of the probe: a \<open>ProviderError\<close> is an answer, any other exception escapes. The probe of Binance Pay
  searches the text of its error, which is not kept here, so its answer belongs to the world.
\<close>

definition probed :: "error + 'a \<Rightarrow> ('a \<Rightarrow> error + bool) \<Rightarrow> error + bool" where
  "probed answer healthy = (case answer of Inr a \<Rightarrow> healthy a
     | Inl err \<Rightarrow> (case err of ProviderError _ \<Rightarrow> Inr False | _ \<Rightarrow> Inl err))"

definition signed_health :: "error + 'a \<Rightarrow> error + bool" where
  "signed_health answer = probed answer (\<lambda>_. Inr True)"

definition tron_health :: "rpc \<Rightarrow> error + bool" where
  "tron_health post = probed (tron_post post ''/wallet/getnowblock'' []) (\<lambda>head_block.
     bindE (jsub head_block ''block_header'') (\<lambda>h. bindE (jsub h ''raw_data'') (\<lambda>d.
     bindE (jget d ''number'') (\<lambda>n. Inr (truthy n)))))"

definition evm_health :: "rpc \<Rightarrow> error + bool" where
  "evm_health post = probed (evm_rpc post ''eth_blockNumber'' []) (\<lambda>head_block.
     bindE (hex_to_int head_block) (\<lambda>_. Inr True))"

definition ton_health :: "web \<Rightarrow> error + bool" where
  "ton_health get = probed (ton_get get ''/api/v3/masterchainInfo'' []) (\<lambda>info.
     bindE (jsub info ''last'') (\<lambda>d. bindE (jget d ''seqno'') (\<lambda>n. Inr (truthy n))))"

definition solana_health :: "rpc \<Rightarrow> error + bool" where
  "solana_health post = probed (solana_rpc post ''getSlot'' [JDict [(''commitment'', JStr ''confirmed'')]])
     (\<lambda>slot. Inr (truthy slot))"

definition utxo_health :: "error + string \<Rightarrow> error + bool" where
  "utxo_health tip = probed (tip_height tip) (\<lambda>height. Inr (0 < height))"

definition bybit_health :: "web \<Rightarrow> error + bool" where
  "bybit_health get = signed_health (bybit_get get ''/v5/account/info'' [])"

definition okx_health :: "web \<Rightarrow> error + bool" where
  "okx_health get = signed_health (okx_get get ''/api/v5/account/balance'' [(''ccy'', JStr ''USDT'')])"

definition binance_health :: "web \<Rightarrow> error + bool" where
  "binance_health get = signed_health (get ''/sapi/v1/account/status'' [])"

definition health_check :: "world \<Rightarrow> adapter \<Rightarrow> error + bool" where
  "health_check w a =
     (case a of
        BinanceDepositAdapter url _ _ \<Rightarrow> binance_health (w_web w url)
      | BybitAdapter url _ _ \<Rightarrow> bybit_health (w_web w url)
      | OKXAdapter url _ _ \<Rightarrow> okx_health (w_web w url)
      | BinancePayAdapter url \<Rightarrow> w_pay_probe w url
      | TronAdapter url _ \<Rightarrow> tron_health (w_rpc w url)
      | EVMAdapter url _ \<Rightarrow> evm_health (w_rpc w url)
      | TONAdapter url _ _ \<Rightarrow> ton_health (w_web w url)
      | SolanaAdapter url \<Rightarrow> solana_health (w_rpc w url)
      | UTXOAdapter url _ \<Rightarrow> utxo_health (w_tip w url))"

end
