(* ===== verification/Reports.thy ===== *)
theory Reports
  imports Adapters
begin

text \<open>Every adapter reports transfers of its own provider, and an adapter of one chain transfers of its network.\<close>

definition own :: "ProviderCode \<Rightarrow> (NetworkCode \<Rightarrow> bool) \<Rightarrow> ObservedTransaction \<Rightarrow> bool" where
  "own code ok t \<longleftrightarrow> tx_provider t = code \<and> ok (tx_network t)"

abbreviation reports_row :: "ProviderCode \<Rightarrow> (NetworkCode \<Rightarrow> bool) \<Rightarrow> error + ObservedTransaction option \<Rightarrow> bool" where
  "reports_row code ok m \<equiv> returns (pred_option (own code ok)) m"

abbreviation reports :: "ProviderCode \<Rightarrow> (NetworkCode \<Rightarrow> bool) \<Rightarrow> error + ObservedTransaction list \<Rightarrow> bool" where
  "reports code ok m \<equiv> returns (\<lambda>ys. \<forall>t \<in> set ys. own code ok t) m"

text \<open>The rows.\<close>

lemma evm_rows:
  "reports_row ProviderCode.EVM ((=) n) (evm_token_transfer now n e r k ok bt h entry)"
  by (simp add: evm_token_transfer_def Let_def returns_simps own_def)

lemma evm_native_reports: "reports ProviderCode.EVM ((=) n) (evm_native_transfer now n e r k ok bt h)"
  by (simp add: evm_native_transfer_def Let_def returns_simps own_def)

lemma tron_rows: "reports_row ProviderCode.TRON ((=) NetworkCode.TRC20) (tron_transfer now c e k ok bt h b x)"
  by (simp add: tron_transfer_def Let_def returns_simps own_def case_prod_unfold option.pred_map option.pred_True comp_def)

lemma tron_native_reports: "reports ProviderCode.TRON ((=) NetworkCode.TRC20) (tron_native_transfer now c e r k ok bt h b)"
  by (simp add: tron_native_transfer_def Let_def returns_simps own_def)

lemma utxo_rows: "reports_row ProviderCode.UTXO ((=) n) (utxo_output now n e bh cf k bt h s x)"
  by (simp add: utxo_output_def Let_def returns_simps own_def case_prod_unfold)

lemma solana_rows:
  "reports_row ProviderCode.SOLANA ((=) NetworkCode.SOL) (spl_transfer now e pre k ok bt s sl x)"
  "reports_row ProviderCode.SOLANA ((=) NetworkCode.SOL) (sol_transfer now e a b k ok bt s sl x)"
  by (simp_all add: spl_transfer_def sol_transfer_def Let_def returns_simps own_def case_prod_unfold)

lemma ton_rows:
  "reports_row ProviderCode.TON ((=) NetworkCode.TON) (normalize_jetton now row e)"
  "reports_row ProviderCode.TON ((=) NetworkCode.TON) (ton_message now e row)"
  by (simp_all add: normalize_jetton_def ton_message_def Let_def returns_simps own_def split: option.split)

lemma exchange_rows:
  "reports_row ProviderCode.BINANCE (\<lambda>_. True) (normalize_deposit now row e)"
  "reports_row ProviderCode.BYBIT (\<lambda>_. True) (bybit_onchain now e row)"
  "reports_row ProviderCode.BYBIT (\<lambda>_. True) (bybit_internal now e row)"
  "reports_row ProviderCode.OKX (\<lambda>_. True) (okx_deposit now cs e row)"
  by (simp_all add: normalize_deposit_def bybit_onchain_def bybit_internal_def okx_deposit_def Let_def returns_simps
      own_def case_prod_unfold split: option.split)

text \<open>The answers.\<close>

lemma outputs_report: "reports ProviderCode.UTXO ((=) n) (outputs_to_us now n v e k)"
  by (simp add: outputs_to_us_def Let_def returns_simps returns_collect utxo_rows)

lemma evm_reports: "reports ProviderCode.EVM ((=) n) (evm_find now post n e ref)"
  by (simp add: evm_find_def Let_def returns_simps returns_collect evm_rows evm_native_reports)

lemma tron_list: "collectE (tron_transfer now c e k ok bt h b) xs = Inr ys \<Longrightarrow> t \<in> set ys \<Longrightarrow>
    own ProviderCode.TRON ((=) NetworkCode.TRC20) t"
  using returns_collect [of xs "own ProviderCode.TRON ((=) NetworkCode.TRC20)" "tron_transfer now c e k ok bt h b", OF tron_rows]
  by (simp add: returns_def)

lemma tron_reports: "reports ProviderCode.TRON ((=) NetworkCode.TRC20) (tron_find now c post e ref)"
  by (auto simp: tron_find_def Let_def returns_simps tron_native_reports intro: tron_list)

lemma utxo_reports: "reports ProviderCode.UTXO ((=) n) (utxo_find now get tip n e ref)"
proof -
  have "reports ProviderCode.UTXO ((=) n) (bindE (mapE (\<lambda>t. outputs_to_us now n t e k) ts) (\<lambda>found. Inr (concat found)))" for k ts
    using returns_mapE [of ts _ "\<lambda>t. outputs_to_us now n t e k", OF outputs_report]
    by (auto simp: returns_def bindE_eq_Inr)
  then show ?thesis by (simp add: utxo_find_def Let_def returns_simps outputs_report split: json.split)
qed

lemma solana_reports: "reports ProviderCode.SOLANA ((=) NetworkCode.SOL) (solana_find now post e ref)"
  by (simp add: solana_find_def Let_def returns_simps returns_collect solana_rows)

lemma ton_reports: "reports ProviderCode.TON ((=) NetworkCode.TON) (ton_find now get l e)"
  by (simp add: ton_find_def Let_def returns_simps returns_collect ton_rows)

lemma exchange_reports:
  "reports ProviderCode.BINANCE (\<lambda>_. True) (binance_find now get l e)"
  "reports ProviderCode.BYBIT (\<lambda>_. True) (bybit_find now get l e)"
  "reports ProviderCode.OKX (\<lambda>_. True) (okx_find now get l cs e)"
  by (simp_all add: binance_find_def bybit_find_def okx_find_def Let_def returns_simps
      returns_collect exchange_rows split: json.split option.split)

lemma binance_pay_reports: "reports ProviderCode.BINANCE_PAY (\<lambda>_. True) (binance_pay_find now post e ref)"
  by (simp add: binance_pay_find_def Let_def returns_simps own_def split: json.split option.split)

text \<open>The provider and the network an adapter was built for.\<close>

fun adapter_code :: "adapter \<Rightarrow> ProviderCode" where
  "adapter_code (BinanceDepositAdapter _ _ _) = ProviderCode.BINANCE"
| "adapter_code (BinancePayAdapter _) = ProviderCode.BINANCE_PAY"
| "adapter_code (BybitAdapter _ _ _) = ProviderCode.BYBIT"
| "adapter_code (OKXAdapter _ _ _) = ProviderCode.OKX"
| "adapter_code (TronAdapter _ _) = ProviderCode.TRON"
| "adapter_code (EVMAdapter _ _) = ProviderCode.EVM"
| "adapter_code (TONAdapter _ _ _) = ProviderCode.TON"
| "adapter_code (SolanaAdapter _) = ProviderCode.SOLANA"
| "adapter_code (UTXOAdapter _ _) = ProviderCode.UTXO"

fun adapter_network :: "adapter \<Rightarrow> NetworkCode option" where
  "adapter_network (EVMAdapter _ n) = Some n"
| "adapter_network (UTXOAdapter _ n) = Some n"
| "adapter_network _ = None"

lemma found_reports:
  "find_transactions now w a e ref = Inr txs \<Longrightarrow> t \<in> set txs \<Longrightarrow>
   tx_provider t = adapter_code a \<and> (\<forall>n. adapter_network a = Some n \<longrightarrow> tx_network t = n)"
  using evm_reports tron_reports utxo_reports solana_reports ton_reports exchange_reports binance_pay_reports
  by (cases a) (fastforce simp: find_transactions_def returns_def own_def)+

lemma built_adapter:
  assumes "build_adapter env p network = Inr a"
  shows "adapter_code a = ps_code p" "ps_code p \<in> {ProviderCode.EVM, ProviderCode.UTXO} \<Longrightarrow> adapter_network a = network"
proof -
  have "returns (\<lambda>a. adapter_code a = ps_code p
      \<and> (ps_code p \<in> {ProviderCode.EVM, ProviderCode.UTXO} \<longrightarrow> adapter_network a = network)) (build_adapter env p network)"
    by (cases "ps_code p") (simp_all add: build_adapter_def Let_def returns_simps split: option.split)
  with assms show "adapter_code a = ps_code p"
    "ps_code p \<in> {ProviderCode.EVM, ProviderCode.UTXO} \<Longrightarrow> adapter_network a = network"
    by (auto simp: returns_def)
qed

end
