(* ===== verification/History.thy ===== *)
theory History
  imports Store
begin

text \<open>
  What a transaction may do to the database, as one reflexive and transitive relation \<open>step\<close> between
  the state before and the state after. The component theories show \<open>resp (step X)\<close> for each of their
  operations, by composition from the facts of this theory about single statements.

  \<open>evolves\<close> is the history: payment intents keep their snapshot and move along legal transitions only,
  orders keep their price and move along legal transitions only, deliveries and refunds keep what they
  are about, the consumptions and the ledger are
  append-only, a sold item stays sold and no stored item changes its product or payload. \<open>db_ok X\<close> is
  the invariant: the UNIQUE constraints, no paid order, no completed delivery and no refund without a
  verified payment of that order, and every verified intent is backed by a claimed transaction, except the intents
  in \<open>X\<close>, which an operation has in its hands or an operator has approved.
\<close>

section \<open>Histories\<close>

fun legal_order_walk :: "OrderStatus \<Rightarrow> OrderStatus list \<Rightarrow> OrderStatus \<Rightarrow> bool" where
  "legal_order_walk s [] t \<longleftrightarrow> s = t"
| "legal_order_walk s (x # xs) t \<longleftrightarrow> can_transition_order s x \<and> legal_order_walk x xs t"

definition pay_reach :: "PaymentStatus \<Rightarrow> PaymentStatus \<Rightarrow> bool" where
  "pay_reach a b \<longleftrightarrow> (\<exists>p. legal_walk a p b)"

definition order_reach :: "OrderStatus \<Rightarrow> OrderStatus \<Rightarrow> bool" where
  "order_reach a b \<longleftrightarrow> (\<exists>p. legal_order_walk a p b)"

text \<open>The columns of an order that are written when it is created and never again.\<close>

definition order_frozen :: "Order \<Rightarrow> string \<times> nat option \<times> nat option \<times> string option \<times> string
    \<times> decimal \<times> decimal \<times> decimal" where
  "order_frozen r = (o_reference r, o_user_id r, o_reseller_id r, o_idempotency_key r, o_currency r,
     o_subtotal r, o_discount_total r, o_total r)"

definition intent_step :: "PaymentIntent \<Rightarrow> PaymentIntent \<Rightarrow> bool" where
  "intent_step r r' \<longleftrightarrow> i_snap r' = i_snap r \<and> pay_reach (i_status r) (i_status r')"

definition order_step :: "Order \<Rightarrow> Order \<Rightarrow> bool" where
  "order_step r r' \<longleftrightarrow> order_frozen r' = order_frozen r \<and> order_reach (o_status r) (o_status r')"

definition item_step :: "InventoryItem \<Rightarrow> InventoryItem \<Rightarrow> bool" where
  "item_step r r' \<longleftrightarrow> ii_product_id r' = ii_product_id r \<and> ii_fingerprint r' = ii_fingerprint r
     \<and> ii_secret_payload r' = ii_secret_payload r
     \<and> (ii_status r = StockItemStatus.SOLD \<longrightarrow> ii_status r' = StockItemStatus.SOLD)"

definition delivery_step :: "Delivery \<Rightarrow> Delivery \<Rightarrow> bool" where
  "delivery_step r r' \<longleftrightarrow> d_order_id r' = d_order_id r \<and> d_order_item_id r' = d_order_item_id r"

definition refund_step :: "Refund \<Rightarrow> Refund \<Rightarrow> bool" where
  "refund_step r r' \<longleftrightarrow> rf_order_id r' = rf_order_id r \<and> rf_amount r' = rf_amount r
     \<and> rf_currency r' = rf_currency r"

definition table_step :: "('r \<Rightarrow> 'r \<Rightarrow> bool) \<Rightarrow> 'r table \<Rightarrow> 'r table \<Rightarrow> bool" where
  "table_step R t t' \<longleftrightarrow> (\<forall>i r. tget t i = Some r \<longrightarrow> (\<exists>r'. tget t' i = Some r' \<and> R r r'))"

definition evolves :: "db \<Rightarrow> db \<Rightarrow> bool" where
  "evolves s t \<longleftrightarrow>
     table_step intent_step (payment_intents s) (payment_intents t)
   \<and> table_step order_step (orders s) (orders t)
   \<and> table_step item_step (inventory_items s) (inventory_items t)
   \<and> table_step delivery_step (deliveries s) (deliveries t)
   \<and> table_step refund_step (refunds s) (refunds t)
   \<and> prefix (payment_consumptions s) (payment_consumptions t)
   \<and> prefix (ledger_entries s) (ledger_entries t)"

section \<open>The invariant\<close>

definition tbl_ok :: "nat \<Rightarrow> 'r table \<Rightarrow> bool" where
  "tbl_ok n t \<longleftrightarrow> distinct (map fst t) \<and> (\<forall>k \<in> fst ` set t. k < n)"

definition keys_ok :: "db \<Rightarrow> bool" where
  "keys_ok s \<longleftrightarrow>
     tbl_ok (db_next s) (users s)
   \<and> tbl_ok (db_next s) (referrals s)
   \<and> tbl_ok (db_next s) (products s)
   \<and> tbl_ok (db_next s) (inventory_items s)
   \<and> tbl_ok (db_next s) (inventory_reservations s)
   \<and> tbl_ok (db_next s) (inventory_adjustments s)
   \<and> tbl_ok (db_next s) (coupons s)
   \<and> tbl_ok (db_next s) (coupon_usages s)
   \<and> tbl_ok (db_next s) (orders s)
   \<and> tbl_ok (db_next s) (order_items s)
   \<and> tbl_ok (db_next s) (deliveries s)
   \<and> tbl_ok (db_next s) (refunds s)
   \<and> tbl_ok (db_next s) (ledger_entries s)
   \<and> tbl_ok (db_next s) (payment_providers s)
   \<and> tbl_ok (db_next s) (payment_methods s)
   \<and> tbl_ok (db_next s) (payment_intents s)
   \<and> tbl_ok (db_next s) (payment_attempts s)
   \<and> tbl_ok (db_next s) (provider_transactions s)
   \<and> tbl_ok (db_next s) (blockchain_transactions s)
   \<and> tbl_ok (db_next s) (verification_attempts s)
   \<and> tbl_ok (db_next s) (payment_consumptions s)
   \<and> tbl_ok (db_next s) (reconciliation_records s)
   \<and> tbl_ok (db_next s) (notifications s)"

definition uniq :: "('r \<Rightarrow> 'k) \<Rightarrow> 'r table \<Rightarrow> bool" where
  "uniq key t \<longleftrightarrow> distinct (map (key \<circ> snd) t)"

definition constraints_ok :: "db \<Rightarrow> bool" where
  "constraints_ok s \<longleftrightarrow>
     uniq o_reference (orders s)
   \<and> uniq (\<lambda>x. (ii_product_id x, ii_fingerprint x)) (inventory_items s)
   \<and> uniq (\<lambda>x. (ir_inventory_item_id x, ir_status x)) (inventory_reservations s)
   \<and> uniq d_order_item_id (deliveries s)
   \<and> uniq l_dedupe_key (ledger_entries s)
   \<and> uniq (\<lambda>x. sn_reference (i_snap x)) (payment_intents s)
   \<and> uniq pc_fingerprint (payment_consumptions s)
   \<and> uniq pc_payment_intent_id (payment_consumptions s)"

text \<open>Some intent of this order is verified.\<close>

definition has_verified :: "nat \<Rightarrow> db \<Rightarrow> bool" where
  "has_verified oid s \<longleftrightarrow> (\<exists>i r. tget (payment_intents s) i = Some r
     \<and> sn_order_id (i_snap r) = oid \<and> i_status r = PaymentStatus.VERIFIED)"

definition paid_ok :: "db \<Rightarrow> bool" where
  "paid_ok s \<longleftrightarrow> (\<forall>oid r. tget (orders s) oid = Some r \<longrightarrow> order_is_paid (o_status r) \<longrightarrow> has_verified oid s)"

definition delivered_ok :: "db \<Rightarrow> bool" where
  "delivered_ok s \<longleftrightarrow> (\<forall>k r. tget (deliveries s) k = Some r \<longrightarrow>
     d_status r = DeliveryStatus.COMPLETED \<longrightarrow> has_verified (d_order_id r) s)"

definition refunds_ok :: "db \<Rightarrow> bool" where
  "refunds_ok s \<longleftrightarrow> (\<forall>k r. tget (refunds s) k = Some r \<longrightarrow> has_verified (rf_order_id r) s)"

definition has_claim :: "nat \<Rightarrow> db \<Rightarrow> bool" where
  "has_claim i s \<longleftrightarrow> texists (\<lambda>x. pc_payment_intent_id x = i) (payment_consumptions s)"

definition backed_ok :: "nat set \<Rightarrow> db \<Rightarrow> bool" where
  "backed_ok X s \<longleftrightarrow> (\<forall>i r. tget (payment_intents s) i = Some r \<longrightarrow>
     i_status r = PaymentStatus.VERIFIED \<longrightarrow> i \<notin> X \<longrightarrow> has_claim i s)"

definition db_ok :: "nat set \<Rightarrow> db \<Rightarrow> bool" where
  "db_ok X s \<longleftrightarrow> keys_ok s \<and> constraints_ok s \<and> paid_ok s \<and> delivered_ok s \<and> refunds_ok s
     \<and> backed_ok X s"

definition step :: "nat set \<Rightarrow> db \<Rightarrow> db \<Rightarrow> bool" where
  "step X s t \<longleftrightarrow> (db_ok X s \<longrightarrow> db_ok X t \<and> evolves s t)"

section \<open>The relation composes\<close>

lemma legal_walk_append:
  "legal_walk a p b \<Longrightarrow> legal_walk b q c \<Longrightarrow> legal_walk a (p @ q) c"
  by (induction p arbitrary: a) auto

lemma legal_order_walk_append:
  "legal_order_walk a p b \<Longrightarrow> legal_order_walk b q c \<Longrightarrow> legal_order_walk a (p @ q) c"
  by (induction p arbitrary: a) auto

lemma pay_reach_refl [simp, intro]: "pay_reach a a"
  unfolding pay_reach_def using legal_walk.simps(1) by blast

lemma order_reach_refl [simp, intro]: "order_reach a a"
  unfolding order_reach_def using legal_order_walk.simps(1) by blast

lemma pay_reach_trans: "pay_reach a b \<Longrightarrow> pay_reach b c \<Longrightarrow> pay_reach a c"
  unfolding pay_reach_def using legal_walk_append by blast

lemma order_reach_trans: "order_reach a b \<Longrightarrow> order_reach b c \<Longrightarrow> order_reach a c"
  unfolding order_reach_def using legal_order_walk_append by blast

lemma pay_reach_VERIFIED: "pay_reach PaymentStatus.VERIFIED b \<longleftrightarrow> b = PaymentStatus.VERIFIED"
  by (simp add: pay_reach_def legal_walk_VERIFIED)

lemma row_steps_refl [simp, intro]: "intent_step r r" "order_step r' r'" "item_step r'' r''"
  "delivery_step d d" "refund_step rf rf"
  by (simp_all add: intent_step_def order_step_def item_step_def delivery_step_def refund_step_def)

lemma row_steps_trans:
  "intent_step a b \<Longrightarrow> intent_step b c \<Longrightarrow> intent_step a c"
  "order_step a' b' \<Longrightarrow> order_step b' c' \<Longrightarrow> order_step a' c'"
  "item_step a'' b'' \<Longrightarrow> item_step b'' c'' \<Longrightarrow> item_step a'' c''"
  "delivery_step d1 d2 \<Longrightarrow> delivery_step d2 d3 \<Longrightarrow> delivery_step d1 d3"
  "refund_step f1 f2 \<Longrightarrow> refund_step f2 f3 \<Longrightarrow> refund_step f1 f3"
  by (auto simp: intent_step_def order_step_def item_step_def delivery_step_def refund_step_def intro: pay_reach_trans order_reach_trans)

lemma table_step_refl: "(\<And>r. R r r) \<Longrightarrow> table_step R t t"
  by (simp add: table_step_def)

lemma table_step_trans:
  "(\<And>a b c. R a b \<Longrightarrow> R b c \<Longrightarrow> R a c) \<Longrightarrow> table_step R s t \<Longrightarrow> table_step R t u \<Longrightarrow> table_step R s u"
  unfolding table_step_def by meson

lemma evolves_refl [simp, intro]: "evolves s s"
  by (simp add: evolves_def table_step_refl)

lemma evolves_trans: "evolves s t \<Longrightarrow> evolves t u \<Longrightarrow> evolves s u"
  unfolding evolves_def
  by (meson prefix_order.order_trans row_steps_trans table_step_trans)

interpretation hist: step_rel "step X" for X
  by unfold_locales (auto simp: step_def intro: evolves_trans)

section \<open>Keys and constraints\<close>

lemma tbl_ok_upd [simp]: "tbl_ok n (tupd k f t) = tbl_ok n t"
  by (simp add: tbl_ok_def)

lemma tbl_ok_Suc [simp]: "tbl_ok n t \<Longrightarrow> tbl_ok (Suc n) t"
  by (auto simp: tbl_ok_def less_Suc_eq)

lemma tbl_ok_add [simp]: "tbl_ok n t \<Longrightarrow> tbl_ok (Suc n) (tadd n r t)"
  by (auto simp: tbl_ok_def less_Suc_eq)

lemma tbl_ok_fresh: "tbl_ok n t \<Longrightarrow> tget t n = None"
  by (auto simp: tbl_ok_def tget_None_iff)

lemma uniqD:
  assumes "uniq key t" "x \<in> set t" "y \<in> set t" "key (snd x) = key (snd y)" shows "x = y"
proof -
  have "inj_on (key \<circ> snd) (set t)" using assms(1) by (simp add: uniq_def distinct_map)
  then show ?thesis by (rule inj_onD) (use assms in simp_all)
qed

lemma uniq_add: "uniq key (tadd k r t) \<longleftrightarrow> uniq key t \<and> \<not> texists (\<lambda>x. key x = key r) t"
  by (auto simp: uniq_def tadd_def texists_def image_iff)

lemma uniq_upd_same: "(\<And>r. key (f r) = key r) \<Longrightarrow> uniq key (tupd k f t) = uniq key t"
proof -
  assume "\<And>r. key (f r) = key r"
  then have "map (key \<circ> snd) (tupd k f t) = map (key \<circ> snd) t" by (auto simp: tupd_def)
  then show ?thesis by (simp only: uniq_def)
qed

lemma uniq_upd:
  assumes "distinct (map fst t)" "uniq key t" "tget t k = Some r"
    and other: "\<And>j x. (j, x) \<in> set t \<Longrightarrow> j \<noteq> k \<Longrightarrow> key x \<noteq> key (f r)"
  shows "uniq key (tupd k f t)"
  using assms
proof (induction t)
  case (Cons a t)
  obtain j x where a: "a = (j, x)" by fastforce
  have upd: "key (snd b) = (if fst b = k then key (f (snd c)) else key (snd c)) \<and> fst b = fst c"
    if "b = (case c of (i, r) \<Rightarrow> (i, if i = k then f r else r))" for b c
    using that by (cases c) auto
  show ?case
  proof (cases "j = k")
    case True
    then have r: "r = x" and no: "k \<notin> fst ` set t" using Cons.prems a by (auto simp: tget_def)
    then have "tupd k f t = t" by (force simp: tupd_def intro!: map_idI)
    moreover have "key (f r) \<notin> (key \<circ> snd) ` set t"
      using Cons.prems(4) no a True by (force simp: image_iff)
    ultimately show ?thesis using Cons.prems(2) a r True by (simp add: uniq_def tupd_def)
  next
    case False
    with Cons have ih: "uniq key (tupd k f t)" by (auto simp: a tget_def uniq_def)
    have "key x \<notin> (key \<circ> snd) ` set (tupd k f t)"
    proof
      assume "key x \<in> (key \<circ> snd) ` set (tupd k f t)"
      then obtain i y where y: "(i, y) \<in> set t" "key x = key (if i = k then f y else y)"
        by (auto simp: set_tupd)
      show False
      proof (cases "i = k")
        case True
        with y Cons.prems(1,3) False a have "y = r" by (auto simp: tget_def)
        with y True Cons.prems(4) [of j x] False a show False by auto
      next
        case False
        with y have "key x \<in> (key \<circ> snd) ` set t" by force
        with Cons.prems(2) a show False by (simp add: uniq_def)
      qed
    qed
    with ih False show ?thesis by (simp add: uniq_def tupd_def a image_image comp_def)
  qed
qed (simp add: tget_def)

lemma keys_okD:
  assumes "keys_ok s"
  shows "distinct (map fst (orders s))" "distinct (map fst (payment_intents s))"
    "distinct (map fst (inventory_items s))" "distinct (map fst (inventory_reservations s))"
    "distinct (map fst (deliveries s))" "tget (orders s) (db_next s) = None"
    "tget (payment_intents s) (db_next s) = None" "tget (inventory_items s) (db_next s) = None"
    "tget (deliveries s) (db_next s) = None" "tget (refunds s) (db_next s) = None"
  using assms by (auto simp: keys_ok_def tbl_ok_def tget_None_iff)

section \<open>Statements on tables the invariant does not read\<close>

definition core :: "db \<Rightarrow> Order table \<times> InventoryItem table \<times> InventoryReservation table
    \<times> Delivery table \<times> Refund table \<times> LedgerEntry table \<times> PaymentIntent table \<times> PaymentConsumption table" where
  "core s = (orders s, inventory_items s, inventory_reservations s, deliveries s, refunds s,
     ledger_entries s, payment_intents s, payment_consumptions s)"

lemma step_core: "(keys_ok s \<Longrightarrow> keys_ok t) \<Longrightarrow> core t = core s \<Longrightarrow> step X s t"
  by (auto simp: step_def db_ok_def core_def evolves_def constraints_ok_def paid_ok_def delivered_ok_def
      refunds_ok_def backed_ok_def has_verified_def has_claim_def table_step_refl)

lemma resp_insS: "(\<And>s. R s (up (tadd (db_next s) r) (s\<lparr>db_next := Suc (db_next s)\<rparr>))) \<Longrightarrow> resp R (insS up r)"
  by (simp add: resp_def insS_def)

lemma resp_updS: "(\<And>s. R s (up (tupd k f) s)) \<Longrightarrow> resp R (updS up k f)"
  by (simp add: resp_def updS_def)

lemma resp_loadS [resp_intros]: "resp (step X) (loadS sel k)"
  by (auto simp: resp_def loadS_def step_def split: option.splits)

lemma resp_uniqueS [resp_intros]: "resp (step X) (uniqueS sel P)"
  unfolding uniqueS_def by (intro resp_intros)

lemma resp_checkS [resp_intros]: "resp (step X) (checkS b)"
  unfolding checkS_def by (intro resp_intros)

lemma resp_ins_plain [resp_intros]:
  "resp (step X) (insS users_update r1)"
  "resp (step X) (insS referrals_update r2)"
  "resp (step X) (insS products_update r3)"
  "resp (step X) (insS inventory_adjustments_update r4)"
  "resp (step X) (insS coupons_update r5)"
  "resp (step X) (insS coupon_usages_update r6)"
  "resp (step X) (insS order_items_update r7)"
  "resp (step X) (insS payment_providers_update r9)"
  "resp (step X) (insS payment_methods_update r10)"
  "resp (step X) (insS payment_attempts_update r11)"
  "resp (step X) (insS provider_transactions_update r12)"
  "resp (step X) (insS blockchain_transactions_update r13)"
  "resp (step X) (insS verification_attempts_update r14)"
  "resp (step X) (insS reconciliation_records_update r15)"
  "resp (step X) (insS notifications_update r16)"
  by (rule resp_insS, rule step_core, simp add: keys_ok_def, simp add: core_def)+

lemma resp_upd_plain [resp_intros]:
  "resp (step X) (updS users_update k1 f1)"
  "resp (step X) (updS referrals_update k2 f2)"
  "resp (step X) (updS products_update k3 f3)"
  "resp (step X) (updS inventory_adjustments_update k4 f4)"
  "resp (step X) (updS coupons_update k5 f5)"
  "resp (step X) (updS coupon_usages_update k6 f6)"
  "resp (step X) (updS order_items_update k7 f7)"
  "resp (step X) (updS payment_providers_update k9 f9)"
  "resp (step X) (updS payment_methods_update k10 f10)"
  "resp (step X) (updS payment_attempts_update k11 f11)"
  "resp (step X) (updS provider_transactions_update k12 f12)"
  "resp (step X) (updS blockchain_transactions_update k13 f13)"
  "resp (step X) (updS verification_attempts_update k14 f14)"
  "resp (step X) (updS reconciliation_records_update k15 f15)"
  "resp (step X) (updS notifications_update k16 f16)"
  by (rule resp_updS, rule step_core, simp add: keys_ok_def, simp add: core_def)+

section \<open>Statements on the tables the invariant reads\<close>

text \<open>What the clauses of the invariant depend on.\<close>

lemma table_step_add: "(\<And>r. R r r) \<Longrightarrow> tget t k = None \<Longrightarrow> table_step R t (tadd k r t)"
  by (auto simp: table_step_def tget_tadd)

lemma table_step_upd: "(\<And>r. R r r) \<Longrightarrow> (\<And>r. tget t k = Some r \<Longrightarrow> R r (f r)) \<Longrightarrow> table_step R t (tupd k f t)"
  by (auto simp: table_step_def)

lemma texists_prefix: "prefix t t' \<Longrightarrow> texists P t \<Longrightarrow> texists P t'"
  by (auto simp: texists_def prefix_def)

lemma has_verified_evolves: "evolves s t \<Longrightarrow> has_verified oid s \<Longrightarrow> has_verified oid t"
  unfolding has_verified_def evolves_def table_step_def intent_step_def by (metis pay_reach_VERIFIED)

lemma has_claim_evolves: "evolves s t \<Longrightarrow> has_claim i s \<Longrightarrow> has_claim i t"
  by (auto simp: has_claim_def evolves_def intro: texists_prefix)

lemma prefix_tadd [simp]: "prefix t (tadd k r t)"
  by (simp add: tadd_def)

text \<open>
  A step is shown clause by clause; the clauses about orders, deliveries and intents only have to be
  shown for the rows that are not what they were.
\<close>

lemma stepI:
  assumes ok: "db_ok X s \<Longrightarrow> keys_ok t" "db_ok X s \<Longrightarrow> constraints_ok t" and ev: "db_ok X s \<Longrightarrow> evolves s t"
    and paid: "\<And>oid r. db_ok X s \<Longrightarrow> tget (orders t) oid = Some r \<Longrightarrow> order_is_paid (o_status r) \<Longrightarrow>
      \<not> (\<exists>r0. tget (orders s) oid = Some r0 \<and> order_is_paid (o_status r0)) \<Longrightarrow> has_verified oid t"
    and deliv: "\<And>k r. db_ok X s \<Longrightarrow> tget (deliveries t) k = Some r \<Longrightarrow> d_status r = DeliveryStatus.COMPLETED \<Longrightarrow>
      \<not> (\<exists>r0. tget (deliveries s) k = Some r0 \<and> d_status r0 = DeliveryStatus.COMPLETED
          \<and> d_order_id r0 = d_order_id r) \<Longrightarrow> has_verified (d_order_id r) t"
    and refund: "\<And>k r. db_ok X s \<Longrightarrow> tget (refunds t) k = Some r \<Longrightarrow>
      \<not> (\<exists>r0. tget (refunds s) k = Some r0 \<and> rf_order_id r0 = rf_order_id r) \<Longrightarrow>
      has_verified (rf_order_id r) t"
    and backed: "\<And>i r. db_ok X s \<Longrightarrow> tget (payment_intents t) i = Some r \<Longrightarrow>
      i_status r = PaymentStatus.VERIFIED \<Longrightarrow> i \<notin> X \<Longrightarrow>
      \<not> (\<exists>r0. tget (payment_intents s) i = Some r0 \<and> i_status r0 = PaymentStatus.VERIFIED) \<Longrightarrow>
      has_claim i t"
  shows "step X s t"
  unfolding step_def
proof
  assume s: "db_ok X s"
  note ev' = ev [OF s]
  have "paid_ok t"
    unfolding paid_ok_def
  proof (intro allI impI)
    fix oid r assume r: "tget (orders t) oid = Some r" "order_is_paid (o_status r)"
    show "has_verified oid t"
    proof (cases "\<exists>r0. tget (orders s) oid = Some r0 \<and> order_is_paid (o_status r0)")
      case True
      with s have "has_verified oid s" by (auto simp: db_ok_def paid_ok_def)
      with ev' show ?thesis by (rule has_verified_evolves)
    qed (rule paid [OF s r])
  qed
  moreover have "delivered_ok t"
    unfolding delivered_ok_def
  proof (intro allI impI)
    fix k r assume r: "tget (deliveries t) k = Some r" "d_status r = DeliveryStatus.COMPLETED"
    show "has_verified (d_order_id r) t"
    proof (cases "\<exists>r0. tget (deliveries s) k = Some r0 \<and> d_status r0 = DeliveryStatus.COMPLETED
          \<and> d_order_id r0 = d_order_id r")
      case True
      then obtain r0 where "tget (deliveries s) k = Some r0" "d_status r0 = DeliveryStatus.COMPLETED"
        "d_order_id r0 = d_order_id r" by blast
      with s have "has_verified (d_order_id r) s" unfolding db_ok_def delivered_ok_def by metis
      with ev' show ?thesis by (rule has_verified_evolves)
    qed (rule deliv [OF s r])
  qed
  moreover have "refunds_ok t"
    unfolding refunds_ok_def
  proof (intro allI impI)
    fix k r assume r: "tget (refunds t) k = Some r"
    show "has_verified (rf_order_id r) t"
    proof (cases "\<exists>r0. tget (refunds s) k = Some r0 \<and> rf_order_id r0 = rf_order_id r")
      case True
      then obtain r0 where "tget (refunds s) k = Some r0" "rf_order_id r0 = rf_order_id r" by blast
      with s have "has_verified (rf_order_id r) s" unfolding db_ok_def refunds_ok_def by metis
      with ev' show ?thesis by (rule has_verified_evolves)
    qed (rule refund [OF s r])
  qed
  moreover have "backed_ok X t"
    unfolding backed_ok_def
  proof (intro allI impI)
    fix i r assume r: "tget (payment_intents t) i = Some r" "i_status r = PaymentStatus.VERIFIED" "i \<notin> X"
    show "has_claim i t"
    proof (cases "\<exists>r0. tget (payment_intents s) i = Some r0 \<and> i_status r0 = PaymentStatus.VERIFIED")
      case True
      with s r have "has_claim i s" by (auto simp: db_ok_def backed_ok_def)
      with ev' show ?thesis by (rule has_claim_evolves)
    qed (rule backed [OF s r])
  qed
  ultimately show "db_ok X t \<and> evolves s t" using ok [OF s] ev' by (simp add: db_ok_def)
qed

text \<open>Rows that keep everything the invariant reads.\<close>

lemma resp_upd_order [resp_intros]:
  assumes "\<And>r. order_frozen (f r) = order_frozen r \<and> o_status (f r) = o_status r"
  shows "resp (step X) (updS orders_update k f)"
proof (rule resp_updS, rule stepI)
  fix s :: db assume ok: "db_ok X s"
  have ref: "o_reference (f r) = o_reference r" for r using assms [of r] by (simp add: order_frozen_def)
  show "keys_ok (orders_update (tupd k f) s)" using ok by (simp add: db_ok_def keys_ok_def)
  show "constraints_ok (orders_update (tupd k f) s)"
    using ok by (simp add: db_ok_def constraints_ok_def uniq_upd_same ref)
  show "evolves s (orders_update (tupd k f) s)"
    by (simp add: evolves_def table_step_refl table_step_upd order_step_def assms)
qed (auto simp: assms split: if_splits)

lemma step_upd_item:
  assumes "\<And>r. tget (inventory_items s) k = Some r \<Longrightarrow> item_step r (f r)"
    and "\<And>r. (ii_product_id (f r), ii_fingerprint (f r)) = (ii_product_id r, ii_fingerprint r)"
  shows "step X s (inventory_items_update (tupd k f) s)"
proof (rule stepI)
  assume ok: "db_ok X s"
  show "keys_ok (inventory_items_update (tupd k f) s)" using ok by (simp add: db_ok_def keys_ok_def)
  show "constraints_ok (inventory_items_update (tupd k f) s)"
    using ok uniq_upd_same [of "\<lambda>x. (ii_product_id x, ii_fingerprint x)" f, OF assms(2)]
    by (simp add: db_ok_def constraints_ok_def)
  show "evolves s (inventory_items_update (tupd k f) s)"
    by (simp add: evolves_def table_step_refl table_step_upd assms(1))
qed (auto simp: has_verified_def)

lemma resp_upd_item [resp_intros]:
  "(\<And>r. item_step r (f r)) \<Longrightarrow> resp (step X) (updS inventory_items_update k f)"
  by (rule resp_updS, rule step_upd_item) (auto simp: item_step_def)

lemma resp_upd_reservation [resp_intros]:
  assumes "\<And>r. ir_inventory_item_id (f r) = ir_inventory_item_id r \<and> ir_status (f r) = ir_status r"
  shows "resp (step X) (updS inventory_reservations_update k f)"
proof (rule resp_updS, rule stepI)
  fix s :: db assume ok: "db_ok X s"
  show "keys_ok (inventory_reservations_update (tupd k f) s)" using ok by (simp add: db_ok_def keys_ok_def)
  show "constraints_ok (inventory_reservations_update (tupd k f) s)"
    using ok uniq_upd_same [of "\<lambda>x. (ir_inventory_item_id x, ir_status x)" f] assms
    by (simp add: db_ok_def constraints_ok_def)
  show "evolves s (inventory_reservations_update (tupd k f) s)"
    by (simp add: evolves_def table_step_refl)
qed auto

lemma resp_upd_delivery [resp_intros]:
  assumes "\<And>r. d_order_item_id (f r) = d_order_item_id r \<and> d_order_id (f r) = d_order_id r"
    and "\<And>r. d_status (f r) = DeliveryStatus.COMPLETED \<Longrightarrow> d_status r = DeliveryStatus.COMPLETED"
  shows "resp (step X) (updS deliveries_update k f)"
proof (rule resp_updS, rule stepI)
  fix s :: db assume ok: "db_ok X s"
  show "keys_ok (deliveries_update (tupd k f) s)" using ok by (simp add: db_ok_def keys_ok_def)
  show "constraints_ok (deliveries_update (tupd k f) s)"
    using ok uniq_upd_same [of d_order_item_id f] assms by (simp add: db_ok_def constraints_ok_def)
  show "evolves s (deliveries_update (tupd k f) s)"
    by (simp add: evolves_def table_step_refl table_step_upd delivery_step_def assms)
next
  fix s :: db and oid r
  assume "tget (deliveries (deliveries_update (tupd k f) s)) oid = Some r"
    "d_status r = DeliveryStatus.COMPLETED"
    "\<not> (\<exists>r0. tget (deliveries s) oid = Some r0 \<and> d_status r0 = DeliveryStatus.COMPLETED
        \<and> d_order_id r0 = d_order_id r)"
  then show "has_verified (d_order_id r) (deliveries_update (tupd k f) s)"
    using assms by (fastforce split: if_splits)
qed auto

text \<open>A delivery may become complete when its order has a verified payment.\<close>

lemma step_upd_delivery:
  assumes "\<And>r. d_order_item_id (f r) = d_order_item_id r \<and> d_order_id (f r) = d_order_id r"
    and "\<And>r. tget (deliveries s) k = Some r \<Longrightarrow> has_verified (d_order_id r) s"
  shows "step X s (deliveries_update (tupd k f) s)"
proof (rule stepI)
  assume ok: "db_ok X s"
  show "keys_ok (deliveries_update (tupd k f) s)" using ok by (simp add: db_ok_def keys_ok_def)
  show "constraints_ok (deliveries_update (tupd k f) s)"
    using ok uniq_upd_same [of d_order_item_id f] assms by (simp add: db_ok_def constraints_ok_def)
  show ev: "evolves s (deliveries_update (tupd k f) s)"
    by (simp add: evolves_def table_step_refl table_step_upd delivery_step_def assms)
  fix j r
  assume "tget (deliveries (deliveries_update (tupd k f) s)) j = Some r"
    "\<not> (\<exists>r0. tget (deliveries s) j = Some r0 \<and> d_status r0 = DeliveryStatus.COMPLETED
        \<and> d_order_id r0 = d_order_id r)" "d_status r = DeliveryStatus.COMPLETED"
  then show "has_verified (d_order_id r) (deliveries_update (tupd k f) s)"
    using assms has_verified_evolves [OF ev] by (fastforce split: if_splits)
qed auto

lemma resp_upd_refund [resp_intros]:
  assumes "\<And>r. refund_step r (f r)"
  shows "resp (step X) (updS refunds_update k f)"
proof (rule resp_updS, rule stepI)
  fix s :: db assume ok: "db_ok X s"
  show "keys_ok (refunds_update (tupd k f) s)" using ok by (simp add: db_ok_def keys_ok_def)
  show "constraints_ok (refunds_update (tupd k f) s)" using ok by (simp add: db_ok_def constraints_ok_def)
  show "evolves s (refunds_update (tupd k f) s)"
    by (simp add: evolves_def table_step_refl table_step_upd assms)
qed (use assms in \<open>auto simp: refund_step_def split: if_splits\<close>)

lemma resp_upd_intent [resp_intros]:
  assumes "\<And>r. i_snap (f r) = i_snap r \<and> i_status (f r) = i_status r"
  shows "resp (step X) (updS payment_intents_update k f)"
proof (rule resp_updS, rule stepI)
  fix s :: db assume ok: "db_ok X s"
  show "keys_ok (payment_intents_update (tupd k f) s)" using ok by (simp add: db_ok_def keys_ok_def)
  show "constraints_ok (payment_intents_update (tupd k f) s)"
    using ok uniq_upd_same [of "\<lambda>x. sn_reference (i_snap x)" f] assms
    by (simp add: db_ok_def constraints_ok_def)
  show "evolves s (payment_intents_update (tupd k f) s)"
    by (simp add: evolves_def table_step_refl table_step_upd intent_step_def assms)
qed (auto simp: assms split: if_splits)

text \<open>Insertions.\<close>

lemma resp_uniqueS_then:
  assumes "\<And>s. \<not> texists P (sel s) \<Longrightarrow> R s (snd (m s))" and "\<And>s. R s s"
  shows "resp R (thenS (uniqueS sel P) m)"
  using assms by (auto simp: resp_def thenS_def uniqueS_def bindS_def guardS_def)

lemma resp_checkS_then: "(b \<Longrightarrow> resp R m) \<Longrightarrow> (\<And>s. R s s) \<Longrightarrow> resp R (thenS (checkS b) m)"
  by (cases b) (simp_all add: checkS_def resp_def)

lemma step_refl [simp]: "step X s s"
  by (simp add: step_def)

lemma insS_snd: "snd (insS up r s) = up (tadd (db_next s) r) (s\<lparr>db_next := Suc (db_next s)\<rparr>)"
  by (simp add: insS_def)

lemma resp_insert_order [resp_intros]:
  assumes "\<not> order_is_paid (o_status r)"
  shows "resp (step X) (insert_order r)"
  unfolding insert_order_def
proof (rule resp_uniqueS_then [OF _ step_refl])
  fix s :: db assume new: "\<not> texists (\<lambda>x. o_reference x = o_reference r) (orders s)"
  let ?t = "orders_update (tadd (db_next s) r) (s\<lparr>db_next := Suc (db_next s)\<rparr>)"
  have ins: "step X s ?t"
  proof (rule stepI)
    assume ok: "db_ok X s"
    then show "keys_ok ?t" by (simp add: db_ok_def keys_ok_def)
    show "constraints_ok ?t" using ok new by (simp add: db_ok_def constraints_ok_def uniq_add)
    show "evolves s ?t"
      using ok keys_okD by (simp add: db_ok_def evolves_def table_step_refl table_step_add)
    fix oid r' assume "tget (orders ?t) oid = Some r'" "order_is_paid (o_status r')"
      "\<not> (\<exists>r0. tget (orders s) oid = Some r0 \<and> order_is_paid (o_status r0))"
    then show "has_verified oid ?t"
      using ok assms keys_okD(6) [of s] by (auto simp: db_ok_def tget_tadd split: if_splits)
  qed auto
  show "step X s (snd (thenS (uniqueS orders (\<lambda>x. o_reseller_id r \<noteq> None \<and> o_idempotency_key r \<noteq> None
        \<and> o_reseller_id x = o_reseller_id r \<and> o_idempotency_key x = o_idempotency_key r))
      (thenS (checkS (dle D0 (o_total r) \<and> dle D0 (o_subtotal r) \<and> dle D0 (o_discount_total r)))
      (insS orders_update r)) s))"
    using ins by (auto simp: thenS_def uniqueS_def bindS_def guardS_def checkS_def insS_snd)
qed

lemma resp_insert_order_item [resp_intros]: "resp (step X) (insert_order_item r)"
  unfolding insert_order_item_def by (intro resp_intros)

lemma resp_insert_coupon_usage [resp_intros]: "resp (step X) (insert_coupon_usage r)"
  unfolding insert_coupon_usage_def by (intro resp_intros)

lemma step_insert_refund:
  assumes "has_verified (rf_order_id r) s"
  shows "step X s (snd (insert_refund r s))"
proof -
  let ?t = "refunds_update (tadd (db_next s) r) (s\<lparr>db_next := Suc (db_next s)\<rparr>)"
  have "step X s ?t"
  proof (rule stepI)
    assume ok: "db_ok X s"
    then show "keys_ok ?t" by (simp add: db_ok_def keys_ok_def)
    show "constraints_ok ?t" using ok by (simp add: db_ok_def constraints_ok_def)
    show ev: "evolves s ?t"
      using ok keys_okD by (simp add: db_ok_def evolves_def table_step_refl table_step_add)
    fix k r' assume "tget (refunds ?t) k = Some r'"
      "\<not> (\<exists>r0. tget (refunds s) k = Some r0 \<and> rf_order_id r0 = rf_order_id r')"
    then show "has_verified (rf_order_id r') ?t"
      using ok assms keys_okD(10) [of s] has_verified_evolves [OF ev]
      by (auto simp: db_ok_def tget_tadd split: if_splits)
  qed auto
  then show ?thesis by (simp add: insert_refund_def checkS_def guardS_def insS_snd)
qed

lemma resp_insert_referral [resp_intros]: "resp (step X) (insert_referral r)"
  unfolding insert_referral_def by (intro resp_intros)

lemma resp_insert_inventory_item [resp_intros]: "resp (step X) (insert_inventory_item r)"
  unfolding insert_inventory_item_def
proof (rule resp_uniqueS_then [OF _ step_refl], unfold insS_snd, rule stepI)
  fix s :: db assume new: "\<not> texists (\<lambda>x. ii_product_id x = ii_product_id r \<and> ii_fingerprint x = ii_fingerprint r)
    (inventory_items s)" and ok: "db_ok X s"
  let ?t = "inventory_items_update (tadd (db_next s) r) (s\<lparr>db_next := Suc (db_next s)\<rparr>)"
  show "keys_ok ?t" using ok by (simp add: db_ok_def keys_ok_def)
  show "constraints_ok ?t" using ok new by (simp add: db_ok_def constraints_ok_def uniq_add)
  show "evolves s ?t"
    using ok keys_okD by (simp add: db_ok_def evolves_def table_step_refl table_step_add)
qed auto

lemma resp_insert_reservation [resp_intros]: "resp (step X) (insert_reservation r)"
  unfolding insert_reservation_def
proof (rule resp_uniqueS_then [OF _ step_refl], unfold insS_snd, rule stepI)
  fix s :: db assume new: "\<not> texists (\<lambda>x. ir_inventory_item_id x = ir_inventory_item_id r \<and> ir_status x = ir_status r)
    (inventory_reservations s)" and ok: "db_ok X s"
  let ?t = "inventory_reservations_update (tadd (db_next s) r) (s\<lparr>db_next := Suc (db_next s)\<rparr>)"
  show "keys_ok ?t" using ok by (simp add: db_ok_def keys_ok_def)
  show "constraints_ok ?t" using ok new by (simp add: db_ok_def constraints_ok_def uniq_add)
  show "evolves s ?t" by (simp add: evolves_def table_step_refl)
qed auto

lemma resp_insert_delivery [resp_intros]:
  assumes "d_status r \<noteq> DeliveryStatus.COMPLETED"
  shows "resp (step X) (insert_delivery r)"
  unfolding insert_delivery_def
proof (rule resp_uniqueS_then [OF _ step_refl], unfold insS_snd, rule stepI)
  fix s :: db assume new: "\<not> texists (\<lambda>x. d_order_item_id x = d_order_item_id r) (deliveries s)" and ok: "db_ok X s"
  let ?t = "deliveries_update (tadd (db_next s) r) (s\<lparr>db_next := Suc (db_next s)\<rparr>)"
  show "keys_ok ?t" using ok by (simp add: db_ok_def keys_ok_def)
  show "constraints_ok ?t" using ok new by (simp add: db_ok_def constraints_ok_def uniq_add)
  show "evolves s ?t"
    using ok keys_okD by (simp add: db_ok_def evolves_def table_step_refl table_step_add)
  fix k r' assume "tget (deliveries ?t) k = Some r'" "d_status r' = DeliveryStatus.COMPLETED"
    "\<not> (\<exists>r0. tget (deliveries s) k = Some r0 \<and> d_status r0 = DeliveryStatus.COMPLETED
        \<and> d_order_id r0 = d_order_id r')"
  then show "has_verified (d_order_id r') ?t"
    using ok assms keys_okD(9) [of s] by (auto simp: db_ok_def tget_tadd split: if_splits)
qed auto

lemma resp_insert_ledger_entry [resp_intros]: "resp (step X) (insert_ledger_entry r)"
  unfolding insert_ledger_entry_def
proof (rule resp_uniqueS_then [OF _ step_refl], unfold insS_snd, rule stepI)
  fix s :: db assume new: "\<not> texists (\<lambda>x. l_dedupe_key x = l_dedupe_key r) (ledger_entries s)" and ok: "db_ok X s"
  let ?t = "ledger_entries_update (tadd (db_next s) r) (s\<lparr>db_next := Suc (db_next s)\<rparr>)"
  show "keys_ok ?t" using ok by (simp add: db_ok_def keys_ok_def)
  show "constraints_ok ?t" using ok new by (simp add: db_ok_def constraints_ok_def uniq_add)
  show "evolves s ?t" by (simp add: evolves_def table_step_refl)
qed auto

lemma resp_set_reservation_status [resp_intros]:
  assumes "\<And>r. ir_inventory_item_id (f r) = ir_inventory_item_id r"
  shows "resp (step X) (set_reservation_status k st f)"
proof (rule respI)
  fix s :: db
  let ?f = "\<lambda>x. (f x)\<lparr>ir_status := st\<rparr>"
  let ?t = "inventory_reservations_update (tupd k ?f) s"
  show "step X s (snd (set_reservation_status k st f s))"
  proof (cases "\<exists>r. tget (inventory_reservations s) k = Some r \<and>
      \<not> (\<exists>(j, x) \<in> set (inventory_reservations s). j \<noteq> k
        \<and> ir_inventory_item_id x = ir_inventory_item_id r \<and> ir_status x = st)")
    case False
    then have "snd (set_reservation_status k st f s) = s"
      by (auto simp: set_reservation_status_def bindS_def loadS_def thenS_def guardS_def split: option.splits)
    then show ?thesis by simp
  next
    case True
    then obtain r where r: "tget (inventory_reservations s) k = Some r" and other:
      "\<not> (\<exists>(j, x) \<in> set (inventory_reservations s). j \<noteq> k
        \<and> ir_inventory_item_id x = ir_inventory_item_id r \<and> ir_status x = st)" by blast
    then have "snd (set_reservation_status k st f s) = ?t"
      by (simp add: set_reservation_status_def bindS_def loadS_def thenS_def guardS_def updS_def)
    moreover have "step X s ?t"
    proof (rule stepI)
      assume ok: "db_ok X s"
      show "keys_ok ?t" using ok by (simp add: db_ok_def keys_ok_def)
      have "uniq (\<lambda>x. (ir_inventory_item_id x, ir_status x)) (tupd k ?f (inventory_reservations s))"
      proof (rule uniq_upd)
        show "distinct (map fst (inventory_reservations s))" using ok keys_okD by (simp add: db_ok_def)
        show "uniq (\<lambda>x. (ir_inventory_item_id x, ir_status x)) (inventory_reservations s)"
          using ok by (simp add: db_ok_def constraints_ok_def)
      qed (use r other assms in fastforce)+
      then show "constraints_ok ?t" using ok by (simp add: db_ok_def constraints_ok_def)
      show "evolves s ?t" by (simp add: evolves_def table_step_refl)
    qed auto
    ultimately show ?thesis by simp
  qed
qed

lemma resp_insert_intent [resp_intros]:
  assumes "i_status r \<noteq> PaymentStatus.VERIFIED"
  shows "resp (step X) (insert_intent r)"
  unfolding insert_intent_def
proof (rule resp_uniqueS_then [OF _ step_refl])
  fix s :: db
  assume new: "\<not> texists (\<lambda>x. sn_reference (i_snap x) = sn_reference (i_snap r)) (payment_intents s)"
  let ?t = "payment_intents_update (tadd (db_next s) r) (s\<lparr>db_next := Suc (db_next s)\<rparr>)"
  have "step X s ?t"
  proof (rule stepI)
    assume ok: "db_ok X s"
    then show "keys_ok ?t" by (simp add: db_ok_def keys_ok_def)
    show "constraints_ok ?t" using ok new by (simp add: db_ok_def constraints_ok_def uniq_add)
    show "evolves s ?t"
      using ok keys_okD by (simp add: db_ok_def evolves_def table_step_refl table_step_add)
    fix i r' assume "tget (payment_intents ?t) i = Some r'" "i_status r' = PaymentStatus.VERIFIED"
      "\<not> (\<exists>r0. tget (payment_intents s) i = Some r0 \<and> i_status r0 = PaymentStatus.VERIFIED)"
    then show "has_claim i ?t"
      using ok assms keys_okD(7) [of s] by (auto simp: db_ok_def tget_tadd split: if_splits)
  qed auto
  then show "step X s (snd (thenS (checkS (dlt D0 (sn_expected_amount (i_snap r))))
      (insS payment_intents_update r) s))"
    by (auto simp: thenS_def bindS_def guardS_def checkS_def insS_snd)
qed

lemma resp_insert_consumption [resp_intros]: "resp (step X) (insert_consumption r)"
  unfolding insert_consumption_def
proof (rule resp_uniqueS_then [OF _ step_refl])
  fix s :: db
  assume fp: "\<not> texists (\<lambda>x. pc_fingerprint x = pc_fingerprint r) (payment_consumptions s)"
  let ?t = "payment_consumptions_update (tadd (db_next s) r) (s\<lparr>db_next := Suc (db_next s)\<rparr>)"
  have "step X s ?t"
    if new: "\<not> texists (\<lambda>x. pc_payment_intent_id x = pc_payment_intent_id r) (payment_consumptions s)"
  proof (rule stepI)
    assume ok: "db_ok X s"
    then show "keys_ok ?t" by (simp add: db_ok_def keys_ok_def)
    show "constraints_ok ?t" using ok new fp by (simp add: db_ok_def constraints_ok_def uniq_add)
    show "evolves s ?t" by (simp add: evolves_def table_step_refl)
  qed auto
  then show "step X s (snd (thenS (uniqueS payment_consumptions
      (\<lambda>x. pc_payment_intent_id x = pc_payment_intent_id r)) (insS payment_consumptions_update r) s))"
    by (auto simp: thenS_def bindS_def guardS_def uniqueS_def insS_snd)
qed

section \<open>An intent in hand\<close>

text \<open>
  While an operation works on intent \<open>i\<close>, the clause that a verified intent is backed is suspended for
  \<open>i\<close>. It is restored when the transaction was claimed before.
\<close>

lemma db_ok_suspend: "db_ok X s \<Longrightarrow> db_ok (insert i X) s"
  by (auto simp: db_ok_def backed_ok_def)

lemma db_ok_restore: "db_ok (insert i X) s \<Longrightarrow> has_claim i s \<Longrightarrow> db_ok X s"
  unfolding db_ok_def backed_ok_def by blast

lemma step_claimed: "step (insert i X) s t \<Longrightarrow> has_claim i s \<Longrightarrow> step X s t"
  unfolding step_def using db_ok_suspend db_ok_restore has_claim_evolves by blast

text \<open>Sequencing where the continuation may rely on what the first part established.\<close>

lemma step_bind_ok:
  assumes "step X s (snd (m s))"
    and "\<And>a t. m s = (Inr a, t) \<Longrightarrow> db_ok X s \<Longrightarrow> evolves s t \<Longrightarrow> step X t (snd (f a t))"
  shows "step X s (snd (bindS m f s))"
proof -
  obtain r t where m: "m s = (r, t)" by fastforce
  show ?thesis
  proof (cases r)
    case (Inl e)
    with m assms(1) show ?thesis by (simp add: bindS_Inl)
  next
    case (Inr a)
    show ?thesis
      unfolding step_def
    proof
      assume ok: "db_ok X s"
      from assms(1) ok have t: "db_ok X t" "evolves s t" by (simp_all add: m step_def)
      with assms(2) [of a t] m Inr ok have "step X t (snd (f a t))" by simp
      with t have "db_ok X (snd (f a t))" "evolves t (snd (f a t))" by (simp_all add: step_def)
      with t(2) show "db_ok X (snd (bindS m f s)) \<and> evolves s (snd (bindS m f s))"
        using m Inr evolves_trans by (simp add: bindS_Inr)
    qed
  qed
qed

lemma step_bind:
  assumes "step X s (snd (m s))" and "\<And>a t. m s = (Inr a, t) \<Longrightarrow> step X t (snd (f a t))"
  shows "step X s (snd (bindS m f s))"
  by (rule step_bind_ok) (use assms in auto)

lemma step_then_ok:
  assumes "step X s (snd (m s))"
    and "\<And>a t. m s = (Inr a, t) \<Longrightarrow> db_ok X s \<Longrightarrow> evolves s t \<Longrightarrow> step X t (snd (n t))"
  shows "step X s (snd (thenS m n s))"
  unfolding thenS_def by (rule step_bind_ok) (use assms in auto)

lemma step_then:
  assumes "step X s (snd (m s))" and "\<And>a t. m s = (Inr a, t) \<Longrightarrow> step X t (snd (n t))"
  shows "step X s (snd (thenS m n s))"
  unfolding thenS_def by (rule step_bind) (use assms in auto)

lemma step_resp: "resp (step X) m \<Longrightarrow> step X s (snd (m s))"
  by (simp add: resp_def)

lemma resp_bind_post:
  assumes "resp (step X) m" and "\<And>a s t. m s = (Inr a, t) \<Longrightarrow> step X t (snd (f a t))"
  shows "resp (step X) (bindS m f)"
  by (rule respI, rule step_bind, rule step_resp [OF assms(1)], rule assms(2))

lemma loadS_cases: "loadS sel k s = (Inr r, t) \<longleftrightarrow> tget (sel s) k = Some r \<and> t = s"
  by (auto simp: loadS_def split: option.splits)

text \<open>Loading a row: the continuation knows the row.\<close>

lemma step_load:
  "(\<And>r. tget (sel s) k = Some r \<Longrightarrow> step X s (snd (f r s))) \<Longrightarrow> step X s (snd (bindS (loadS sel k) f s))"
  by (rule step_bind) (simp_all add: step_resp resp_loadS loadS_cases)

lemma step_guard: "(b \<Longrightarrow> step X s (snd (m s))) \<Longrightarrow> step X s (snd (thenS (guardS b e) m s))"
  by (cases b) simp_all

lemma step_gets: "step X s (snd (f (g s) s)) \<Longrightarrow> step X s (snd (bindS (getsS g) f s))"
  by simp

text \<open>A loop whose body needs a precondition that no other round destroys.\<close>

lemma step_mapS:
  assumes "\<And>x s. pre x s \<Longrightarrow> step X s (snd (f x s))"
    and keep: "\<And>x y s a t. pre x s \<Longrightarrow> pre y s \<Longrightarrow> f x s = (Inr a, t) \<Longrightarrow> pre y t"
  shows "(\<And>x. x \<in> set xs \<Longrightarrow> pre x s) \<Longrightarrow> step X s (snd (mapS f xs s))"
proof (induction xs arbitrary: s)
  case (Cons x xs)
  have pre: "pre x s" using Cons.prems by simp
  obtain r t where m: "f x s = (r, t)" by fastforce
  with assms(1) [OF pre] have st: "step X s t" by simp
  show ?case
  proof (cases r)
    case (Inl e)
    with m st show ?thesis by (simp add: bindS_Inl)
  next
    case (Inr a)
    with m have fx: "f x s = (Inr a, t)" by simp
    have "step X t (snd (mapS f xs t))"
      using Cons.IH keep [OF pre _ fx] Cons.prems by simp
    moreover have "snd (mapS f (x # xs) s) = snd (mapS f xs t)"
      by (simp add: bindS_def fx split: prod.splits sum.splits)
    ultimately show ?thesis using st hist.R_trans by simp
  qed
qed simp

end
