(* ===== verification/Inventory.thy ===== *)
theory Inventory
  imports History
begin

text \<open>
  \<^verbatim>\<open>app/domain/inventory/service.py\<close> with the inventory and reservation repositories of
  \<^verbatim>\<open>app/db/repositories/catalog.py\<close>: stock levels, reservations with their expiry, allocation to a
  paid order item, import of stock and its invalidation. Row locks (\<^verbatim>\<open>FOR UPDATE SKIP LOCKED\<close>) do not
  appear: transactions run one after the other, and the UNIQUE constraint on active reservations,
  which is what the code falls back on, is part of the model.
\<close>

section \<open>Availability\<close>

record StockStatus =
  ss_available :: int
  ss_is_unlimited :: bool
  ss_in_stock :: bool
  ss_low_stock :: bool

definition stock_label :: "StockStatus \<Rightarrow> string" where
  "stock_label s = (if \<not> ss_in_stock s then ''out_of_stock''
     else if ss_low_stock s then ''low_stock'' else ''in_stock'')"

definition available_items :: "nat \<Rightarrow> db \<Rightarrow> (nat \<times> InventoryItem) list" where
  "available_items pid s =
     tsel (\<lambda>r. ii_product_id r = pid \<and> ii_status r = StockItemStatus.AVAILABLE) (inventory_items s)"

definition available_count :: "nat \<Rightarrow> db \<Rightarrow> int" where
  "available_count pid s = int (length (available_items pid s))"

definition counts_by_status :: "nat \<Rightarrow> db \<Rightarrow> StockItemStatus \<Rightarrow> int" where
  "counts_by_status pid s st =
     int (length (tsel (\<lambda>r. ii_product_id r = pid \<and> ii_status r = st) (inventory_items s)))"

text \<open>One grouped query for a page of products; a product without available items counts zero.\<close>

definition available_counts_for :: "nat list \<Rightarrow> db \<Rightarrow> nat \<rightharpoonup> int" where
  "available_counts_for pids s =
     (let rows = tsel (\<lambda>r. ii_product_id r \<in> set pids \<and> ii_status r = StockItemStatus.AVAILABLE)
                      (inventory_items s)
      in (\<lambda>pid. if pid \<in> set pids
                then Some (int (length (filter (\<lambda>x. ii_product_id (snd x) = pid) rows))) else None))"

definition stock_of :: "Product \<Rightarrow> int \<Rightarrow> StockStatus" where
  "stock_of p available = \<lparr>ss_available = available, ss_is_unlimited = False,
     ss_in_stock = 0 < available,
     ss_low_stock = 0 < available \<and> available \<le> p_low_stock_threshold p\<rparr>"

definition unlimited_stock :: StockStatus where
  "unlimited_stock = \<lparr>ss_available = - 1, ss_is_unlimited = True, ss_in_stock = True,
     ss_low_stock = False\<rparr>"

definition stock_status :: "nat \<Rightarrow> Product \<Rightarrow> db \<Rightarrow> StockStatus" where
  "stock_status pid p s =
     (if p_delivery_type p \<noteq> DeliveryType.STOCK_ITEM then
        (case p_stock_override p of None \<Rightarrow> unlimited_stock | Some n \<Rightarrow> stock_of p (max n 0))
      else stock_of p (available_count pid s))"

definition stock_map :: "(nat \<times> Product) list \<Rightarrow> db \<Rightarrow> (nat \<times> StockStatus) list" where
  "stock_map ps s =
     (let tracked = filter (\<lambda>x. p_delivery_type (snd x) = DeliveryType.STOCK_ITEM) ps;
          counts = available_counts_for (map fst tracked) s
      in map (\<lambda>(pid, p). (pid,
           if p_delivery_type p \<noteq> DeliveryType.STOCK_ITEM then
             (case p_stock_override p of None \<Rightarrow> unlimited_stock | Some n \<Rightarrow> stock_of p (max n 0))
           else stock_of p (or_else (counts pid) 0))) ps)"

definition assert_purchasable :: "nat \<Rightarrow> Product \<Rightarrow> int \<Rightarrow> db \<Rightarrow> error + unit" where
  "assert_purchasable pid p quantity s =
     (if quantity < p_min_quantity p then Inl InsufficientStockError
      else if (case p_max_quantity p of None \<Rightarrow> False | Some m \<Rightarrow> m < quantity)
      then Inl InsufficientStockError
      else let status = stock_status pid p s in
        if \<not> ss_in_stock status then Inl OutOfStockError
        else if \<not> ss_is_unlimited status \<and> ss_available status < quantity
        then Inl InsufficientStockError
        else Inr ())"

section \<open>Reservations\<close>

definition claim_available :: "nat \<Rightarrow> int \<Rightarrow> db \<Rightarrow> (nat \<times> InventoryItem) list" where
  "claim_available pid quantity s =
     take (nat quantity) (sort_key (\<lambda>x. ii_created_at (snd x)) (available_items pid s))"

definition hold_item :: "nat \<Rightarrow> nat \<Rightarrow> time \<Rightarrow> nat \<Rightarrow> nat dbm" where
  "hold_item order_id order_item_id expires_at item_id =
     thenS (updS inventory_items_update item_id
        (\<lambda>r. r\<lparr>ii_status := StockItemStatus.RESERVED, ii_order_item_id := Some order_item_id\<rparr>))
    (insert_reservation \<lparr>ir_inventory_item_id = item_id, ir_order_id = order_id,
        ir_order_item_id = Some order_item_id, ir_status = ReservationStatus.ACTIVE,
        ir_expires_at = expires_at, ir_released_at = None, ir_consumed_at = None\<rparr>)"

definition reserve :: "env \<Rightarrow> nat \<Rightarrow> Product \<Rightarrow> int \<Rightarrow> nat \<Rightarrow> nat \<Rightarrow> int option \<Rightarrow> nat list dbm" where
  "reserve env pid p quantity order_id order_item_id ttl_seconds =
     (if p_delivery_type p \<noteq> DeliveryType.STOCK_ITEM then returnS []
      else
        let ttl = (case ttl_seconds of None \<Rightarrow> set_reservation_ttl_seconds env
                   | Some t \<Rightarrow> if t = 0 then set_reservation_ttl_seconds env else t);
            expires_at = env_now env + seconds ttl in
        bindS (getsS (claim_available pid quantity)) (\<lambda>claimed.
        thenS (guardS (quantity \<le> int (length claimed)) InsufficientStockError)
       (catchS (mapS (\<lambda>(item_id, _). hold_item order_id order_item_id expires_at item_id) claimed)
          (\<lambda>err. raiseS (if err = IntegrityError then InsufficientStockError else err)))))"

definition active_for_order :: "nat \<Rightarrow> db \<Rightarrow> (nat \<times> InventoryReservation) list" where
  "active_for_order order_id s =
     tsel (\<lambda>r. ir_order_id r = order_id \<and> ir_status r = ReservationStatus.ACTIVE)
       (inventory_reservations s)"

definition all_for_order :: "nat \<Rightarrow> db \<Rightarrow> (nat \<times> InventoryReservation) list" where
  "all_for_order order_id s = tsel (\<lambda>r. ir_order_id r = order_id) (inventory_reservations s)"

definition expired_reservations :: "time \<Rightarrow> nat \<Rightarrow> db \<Rightarrow> (nat \<times> InventoryReservation) list" where
  "expired_reservations now limit s =
     take limit (sort_key (\<lambda>x. ir_expires_at (snd x))
       (tsel (\<lambda>r. ir_status r = ReservationStatus.ACTIVE \<and> ir_expires_at r \<le> now)
         (inventory_reservations s)))"

text \<open>\<^verbatim>\<open>UPDATE ... WHERE id = ? AND status = 'reserved'\<close>\<close>

definition free_item :: "nat \<Rightarrow> unit dbm" where
  "free_item item_id = updS inventory_items_update item_id
     (\<lambda>r. if ii_status r = StockItemStatus.RESERVED
          then r\<lparr>ii_status := StockItemStatus.AVAILABLE, ii_order_item_id := None\<rparr> else r)"

definition release :: "env \<Rightarrow> nat \<times> InventoryReservation \<Rightarrow> unit dbm" where
  "release env res =
     thenS (free_item (ir_inventory_item_id (snd res)))
    (set_reservation_status (fst res) ReservationStatus.RELEASED
       (\<lambda>r. r\<lparr>ir_released_at := Some (env_now env)\<rparr>))"

definition expire_reservation :: "env \<Rightarrow> nat \<times> InventoryReservation \<Rightarrow> unit dbm" where
  "expire_reservation env res =
     thenS (free_item (ir_inventory_item_id (snd res)))
    (set_reservation_status (fst res) ReservationStatus.EXPIRED
       (\<lambda>r. r\<lparr>ir_released_at := Some (env_now env)\<rparr>))"

definition consume :: "env \<Rightarrow> nat \<times> InventoryReservation \<Rightarrow> unit dbm" where
  "consume env res =
     thenS (updS inventory_items_update (ir_inventory_item_id (snd res))
        (\<lambda>r. r\<lparr>ii_status := StockItemStatus.SOLD, ii_sold_at := Some (env_now env)\<rparr>))
    (set_reservation_status (fst res) ReservationStatus.CONSUMED
       (\<lambda>r. r\<lparr>ir_consumed_at := Some (env_now env)\<rparr>))"

definition extend_reservations :: "env \<Rightarrow> nat \<Rightarrow> int \<Rightarrow> nat dbm" where
  "extend_reservations env order_id ttl_seconds =
     bindS (getsS (active_for_order order_id)) (\<lambda>active.
     bindS (mapS (\<lambda>(rid, _). updS inventory_reservations_update rid
         (\<lambda>r. r\<lparr>ir_expires_at := env_now env + seconds ttl_seconds\<rparr>)) active) (\<lambda>_.
     returnS (length active)))"

definition release_for_order :: "env \<Rightarrow> nat \<Rightarrow> nat dbm" where
  "release_for_order env order_id =
     bindS (getsS (active_for_order order_id)) (\<lambda>active.
     bindS (mapS (release env) active) (\<lambda>released.
     returnS (length released)))"

definition reap_expired :: "env \<Rightarrow> nat \<Rightarrow> nat dbm" where
  "reap_expired env limit =
     bindS (getsS (expired_reservations (env_now env) limit)) (\<lambda>expired.
     bindS (mapS (expire_reservation env) expired) (\<lambda>_.
     returnS (length expired)))"

section \<open>Allocation\<close>

definition get_many :: "nat list \<Rightarrow> db \<Rightarrow> (nat \<times> InventoryItem) list" where
  "get_many ids s = filter (\<lambda>x. fst x \<in> set ids) (inventory_items s)"

text \<open>The replacement stock for a hold that lapsed before the payment cleared.\<close>

definition replace_missing ::
    "env \<Rightarrow> nat \<Rightarrow> nat \<Rightarrow> nat \<Rightarrow> int \<Rightarrow> (nat \<times> InventoryReservation) list dbm" where
  "replace_missing env pid order_id order_item_id missing =
     (if missing \<le> 0 then returnS []
      else
        bindS (getsS (claim_available pid missing)) (\<lambda>replacement.
        thenS (guardS (missing \<le> int (length replacement)) InsufficientStockError)
       (mapS (\<lambda>(item_id, _).
          bindS (hold_item order_id order_item_id (env_now env + seconds 3600) item_id) (\<lambda>rid.
          bindS (loadS inventory_reservations rid) (\<lambda>r. returnS (rid, r)))) replacement)))"

definition allocate_for_order_item ::
    "env \<Rightarrow> nat \<Rightarrow> nat \<Rightarrow> int \<Rightarrow> nat \<Rightarrow> Product \<Rightarrow> (nat \<times> InventoryItem) list dbm" where
  "allocate_for_order_item env order_id order_item_id quantity pid p =
     (if p_delivery_type p \<noteq> DeliveryType.STOCK_ITEM then returnS []
      else
        bindS (getsS (all_for_order order_id)) (\<lambda>all.
        let reservations = filter (\<lambda>x. ir_order_item_id (snd x) = Some order_item_id) all;
            active = filter (\<lambda>x. ir_status (snd x) = ReservationStatus.ACTIVE) reservations;
            consumed = filter (\<lambda>x. ir_status (snd x) = ReservationStatus.CONSUMED) reservations in
        if consumed \<noteq> [] \<and> active = []
        then getsS (get_many (map (\<lambda>x. ir_inventory_item_id (snd x)) consumed))
        else
          bindS (replace_missing env pid order_id order_item_id
              (quantity - int (length active) - int (length consumed))) (\<lambda>fresh.
          let active' = active @ fresh;
              item_ids = map (\<lambda>x. ir_inventory_item_id (snd x)) (active' @ consumed) in
          bindS (mapS (consume env) active') (\<lambda>_.
          bindS (getsS (get_many item_ids)) (\<lambda>items.
          bindS (mapS (\<lambda>(item_id, _). updS inventory_items_update item_id
              (\<lambda>r. r\<lparr>ii_order_item_id := Some order_item_id\<rparr>)) items) (\<lambda>_.
          getsS (get_many item_ids)))))))"

section \<open>Stock management\<close>

definition find_by_fingerprint :: "nat \<Rightarrow> string \<Rightarrow> db \<Rightarrow> bool" where
  "find_by_fingerprint pid fp s =
     texists (\<lambda>r. ii_product_id r = pid \<and> ii_fingerprint r = fp) (inventory_items s)"

text \<open>
  The session does not autoflush, so the duplicate check of one payload does not see the items that
  earlier payloads of the same call have added to the session.
\<close>

fun new_items :: "env \<Rightarrow> nat \<Rightarrow> db \<Rightarrow> string list \<Rightarrow> InventoryItem list \<times> nat" where
  "new_items env pid s [] = ([], 0)"
| "new_items env pid s (raw # rest) =
     (let payload = py_strip raw; (items, skipped) = new_items env pid s rest in
      if payload = [] then (items, skipped)
      else let fp = payload_fingerprint (env_sha256 env) payload in
        if find_by_fingerprint pid fp s then (items, skipped + 1)
        else (\<lparr>ii_product_id = pid, ii_status = StockItemStatus.AVAILABLE,
                ii_secret_payload = env_encrypt env payload, ii_fingerprint = fp,
                ii_order_item_id = None, ii_sold_at = None, ii_created_at = env_now env\<rparr> # items,
              skipped))"

definition record_adjustment :: "nat \<Rightarrow> nat option \<Rightarrow> nat option \<Rightarrow> string \<Rightarrow> int \<Rightarrow> nat dbm" where
  "record_adjustment pid item_id actor_id action quantity =
     insS inventory_adjustments_update \<lparr>ia_product_id = pid, ia_inventory_item_id = item_id,
       ia_actor_id = actor_id, ia_action = action, ia_quantity = quantity\<rparr>"

definition add_stock :: "env \<Rightarrow> nat \<Rightarrow> string list \<Rightarrow> nat option \<Rightarrow> (nat \<times> nat) dbm" where
  "add_stock env pid payloads actor_id =
     bindS (getsS (\<lambda>s. new_items env pid s payloads)) (\<lambda>(items, skipped).
     bindS (mapS insert_inventory_item items) (\<lambda>_.
     thenS (whenS (items \<noteq> [])
        (bindS (record_adjustment pid None actor_id ''add_stock'' (int (length items))) (\<lambda>_. returnS ())))
    (returnS (length items, skipped))))"

definition mark_invalid :: "nat \<Rightarrow> nat option \<Rightarrow> unit dbm" where
  "mark_invalid item_id actor_id =
     bindS (loadS inventory_items item_id) (\<lambda>item.
     thenS (guardS (ii_status item \<noteq> StockItemStatus.SOLD) OutOfStockError)
    (thenS (updS inventory_items_update item_id
        (\<lambda>r. r\<lparr>ii_status := StockItemStatus.INVALID\<rparr>))
    (bindS (record_adjustment (ii_product_id item) (Some item_id) actor_id ''mark_invalid'' (- 1))
       (\<lambda>_. returnS ()))))"

definition reveal_payload :: "env \<Rightarrow> InventoryItem \<Rightarrow> error + string" where
  "reveal_payload env item = env_decrypt env (ii_secret_payload item)"

section \<open>Every operation is a step\<close>

text \<open>Holding an item is a step as long as the item is not sold, and holding one sells none.\<close>

definition unsold :: "nat \<Rightarrow> db \<Rightarrow> bool" where
  "unsold k s \<longleftrightarrow> (\<forall>r. tget (inventory_items s) k = Some r \<longrightarrow> ii_status r \<noteq> StockItemStatus.SOLD)"

lemma step_hold_item: "unsold k s \<Longrightarrow> step X s (snd (hold_item oid oiid ex k s))"
proof -
  assume k: "unsold k s"
  let ?u = "inventory_items_update (tupd k (\<lambda>r. r\<lparr>ii_status := StockItemStatus.RESERVED,
      ii_order_item_id := Some oiid\<rparr>)) s"
  have "step X s ?u" by (rule step_upd_item) (use k in \<open>auto simp: item_step_def unsold_def\<close>)
  moreover have "step X ?u (snd (insert_reservation \<lparr>ir_inventory_item_id = k, ir_order_id = oid,
        ir_order_item_id = Some oiid, ir_status = ReservationStatus.ACTIVE,
        ir_expires_at = ex, ir_released_at = None, ir_consumed_at = None\<rparr> ?u))"
    using resp_insert_reservation by (simp add: resp_def)
  ultimately show ?thesis using hist.R_trans by (simp add: hold_item_def updS_def)
qed

lemma insert_reservation_items:
  "insert_reservation r s = (x, t) \<Longrightarrow> inventory_items t = inventory_items s"
  by (auto simp: insert_reservation_def thenS_def bindS_def uniqueS_def guardS_def insS_def split: if_splits)

lemma unsold_hold_item:
  assumes "unsold y s" and "hold_item oid oiid ex k s = (a, t)" shows "unsold y t"
proof -
  from assms(2) have "inventory_items t = tupd k (\<lambda>r. r\<lparr>ii_status := StockItemStatus.RESERVED,
      ii_order_item_id := Some oiid\<rparr>) (inventory_items s)"
    using insert_reservation_items by (fastforce simp: hold_item_def updS_def)
  with assms(1) show ?thesis by (auto simp: unsold_def)
qed

lemma claim_available_unsold:
  assumes "keys_ok s" and "x \<in> set (claim_available pid q s)" shows "unsold (fst x) s"
proof -
  from assms(2) have "x \<in> set (available_items pid s)"
    using set_take_subset [of "nat q"] by (fastforce simp: claim_available_def)
  then have "tget (inventory_items s) (fst x) = Some (snd x)" "ii_status (snd x) = StockItemStatus.AVAILABLE"
    using in_set_tget [OF keys_okD(3) [OF assms(1)]] by (auto simp: available_items_def tsel_in)
  then show ?thesis by (simp add: unsold_def)
qed

lemma step_hold_claimed:
  "step X s (snd (mapS (\<lambda>(item_id, _). hold_item oid oiid ex item_id) (claim_available pid q s) s))"
proof -
  have "step X s (snd (mapS (\<lambda>(item_id, _). hold_item oid oiid ex item_id) (claim_available pid q s) s))"
    if "keys_ok s"
    by (rule step_mapS [where pre = "\<lambda>x s. unsold (fst x) s"])
      (auto simp: step_hold_item claim_available_unsold that intro: unsold_hold_item)
  then show ?thesis by (auto simp: step_def db_ok_def)
qed

lemma step_replace_claimed:
  "step X s (snd (mapS (\<lambda>(item_id, _).
      bindS (hold_item oid oiid ex item_id) (\<lambda>rid.
      bindS (loadS inventory_reservations rid) (\<lambda>r. returnS (rid, r)))) (claim_available pid q s) s))"
    (is "step X s (snd (mapS ?f _ s))")
proof -
  have snd_f: "snd (?f (k, x) s) = snd (hold_item oid oiid ex k s)" for k x s
    by (auto simp: bindS_def loadS_def split: prod.splits sum.splits option.splits)
  have fst_f: "\<exists>b. hold_item oid oiid ex k s = (b, t)" if "?f (k, x) s = (a, t)" for k x s a t
    using snd_f [of k x s] that by (metis prod.collapse snd_conv)
  have "step X s (snd (mapS ?f (claim_available pid q s) s))" if "keys_ok s"
  proof (rule step_mapS [where pre = "\<lambda>x s. unsold (fst x) s"])
    fix x :: "nat \<times> InventoryItem" and s assume "unsold (fst x) s"
    then show "step X s (snd (?f x s))"
      using step_hold_item snd_f by (cases x) (simp only: fst_conv)
  next
    fix x y :: "nat \<times> InventoryItem" and s a t assume "unsold (fst y) s" "?f x s = (Inr a, t)"
    then show "unsold (fst y) t" using fst_f unsold_hold_item by (cases x) blast
  qed (rule claim_available_unsold [OF that])
  then show ?thesis by (auto simp: step_def db_ok_def)
qed

lemma resp_free_item [resp_intros]: "resp (step X) (free_item k)"
  unfolding free_item_def by (intro resp_intros) (simp_all add: item_step_def)

lemma resp_reserve [resp_intros]: "resp (step X) (reserve env pid p q oid oiid ttl)"
proof (rule respI)
  fix s :: db
  have "step X s (snd (catchS (mapS (\<lambda>(item_id, _). hold_item oid oiid ex item_id)
      (claim_available pid q s)) (\<lambda>err. raiseS (if err = IntegrityError then InsufficientStockError else err)) s))"
    for ex using step_hold_claimed [of X s oid oiid ex pid q]
    by (auto simp: catchS_def split: prod.splits sum.splits)
  then show "step X s (snd (reserve env pid p q oid oiid ttl s))"
    unfolding reserve_def Let_def
    by (cases "p_delivery_type p = DeliveryType.STOCK_ITEM";
        cases "q \<le> int (length (claim_available pid q s))") simp_all
qed

lemma resp_release [resp_intros]: "resp (step X) (release env r)"
  unfolding release_def by (intro resp_intros) simp_all

lemma resp_expire_reservation [resp_intros]: "resp (step X) (expire_reservation env r)"
  unfolding expire_reservation_def by (intro resp_intros) simp_all

lemma resp_consume [resp_intros]: "resp (step X) (consume env r)"
  unfolding consume_def by (intro resp_intros) (simp_all add: item_step_def)

lemma resp_extend_reservations [resp_intros]: "resp (step X) (extend_reservations env oid ttl)"
  unfolding extend_reservations_def by (intro resp_intros) simp_all

lemma resp_release_for_order [resp_intros]: "resp (step X) (release_for_order env oid)"
  unfolding release_for_order_def by (intro resp_intros)

lemma resp_reap_expired [resp_intros]: "resp (step X) (reap_expired env limit)"
  unfolding reap_expired_def by (intro resp_intros)

lemma resp_replace_missing [resp_intros]: "resp (step X) (replace_missing env pid oid oiid m)"
proof (rule respI)
  fix s :: db
  show "step X s (snd (replace_missing env pid oid oiid m s))"
    using step_replace_claimed [of X s oid oiid "env_now env + seconds 3600" pid m]
    unfolding replace_missing_def
    by (cases "m \<le> 0"; cases "m \<le> int (length (claim_available pid m s))") simp_all
qed

lemma resp_allocate [resp_intros]: "resp (step X) (allocate_for_order_item env oid oiid q pid p)"
  unfolding allocate_for_order_item_def Let_def by (intro resp_intros) (simp_all add: item_step_def)

lemma resp_add_stock [resp_intros]: "resp (step X) (add_stock env pid ps a)"
  unfolding add_stock_def record_adjustment_def by (intro resp_intros)

lemma resp_mark_invalid [resp_intros]: "resp (step X) (mark_invalid k a)"
proof (rule respI)
  fix s :: db
  show "step X s (snd (mark_invalid k a s))"
  proof (cases "tget (inventory_items s) k")
    case None
    then show ?thesis by (simp add: mark_invalid_def bindS_def loadS_def)
  next
    case (Some r)
    let ?u = "inventory_items_update (tupd k (\<lambda>r. r\<lparr>ii_status := StockItemStatus.INVALID\<rparr>)) s"
    have "step X s ?u" if "ii_status r \<noteq> StockItemStatus.SOLD"
      by (rule step_upd_item) (use that Some in \<open>auto simp: item_step_def\<close>)
    moreover have "step X ?u (snd (bindS (record_adjustment pid i a act q) (\<lambda>_. returnS ()) ?u))" for pid i act q
    proof -
      have "resp (step X) (bindS (record_adjustment pid i a act q) (\<lambda>_. returnS ()))"
        unfolding record_adjustment_def by (intro resp_intros)
      then show ?thesis by (simp add: resp_def)
    qed
    ultimately show ?thesis
      using Some hist.R_trans
      by (cases "ii_status r = StockItemStatus.SOLD")
        (auto simp: mark_invalid_def bindS_Inr loadS_def updS_def)
  qed
qed

end
