(* ===== verification/Ledger.thy ===== *)
theory Ledger
  imports History
begin

text \<open>
  The financial journal (\<^verbatim>\<open>LedgerRepository\<close> of \<^verbatim>\<open>app/db/repositories/orders.py\<close>), the notifications
  inserted by the services, and the interface \<open>journal\<close> under which the services use the journal: an
  event is written at most once per key, and what is written stays.
\<close>

definition ledger_has :: "string \<Rightarrow> db \<Rightarrow> bool" where
  "ledger_has key s \<longleftrightarrow> texists (\<lambda>x. l_dedupe_key x = key) (ledger_entries s)"

definition record_ledger ::
    "env \<Rightarrow> LedgerEntryType \<Rightarrow> decimal \<Rightarrow> string \<Rightarrow> string \<Rightarrow> nat option \<Rightarrow> nat option
       \<Rightarrow> nat option \<Rightarrow> nat option \<Rightarrow> nat option dbm" where
  "record_ledger env entry_type amount currency dedupe_key order_id intent_id user_id actor_id =
     bindS (getsS (ledger_has dedupe_key)) (\<lambda>existing.
     if existing then returnS None
     else
       bindS (liftS (numeric_30_8 amount)) (\<lambda>stored.
       catchS
         (bindS (insert_ledger_entry \<lparr>l_entry_type = entry_type, l_amount = stored,
             l_currency = currency, l_order_id = order_id, l_payment_intent_id = intent_id,
             l_user_id = user_id, l_actor_id = actor_id, l_dedupe_key = dedupe_key,
             l_created_at = env_now env\<rparr>) (\<lambda>k. returnS (Some k)))
         (\<lambda>err. if err = IntegrityError then returnS None else raiseS err)))"

definition ledger_for_order :: "nat \<Rightarrow> db \<Rightarrow> (nat \<times> LedgerEntry) list" where
  "ledger_for_order order_id s =
     sort_key (\<lambda>x. l_created_at (snd x)) (tsel (\<lambda>r. l_order_id r = Some order_id) (ledger_entries s))"

definition net_total :: "time option \<Rightarrow> db \<Rightarrow> decimal" where
  "net_total since s =
     numeric_sum (map (\<lambda>x. l_amount (snd x))
       (tsel (\<lambda>r. case since of None \<Rightarrow> True | Some t \<Rightarrow> t \<le> l_created_at r) (ledger_entries s)))"

definition create_notification :: "env \<Rightarrow> nat \<Rightarrow> NotificationKind \<Rightarrow> nat dbm" where
  "create_notification env user_id kind =
     insS notifications_update \<lparr>n_user_id = user_id, n_kind = kind, n_created_at = env_now env,
       n_read_at = None, n_pushed_at = None\<rparr>"

lemma resp_record_ledger [resp_intros]: "resp (step X) (record_ledger env ty a c k oid i u ac)"
  unfolding record_ledger_def by (intro resp_intros)

lemma resp_create_notification [resp_intros]: "resp (step X) (create_notification env u k)"
  unfolding create_notification_def by (intro resp_intros)

section \<open>The journal as an interface\<close>

text \<open>
  \<open>post k a\<close> is an attempt to journal amount \<open>a\<close> under key \<open>k\<close>, \<open>entries\<close> what the journal holds.
  The client of the interface relies on three laws: a successful attempt leaves the key in the
  journal, an attempt under a present key changes nothing, and nothing is ever removed or rewritten.
\<close>

locale journal =
  fixes post :: "string \<Rightarrow> decimal \<Rightarrow> ('s, 'a) svc"
    and entries :: "'s \<Rightarrow> (string \<times> decimal) list"
  assumes recorded: "post k a s = (Inr x, t) \<Longrightarrow> k \<in> fst ` set (entries t)"
    and again: "k \<in> fst ` set (entries s) \<Longrightarrow> snd (post k a s) = s"
    and append: "prefix (entries s) (entries (snd (post k a s)))"
    and fresh: "k' \<in> fst ` set (entries (snd (post k a s))) \<Longrightarrow> k' = k \<or> k' \<in> fst ` set (entries s)"
begin

lemma still_there: "k' \<in> fst ` set (entries s) \<Longrightarrow> k' \<in> fst ` set (entries (snd (post k a s)))"
  using append [of s k a] by (auto simp: prefix_def)

text \<open>Retrying changes nothing, whatever amount the retry carries.\<close>

lemma retry: "post k a s = (Inr x, t) \<Longrightarrow> snd (post k b t) = t"
  using recorded again by blast

lemma other_untouched: "k' \<noteq> k \<Longrightarrow> k' \<in> fst ` set (entries (snd (post k a s))) \<longleftrightarrow> k' \<in> fst ` set (entries s)"
  using still_there fresh by blast

text \<open>A whole batch of attempts: exactly the keys of the batch are added.\<close>

lemma batch:
  "mapS (\<lambda>(k, a). post k a) kas s = (Inr xs, t) \<Longrightarrow>
   fst ` set (entries t) = fst ` set (entries s) \<union> fst ` set kas"
proof (induction kas arbitrary: s xs)
  case (Cons ka kas)
  obtain k a where ka: "ka = (k, a)" by fastforce
  from Cons.prems obtain x s' ys where r: "post k a s = (Inr x, s')"
    and rest: "mapS (\<lambda>(k, a). post k a) kas s' = (Inr ys, t)"
    by (auto simp: ka bindS_eq_Inr)
  have "fst ` set (entries s') = insert k (fst ` set (entries s))"
    using recorded [OF r] still_there [of _ s k a] fresh [of _ k a s] r by (auto simp: image_iff)
  with Cons.IH [OF rest] show ?case by (auto simp: ka)
qed simp

end

definition journal_entries :: "db \<Rightarrow> (string \<times> decimal) list" where
  "journal_entries s = map (\<lambda>x. (l_dedupe_key (snd x), l_amount (snd x))) (ledger_entries s)"

lemma ledger_has_iff: "ledger_has k s \<longleftrightarrow> k \<in> fst ` set (journal_entries s)"
  by (force simp: ledger_has_def texists_def journal_entries_def)

lemma record_ledger_eq:
  "record_ledger env ty a c k oid i u ac s =
     (if ledger_has k s then (Inr None, s)
      else case numeric_30_8 a of Inl e \<Rightarrow> (Inl e, s)
      | Inr st \<Rightarrow> (Inr (Some (db_next s)), ledger_entries_update (tadd (db_next s)
          \<lparr>l_entry_type = ty, l_amount = st, l_currency = c, l_order_id = oid, l_payment_intent_id = i,
           l_user_id = u, l_actor_id = ac, l_dedupe_key = k, l_created_at = env_now env\<rparr>)
          (s\<lparr>db_next := Suc (db_next s)\<rparr>)))"
  by (auto simp: record_ledger_def insert_ledger_entry_def thenS_def uniqueS_def guardS_def bindS_def
      catchS_def insS_def ledger_has_def split: sum.split)

interpretation lj: journal "\<lambda>k a. record_ledger env ty a c k oid i u ac" journal_entries
  for env ty c oid i u ac
proof
  fix k a s x t
  show "record_ledger env ty a c k oid i u ac s = (Inr x, t) \<Longrightarrow> k \<in> fst ` set (journal_entries t)"
    by (auto simp: record_ledger_eq ledger_has_iff journal_entries_def split: if_splits sum.splits)
  show "k \<in> fst ` set (journal_entries s) \<Longrightarrow> snd (record_ledger env ty a c k oid i u ac s) = s"
    by (simp add: record_ledger_eq ledger_has_iff)
  show "prefix (journal_entries s) (journal_entries (snd (record_ledger env ty a c k oid i u ac s)))"
    by (auto simp: record_ledger_eq journal_entries_def tadd_def split: sum.split)
  fix k'
  show "k' \<in> fst ` set (journal_entries (snd (record_ledger env ty a c k oid i u ac s))) \<Longrightarrow>
      k' = k \<or> k' \<in> fst ` set (journal_entries s)"
    by (auto simp: record_ledger_eq journal_entries_def split: if_splits sum.splits)
qed

end
