(* ===== verification/Coupons.thy ===== *)
theory Coupons
  imports History
begin

text \<open>
  \<^verbatim>\<open>app/domain/coupons/service.py\<close> and \<^verbatim>\<open>CouponRepository\<close>: validation of a coupon against an order,
  its discount, redemption and the return of a redemption.

  \<^verbatim>\<open>redeem\<close> answers a violated UNIQUE constraint by rolling the session back; the order id it is given
  is new in every caller, so the model keeps the answer (no redemption) and not the rollback.
\<close>

definition coupon_by_code :: "string \<Rightarrow> db \<Rightarrow> (nat \<times> Coupon) option" where
  "coupon_by_code code s =
     (case tsel (\<lambda>r. c_code r = py_upper (py_strip code)) (coupons s) of [] \<Rightarrow> None | x # _ \<Rightarrow> Some x)"

definition usage_count_for_user :: "nat \<Rightarrow> nat \<Rightarrow> db \<Rightarrow> int" where
  "usage_count_for_user coupon_id user_id s =
     int (length (tsel (\<lambda>r. cu_coupon_id r = coupon_id \<and> cu_user_id r = user_id \<and> cu_reverted_at r = None)
       (coupon_usages s)))"

definition compute_discount :: "Coupon \<Rightarrow> decimal \<Rightarrow> error + decimal" where
  "compute_discount c subtotal =
     (case (if c_coupon_type c = CouponType.PERCENTAGE
            then (case ddiv (dmul subtotal (c_value c)) (Dec 100 0) of Inl e \<Rightarrow> Inl e
                  | Inr q \<Rightarrow> dquantize q (- 8) ROUND_HALF_UP)
            else Inr (c_value c)) of Inl e \<Rightarrow> Inl e
      | Inr raw \<Rightarrow>
        let raw' = (case c_max_discount c of None \<Rightarrow> raw | Some m \<Rightarrow> dmin raw m)
        in quantize_money (dmin raw' subtotal))"

record CouponEvaluation =
  ce_coupon_id :: nat
  ce_coupon :: Coupon
  ce_discount :: decimal
  ce_new_total :: decimal

definition evaluate ::
    "env \<Rightarrow> string \<Rightarrow> nat \<Rightarrow> decimal \<Rightarrow> string \<Rightarrow> nat option \<Rightarrow> nat option \<Rightarrow> bool \<Rightarrow> db
       \<Rightarrow> error + CouponEvaluation" where
  "evaluate env code user_id subtotal currency product_id category_id is_reseller s =
     (case coupon_by_code code s of None \<Rightarrow> Inl CouponError
      | Some (cid, c) \<Rightarrow>
        if \<not> c_is_active c then Inl CouponError
        else if (case c_starts_at c of None \<Rightarrow> False | Some t \<Rightarrow> env_now env < t) then Inl CouponError
        else if (case c_expires_at c of None \<Rightarrow> False | Some t \<Rightarrow> t \<le> env_now env) then Inl CouponError
        else if c_currency c \<noteq> [] \<and> c_currency c \<noteq> currency then Inl CouponError
        else if c_reseller_only c \<and> \<not> is_reseller then Inl CouponError
        else if dlt subtotal (c_min_order_amount c) then Inl CouponError
        else if c_product_ids c \<noteq> [] \<and> product_id \<notin> Some ` set (c_product_ids c) then Inl CouponError
        else if c_category_ids c \<noteq> [] \<and> category_id \<notin> Some ` set (c_category_ids c) then Inl CouponError
        else if (case c_max_redemptions c of None \<Rightarrow> False | Some m \<Rightarrow> m \<le> c_redemptions_count c)
        then Inl CouponError
        else if c_max_redemptions_per_user c \<le> usage_count_for_user cid user_id s then Inl CouponError
        else case compute_discount c subtotal of Inl e \<Rightarrow> Inl e
        | Inr discount \<Rightarrow>
          if dle discount D0 then Inl CouponError
          else case quantize_money (dsub subtotal discount) of Inl e \<Rightarrow> Inl e
          | Inr new_total \<Rightarrow> Inr \<lparr>ce_coupon_id = cid, ce_coupon = c, ce_discount = discount,
              ce_new_total = new_total\<rparr>)"

definition redeem :: "nat \<Rightarrow> nat \<Rightarrow> nat \<Rightarrow> decimal \<Rightarrow> bool dbm" where
  "redeem coupon_id user_id order_id discount =
     catchS
       (bindS (insert_coupon_usage \<lparr>cu_coupon_id = coupon_id, cu_user_id = user_id,
           cu_order_id = order_id, cu_discount_amount = discount, cu_reverted_at = None\<rparr>) (\<lambda>_.
        thenS (updS coupons_update coupon_id (\<lambda>c. c\<lparr>c_redemptions_count := c_redemptions_count c + 1\<rparr>))
       (returnS True)))
       (\<lambda>err. if err = IntegrityError then returnS False else raiseS err)"

definition revert :: "env \<Rightarrow> nat \<Rightarrow> unit dbm" where
  "revert env order_id =
     bindS (getsS (\<lambda>s. tsel (\<lambda>r. cu_order_id r = order_id \<and> cu_reverted_at r = None) (coupon_usages s))) (\<lambda>found.
     case found of [] \<Rightarrow> returnS ()
     | (uid, usage) # _ \<Rightarrow>
       thenS (updS coupon_usages_update uid (\<lambda>r. r\<lparr>cu_reverted_at := Some (env_now env)\<rparr>))
      (updS coupons_update (cu_coupon_id usage)
         (\<lambda>c. if 0 < c_redemptions_count c
              then c\<lparr>c_redemptions_count := c_redemptions_count c - 1\<rparr> else c)))"

lemma resp_redeem [resp_intros]: "resp (step X) (redeem cid u oid d)"
  unfolding redeem_def by (intro resp_intros)

lemma resp_list_case [resp_intros]:
  "resp R m \<Longrightarrow> (\<And>x xs. resp R (f x xs)) \<Longrightarrow> resp R (case l of [] \<Rightarrow> m | x # xs \<Rightarrow> f x xs)"
  by (cases l) simp_all

lemma resp_revert [resp_intros]: "resp (step X) (revert env oid)"
  unfolding revert_def by (intro resp_intros)

end
