(* ===== verification/Orders.thy ===== *)
theory Orders
  imports Inventory Ledger Coupons
begin

text \<open>
  \<^verbatim>\<open>app/domain/orders/service.py\<close> with \<^verbatim>\<open>OrderRepository\<close>: the checkout quote, the creation of an order
  (with stock reservation, coupon redemption and journal entry in one transaction) and its guarded
  transitions. An operation takes the id of its order and loads the row, as every caller does before
  it calls the service.
\<close>

section \<open>Pricing\<close>

record PricingQuote =
  q_product_id :: nat
  q_product :: Product
  q_quantity :: int
  q_unit_price :: decimal
  q_subtotal :: decimal
  q_discount :: decimal
  q_total :: decimal
  q_currency :: string
  q_coupon_code :: "string option"
  q_coupon_id :: "nat option"

definition unit_price :: "Product \<Rightarrow> bool \<Rightarrow> error + decimal" where
  "unit_price p is_reseller =
     (case p_reseller_price p of
        Some rp \<Rightarrow> if is_reseller then quantize_money rp else quantize_money (p_price p)
      | None \<Rightarrow> quantize_money (p_price p))"

definition checkout_quote ::
    "env \<Rightarrow> nat \<Rightarrow> Product \<Rightarrow> int \<Rightarrow> nat option \<Rightarrow> string option \<Rightarrow> bool \<Rightarrow> db \<Rightarrow> error + PricingQuote" where
  "checkout_quote env pid p quantity user_id coupon_code is_reseller s =
     (if p_status p \<noteq> ProductStatus.ACTIVE then Inl ValidationError
      else case assert_purchasable pid p quantity s of Inl e \<Rightarrow> Inl e | Inr _ \<Rightarrow>
      case unit_price p is_reseller of Inl e \<Rightarrow> Inl e | Inr unit \<Rightarrow>
      case quantize_money (dmul unit (Dec quantity 0)) of Inl e \<Rightarrow> Inl e | Inr subtotal \<Rightarrow>
      case (case user_id of
              Some uid \<Rightarrow>
                if truthy_str coupon_code \<and> set_coupons_enabled env
                then (case evaluate env (the coupon_code) uid subtotal (p_currency p) (Some pid)
                        (p_category_id p) is_reseller s of Inl e \<Rightarrow> Inl e
                      | Inr ev \<Rightarrow> Inr (ce_discount ev, Some (ce_coupon_id ev), Some (c_code (ce_coupon ev))))
                else Inr (D0, None, None)
            | None \<Rightarrow> Inr (D0, None, None)) of Inl e \<Rightarrow> Inl e
      | Inr (discount, coupon_id, code) \<Rightarrow>
        case quantize_money (dsub subtotal discount) of Inl e \<Rightarrow> Inl e
        | Inr grand_total \<Rightarrow>
          Inr \<lparr>q_product_id = pid, q_product = p, q_quantity = quantity, q_unit_price = unit,
            q_subtotal = subtotal, q_discount = discount, q_total = grand_total,
            q_currency = p_currency p, q_coupon_code = code, q_coupon_id = coupon_id\<rparr>)"

section \<open>Creation\<close>

definition order_by_reference :: "string \<Rightarrow> db \<Rightarrow> (nat \<times> Order) option" where
  "order_by_reference reference s =
     (case tsel (\<lambda>r. o_reference r = py_upper (py_strip reference)) (orders s) of
        [] \<Rightarrow> None | x # _ \<Rightarrow> Some x)"

definition next_reference_sequence :: "db \<Rightarrow> int" where
  "next_reference_sequence s = int (length (orders s)) + 1"

fun first_free :: "env \<Rightarrow> db \<Rightarrow> int \<Rightarrow> nat \<Rightarrow> string" where
  "first_free env s candidate_no 0 =
     set_order_reference_prefix env @ ''-'' @ py_upper (take 8 (env_uuid env))"
| "first_free env s candidate_no (Suc tries) =
     (let candidate = set_order_reference_prefix env @ ''-'' @ str_int candidate_no in
      if order_by_reference candidate s = None then candidate
      else first_free env s (candidate_no + 1) tries)"

definition next_reference :: "env \<Rightarrow> db \<Rightarrow> string" where
  "next_reference env s = first_free env s (10000 + next_reference_sequence s) 50"

text \<open>The journal key \<^verbatim>\<open>f"{prefix}:{id}"\<close> of an event about one row.\<close>

definition event_key :: "string \<Rightarrow> nat \<Rightarrow> string" where
  "event_key prefix_text k = prefix_text @ '':'' @ str_nat k"

definition create_order ::
    "env \<Rightarrow> PricingQuote \<Rightarrow> nat option \<Rightarrow> nat option \<Rightarrow> string option \<Rightarrow> string option
       \<Rightarrow> string option \<Rightarrow> string \<Rightarrow> nat dbm" where
  "create_order env q user_id reseller_id idempotency_key customer_reference reseller_reference channel =
     thenS (guardS (user_id \<noteq> None \<or> reseller_id \<noteq> None) ValidationError)
    (bindS (getsS (next_reference env)) (\<lambda>reference.
     bindS (liftS (quantize_money (dmul (q_unit_price q) (Dec (q_quantity q) 0)))) (\<lambda>line_total.
     bindS (insert_order \<lparr>o_reference = reference, o_user_id = user_id, o_reseller_id = reseller_id,
         o_idempotency_key = idempotency_key, o_customer_reference = customer_reference,
         o_reseller_reference = reseller_reference, o_status = OrderStatus.CREATED,
         o_currency = q_currency q, o_subtotal = q_subtotal q, o_discount_total = q_discount q,
         o_total = q_total q, o_coupon_id = q_coupon_id q, o_coupon_code = q_coupon_code q,
         o_channel = channel, o_paid_at = None, o_delivered_at = None, o_completed_at = None,
         o_cancelled_at = None, o_created_at = env_now env\<rparr>) (\<lambda>order_id.
     bindS (insert_order_item \<lparr>oi_order_id = order_id, oi_product_id = Some (q_product_id q),
         oi_product_name = p_name (q_product q), oi_product_sku = p_sku (q_product q),
         oi_delivery_type = p_delivery_type (q_product q), oi_quantity = q_quantity q,
         oi_unit_price = q_unit_price q, oi_line_total = line_total,
         oi_currency = q_currency q\<rparr>) (\<lambda>item_id.
     bindS (reserve env (q_product_id q) (q_product q) (q_quantity q) order_id item_id None) (\<lambda>_.
     thenS (case (q_coupon_id q, user_id) of
              (Some cid, Some uid) \<Rightarrow>
                bindS (getsS (\<lambda>s. tget (coupons s) cid)) (\<lambda>c.
                case c of None \<Rightarrow> returnS ()
                | Some _ \<Rightarrow> bindS (redeem cid uid order_id (q_discount q)) (\<lambda>_. returnS ()))
            | _ \<Rightarrow> returnS ())
    (thenS (case user_id of None \<Rightarrow> returnS ()
            | Some uid \<Rightarrow> updS users_update uid (\<lambda>u. u\<lparr>u_orders_count := u_orders_count u + 1\<rparr>))
    (bindS (record_ledger env LedgerEntryType.ORDER_CREATED D0 (q_currency q)
         (event_key ''order_created'' order_id) (Some order_id) None user_id None) (\<lambda>_.
     returnS order_id)))))))))"

section \<open>Transitions\<close>

definition stamp_order :: "env \<Rightarrow> OrderStatus \<Rightarrow> Order \<Rightarrow> Order" where
  "stamp_order env target o1 =
     (let r = o1\<lparr>o_status := target\<rparr> in
      if target = OrderStatus.PAYMENT_VERIFIED \<and> o_paid_at o1 = None
      then r\<lparr>o_paid_at := Some (env_now env)\<rparr>
      else if target = OrderStatus.DELIVERED \<and> o_delivered_at o1 = None
      then r\<lparr>o_delivered_at := Some (env_now env)\<rparr>
      else if target = OrderStatus.COMPLETED \<and> o_completed_at o1 = None
      then r\<lparr>o_completed_at := Some (env_now env)\<rparr>
      else if target = OrderStatus.CANCELLED
      then r\<lparr>o_cancelled_at := Some (env_now env)\<rparr>
      else r)"

definition transition :: "env \<Rightarrow> nat \<Rightarrow> OrderStatus \<Rightarrow> unit dbm" where
  "transition env order_id target =
     bindS (loadS orders order_id) (\<lambda>r.
     thenS (liftS (assert_order_transition (o_status r) target))
    (updS orders_update order_id (stamp_order env target)))"

definition items_of :: "nat \<Rightarrow> db \<Rightarrow> (nat \<times> OrderItem) list" where
  "items_of order_id s = tsel (\<lambda>r. oi_order_id r = order_id) (order_items s)"

definition cancel :: "env \<Rightarrow> nat \<Rightarrow> unit dbm" where
  "cancel env order_id =
     bindS (loadS orders order_id) (\<lambda>r.
     thenS (guardS (\<not> order_is_paid (o_status r)) ConflictError)
    (thenS (transition env order_id OrderStatus.CANCELLED)
    (bindS (release_for_order env order_id) (\<lambda>_.
     revert env order_id))))"

definition expire :: "env \<Rightarrow> nat \<Rightarrow> unit dbm" where
  "expire env order_id =
     bindS (loadS orders order_id) (\<lambda>r.
     if order_is_paid (o_status r) \<or> order_is_terminal (o_status r) then returnS ()
     else
       thenS (transition env order_id OrderStatus.EXPIRED)
      (bindS (release_for_order env order_id) (\<lambda>_.
       revert env order_id)))"

definition record_purchase :: "nat \<Rightarrow> decimal \<Rightarrow> unit dbm" where
  "record_purchase user_id amount =
     updS users_update user_id (\<lambda>u. u\<lparr>u_completed_orders_count := u_completed_orders_count u + 1,
       u_total_spent := dadd (u_total_spent u) amount\<rparr>)"

definition record_sale :: "nat \<Rightarrow> int \<Rightarrow> unit dbm" where
  "record_sale product_id quantity =
     updS products_update product_id (\<lambda>p. p\<lparr>p_sales_count := p_sales_count p + quantity\<rparr>)"

definition complete :: "env \<Rightarrow> nat \<Rightarrow> unit dbm" where
  "complete env order_id =
     bindS (loadS orders order_id) (\<lambda>r.
     if o_status r = OrderStatus.COMPLETED then returnS ()
     else
       thenS (transition env order_id OrderStatus.COMPLETED)
      (thenS (case o_user_id r of None \<Rightarrow> returnS () | Some uid \<Rightarrow> record_purchase uid (o_total r))
      (bindS (getsS (items_of order_id)) (\<lambda>items.
       bindS (mapS (\<lambda>(_, item). case oi_product_id item of None \<Rightarrow> returnS ()
                | Some pid \<Rightarrow> record_sale pid (oi_quantity item)) items) (\<lambda>_.
       returnS ())))))"

definition requires_delivery :: "nat \<Rightarrow> db \<Rightarrow> bool" where
  "requires_delivery order_id s \<longleftrightarrow>
     (\<exists>x \<in> set (items_of order_id s). oi_delivery_type (snd x) \<noteq> DeliveryType.MANUAL)"

text \<open>Orders with a lapsed payment window, one row per order (\<^verbatim>\<open>DISTINCT\<close>).\<close>

definition expired_pending :: "time \<Rightarrow> nat \<Rightarrow> db \<Rightarrow> (nat \<times> Order) list" where
  "expired_pending now limit s =
     take limit (filter (\<lambda>(oid, r). (o_status r = OrderStatus.CREATED \<or> o_status r = OrderStatus.PAYMENT_PENDING)
       \<and> texists (\<lambda>i. sn_order_id (i_snap i) = oid \<and> sn_expires_at (i_snap i) \<le> now) (payment_intents s))
     (orders s))"

section \<open>Every operation is a step\<close>

lemma stamp_order_simps [simp]:
  "o_status (stamp_order env target r) = target" "order_frozen (stamp_order env target r) = order_frozen r"
  by (simp_all add: stamp_order_def Let_def order_frozen_def)

lemma assert_order_transition_Inr:
  "assert_order_transition a b = Inr () \<longleftrightarrow> a = b \<or> can_transition_order a b"
  by (simp add: assert_order_transition_def)

lemma order_reach_assert: "assert_order_transition a b = Inr () \<Longrightarrow> order_reach a b"
  unfolding assert_order_transition_Inr order_reach_def
proof (elim disjE)
  assume "can_transition_order a b"
  then have "legal_order_walk a [b] b" by simp
  then show "\<exists>p. legal_order_walk a p b" by blast
qed (auto intro: exI [of _ "[]"])

lemma transition_cases:
  "transition env oid target s =
     (case tget (orders s) oid of None \<Rightarrow> (Inl NotFoundError, s)
      | Some r \<Rightarrow> case assert_order_transition (o_status r) target of Inl e \<Rightarrow> (Inl e, s)
        | Inr _ \<Rightarrow> (Inr (), orders_update (tupd oid (stamp_order env target)) s))"
  by (auto simp: transition_def bindS_def loadS_def thenS_def liftS_def updS_def
      split: option.split sum.split)

text \<open>
  A transition is a step unless it makes an unpaid order paid while no payment of it is verified.
\<close>

lemma step_transition:
  assumes "\<And>r. db_ok X s \<Longrightarrow> tget (orders s) oid = Some r \<Longrightarrow> order_is_paid target \<Longrightarrow>
      \<not> order_is_paid (o_status r) \<Longrightarrow> can_transition_order (o_status r) target \<Longrightarrow> has_verified oid s"
  shows "step X s (snd (transition env oid target s))"
proof -
  let ?t = "orders_update (tupd oid (stamp_order env target)) s"
  have "step X s ?t" if r: "tget (orders s) oid = Some r" "assert_order_transition (o_status r) target = Inr ()" for r
  proof (rule stepI)
    assume ok: "db_ok X s"
    then show "keys_ok ?t" by (simp add: db_ok_def keys_ok_def)
    have "o_reference (stamp_order env target r) = o_reference r" for r
      using stamp_order_simps(2) [of env target r] by (simp add: order_frozen_def)
    then show "constraints_ok ?t" using ok by (simp add: db_ok_def constraints_ok_def uniq_upd_same)
    show ev: "evolves s ?t"
      using r by (auto simp: evolves_def table_step_refl order_step_def order_reach_assert intro!: table_step_upd)
    fix k r' assume r': "tget (orders ?t) k = Some r'" "order_is_paid (o_status r')"
      "\<not> (\<exists>r0. tget (orders s) k = Some r0 \<and> order_is_paid (o_status r0))"
    with r have "k = oid" "\<not> order_is_paid (o_status r)" "order_is_paid target" by (auto split: if_splits)
    moreover from this r(2) have "can_transition_order (o_status r) target"
      by (auto simp: assert_order_transition_Inr)
    ultimately show "has_verified k ?t" using assms ok r(1) has_verified_evolves [OF ev] by blast
  qed auto
  then show ?thesis by (auto simp: transition_cases split: option.split sum.split)
qed

lemma enters_paid:
  "can_transition_order a b \<Longrightarrow> order_is_paid b \<Longrightarrow> \<not> order_is_paid a \<Longrightarrow>
   b \<in> {OrderStatus.PAYMENT_VERIFIED, OrderStatus.FULFILLING, OrderStatus.REFUNDED}"
  by (cases a; cases b) (simp_all add: can_transition_order_def order_is_paid_def)

lemma resp_transition [resp_intros]:
  "target \<notin> {OrderStatus.PAYMENT_VERIFIED, OrderStatus.FULFILLING, OrderStatus.REFUNDED} \<Longrightarrow>
   resp (step X) (transition env oid target)"
  by (rule respI, rule step_transition) (use enters_paid in blast)

lemma resp_cancel [resp_intros]: "resp (step X) (cancel env oid)"
  unfolding cancel_def by (intro resp_intros) simp_all

lemma resp_expire [resp_intros]: "resp (step X) (expire env oid)"
  unfolding expire_def by (intro resp_intros) simp_all

lemma resp_complete [resp_intros]: "resp (step X) (complete env oid)"
  unfolding complete_def record_purchase_def record_sale_def by (intro resp_intros) simp_all

lemma resp_create_order [resp_intros]:
  "resp (step X) (create_order env q u rs ik cr rr ch)"
  unfolding create_order_def by (intro resp_intros) (simp_all add: order_is_paid_def)

end
