(* ===== verification/Payments.thy ===== *)
theory Payments
  imports Orders
begin

text \<open>
  \<^verbatim>\<open>app/domain/payments/service.py\<close> with \<^verbatim>\<open>app/db/repositories/payments.py\<close>: the life of a payment
  intent. The expectation is frozen at creation, a customer's claim is only a hint, a verification pass
  fetches candidate transfers, decides, claims the transfer through the UNIQUE fingerprint and only then
  marks the intent verified and the order paid. An operation takes the id of its intent and loads the row.

  The adapter of the provider is \<open>env_fetch\<close>. Evidence text, durations and log lines are left out.
\<close>

section \<open>Repositories\<close>

definition record_health :: "env \<Rightarrow> nat \<Rightarrow> bool \<Rightarrow> unit dbm" where
  "record_health env provider_id healthy =
     updS payment_providers_update provider_id (\<lambda>p.
       let q = p\<lparr>pp_healthy := Some healthy, pp_health_checked_at := Some (env_now env)\<rparr> in
       if healthy then q\<lparr>pp_consecutive_failures := 0, pp_last_success_at := Some (env_now env)\<rparr>
       else q\<lparr>pp_consecutive_failures := pp_consecutive_failures p + 1\<rparr>)"

definition list_available :: "db \<Rightarrow> (nat \<times> PaymentMethod) list" where
  "list_available s = filter (\<lambda>(_, m). pm_is_enabled m \<and> pm_receiving_address m \<noteq> None
       \<and> (case tget (payment_providers s) (pm_provider_id m) of None \<Rightarrow> False
          | Some p \<Rightarrow> pp_is_enabled p \<and> pp_consecutive_failures p < 5)) (payment_methods s)"

definition intents_of :: "nat \<Rightarrow> db \<Rightarrow> (nat \<times> PaymentIntent) list" where
  "intents_of order_id s = tsel (\<lambda>r. sn_order_id (i_snap r) = order_id) (payment_intents s)"

definition active_intent :: "nat \<Rightarrow> db \<Rightarrow> (nat \<times> PaymentIntent) option" where
  "active_intent order_id s = latest_by (\<lambda>r. sn_created_at (i_snap r))
     (filter (\<lambda>x. i_status (snd x) \<in> {PaymentStatus.CREATED, PaymentStatus.AWAITING_PAYMENT,
         PaymentStatus.SUBMITTED, PaymentStatus.DETECTING, PaymentStatus.DETECTED,
         PaymentStatus.VERIFYING, PaymentStatus.PENDING_CONFIRMATION}) (intents_of order_id s))"

definition latest_intent :: "nat \<Rightarrow> db \<Rightarrow> (nat \<times> PaymentIntent) option" where
  "latest_intent order_id s = latest_by (\<lambda>r. sn_created_at (i_snap r)) (intents_of order_id s)"

definition verified_for_order :: "nat \<Rightarrow> db \<Rightarrow> (nat \<times> PaymentIntent) option" where
  "verified_for_order order_id s =
     (case filter (\<lambda>x. i_status (snd x) = PaymentStatus.VERIFIED) (intents_of order_id s) of
        [] \<Rightarrow> None | x # _ \<Rightarrow> Some x)"

definition due_for_polling :: "time \<Rightarrow> nat \<Rightarrow> db \<Rightarrow> (nat \<times> PaymentIntent) list" where
  "due_for_polling now limit s =
     take limit (sort_key (\<lambda>x. i_next_poll_at (snd x))
       (tsel (\<lambda>r. i_status r \<in> {PaymentStatus.SUBMITTED, PaymentStatus.DETECTING, PaymentStatus.DETECTED,
             PaymentStatus.VERIFYING, PaymentStatus.PENDING_CONFIRMATION}
           \<and> (case i_next_poll_at r of None \<Rightarrow> True | Some t \<Rightarrow> t \<le> now)) (payment_intents s)))"

definition expired_open :: "time \<Rightarrow> nat \<Rightarrow> db \<Rightarrow> (nat \<times> PaymentIntent) list" where
  "expired_open now limit s =
     take limit (tsel (\<lambda>r. i_status r \<in> {PaymentStatus.CREATED, PaymentStatus.AWAITING_PAYMENT,
           PaymentStatus.SUBMITTED, PaymentStatus.DETECTING}
         \<and> sn_expires_at (i_snap r) \<le> now) (payment_intents s))"

definition schedule_next_poll :: "env \<Rightarrow> nat \<Rightarrow> int \<Rightarrow> unit dbm" where
  "schedule_next_poll env i secs =
     updS payment_intents_update i (\<lambda>r. r\<lparr>i_next_poll_at := Some (env_now env + seconds secs)\<rparr>)"

definition latest_attempt :: "nat \<Rightarrow> db \<Rightarrow> (nat \<times> PaymentAttempt) option" where
  "latest_attempt i s = latest_by a_submitted_at (tsel (\<lambda>r. a_payment_intent_id r = i) (payment_attempts s))"

definition upsert_provider :: "ObservedTransaction \<Rightarrow> unit dbm" where
  "upsert_provider t =
     bindS (getsS (\<lambda>s. filter (\<lambda>(_, r). pt_provider_code r = tx_provider t
         \<and> pt_external_id r = tx_external_id t) (provider_transactions s))) (\<lambda>found.
     case found of
       (k, _) # _ \<Rightarrow> updS provider_transactions_update k (\<lambda>r. r\<lparr>
           pt_status := (if tx_status_label t \<noteq> [] then tx_status_label t else pt_status r),
           pt_confirmations := tx_confirmations t\<rparr>)
     | [] \<Rightarrow> bindS (liftS (numeric_30_8 (tx_amount t))) (\<lambda>amount.
         bindS (insS provider_transactions_update \<lparr>pt_provider_code = tx_provider t,
           pt_external_id = tx_external_id t, pt_record_type = tx_record_type t, pt_asset = tx_asset t,
           pt_network = tx_network t, pt_amount = amount, pt_status = tx_status_label t,
           pt_txid = tx_txid t, pt_address = tx_to_address t, pt_reference = tx_reference t,
           pt_confirmations = tx_confirmations t, pt_observed_at = tx_observed_at t\<rparr>)
         (\<lambda>_. returnS ())))"

definition upsert_blockchain :: "ObservedTransaction \<Rightarrow> string \<Rightarrow> unit dbm" where
  "upsert_blockchain t txid =
     bindS (getsS (\<lambda>s. filter (\<lambda>(_, r). bt_network r = tx_network t \<and> bt_txid r = txid
         \<and> bt_log_index r = tx_log_index t) (blockchain_transactions s))) (\<lambda>found.
     case found of
       (k, _) # _ \<Rightarrow> updS blockchain_transactions_update k (\<lambda>r. r\<lparr>
           bt_confirmations := max (bt_confirmations r) (tx_confirmations t),
           bt_is_successful := tx_is_successful t,
           bt_block_number := (if tx_block_number t \<noteq> None \<and> tx_block_number t \<noteq> Some 0
                               then tx_block_number t else bt_block_number r),
           bt_block_time := (if tx_block_time t \<noteq> None then tx_block_time t else bt_block_time r)\<rparr>)
     | [] \<Rightarrow> bindS (liftS (numeric_30_8 (tx_amount t))) (\<lambda>amount.
         bindS (insS blockchain_transactions_update \<lparr>bt_network = tx_network t, bt_txid = txid,
           bt_log_index = tx_log_index t, bt_asset = tx_asset t, bt_token_contract = tx_token_contract t,
           bt_from_address = tx_from_address t, bt_to_address = tx_to_address t,
           bt_to_address_normalized = tx_to_address_normalized t, bt_amount_units = tx_amount_units t,
           bt_amount = amount, bt_decimals = tx_decimals t, bt_memo = tx_memo t,
           bt_block_number = tx_block_number t, bt_block_time = tx_block_time t,
           bt_confirmations = tx_confirmations t, bt_is_successful = tx_is_successful t,
           bt_observed_at = tx_observed_at t\<rparr>) (\<lambda>_. returnS ())))"

text \<open>
  \<^verbatim>\<open>PaymentConsumptionRepository.claim\<close>: the insertion runs in a savepoint, so a violated constraint
  leaves nothing behind; the answer is then the row that holds the fingerprint, if there is one.
\<close>

definition consumption_by_fingerprint :: "string \<Rightarrow> db \<Rightarrow> (nat \<times> PaymentConsumption) option" where
  "consumption_by_fingerprint fp s =
     (case tsel (\<lambda>r. pc_fingerprint r = fp) (payment_consumptions s) of [] \<Rightarrow> None | x # _ \<Rightarrow> Some x)"

definition claim_consumption :: "PaymentConsumption \<Rightarrow> ((nat \<times> PaymentConsumption) option \<times> bool) dbm" where
  "claim_consumption r =
     catchS (bindS (insert_consumption r) (\<lambda>k. returnS (Some (k, r), True)))
       (\<lambda>err. if err = IntegrityError
              then bindS (getsS (consumption_by_fingerprint (pc_fingerprint r))) (\<lambda>existing.
                   returnS (existing, False))
              else raiseS err)"

definition consumptions_for_order :: "nat \<Rightarrow> db \<Rightarrow> (nat \<times> PaymentConsumption) list" where
  "consumptions_for_order order_id s = tsel (\<lambda>r. pc_order_id r = order_id) (payment_consumptions s)"

fun kind_value :: "ReconciliationKind \<Rightarrow> string" where
  "kind_value ReconciliationKind.UNMATCHED_TRANSACTION = ''unmatched_transaction''"
| "kind_value ReconciliationKind.DUPLICATE_TRANSACTION = ''duplicate_transaction''"
| "kind_value ReconciliationKind.LATE_PAYMENT = ''late_payment''"
| "kind_value ReconciliationKind.WRONG_NETWORK = ''wrong_network''"
| "kind_value ReconciliationKind.AMOUNT_MISMATCH = ''amount_mismatch''"
| "kind_value ReconciliationKind.EXPIRED_WITH_FUNDS = ''expired_with_funds''"
| "kind_value ReconciliationKind.PROVIDER_INCONSISTENCY = ''provider_inconsistency''"
| "kind_value ReconciliationKind.STUCK_DELIVERY = ''stuck_delivery''"
| "kind_value ReconciliationKind.ORPHAN_PAYMENT = ''orphan_payment''"

definition record_reconciliation ::
    "ReconciliationKind \<Rightarrow> string \<Rightarrow> nat option \<Rightarrow> nat option \<Rightarrow> nat option dbm" where
  "record_reconciliation kind dedupe_key intent_id order_id =
     bindS (getsS (\<lambda>s. texists (\<lambda>r. rr_dedupe_key r = dedupe_key) (reconciliation_records s))) (\<lambda>existing.
     if existing then returnS None
     else bindS (insS reconciliation_records_update \<lparr>rr_kind = kind, rr_status = ReconciliationStatus.OPEN,
         rr_dedupe_key = dedupe_key, rr_payment_intent_id = intent_id, rr_order_id = order_id,
         rr_resolved_by_id = None, rr_resolved_at = None\<rparr>) (\<lambda>k. returnS (Some k)))"

definition resolve_reconciliation ::
    "env \<Rightarrow> nat \<Rightarrow> nat option \<Rightarrow> ReconciliationStatus \<Rightarrow> unit dbm" where
  "resolve_reconciliation env k resolved_by_id status =
     updS reconciliation_records_update k (\<lambda>r. r\<lparr>rr_status := status,
       rr_resolved_by_id := resolved_by_id, rr_resolved_at := Some (env_now env)\<rparr>)"

section \<open>Guarded movement of an intent\<close>

definition pay_transition :: "nat \<Rightarrow> PaymentStatus \<Rightarrow> unit dbm" where
  "pay_transition i target =
     bindS (loadS payment_intents i) (\<lambda>r.
     thenS (liftS (assert_payment_transition (i_status r) target))
    (updS payment_intents_update i (\<lambda>r. r\<lparr>i_status := target\<rparr>)))"

definition advance :: "env \<Rightarrow> nat \<Rightarrow> PaymentStatus \<Rightarrow> unit dbm" where
  "advance env i target =
     bindS (loadS payment_intents i) (\<lambda>r.
     bindS (liftS (payment_path (env_succ env) (i_status r) target)) (\<lambda>path.
     bindS (mapS (pay_transition i) path) (\<lambda>_. returnS ())))"

section \<open>Creation of an intent\<close>

text \<open>
  \<^verbatim>\<open>str.format(reference=...)\<close> for templates whose only field is \<^verbatim>\<open>{reference}\<close> without conversion or
  format specification; anything else between braces, and a stray brace, makes Python raise.
\<close>

function format_reference :: "string \<Rightarrow> string \<Rightarrow> string option" where
  "format_reference template reference =
     (case template of [] \<Rightarrow> Some []
      | c # rest \<Rightarrow>
        if startswith template ''{{'' then map_option (Cons (CHR ''{'')) (format_reference (drop 2 template) reference)
        else if startswith template ''}}'' then map_option (Cons (CHR ''}'')) (format_reference (drop 2 template) reference)
        else if startswith template ''{reference}'' then map_option ((@) reference) (format_reference (drop 11 template) reference)
        else if c = CHR ''{'' \<or> c = CHR ''}'' then None
        else map_option (Cons c) (format_reference rest reference))"
  by pat_completeness auto
termination
  by (relation "measure (\<lambda>(template, reference). length template)") auto

declare format_reference.simps [simp del]

definition payment_window :: "env \<Rightarrow> int option \<Rightarrow> PaymentMethod \<Rightarrow> int" where
  "payment_window env window_seconds m =
     (if window_seconds \<noteq> None \<and> window_seconds \<noteq> Some 0 then the window_seconds
      else if pm_payment_window_seconds m \<noteq> 0 then pm_payment_window_seconds m
      else set_default_window_seconds env)"

definition create_intent :: "env \<Rightarrow> nat \<Rightarrow> nat \<Rightarrow> int option \<Rightarrow> nat dbm" where
  "create_intent env order_id method_id window_seconds =
     bindS (loadS orders order_id) (\<lambda>o1.
     bindS (loadS payment_methods method_id) (\<lambda>m.
     bindS (loadS payment_providers (pm_provider_id m)) (\<lambda>p.
     thenS (guardS (\<not> order_is_paid (o_status o1)) ConflictError)
    (thenS (guardS (pm_is_enabled m \<and> pp_is_enabled p) ConfigurationError)
    (thenS (guardS (truthy_str (pm_receiving_address m)) ConfigurationError)
    (case pm_quote_rate m of None \<Rightarrow> raiseS ConfigurationError
     | Some rate \<Rightarrow>
       thenS (guardS (\<not> dle rate D0) ConfigurationError)
      (bindS (liftS (quote_expected_amount (o_total o1) rate (pm_asset_decimals m))) (\<lambda>expected_amount.
       thenS (guardS (case pm_min_amount m of None \<Rightarrow> True | Some x \<Rightarrow> \<not> dlt expected_amount x) ValidationError)
      (thenS (guardS (case pm_max_amount m of None \<Rightarrow> True | Some x \<Rightarrow> \<not> dlt x expected_amount) ValidationError)
      (bindS (getsS (active_intent order_id)) (\<lambda>existing.
       thenS (case existing of None \<Rightarrow> returnS ()
              | Some (k, _) \<Rightarrow> pay_transition k PaymentStatus.CANCELLED)
      (bindS (if pm_requires_memo m
              then (case format_reference (if truthy_str (pm_memo_template m)
                        then the (pm_memo_template m) else ''{reference}'') (o_reference o1) of
                      None \<Rightarrow> raiseS ValueError | Some memo \<Rightarrow> returnS (Some memo))
              else returnS None) (\<lambda>memo.
       bindS (liftS (base_units expected_amount (pm_asset_decimals m))) (\<lambda>units.
       bindS (liftS (numeric_30_8 expected_amount)) (\<lambda>stored_amount.
       bindS (insert_intent \<lparr>i_snap = \<lparr>
             sn_reference = o_reference o1, sn_order_id = order_id, sn_payment_method_id = method_id,
             sn_provider_code = pp_code p, sn_network = pm_network m, sn_order_amount = o_total o1,
             sn_order_currency = o_currency o1, sn_expected_amount = stored_amount,
             sn_expected_amount_units = units, sn_asset = pm_asset m,
             sn_asset_decimals = pm_asset_decimals m, sn_destination = the (pm_receiving_address m),
             sn_destination_normalized = normalize_address (pm_receiving_address m) (Some (pm_network m)),
             sn_token_contract = pm_token_contract m, sn_memo = memo,
             sn_required_confirmations = pm_required_confirmations m, sn_quote_rate = rate,
             sn_expires_at = env_now env + seconds (payment_window env window_seconds m),
             sn_created_at = env_now env\<rparr>,
           i_status = PaymentStatus.CREATED, i_submitted_at = None, i_detected_at = None,
           i_verified_at = None, i_failed_at = None, i_received_amount = None,
           i_received_amount_units = None, i_confirmations = 0, i_verification_attempts = 0,
           i_next_poll_at = None, i_last_outcome = None\<rparr>) (\<lambda>k.
       thenS (pay_transition k PaymentStatus.AWAITING_PAYMENT)
      (returnS k)))))))))))))))))"

text \<open>
  The row is read back in a later session: the column of base units has \<^verbatim>\<open>asdecimal=False\<close>, so it arrives as a
  float, which \<^verbatim>\<open>int\<close> turns into the integer of that float.
\<close>

definition expectation :: "nat \<Rightarrow> PaymentIntent \<Rightarrow> PaymentExpectation" where
  "expectation i r =
     \<lparr>exp_intent_id = i, exp_reference = sn_reference (i_snap r), exp_provider = sn_provider_code (i_snap r),
      exp_network = sn_network (i_snap r), exp_asset = sn_asset (i_snap r),
      exp_asset_decimals = sn_asset_decimals (i_snap r),
      exp_expected_amount = sn_expected_amount (i_snap r),
      exp_expected_amount_units = float53 (sn_expected_amount_units (i_snap r)),
      exp_destination = sn_destination (i_snap r),
      exp_destination_normalized = sn_destination_normalized (i_snap r),
      exp_token_contract = sn_token_contract (i_snap r), exp_memo = sn_memo (i_snap r),
      exp_required_confirmations = sn_required_confirmations (i_snap r),
      exp_created_at = sn_created_at (i_snap r), exp_expires_at = sn_expires_at (i_snap r)\<rparr>"

text \<open>\<^verbatim>\<open>intent.received_amount or intent.expected_amount\<close>: a zero amount counts as missing.\<close>

definition received_or_expected :: "decimal option \<Rightarrow> PaymentIntent \<Rightarrow> decimal" where
  "received_or_expected received r =
     (case received of None \<Rightarrow> sn_expected_amount (i_snap r)
      | Some d \<Rightarrow> if coef d = 0 then sn_expected_amount (i_snap r) else d)"

section \<open>Customer submissions\<close>

definition requires_customer_reference :: "ProviderCode \<Rightarrow> bool" where
  "requires_customer_reference c \<longleftrightarrow>
     c \<in> {ProviderCode.EVM, ProviderCode.SOLANA, ProviderCode.BINANCE_PAY}"

definition submit_payment :: "env \<Rightarrow> nat \<Rightarrow> string option \<Rightarrow> string \<Rightarrow> nat dbm" where
  "submit_payment env i reference source =
     bindS (loadS payment_intents i) (\<lambda>r.
     thenS (guardS (i_status r \<noteq> PaymentStatus.VERIFIED) ConflictError)
    (thenS (guardS (payment_is_open (i_status r)) ConflictError)
    (let stripped = py_strip (case reference of None \<Rightarrow> [] | Some x \<Rightarrow> x);
         submitted = (if stripped = [] then None else Some stripped) in
     thenS (guardS (length stripped \<le> 160) ValidationError)
    (thenS (guardS (\<not> (requires_customer_reference (sn_provider_code (i_snap r)) \<and> submitted = None))
        ValidationError)
    (bindS (insS payment_attempts_update \<lparr>a_payment_intent_id = i,
         a_provider_code = sn_provider_code (i_snap r), a_network = sn_network (i_snap r),
         a_submitted_reference = submitted, a_submitted_txid = submitted,
         a_submitted_at = env_now env, a_verification_count = 0, a_last_outcome = None,
         a_source = source\<rparr>) (\<lambda>k.
     thenS (updS payment_intents_update i (\<lambda>r. r\<lparr>i_submitted_at := Some (or_else (i_submitted_at r) (env_now env))\<rparr>))
    (thenS (pay_transition i PaymentStatus.SUBMITTED)
    (thenS (updS payment_intents_update i (\<lambda>r. r\<lparr>i_next_poll_at := Some (env_now env)\<rparr>))
    (returnS k)))))))))"

section \<open>Every operation is a step\<close>

lemma resp_record_health [resp_intros]: "resp (step X) (record_health env k b)"
  unfolding record_health_def by (intro resp_intros)

lemma resp_schedule_next_poll [resp_intros]: "resp (step X) (schedule_next_poll env i n)"
  unfolding schedule_next_poll_def by (intro resp_intros) simp

lemma resp_list [resp_intros]:
  "resp R m \<Longrightarrow> (\<And>y ys. resp R (f y ys)) \<Longrightarrow> resp R (case xs of [] \<Rightarrow> m | y # ys \<Rightarrow> f y ys)"
  by (cases xs) simp_all

lemma resp_upserts [resp_intros]:
  "resp (step X) (upsert_provider t)" "resp (step X) (upsert_blockchain t txid)"
  unfolding upsert_provider_def upsert_blockchain_def by (intro resp_intros)+

lemma resp_claim_consumption [resp_intros]: "resp (step X) (claim_consumption r)"
  unfolding claim_consumption_def by (intro resp_intros)

lemma resp_reconciliation [resp_intros]:
  "resp (step X) (record_reconciliation kind key i oid)"
  "resp (step X) (resolve_reconciliation env k by_id st)"
  unfolding record_reconciliation_def resolve_reconciliation_def by (intro resp_intros)+

text \<open>
  A guarded movement is a step, except that a movement to \<open>VERIFIED\<close> leaves the intent to be backed.
\<close>

lemma pay_transition_cases:
  "pay_transition i target s =
     (case tget (payment_intents s) i of None \<Rightarrow> (Inl NotFoundError, s)
      | Some r \<Rightarrow> case assert_payment_transition (i_status r) target of Inl e \<Rightarrow> (Inl e, s)
        | Inr _ \<Rightarrow> (Inr (), payment_intents_update (tupd i (\<lambda>r. r\<lparr>i_status := target\<rparr>)) s))"
  by (auto simp: pay_transition_def bindS_def loadS_def thenS_def liftS_def updS_def
      split: option.split sum.split)

lemma pay_reach_assert: "assert_payment_transition a b = Inr () \<Longrightarrow> pay_reach a b"
  unfolding assert_payment_transition_def pay_reach_def
  by (auto simp: can_transition_payment_def split: if_splits intro: exI [of _ "[]"] exI [of _ "[b]"])

lemma step_pay_transition:
  assumes "target = PaymentStatus.VERIFIED \<Longrightarrow> i \<in> X"
  shows "step X s (snd (pay_transition i target s))"
proof -
  let ?t = "payment_intents_update (tupd i (\<lambda>r. r\<lparr>i_status := target\<rparr>)) s"
  have "step X s ?t" if r: "tget (payment_intents s) i = Some r"
    "assert_payment_transition (i_status r) target = Inr ()" for r
  proof (rule stepI)
    assume ok: "db_ok X s"
    then show "keys_ok ?t" by (simp add: db_ok_def keys_ok_def)
    show "constraints_ok ?t" using ok by (simp add: db_ok_def constraints_ok_def uniq_upd_same)
    show "evolves s ?t"
      using r by (auto simp: evolves_def table_step_refl intent_step_def pay_reach_assert intro!: table_step_upd)
  next
    fix j r' assume "tget (payment_intents ?t) j = Some r'" "i_status r' = PaymentStatus.VERIFIED" "j \<notin> X"
      "\<not> (\<exists>r0. tget (payment_intents s) j = Some r0 \<and> i_status r0 = PaymentStatus.VERIFIED)"
    then show "has_claim j ?t" using assms by (auto split: if_splits)
  qed auto
  then show ?thesis by (auto simp: pay_transition_cases split: option.split sum.split)
qed

lemma resp_pay_transition [resp_intros]:
  "target \<noteq> PaymentStatus.VERIFIED \<Longrightarrow> resp (step X) (pay_transition i target)"
  by (rule respI, rule step_pay_transition) simp

lemma resp_pay_transition_held: "resp (step (insert i X)) (pay_transition i target)"
  by (rule respI, rule step_pay_transition) simp

lemma resp_advance_held: "resp (step (insert i X)) (advance env i target)"
  unfolding advance_def by (intro resp_intros resp_pay_transition_held)

lemma resp_map_set: "(\<And>x. x \<in> set xs \<Longrightarrow> resp (step X) (f x)) \<Longrightarrow> resp (step X) (mapS f xs)"
  by (induction xs) (auto intro!: resp_intros)

lemma legal_walk_avoids: "legal_walk a p b \<Longrightarrow> b \<noteq> PaymentStatus.VERIFIED \<Longrightarrow> PaymentStatus.VERIFIED \<notin> set p"
  by (induction p arbitrary: a) (auto simp: legal_walk_VERIFIED)

lemma payment_path_legal:
  "iteration_order succ \<Longrightarrow> payment_path succ a b = Inr p \<Longrightarrow> legal_walk a p b"
  using payment_path_cases legal_walk_iff by blast

lemma resp_advance:
  assumes "iteration_order (env_succ env)" and "target \<noteq> PaymentStatus.VERIFIED"
  shows "resp (step X) (advance env i target)"
proof -
  have "resp (step X) (bindS (liftS (payment_path (env_succ env) a target)) (\<lambda>path.
      bindS (mapS (pay_transition i) path) (\<lambda>_. returnS ())))" for a
  proof (cases "payment_path (env_succ env) a target")
    case (Inr p)
    then have "PaymentStatus.VERIFIED \<notin> set p"
      using assms payment_path_legal legal_walk_avoids by blast
    then have "resp (step X) (mapS (pay_transition i) p)"
      by (intro resp_map_set resp_pay_transition) auto
    with Inr show ?thesis by (simp add: hist.resp_bind hist.resp_return)
  qed (simp, intro resp_intros)
  then show ?thesis unfolding advance_def by (rule hist.resp_bind [OF resp_loadS])
qed

text \<open>What a successful walk does: the intent ends in the target, and nothing else changes.\<close>

lemma pay_transition_ok:
  "tget (payment_intents s) i = Some r \<Longrightarrow> can_transition_payment (i_status r) x \<Longrightarrow>
   pay_transition i x s = (Inr (), payment_intents_update (tupd i (\<lambda>r. r\<lparr>i_status := x\<rparr>)) s)"
  by (simp add: pay_transition_cases assert_payment_transition_def)

lemma walk_transitions:
  "legal_walk (i_status r) p b \<Longrightarrow> tget (payment_intents s) i = Some r \<Longrightarrow>
   \<exists>T us. mapS (pay_transition i) p s = (Inr us, payment_intents_update (\<lambda>_. T) s)
     \<and> tget T i = Some (r\<lparr>i_status := b\<rparr>) \<and> (\<forall>j. j \<noteq> i \<longrightarrow> tget T j = tget (payment_intents s) j)"
proof (induction p arbitrary: r s)
  case Nil
  then have "r\<lparr>i_status := b\<rparr> = r" by simp
  with Nil show ?case by (intro exI [of _ "payment_intents s"]) (simp add: returnS_def)
next
  case (Cons x p)
  let ?s = "payment_intents_update (tupd i (\<lambda>r. r\<lparr>i_status := x\<rparr>)) s"
  have 1: "pay_transition i x s = (Inr (), ?s)" using Cons.prems by (simp add: pay_transition_ok)
  have lw: "legal_walk (i_status (r\<lparr>i_status := x\<rparr>)) p b"
    and tg: "tget (payment_intents ?s) i = Some (r\<lparr>i_status := x\<rparr>)" using Cons.prems by simp_all
  from Cons.IH [OF lw tg] obtain T us where
    T: "mapS (pay_transition i) p ?s = (Inr us, payment_intents_update (\<lambda>_. T) ?s)"
    "tget T i = Some (r\<lparr>i_status := x, i_status := b\<rparr>)"
    "\<forall>j. j \<noteq> i \<longrightarrow> tget T j = tget (payment_intents ?s) j" by blast
  have "mapS (pay_transition i) (x # p) s = (Inr (() # us), payment_intents_update (\<lambda>_. T) ?s)"
    unfolding mapS.simps by (subst bindS_Inr, rule 1, subst bindS_Inr, rule T(1)) (simp only: returnS_def)
  moreover have "payment_intents_update (\<lambda>_. T) ?s = payment_intents_update (\<lambda>_. T) s" by simp
  moreover have "tget T i = Some (r\<lparr>i_status := b\<rparr>)" "\<forall>j. j \<noteq> i \<longrightarrow> tget T j = tget (payment_intents s) j"
    using T(2,3) by simp_all
  ultimately show ?case by metis
qed

lemma advance_ok:
  assumes "iteration_order (env_succ env)" and r: "tget (payment_intents s) i = Some r"
    and "\<exists>p. legal_walk (i_status r) p b"
  shows "\<exists>T. advance env i b s = (Inr (), payment_intents_update (\<lambda>_. T) s)
     \<and> tget T i = Some (r\<lparr>i_status := b\<rparr>) \<and> (\<forall>j. j \<noteq> i \<longrightarrow> tget T j = tget (payment_intents s) j)"
proof -
  from assms obtain p where p: "payment_path (env_succ env) (i_status r) b = Inr p"
    using payment_path_total by blast
  then have "legal_walk (i_status r) p b" using assms(1) payment_path_legal by blast
  then obtain T us where "mapS (pay_transition i) p s = (Inr us, payment_intents_update (\<lambda>_. T) s)"
     "tget T i = Some (r\<lparr>i_status := b\<rparr>)" "\<forall>j. j \<noteq> i \<longrightarrow> tget T j = tget (payment_intents s) j"
    using walk_transitions [OF _ r] by blast
  then show ?thesis
    by (intro exI [of _ T]) (simp add: advance_def loadS_def r p bindS_def returnS_def)
qed

lemma advance_Inr:
  assumes "iteration_order (env_succ env)" and "advance env i b s = (Inr (), t)"
  shows "\<exists>r T. tget (payment_intents s) i = Some r \<and> t = payment_intents_update (\<lambda>_. T) s
     \<and> tget T i = Some (r\<lparr>i_status := b\<rparr>) \<and> (\<forall>j. j \<noteq> i \<longrightarrow> tget T j = tget (payment_intents s) j)"
proof -
  from assms(2) obtain r p where r: "tget (payment_intents s) i = Some r"
    and p: "payment_path (env_succ env) (i_status r) b = Inr p"
    by (auto simp: advance_def bindS_eq_Inr loadS_def liftS_eq_Inr split: option.splits)
  then have "\<exists>p. legal_walk (i_status r) p b" using assms(1) payment_path_legal by blast
  from advance_ok [OF assms(1) r this] assms(2) r show ?thesis by auto
qed

lemma resp_create_intent [resp_intros]: "resp (step X) (create_intent env oid mid w)"
  unfolding create_intent_def by (intro resp_intros) simp_all

lemma resp_submit_payment [resp_intros]: "resp (step X) (submit_payment env i ref src)"
  unfolding submit_payment_def Let_def by (intro resp_intros) simp_all

end
