(* ===== verification/Settlement.thy ===== *)
theory Settlement
  imports Payments
begin

text \<open>
  The verification pass of \<^verbatim>\<open>app/domain/payments/service.py\<close>: fetch, decide, claim, settle, and the
  two decisions an operator can take. \<open>verify\<close> composes the parts in the order of the source; the claim
  of the transfer comes before the intent is marked verified, and the order is marked paid after it.
\<close>

section \<open>Evidence\<close>

definition persist_transaction :: "ObservedTransaction \<Rightarrow> unit dbm" where
  "persist_transaction t =
     (if tx_network t = NetworkCode.EXCHANGE_INTERNAL
         \<or> tx_provider t \<in> {ProviderCode.BINANCE, ProviderCode.BINANCE_PAY, ProviderCode.BYBIT, ProviderCode.OKX}
      then upsert_provider t
      else upsert_blockchain t (if truthy_str (tx_txid t) then the (tx_txid t) else tx_external_id t))"

definition consumption_of ::
    "env \<Rightarrow> nat \<Rightarrow> PaymentIntent \<Rightarrow> decimal \<Rightarrow> ObservedTransaction \<Rightarrow> PaymentConsumption" where
  "consumption_of env i r amount t = \<lparr>
     pc_fingerprint = transaction_fingerprint (env_sha256 env) (tx_provider t) (tx_network t)
       (tx_external_id t) (tx_log_index t),
     pc_payment_intent_id = i, pc_order_id = sn_order_id (i_snap r),
     pc_provider_code = tx_provider t, pc_network = tx_network t,
     pc_external_id = tx_external_id t, pc_amount = amount, pc_amount_units = tx_amount_units t,
     pc_asset = tx_asset t, pc_consumed_at = env_now env\<rparr>"

fun claim_answer :: "nat \<Rightarrow> (nat \<times> PaymentConsumption) option \<times> bool \<Rightarrow> bool \<times> nat option" where
  "claim_answer i (_, True) = (True, None)"
| "claim_answer i (None, False) = (False, None)"
| "claim_answer i (Some (_, c), False) =
     (if pc_payment_intent_id c = i then (True, None) else (False, Some (pc_payment_intent_id c)))"

definition claim :: "env \<Rightarrow> nat \<Rightarrow> ObservedTransaction \<Rightarrow> (bool \<times> nat option) dbm" where
  "claim env i t =
     bindS (loadS payment_intents i) (\<lambda>r.
     bindS (liftS (numeric_30_8 (tx_amount t))) (\<lambda>amount.
     bindS (claim_consumption (consumption_of env i r amount t)) (\<lambda>a.
     returnS (claim_answer i a))))"

record VerificationResult =
  vr_outcome :: VerificationOutcome
  vr_intent_id :: nat
  vr_decision :: VerificationDecision
  vr_transaction :: "ObservedTransaction option"
  vr_newly_verified :: bool
  vr_needs_review :: bool
  vr_retry_in_seconds :: "int option"

definition confirmation_backoff :: "env \<Rightarrow> PaymentIntent \<Rightarrow> int" where
  "confirmation_backoff env r =
     (let missing = max (sn_required_confirmations (i_snap r) - i_confirmations r) 1 in
      min (set_verification_poll_interval env * max (missing div 4) 1) 120)"

section \<open>Settling an outcome\<close>

text \<open>The second half of \<^verbatim>\<open>_mark_verified\<close>: stamp the intent, move the order, journal the money.\<close>

definition credit_order :: "env \<Rightarrow> nat \<Rightarrow> nat \<Rightarrow> decimal \<Rightarrow> string \<Rightarrow> unit dbm" where
  "credit_order env i order_id amount asset =
     thenS (updS payment_intents_update i (\<lambda>r. r\<lparr>i_verified_at := Some (env_now env)\<rparr>))
    (bindS (getsS (\<lambda>s. tget (orders s) order_id)) (\<lambda>order.
     thenS (case order of None \<Rightarrow> returnS ()
            | Some o1 \<Rightarrow> whenS (o_status o1 \<noteq> OrderStatus.PAYMENT_VERIFIED)
                (transition env order_id OrderStatus.PAYMENT_VERIFIED))
    (bindS (record_ledger env LedgerEntryType.PAYMENT_VERIFIED amount asset
        (event_key ''payment_verified'' i) (Some order_id) (Some i)
        (case order of None \<Rightarrow> None | Some o1 \<Rightarrow> o_user_id o1) None) (\<lambda>_.
     returnS ()))))"

definition mark_verified :: "env \<Rightarrow> nat \<Rightarrow> ObservedTransaction option \<Rightarrow> bool dbm" where
  "mark_verified env i transaction =
     bindS (loadS payment_intents i) (\<lambda>r.
     if i_status r = PaymentStatus.VERIFIED then returnS False
     else
       thenS (advance env i PaymentStatus.VERIFIED)
      (thenS (credit_order env i (sn_order_id (i_snap r))
          (received_or_expected
             (case transaction of None \<Rightarrow> i_received_amount r | Some t \<Rightarrow> Some (tx_amount t)) r)
          (sn_asset (i_snap r)))
      (returnS True)))"

definition to_review :: "env \<Rightarrow> nat \<Rightarrow> unit dbm" where
  "to_review env i =
     thenS (advance env i PaymentStatus.UNDER_REVIEW)
    (bindS (loadS payment_intents i) (\<lambda>r.
     bindS (getsS (\<lambda>s. tget (orders s) (sn_order_id (i_snap r)))) (\<lambda>order.
     case order of None \<Rightarrow> returnS ()
     | Some o1 \<Rightarrow>
         whenS (\<not> order_is_paid (o_status o1) \<and> \<not> order_is_terminal (o_status o1))
           (catchS (transition env (sn_order_id (i_snap r)) OrderStatus.MANUAL_REVIEW) (\<lambda>_. returnS ())))))"

definition expire_intent :: "env \<Rightarrow> nat \<Rightarrow> unit dbm" where
  "expire_intent env i = advance env i PaymentStatus.EXPIRED"

fun kind_map :: "VerificationOutcome \<Rightarrow> ReconciliationKind option" where
  "kind_map VerificationOutcome.UNDERPAID = Some ReconciliationKind.AMOUNT_MISMATCH"
| "kind_map VerificationOutcome.OVERPAID = Some ReconciliationKind.AMOUNT_MISMATCH"
| "kind_map VerificationOutcome.WRONG_NETWORK = Some ReconciliationKind.WRONG_NETWORK"
| "kind_map VerificationOutcome.WRONG_ASSET = Some ReconciliationKind.PROVIDER_INCONSISTENCY"
| "kind_map VerificationOutcome.DUPLICATE = Some ReconciliationKind.DUPLICATE_TRANSACTION"
| "kind_map VerificationOutcome.OUTSIDE_WINDOW = Some ReconciliationKind.LATE_PAYMENT"
| "kind_map VerificationOutcome.MEMO_MISMATCH = Some ReconciliationKind.UNMATCHED_TRANSACTION"
| "kind_map VerificationOutcome.UNSUPPORTED = Some ReconciliationKind.PROVIDER_INCONSISTENCY"
| "kind_map _ = None"

definition raise_reconciliation ::
    "nat \<Rightarrow> VerificationOutcome \<Rightarrow> ObservedTransaction option \<Rightarrow> unit dbm" where
  "raise_reconciliation i outcome transaction =
     bindS (loadS payment_intents i) (\<lambda>r.
     case kind_map outcome of None \<Rightarrow> returnS ()
     | Some kind \<Rightarrow>
         let external = (case transaction of None \<Rightarrow> ''none'' | Some t \<Rightarrow> tx_external_id t) in
         bindS (record_reconciliation kind
             (kind_value kind @ '':'' @ str_nat i @ '':'' @ external) (Some i)
             (Some (sn_order_id (i_snap r)))) (\<lambda>_. returnS ()))"

text \<open>The branches of \<^verbatim>\<open>_record_outcome\<close> on the outcome: (newly verified, needs review, retry in).\<close>

definition settle ::
    "env \<Rightarrow> nat \<Rightarrow> VerificationOutcome \<Rightarrow> ObservedTransaction option \<Rightarrow> (bool \<times> bool \<times> int option) dbm" where
  "settle env i outcome transaction =
     (if outcome = VerificationOutcome.VERIFIED then
        bindS (mark_verified env i transaction) (\<lambda>newly. returnS (newly, False, None))
      else if outcome = VerificationOutcome.PENDING_CONFIRMATION then
        thenS (updS payment_intents_update i
           (\<lambda>r. r\<lparr>i_detected_at := Some (or_else (i_detected_at r) (env_now env))\<rparr>))
       (thenS (advance env i PaymentStatus.PENDING_CONFIRMATION)
       (bindS (loadS payment_intents i) (\<lambda>r.
        returnS (False, False, Some (confirmation_backoff env r)))))
      else if outcome = VerificationOutcome.NOT_FOUND then
        bindS (loadS payment_intents i) (\<lambda>r.
        if sn_expires_at (i_snap r) \<le> env_now env then
          thenS (expire_intent env i) (returnS (False, False, None))
        else if set_max_verification_attempts env \<le> i_verification_attempts r then
          thenS (to_review env i) (returnS (False, True, None))
        else
          thenS (pay_transition i PaymentStatus.DETECTING)
         (returnS (False, False, Some (set_verification_poll_interval env))))
      else if outcome = VerificationOutcome.PROVIDER_ERROR then
        bindS (loadS payment_intents i) (\<lambda>r.
        let retry_in = min (set_verification_poll_interval env * 3) 180 in
        if set_max_verification_attempts env \<le> i_verification_attempts r then
          thenS (to_review env i) (returnS (False, True, Some retry_in))
        else returnS (False, False, Some retry_in))
      else if needs_review outcome then
        thenS (to_review env i)
       (thenS (raise_reconciliation i outcome transaction)
       (returnS (False, True, None)))
      else
        thenS (updS payment_intents_update i (\<lambda>r. r\<lparr>i_failed_at := Some (env_now env)\<rparr>))
       (thenS (advance env i PaymentStatus.FAILED)
       (returnS (False, False, None))))"

definition numeric_opt :: "decimal option \<Rightarrow> error + decimal option" where
  "numeric_opt d = (case d of None \<Rightarrow> Inr None | Some x \<Rightarrow>
     (case numeric_30_8 x of Inl e \<Rightarrow> Inl e | Inr y \<Rightarrow> Inr (Some y)))"

definition record_outcome ::
    "env \<Rightarrow> nat \<Rightarrow> nat option \<Rightarrow> VerificationDecision \<Rightarrow> ObservedTransaction option
       \<Rightarrow> VerificationResult dbm" where
  "record_outcome env i attempt decision transaction =
     (let outcome = dec_outcome decision in
      bindS (loadS payment_intents i) (\<lambda>r.
      thenS (updS payment_intents_update i (\<lambda>r. r\<lparr>
          i_verification_attempts := i_verification_attempts r + 1, i_last_outcome := Some outcome\<rparr>))
     (bindS (liftS (numeric_opt (dec_observed_amount decision))) (\<lambda>observed_amount.
      bindS (insS verification_attempts_update \<lparr>v_payment_intent_id = i, v_payment_attempt_id = attempt,
          v_provider_code = sn_provider_code (i_snap r), v_outcome = outcome,
          v_checks = dec_checks decision, v_observed_amount = observed_amount,
          v_observed_confirmations = dec_observed_confirmations decision,
          v_external_reference = map_option tx_external_id transaction\<rparr>) (\<lambda>_.
      thenS (case attempt of None \<Rightarrow> returnS ()
             | Some a \<Rightarrow> updS payment_attempts_update a (\<lambda>x. x\<lparr>
                 a_verification_count := a_verification_count x + 1, a_last_outcome := Some outcome\<rparr>))
     (thenS (case transaction of None \<Rightarrow> returnS ()
             | Some t \<Rightarrow> bindS (liftS (numeric_30_8 (tx_amount t))) (\<lambda>amount.
                 updS payment_intents_update i (\<lambda>r. r\<lparr>i_received_amount := Some amount,
                   i_received_amount_units := Some (tx_amount_units t),
                   i_confirmations := tx_confirmations t\<rparr>)))
     (bindS (settle env i outcome transaction) (\<lambda>(newly, review, retry_in).
      thenS (case retry_in of None \<Rightarrow> returnS () | Some secs \<Rightarrow> schedule_next_poll env i secs)
     (returnS \<lparr>vr_outcome = outcome, vr_intent_id = i, vr_decision = decision,
         vr_transaction = transaction, vr_newly_verified = newly, vr_needs_review = review,
         vr_retry_in_seconds = retry_in\<rparr>)))))))))"

section \<open>The pass\<close>

definition duplicate_decision :: "VerificationDecision \<Rightarrow> VerificationDecision" where
  "duplicate_decision d = \<lparr>dec_outcome = VerificationOutcome.DUPLICATE,
     dec_checks = dec_checks d @ [(''duplicate'', False)], dec_observed_amount = dec_observed_amount d,
     dec_observed_confirmations = dec_observed_confirmations d, dec_missing_confirmations = 0\<rparr>"

text \<open>A submitted reference that finds one transfer is judged directly, anything else is ranked.\<close>

definition decide ::
    "env \<Rightarrow> PaymentExpectation \<Rightarrow> string option \<Rightarrow> ObservedTransaction list
       \<Rightarrow> error + ObservedTransaction option \<times> VerificationDecision" where
  "decide env e reference transactions =
     (let under_tol = set_underpayment_tolerance env; over_tol = set_overpayment_tolerance env;
          grace = seconds (set_late_payment_grace_seconds env) in
      if truthy_str reference \<and> length transactions = 1 then
        (case verify_transaction under_tol over_tol grace e (hd transactions) of
           Inl err \<Rightarrow> Inl err | Inr d \<Rightarrow> Inr (Some (hd transactions), d))
      else select_best_candidate under_tol over_tol grace e transactions)"

text \<open>From the decision on: persist the observation, claim it if it verifies, record the outcome.\<close>

definition conclude ::
    "env \<Rightarrow> nat \<Rightarrow> nat option \<Rightarrow> ObservedTransaction option \<Rightarrow> VerificationDecision
       \<Rightarrow> VerificationResult dbm" where
  "conclude env i attempt transaction decision =
     thenS (case transaction of None \<Rightarrow> returnS () | Some t \<Rightarrow> persist_transaction t)
    (case (dec_outcome decision, transaction) of
       (VerificationOutcome.VERIFIED, Some t) \<Rightarrow>
         bindS (claim env i t) (\<lambda>(claimed, duplicate_of).
         record_outcome env i attempt (if claimed then decision else duplicate_decision decision) (Some t))
     | _ \<Rightarrow> record_outcome env i attempt decision transaction)"

text \<open>The answer of the adapter: misconfiguration and provider trouble are outcomes, not exceptions.\<close>

definition after_fetch ::
    "env \<Rightarrow> nat \<Rightarrow> nat option \<Rightarrow> nat \<Rightarrow> PaymentExpectation \<Rightarrow> string option
       \<Rightarrow> error + ObservedTransaction list \<Rightarrow> VerificationResult dbm" where
  "after_fetch env i attempt provider_id e reference answer =
     (case answer of
        Inl err \<Rightarrow>
          if err = ConfigurationError then
            record_outcome env i attempt (rejected VerificationOutcome.UNSUPPORTED []) None
          else if \<exists>retryable \<in> {True, False}. err = ProviderError retryable then
            thenS (record_health env provider_id False)
           (record_outcome env i attempt (rejected VerificationOutcome.PROVIDER_ERROR []) None)
          else raiseS err
      | Inr transactions \<Rightarrow>
          thenS (record_health env provider_id True)
         (bindS (liftS (decide env e reference transactions)) (\<lambda>(transaction, decision).
          conclude env i attempt transaction decision)))"

definition verify :: "env \<Rightarrow> nat \<Rightarrow> VerificationResult dbm" where
  "verify env i =
     bindS (loadS payment_intents i) (\<lambda>r.
     if i_status r = PaymentStatus.VERIFIED then
       returnS \<lparr>vr_outcome = VerificationOutcome.VERIFIED, vr_intent_id = i,
         vr_decision = rejected VerificationOutcome.VERIFIED [], vr_transaction = None,
         vr_newly_verified = False, vr_needs_review = False, vr_retry_in_seconds = None\<rparr>
     else
       bindS (getsS (latest_attempt i)) (\<lambda>latest.
       let e = expectation i r; attempt = map_option fst latest;
           reference = (case latest of None \<Rightarrow> None | Some (_, a) \<Rightarrow> a_submitted_txid a) in
       thenS (whenS (i_status r = PaymentStatus.SUBMITTED \<or> i_status r = PaymentStatus.AWAITING_PAYMENT)
          (pay_transition i PaymentStatus.DETECTING))
      (bindS (loadS payment_methods (sn_payment_method_id (i_snap r))) (\<lambda>method.
       bindS (loadS payment_providers (pm_provider_id method)) (\<lambda>provider.
       after_fetch env i attempt (pm_provider_id method) e reference
         (env_fetch env provider method e reference))))))"

section \<open>Decisions of an operator\<close>

definition approve_manually :: "env \<Rightarrow> nat \<Rightarrow> nat \<Rightarrow> bool dbm" where
  "approve_manually env i actor_id =
     bindS (loadS payment_intents i) (\<lambda>r.
     if i_status r = PaymentStatus.VERIFIED then returnS False
     else
       thenS (guardS (i_status r \<in> {PaymentStatus.UNDER_REVIEW, PaymentStatus.FAILED,
           PaymentStatus.EXPIRED, PaymentStatus.PENDING_CONFIRMATION, PaymentStatus.DETECTED}) ConflictError)
      (bindS (getsS (consumptions_for_order (sn_order_id (i_snap r)))) (\<lambda>existing.
       thenS (guardS (\<forall>c \<in> set existing. pc_payment_intent_id (snd c) = i) ConflictError)
      (bindS (mark_verified env i None) (\<lambda>newly.
       bindS (record_ledger env LedgerEntryType.MANUAL_ADJUSTMENT D0 (sn_asset (i_snap r))
          (event_key ''manual_approval'' i) (Some (sn_order_id (i_snap r))) (Some i) None
          (Some actor_id)) (\<lambda>_.
       returnS newly))))))"

definition reject_manually :: "env \<Rightarrow> nat \<Rightarrow> unit dbm" where
  "reject_manually env i =
     bindS (loadS payment_intents i) (\<lambda>r.
     thenS (guardS (i_status r \<noteq> PaymentStatus.VERIFIED) ConflictError)
    (thenS (updS payment_intents_update i (\<lambda>r. r\<lparr>i_failed_at := Some (env_now env)\<rparr>))
    (advance env i PaymentStatus.FAILED)))"

definition expire_due :: "env \<Rightarrow> nat \<Rightarrow> nat dbm" where
  "expire_due env limit =
     bindS (getsS (expired_open (env_now env) limit)) (\<lambda>due.
     bindS (mapS (\<lambda>(i, _). expire_intent env i) due) (\<lambda>_.
     returnS (length due)))"

definition payment_progress ::
    "PaymentIntent \<Rightarrow> PaymentStatus \<times> int \<times> int \<times> decimal \<times> decimal option \<times> string \<times> time \<times> int" where
  "payment_progress r = (i_status r, i_confirmations r, sn_required_confirmations (i_snap r),
     sn_expected_amount (i_snap r), i_received_amount r, sn_asset (i_snap r),
     sn_expires_at (i_snap r), i_verification_attempts r)"

section \<open>Every operation is a step\<close>

lemma resp_persist [resp_intros]: "resp (step X) (persist_transaction t)"
  unfolding persist_transaction_def by (intro resp_intros)

lemma resp_claim [resp_intros]: "resp (step X) (claim env i t)"
  unfolding claim_def by (intro resp_intros)

lemma resp_raise_reconciliation [resp_intros]: "resp (step X) (raise_reconciliation i oc t)"
  unfolding raise_reconciliation_def Let_def by (intro resp_intros)

lemma resp_to_review:
  "iteration_order (env_succ env) \<Longrightarrow> resp (step X) (to_review env i)"
  unfolding to_review_def by (intro resp_intros resp_advance) simp_all

lemma resp_expire_intent:
  "iteration_order (env_succ env) \<Longrightarrow> resp (step X) (expire_intent env i)"
  unfolding expire_intent_def by (intro resp_advance) simp_all

text \<open>
  Marking an intent verified is a step with the intent in hand: the order may become paid because the
  intent, an intent of this order, has just become verified.
\<close>

lemma has_verified_upd:
  assumes "\<And>r. i_snap (f r) = i_snap r \<and> i_status (f r) = i_status r" and "has_verified oid s"
  shows "has_verified oid (payment_intents_update (tupd k f) s)"
proof -
  from assms(2) obtain i r where r: "tget (payment_intents s) i = Some r" "sn_order_id (i_snap r) = oid"
    "i_status r = PaymentStatus.VERIFIED" by (auto simp: has_verified_def)
  then have "tget (payment_intents (payment_intents_update (tupd k f) s)) i = Some (if i = k then f r else r)"
    using r(1) by auto
  moreover have "sn_order_id (i_snap (if i = k then f r else r)) = oid"
    "i_status (if i = k then f r else r) = PaymentStatus.VERIFIED" using r assms(1) by simp_all
  ultimately show ?thesis unfolding has_verified_def by blast
qed

lemma step_credit_order:
  assumes "has_verified oid s"
  shows "step X s (snd (credit_order env i oid am cur s))"
  unfolding credit_order_def
proof (rule step_then)
  fix a u assume u: "updS payment_intents_update i (\<lambda>r. r\<lparr>i_verified_at := Some (env_now env)\<rparr>) s = (Inr a, u)"
  have "has_verified oid u"
    using u has_verified_upd [OF _ assms] by (auto simp: updS_def modifyS_def)
  then have tr: "step X u (snd (transition env oid OrderStatus.PAYMENT_VERIFIED u))"
    by (intro step_transition)
  show "step X u (snd (bindS (getsS (\<lambda>s. tget (orders s) oid)) (\<lambda>order.
     thenS (case order of None \<Rightarrow> returnS ()
            | Some o1 \<Rightarrow> whenS (o_status o1 \<noteq> OrderStatus.PAYMENT_VERIFIED)
                (transition env oid OrderStatus.PAYMENT_VERIFIED))
    (bindS (record_ledger env LedgerEntryType.PAYMENT_VERIFIED am cur
        (event_key ''payment_verified'' i) (Some oid) (Some i)
        (case order of None \<Rightarrow> None | Some o1 \<Rightarrow> o_user_id o1) None) (\<lambda>_. returnS ()))) u))"
    unfolding bindS_gets
    by (rule step_then) (use tr in \<open>auto simp: whenS_def step_resp [OF hist.resp_return] split: option.split
        intro!: step_resp hist.resp_bind resp_record_ledger hist.resp_return\<close>)
qed (rule step_resp, intro resp_intros, simp)

lemma step_mark_verified:
  assumes "iteration_order (env_succ env)"
  shows "step (insert i X) s (snd (mark_verified env i tr s))"
  unfolding mark_verified_def
proof (rule step_bind, rule step_resp, intro resp_intros)
  fix r t assume "loadS payment_intents i s = (Inr r, t)"
  then have r: "tget (payment_intents t) i = Some r" by (auto simp: loadS_def split: option.splits)
  let ?am = "received_or_expected
     (case tr of None \<Rightarrow> i_received_amount r | Some t \<Rightarrow> Some (tx_amount t)) r"
  have "step (insert i X) t (snd (thenS (advance env i PaymentStatus.VERIFIED)
      (thenS (credit_order env i (sn_order_id (i_snap r)) ?am (sn_asset (i_snap r))) (returnS True)) t))"
  proof (rule step_then)
    show "step (insert i X) t (snd (advance env i PaymentStatus.VERIFIED t))"
      by (rule step_resp, rule resp_advance_held)
    fix a u assume "advance env i PaymentStatus.VERIFIED t = (Inr a, u)"
    then have "tget (payment_intents u) i = Some (r\<lparr>i_status := PaymentStatus.VERIFIED\<rparr>)"
      using advance_Inr [OF assms, of i PaymentStatus.VERIFIED t u] r by auto
    then have "has_verified (sn_order_id (i_snap r)) u" unfolding has_verified_def by force
    then show "step (insert i X) u (snd (thenS (credit_order env i (sn_order_id (i_snap r)) ?am
        (sn_asset (i_snap r))) (returnS True) u))"
      by (intro step_then step_credit_order step_resp hist.resp_return)
  qed
  then show "step (insert i X) t (snd ((if i_status r = PaymentStatus.VERIFIED then returnS False
     else thenS (advance env i PaymentStatus.VERIFIED)
       (thenS (credit_order env i (sn_order_id (i_snap r)) ?am (sn_asset (i_snap r))) (returnS True))) t))"
    by (simp add: step_resp [OF hist.resp_return])
qed

lemma resp_mark_verified_held:
  "iteration_order (env_succ env) \<Longrightarrow> resp (step (insert i X)) (mark_verified env i tr)"
  by (rule respI) (rule step_mark_verified)

lemma resp_settle:
  assumes "iteration_order (env_succ env)" and "oc \<noteq> VerificationOutcome.VERIFIED"
  shows "resp (step X) (settle env i oc tr)"
  unfolding settle_def Let_def if_not_P [OF assms(2)]
  by (intro resp_intros resp_advance [OF assms(1)] resp_to_review [OF assms(1)] resp_expire_intent [OF assms(1)])
    simp_all

lemma resp_settle_held:
  assumes "iteration_order (env_succ env)"
  shows "resp (step (insert i X)) (settle env i oc tr)"
proof (cases "oc = VerificationOutcome.VERIFIED")
  case True
  then show ?thesis unfolding settle_def
    by (simp only: simp_thms if_True) (intro resp_intros resp_mark_verified_held [OF assms])
next
  case False
  with assms show ?thesis by (rule resp_settle)
qed

text \<open>Everything of \<open>record_outcome\<close> but the settling is harmless.\<close>

lemma resp_record_outcome_of:
  assumes "resp (step X) (settle env i (dec_outcome d) tr)"
  shows "resp (step X) (record_outcome env i att d tr)"
  unfolding record_outcome_def Let_def
  by (intro resp_intros assms) simp_all

lemma resp_record_outcome:
  "iteration_order (env_succ env) \<Longrightarrow> dec_outcome d \<noteq> VerificationOutcome.VERIFIED \<Longrightarrow>
   resp (step X) (record_outcome env i att d tr)"
  by (intro resp_record_outcome_of resp_settle)

lemma resp_record_outcome_held:
  "iteration_order (env_succ env) \<Longrightarrow> resp (step (insert i X)) (record_outcome env i att d tr)"
  by (intro resp_record_outcome_of resp_settle_held)

text \<open>A successful claim leaves a consumption of this intent behind.\<close>

lemma claim_consumption_True:
  "claim_consumption r s = (Inr (c, True), t) \<Longrightarrow>
   \<exists>k. c = Some (k, r) \<and> (k, r) \<in> set (payment_consumptions t)"
  by (auto simp: claim_consumption_def catchS_def insert_consumption_def insS_def svc_elims uniqueS_def
      raiseS_def bindS_def thenS_def guardS_def returnS_def split: sum.splits if_splits)

lemma claim_consumption_False:
  "claim_consumption r s = (Inr (c, False), t) \<Longrightarrow>
   c = consumption_by_fingerprint (pc_fingerprint r) s \<and> t = s"
  by (auto simp: claim_consumption_def catchS_def insert_consumption_def insS_def svc_elims uniqueS_def
      raiseS_def bindS_def thenS_def guardS_def returnS_def split: sum.splits if_splits)

lemma consumption_by_fingerprint_in:
  "consumption_by_fingerprint fp s = Some (k, c) \<Longrightarrow>
   (k, c) \<in> set (payment_consumptions s) \<and> pc_fingerprint c = fp"
proof -
  assume "consumption_by_fingerprint fp s = Some (k, c)"
  then have "(k, c) \<in> set (tsel (\<lambda>r. pc_fingerprint r = fp) (payment_consumptions s))"
    by (auto simp: consumption_by_fingerprint_def split: list.splits)
  then show ?thesis by (simp add: tsel_in)
qed

lemma consumption_of_simps [simp]:
  "pc_payment_intent_id (consumption_of env i r am t) = i"
  "pc_fingerprint (consumption_of env i r am t) =
     transaction_fingerprint (env_sha256 env) (tx_provider t) (tx_network t) (tx_external_id t) (tx_log_index t)"
  by (simp_all add: consumption_of_def)

lemma claim_cases:
  assumes "claim env i t s = (Inr (b, d), u)"
  obtains r am c cl where "tget (payment_intents s) i = Some r" "numeric_30_8 (tx_amount t) = Inr am"
    "claim_consumption (consumption_of env i r am t) s = (Inr (c, cl), u)" "claim_answer i (c, cl) = (b, d)"
proof -
  from assms obtain r am a where "tget (payment_intents s) i = Some r" "numeric_30_8 (tx_amount t) = Inr am"
    "claim_consumption (consumption_of env i r am t) s = (Inr a, u)" "claim_answer i a = (b, d)"
    by (auto simp: claim_def loadS_def bindS_eq_Inr liftS_eq_Inr returnS_def split: option.splits)
  then show ?thesis by (cases a) (simp add: that)
qed

lemma claim_True:
  assumes "claim env i t s = (Inr (True, d), u)" shows "has_claim i u"
proof -
  obtain r am c cl where cc: "claim_consumption (consumption_of env i r am t) s = (Inr (c, cl), u)"
    and ans: "claim_answer i (c, cl) = (True, d)"
    by (rule claim_cases [OF assms])
  show ?thesis
  proof (cases cl)
    case True
    with cc have "claim_consumption (consumption_of env i r am t) s = (Inr (c, True), u)" by simp
    from claim_consumption_True [OF this] have "\<exists>k. (k, consumption_of env i r am t) \<in> set (payment_consumptions u)"
      by blast
    then show ?thesis by (force simp: has_claim_def texists_def)
  next
    case False
    with ans obtain k x where c: "c = Some (k, x)" "pc_payment_intent_id x = i"
      by (cases c) (auto split: if_splits)
    from False cc have "claim_consumption (consumption_of env i r am t) s = (Inr (c, False), u)" by simp
    from claim_consumption_False [OF this] c(1)
    have "(k, x) \<in> set (payment_consumptions u)" by (metis consumption_by_fingerprint_in)
    with c show ?thesis by (force simp: has_claim_def texists_def)
  qed
qed

lemma decide_None: "decide env e ref txs = Inr (None, d) \<Longrightarrow> dec_outcome d = VerificationOutcome.NOT_FOUND"
  by (auto simp: decide_def Let_def select_best_candidate_def split: if_splits sum.splits prod.splits)

lemma resp_conclude:
  assumes succ: "iteration_order (env_succ env)"
    and none: "tr = None \<Longrightarrow> dec_outcome d \<noteq> VerificationOutcome.VERIFIED"
  shows "resp (step X) (conclude env i att tr d)"
proof (cases "dec_outcome d = VerificationOutcome.VERIFIED")
  case False
  then have "conclude env i att tr d = thenS (case tr of None \<Rightarrow> returnS () | Some t \<Rightarrow> persist_transaction t)
      (record_outcome env i att d tr)"
    unfolding conclude_def by (cases "dec_outcome d"; cases tr) simp_all
  then show ?thesis by (simp only:) (intro resp_intros resp_record_outcome [OF succ False])
next
  case True
  with none obtain t where t: "tr = Some t" by blast
  have "resp (step X) (bindS (claim env i t) (\<lambda>(claimed, duplicate_of).
         record_outcome env i att (if claimed then d else duplicate_decision d) (Some t)))"
  proof (rule resp_bind_post, rule resp_claim)
    fix a s u assume c: "claim env i t s = (Inr a, u)"
    obtain b dup where a: "a = (b, dup)" by fastforce
    show "step X u (snd ((case a of (claimed, duplicate_of) \<Rightarrow>
         record_outcome env i att (if claimed then d else duplicate_decision d) (Some t)) u))"
    proof (cases b)
      case True
      with c a have "has_claim i u" using claim_True by simp
      with True show ?thesis by (simp add: a step_claimed [OF step_resp [OF resp_record_outcome_held [OF succ]]])
    next
      case False
      then show ?thesis using step_resp [OF resp_record_outcome [OF succ, of "duplicate_decision d"]]
        by (simp add: a duplicate_decision_def)
    qed
  qed
  moreover have "resp (step X) (persist_transaction t)" by (rule resp_persist)
  ultimately show ?thesis unfolding conclude_def by (simp add: t True hist.resp_then)
qed

lemma resp_after_fetch:
  assumes succ: "iteration_order (env_succ env)"
  shows "resp (step X) (after_fetch env i att p e ref ans)"
proof (cases ans)
  case (Inl err)
  have "resp (step X) (record_outcome env i att (rejected oc []) None)"
    if "oc \<noteq> VerificationOutcome.VERIFIED" for oc
    using that by (intro resp_record_outcome [OF succ]) simp
  then show ?thesis unfolding after_fetch_def Inl by (simp, intro impI conjI resp_intros) simp_all
next
  case (Inr txs)
  have "resp (step X) (bindS (liftS (decide env e ref txs)) (\<lambda>(transaction, decision).
      conclude env i att transaction decision))"
  proof (cases "decide env e ref txs")
    case (Inr p)
    obtain tr d where p: "p = (tr, d)" by fastforce
    have "resp (step X) (conclude env i att tr d)"
      by (rule resp_conclude [OF succ]) (use decide_None Inr p in auto)
    then show ?thesis by (simp add: Inr p)
  qed (simp, intro resp_intros)
  then show ?thesis unfolding after_fetch_def Inr by (simp) (intro hist.resp_then resp_record_health)
qed

lemma resp_verify:
  "iteration_order (env_succ env) \<Longrightarrow> resp (step X) (verify env i)"
  unfolding verify_def Let_def by (intro resp_intros resp_after_fetch) simp_all

lemma resp_reject_manually:
  "iteration_order (env_succ env) \<Longrightarrow> resp (step X) (reject_manually env i)"
  unfolding reject_manually_def by (intro resp_intros resp_advance) simp_all

lemma resp_expire_due:
  "iteration_order (env_succ env) \<Longrightarrow> resp (step X) (expire_due env limit)"
  unfolding expire_due_def by (intro resp_intros resp_expire_intent)

text \<open>
  An approval verifies an intent that may hold no transaction, so it is a step only where the intent is among those
  that need not be backed.
\<close>

lemma resp_approve_manually_held:
  "iteration_order (env_succ env) \<Longrightarrow> resp (step (insert i X)) (approve_manually env i ac)"
  unfolding approve_manually_def by (intro resp_intros resp_mark_verified_held)

lemma resp_approve_manually:
  "iteration_order (env_succ env) \<Longrightarrow> i \<in> X \<Longrightarrow> resp (step X) (approve_manually env i ac)"
  using resp_approve_manually_held [of env i X ac] by (simp add: insert_absorb)

end
