(* ===== verification/Fulfilment.thy ===== *)
theory Fulfilment
  imports Payments
begin

text \<open>
  \<^verbatim>\<open>app/domain/orders/delivery.py\<close> with \<^verbatim>\<open>DeliveryRepository\<close>: one delivery per order item, prepared and
  fulfilled only for an order with a verified payment, retried with a capped backoff, and the order closed
  once all of its deliveries are complete. The error handler of \<open>prepare\<close> for a row that another worker
  inserted at the same moment has no counterpart, because transactions run one after the other.
\<close>

record DeliveredPayload =
  dp_delivery_type :: DeliveryType
  dp_items :: "string list"
  dp_file_id :: "string option"

definition is_empty_payload :: "DeliveredPayload \<Rightarrow> bool" where
  "is_empty_payload p \<longleftrightarrow> dp_items p = [] \<and> \<not> truthy_str (dp_file_id p)"

section \<open>Repository\<close>

definition delivery_for_item :: "nat \<Rightarrow> db \<Rightarrow> (nat \<times> Delivery) option" where
  "delivery_for_item order_item_id s =
     (case tsel (\<lambda>r. d_order_item_id r = order_item_id) (deliveries s) of [] \<Rightarrow> None | x # _ \<Rightarrow> Some x)"

definition deliveries_of :: "nat \<Rightarrow> db \<Rightarrow> (nat \<times> Delivery) list" where
  "deliveries_of order_id s =
     sort_key (\<lambda>x. d_created_at (snd x)) (tsel (\<lambda>r. d_order_id r = order_id) (deliveries s))"

definition due_deliveries :: "time \<Rightarrow> nat \<Rightarrow> db \<Rightarrow> (nat \<times> Delivery) list" where
  "due_deliveries now limit s =
     take limit (sort_key (\<lambda>x. d_created_at (snd x))
       (tsel (\<lambda>r. (d_status r = DeliveryStatus.PENDING \<or> d_status r = DeliveryStatus.FAILED)
          \<and> (case d_next_attempt_at r of None \<Rightarrow> True | Some t \<Rightarrow> t \<le> now)) (deliveries s)))"

definition failed_count :: "db \<Rightarrow> nat" where
  "failed_count s = length (tsel (\<lambda>r. d_status r = DeliveryStatus.FAILED) (deliveries s))"

section \<open>Preparation\<close>

definition assert_paid :: "nat \<Rightarrow> unit dbm" where
  "assert_paid order_id =
     bindS (getsS (verified_for_order order_id)) (\<lambda>v. guardS (v \<noteq> None) ConflictError)"

definition prepare_item :: "env \<Rightarrow> nat \<Rightarrow> nat \<times> OrderItem \<Rightarrow> nat dbm" where
  "prepare_item env order_id item =
     bindS (getsS (delivery_for_item (fst item))) (\<lambda>existing.
     case existing of Some (k, _) \<Rightarrow> returnS k
     | None \<Rightarrow> insert_delivery \<lparr>d_order_id = order_id, d_order_item_id = fst item,
         d_status = DeliveryStatus.PENDING, d_delivery_type = oi_delivery_type (snd item),
         d_encrypted_payload = None, d_file_id = None, d_inventory_item_ids = [], d_attempts = 0,
         d_next_attempt_at = Some (env_now env), d_delivered_at = None, d_first_viewed_at = None,
         d_created_at = env_now env\<rparr>)"

definition prepare_deliveries :: "env \<Rightarrow> nat \<Rightarrow> nat list dbm" where
  "prepare_deliveries env order_id =
     thenS (assert_paid order_id)
    (bindS (loadS orders order_id) (\<lambda>o1.
     bindS (getsS (items_of order_id)) (\<lambda>items.
     bindS (mapS (prepare_item env order_id) items) (\<lambda>ks.
     thenS (whenS (o_status o1 = OrderStatus.PAYMENT_VERIFIED)
        (transition env order_id OrderStatus.FULFILLING))
    (returnS ks)))))"

section \<open>Fulfilment\<close>

text \<open>\<^verbatim>\<open>text.split("\n")\<close> and its counterpart \<^verbatim>\<open>"\n".join(items)\<close>.\<close>

abbreviation newline :: string where "newline \<equiv> [CHR 0x0A]"

fun split_lines :: "string \<Rightarrow> string list" where
  "split_lines [] = [[]]"
| "split_lines (c # rest) =
     (if c = CHR 0x0A then [] # split_lines rest
      else (case split_lines rest of [] \<Rightarrow> [[c]] | w # ws \<Rightarrow> (c # w) # ws))"

definition reveal_all :: "env \<Rightarrow> (nat \<times> InventoryItem) list \<Rightarrow> string list dbm" where
  "reveal_all env items = mapS (\<lambda>x. liftS (reveal_payload env (snd x))) items"

definition build_payload :: "env \<Rightarrow> nat \<Rightarrow> nat \<times> OrderItem \<Rightarrow> nat \<Rightarrow> DeliveredPayload dbm" where
  "build_payload env order_id item delivery_id =
     bindS (getsS (\<lambda>s. case oi_product_id (snd item) of None \<Rightarrow> None
                       | Some pid \<Rightarrow> map_option (Pair pid) (tget (products s) pid))) (\<lambda>product.
     case oi_delivery_type (snd item) of
       DeliveryType.STOCK_ITEM \<Rightarrow>
         (case product of None \<Rightarrow> raiseS NotFoundError
          | Some (pid, p) \<Rightarrow>
              bindS (allocate_for_order_item env order_id (fst item) (oi_quantity (snd item)) pid p) (\<lambda>allocated.
              thenS (updS deliveries_update delivery_id (\<lambda>d. d\<lparr>d_inventory_item_ids := map fst allocated\<rparr>))
             (bindS (reveal_all env allocated) (\<lambda>payloads.
              returnS \<lparr>dp_delivery_type = DeliveryType.STOCK_ITEM, dp_items = payloads, dp_file_id = None\<rparr>))))
     | DeliveryType.STATIC_PAYLOAD \<Rightarrow>
         (let body = (case product of None \<Rightarrow> [] | Some (_, p) \<Rightarrow>
                        (case p_delivery_payload p of None \<Rightarrow> [] | Some b \<Rightarrow> b)) in
          returnS \<lparr>dp_delivery_type = DeliveryType.STATIC_PAYLOAD,
            dp_items = (if body \<noteq> [] then replicate (nat (oi_quantity (snd item))) body else []),
            dp_file_id = None\<rparr>)
     | DeliveryType.FILE \<Rightarrow>
         returnS \<lparr>dp_delivery_type = DeliveryType.FILE, dp_items = [],
           dp_file_id = (case product of None \<Rightarrow> None | Some (_, p) \<Rightarrow> p_delivery_file_id p)\<rparr>
     | DeliveryType.MANUAL \<Rightarrow>
         returnS \<lparr>dp_delivery_type = DeliveryType.MANUAL, dp_items = [], dp_file_id = None\<rparr>)"

definition decode_delivery :: "env \<Rightarrow> Delivery \<Rightarrow> error + DeliveredPayload" where
  "decode_delivery env d =
     (if truthy_str (d_encrypted_payload d) then
        (case env_decrypt env (the (d_encrypted_payload d)) of Inl e \<Rightarrow> Inl e
         | Inr plain \<Rightarrow> Inr \<lparr>dp_delivery_type = d_delivery_type d, dp_items = split_lines plain,
             dp_file_id = d_file_id d\<rparr>)
      else Inr \<lparr>dp_delivery_type = d_delivery_type d, dp_items = [], dp_file_id = d_file_id d\<rparr>)"

definition completed_delivery :: "env \<Rightarrow> DeliveredPayload \<Rightarrow> Delivery \<Rightarrow> Delivery" where
  "completed_delivery env payload d = d\<lparr>
     d_encrypted_payload := (if dp_items payload = [] then None
                             else Some (env_encrypt env (join newline (dp_items payload)))),
     d_file_id := dp_file_id payload, d_status := DeliveryStatus.COMPLETED,
     d_delivered_at := Some (env_now env)\<rparr>"

definition materialise :: "env \<Rightarrow> nat \<Rightarrow> nat \<Rightarrow> nat \<times> OrderItem \<Rightarrow> DeliveredPayload dbm" where
  "materialise env k order_id item =
     thenS (updS deliveries_update k (\<lambda>d. d\<lparr>d_status := DeliveryStatus.PROCESSING,
         d_attempts := d_attempts d + 1\<rparr>))
    (bindS (build_payload env order_id item k) (\<lambda>payload.
     thenS (updS deliveries_update k (completed_delivery env payload))
    (returnS payload)))"

definition fulfil :: "env \<Rightarrow> nat \<Rightarrow> DeliveredPayload dbm" where
  "fulfil env k =
     bindS (loadS deliveries k) (\<lambda>d.
     if d_status d = DeliveryStatus.COMPLETED then liftS (decode_delivery env d)
     else
       bindS (loadS orders (d_order_id d)) (\<lambda>o1.
       thenS (assert_paid (d_order_id d))
      (bindS (getsS (\<lambda>s. filter (\<lambda>x. fst x = d_order_item_id d) (items_of (d_order_id d) s))) (\<lambda>found.
       case found of [] \<Rightarrow> raiseS NotFoundError
       | item # _ \<Rightarrow> materialise env k (d_order_id d) item))))"

definition reveal_delivery :: "env \<Rightarrow> nat \<Rightarrow> DeliveredPayload dbm" where
  "reveal_delivery env k =
     bindS (loadS deliveries k) (\<lambda>d.
     thenS (guardS (d_status d = DeliveryStatus.COMPLETED) ConflictError)
    (thenS (updS deliveries_update k (\<lambda>d. d\<lparr>d_first_viewed_at :=
         Some (or_else (d_first_viewed_at d) (env_now env))\<rparr>))
    (liftS (decode_delivery env d))))"

definition retry_backoff :: "nat \<Rightarrow> int" where
  "retry_backoff attempts = min (2 ^ attempts * 30) 3600"

definition record_failure :: "env \<Rightarrow> nat \<Rightarrow> unit dbm" where
  "record_failure env k =
     bindS (loadS deliveries k) (\<lambda>d.
     thenS (updS deliveries_update k (\<lambda>d. d\<lparr>d_status := DeliveryStatus.FAILED\<rparr>))
    (if set_delivery_max_attempts env \<le> d_attempts d then
       thenS (updS deliveries_update k (\<lambda>d. d\<lparr>d_next_attempt_at := None\<rparr>))
      (bindS (getsS (\<lambda>s. tget (orders s) (d_order_id d))) (\<lambda>order.
       case order of None \<Rightarrow> returnS ()
       | Some o1 \<Rightarrow> whenS (o_status o1 \<noteq> OrderStatus.MANUAL_REVIEW)
           (transition env (d_order_id d)
             (if o_status o1 = OrderStatus.FULFILLING then OrderStatus.DELIVERY_FAILED
              else OrderStatus.MANUAL_REVIEW))))
     else
       updS deliveries_update k (\<lambda>d. d\<lparr>d_next_attempt_at :=
         Some (env_now env + seconds (retry_backoff (d_attempts d)))\<rparr>)))"

definition finalise_order :: "env \<Rightarrow> nat \<Rightarrow> bool dbm" where
  "finalise_order env order_id =
     bindS (getsS (deliveries_of order_id)) (\<lambda>ds.
     if ds = [] then returnS False
     else if \<exists>d \<in> set ds. d_status (snd d) \<noteq> DeliveryStatus.COMPLETED then returnS False
     else
       bindS (loadS orders order_id) (\<lambda>o1.
       thenS (whenS (o_status o1 = OrderStatus.FULFILLING \<or> o_status o1 = OrderStatus.DELIVERY_FAILED)
          (transition env order_id OrderStatus.DELIVERED))
      (bindS (loadS orders order_id) (\<lambda>o2.
       thenS (whenS (o_status o2 = OrderStatus.DELIVERED) (complete env order_id))
      (returnS True)))))"

definition status_summary :: "nat \<Rightarrow> db \<Rightarrow> nat \<times> nat \<times> nat \<times> bool" where
  "status_summary order_id s =
     (let ds = deliveries_of order_id s;
          done_no = length (filter (\<lambda>d. d_status (snd d) = DeliveryStatus.COMPLETED) ds);
          failed_no = length (filter (\<lambda>d. d_status (snd d) = DeliveryStatus.FAILED) ds)
      in if ds = [] then (0, 0, 0, False) else (length ds, done_no, failed_no, done_no = length ds))"

section \<open>Every operation is a step\<close>

lemma verified_for_order_has: "verified_for_order oid s = Some x \<Longrightarrow> keys_ok s \<Longrightarrow> has_verified oid s"
proof -
  assume v: "verified_for_order oid s = Some x" and ok: "keys_ok s"
  then obtain ys where "filter (\<lambda>x. i_status (snd x) = PaymentStatus.VERIFIED) (intents_of oid s) = x # ys"
    by (auto simp: verified_for_order_def split: list.splits)
  then have "x \<in> set (filter (\<lambda>x. i_status (snd x) = PaymentStatus.VERIFIED) (intents_of oid s))" by simp
  then have "x \<in> set (payment_intents s)" "sn_order_id (i_snap (snd x)) = oid"
    "i_status (snd x) = PaymentStatus.VERIFIED" by (auto simp: intents_of_def tsel_in)
  moreover from this(1) have "tget (payment_intents s) (fst x) = Some (snd x)"
    using in_set_tget [OF keys_okD(2) [OF ok]] by simp
  ultimately show ?thesis unfolding has_verified_def by blast
qed

lemma verified_for_order_None:
  "verified_for_order oid s = None \<Longrightarrow> \<not> has_verified oid s"
proof
  assume v: "verified_for_order oid s = None" and "has_verified oid s"
  then obtain i r where "tget (payment_intents s) i = Some r" "sn_order_id (i_snap r) = oid"
    "i_status r = PaymentStatus.VERIFIED" by (auto simp: has_verified_def)
  then have "(i, r) \<in> set (filter (\<lambda>x. i_status (snd x) = PaymentStatus.VERIFIED) (intents_of oid s))"
    by (simp add: intents_of_def tsel_in tget_in_set)
  moreover have "filter (\<lambda>x. i_status (snd x) = PaymentStatus.VERIFIED) (intents_of oid s) = []"
    using v by (simp add: verified_for_order_def split: list.splits)
  ultimately show False by simp
qed

lemma assert_paid_cases: "assert_paid oid s = (Inr (), t) \<longleftrightarrow> verified_for_order oid s \<noteq> None \<and> t = s"
  by (auto simp: assert_paid_def guardS_eq)

lemma resp_assert_paid [resp_intros]: "resp (step X) (assert_paid oid)"
  unfolding assert_paid_def by (intro resp_intros)

lemma resp_prepare_item [resp_intros]: "resp (step X) (prepare_item env oid it)"
  unfolding prepare_item_def by (intro resp_intros) simp

lemma resp_to_fulfilling:
  fixes s :: db
  shows "o_status r = OrderStatus.PAYMENT_VERIFIED \<Longrightarrow> tget (orders s) oid = Some r \<Longrightarrow>
   step X s (snd (transition env oid OrderStatus.FULFILLING s))"
  by (rule step_transition) (simp add: order_is_paid_def)

lemma insert_delivery_orders: "insert_delivery r s = (x, t) \<Longrightarrow> orders t = orders s"
  by (auto simp: insert_delivery_def thenS_def bindS_def uniqueS_def guardS_def insS_def raiseS_def split: if_splits)

lemma prepare_items_orders:
  "mapS (prepare_item env oid) items s = (x, t) \<Longrightarrow> orders t = orders s"
proof (induction items arbitrary: s x)
  case (Cons a items)
  obtain y u where u: "prepare_item env oid a s = (y, u)" by fastforce
  then have "orders u = orders s" using insert_delivery_orders
    by (auto simp: prepare_item_def returnS_def split: option.splits)
  with Cons u show ?case by (auto simp: bindS_def returnS_def split: sum.splits prod.splits)
qed (simp add: returnS_def)

lemma resp_prepare_deliveries [resp_intros]: "resp (step X) (prepare_deliveries env oid)"
  unfolding prepare_deliveries_def
proof (intro hist.resp_then resp_assert_paid respI step_load step_gets)
  fix s :: db and r assume r: "tget (orders s) oid = Some r"
  show "step X s (snd (bindS (mapS (prepare_item env oid) (items_of oid s)) (\<lambda>ks.
     thenS (whenS (o_status r = OrderStatus.PAYMENT_VERIFIED) (transition env oid OrderStatus.FULFILLING))
    (returnS ks)) s))"
  proof (rule step_bind)
    show "step X s (snd (mapS (prepare_item env oid) (items_of oid s) s))"
      by (rule step_resp) (intro resp_intros)
    fix ks t assume "mapS (prepare_item env oid) (items_of oid s) s = (Inr ks, t)"
    with r have "tget (orders t) oid = Some r" using prepare_items_orders by metis
    then have "step X t (snd (whenS (o_status r = OrderStatus.PAYMENT_VERIFIED)
        (transition env oid OrderStatus.FULFILLING) t))"
      by (cases "o_status r = OrderStatus.PAYMENT_VERIFIED") (simp_all add: resp_to_fulfilling step_resp hist.resp_return)
    then show "step X t (snd (thenS (whenS (o_status r = OrderStatus.PAYMENT_VERIFIED)
        (transition env oid OrderStatus.FULFILLING)) (returnS ks) t))"
      by (rule step_then) (rule step_resp, rule hist.resp_return)
  qed
qed

lemma resp_reveal_all [resp_intros]: "resp (step X) (reveal_all env xs)"
  unfolding reveal_all_def by (intro resp_intros)

lemma resp_build_payload [resp_intros]: "resp (step X) (build_payload env oid it k)"
proof -
  have "resp (step X) (case product of None \<Rightarrow> raiseS NotFoundError
          | Some (pid, p) \<Rightarrow>
              bindS (allocate_for_order_item env oid (fst it) (oi_quantity (snd it)) pid p) (\<lambda>allocated.
              thenS (updS deliveries_update k (\<lambda>d. d\<lparr>d_inventory_item_ids := map fst allocated\<rparr>))
             (bindS (reveal_all env allocated) (\<lambda>payloads.
              returnS \<lparr>dp_delivery_type = DeliveryType.STOCK_ITEM, dp_items = payloads, dp_file_id = None\<rparr>))))"
    for product by (intro resp_intros) simp_all
  note stock = this
  show ?thesis unfolding build_payload_def Let_def
    by (cases "oi_delivery_type (snd it)") (simp_all only: DeliveryType.case hist.resp_return hist.resp_bind [OF hist.resp_gets stock]
        hist.resp_bind [OF hist.resp_gets hist.resp_return])
qed

text \<open>
  The verified payment that \<open>assert_paid\<close> finds is still there when the delivery is completed, whatever
  the allocation did in between.
\<close>

lemma step_complete_delivery:
  fixes s t :: db
  assumes "evolves s t" "has_verified (d_order_id d) s" "tget (deliveries s) k = Some d"
  shows "step X t (snd (updS deliveries_update k (completed_delivery env p) t))"
proof -
  have "table_step delivery_step (deliveries s) (deliveries t)" using assms(1) by (simp add: evolves_def)
  then have "d_order_id r = d_order_id d" if "tget (deliveries t) k = Some r" for r
    using assms(3) that by (force simp: table_step_def delivery_step_def)
  then have "has_verified (d_order_id r) t" if "tget (deliveries t) k = Some r" for r
    using has_verified_evolves [OF assms(1,2)] that by metis
  then have "step X t (deliveries_update (tupd k (completed_delivery env p)) t)"
    by (intro step_upd_delivery) (simp_all add: completed_delivery_def)
  then show ?thesis by (simp only: updS_def modifyS_def snd_conv)
qed

lemma step_materialise:
  fixes s :: db
  assumes d: "tget (deliveries s) k = Some d" and v: "verified_for_order (d_order_id d) s \<noteq> None"
  shows "step X s (snd (materialise env k (d_order_id d) item s))"
  unfolding materialise_def
proof (rule step_then_ok, rule step_resp, rule resp_upd_delivery)
  fix a t assume ok: "db_ok X s" and st: "evolves s t"
  have hv: "has_verified (d_order_id d) s"
    using v ok verified_for_order_has by (auto simp: db_ok_def)
  show "step X t (snd (bindS (build_payload env (d_order_id d) item k) (\<lambda>payload.
     thenS (updS deliveries_update k (completed_delivery env payload)) (returnS payload)) t))"
  proof (rule step_bind_ok, rule step_resp, rule resp_build_payload)
    fix p u assume "evolves t u"
    with st have "evolves s u" by (rule evolves_trans)
    from step_complete_delivery [OF this hv d]
    show "step X u (snd (thenS (updS deliveries_update k (completed_delivery env p)) (returnS p) u))"
      by (rule step_then) (rule step_resp, rule hist.resp_return)
  qed
qed simp_all

lemma step_assert_paid:
  fixes s :: db
  shows "(verified_for_order oid s \<noteq> None \<Longrightarrow> step X s (snd (m s))) \<Longrightarrow>
    step X s (snd (thenS (assert_paid oid) m s))"
  by (rule step_then) (simp_all add: step_resp resp_assert_paid assert_paid_cases)

lemma resp_fulfil [resp_intros]: "resp (step X) (fulfil env k)"
  unfolding fulfil_def
proof (intro respI step_load)
  fix s :: db and d assume d: "tget (deliveries s) k = Some d"
  let ?found = "filter (\<lambda>x. fst x = d_order_item_id d) (items_of (d_order_id d) s)"
  have "step X s (snd (bindS (loadS orders (d_order_id d)) (\<lambda>o1.
       thenS (assert_paid (d_order_id d))
      (bindS (getsS (\<lambda>s. filter (\<lambda>x. fst x = d_order_item_id d) (items_of (d_order_id d) s))) (\<lambda>found.
       case found of [] \<Rightarrow> raiseS NotFoundError
       | item # _ \<Rightarrow> materialise env k (d_order_id d) item))) s))"
  proof (intro step_load step_assert_paid step_gets)
    assume "verified_for_order (d_order_id d) s \<noteq> None"
    then show "step X s (snd ((case ?found of [] \<Rightarrow> raiseS NotFoundError
       | item # _ \<Rightarrow> materialise env k (d_order_id d) item) s))"
      by (auto simp: step_resp [OF hist.resp_raise] intro: step_materialise [OF d] split: list.split)
  qed
  moreover have "step X s (snd (liftS (decode_delivery env d) s))"
    by (rule step_resp, rule hist.resp_lift)
  ultimately show "step X s (snd ((if d_status d = DeliveryStatus.COMPLETED then liftS (decode_delivery env d)
     else bindS (loadS orders (d_order_id d)) (\<lambda>o1.
       thenS (assert_paid (d_order_id d))
      (bindS (getsS (\<lambda>s. filter (\<lambda>x. fst x = d_order_item_id d) (items_of (d_order_id d) s))) (\<lambda>found.
       case found of [] \<Rightarrow> raiseS NotFoundError
       | item # _ \<Rightarrow> materialise env k (d_order_id d) item)))) s))"
    by simp
qed

lemma resp_reveal_delivery [resp_intros]: "resp (step X) (reveal_delivery env k)"
  unfolding reveal_delivery_def by (intro resp_intros) simp_all

lemma resp_record_failure [resp_intros]: "resp (step X) (record_failure env k)"
  unfolding record_failure_def by (intro resp_intros) simp_all

lemma resp_finalise_order [resp_intros]: "resp (step X) (finalise_order env oid)"
  unfolding finalise_order_def by (intro resp_intros) simp_all

end
