(* ===== verification/Refunds.thy ===== *)
theory Refunds
  imports Fulfilment
begin

text \<open>
  \<^verbatim>\<open>app/domain/orders/refunds.py\<close> with \<^verbatim>\<open>RefundRepository\<close>: a refund is requested against the verified
  payment of a paid order, approved or rejected, and completed with an external reference, which
  journals the money once and marks the order refunded when everything came back. Then
  \<^verbatim>\<open>app/domain/referrals/service.py\<close>: attribution of a new user and the reward for a completed order.
\<close>

section \<open>Refunds\<close>

definition refunded_total :: "nat \<Rightarrow> db \<Rightarrow> decimal" where
  "refunded_total order_id s =
     (let d = numeric_sum (map (\<lambda>x. rf_amount (snd x))
        (tsel (\<lambda>r. rf_order_id r = order_id
            \<and> (rf_status r = RefundStatus.COMPLETED \<or> rf_status r = RefundStatus.PROCESSING)) (refunds s)))
      in if coef d = 0 then D0 else d)"

definition pending_refunds :: "db \<Rightarrow> (nat \<times> Refund) list" where
  "pending_refunds s = tsel (\<lambda>r. rf_status r \<in> {RefundStatus.REQUESTED, RefundStatus.APPROVED,
     RefundStatus.PROCESSING}) (refunds s)"

definition paid_amount :: "PaymentIntent \<Rightarrow> decimal" where
  "paid_amount r = received_or_expected (i_received_amount r) r"

definition refundable_amount :: "nat \<Rightarrow> db \<Rightarrow> error + decimal" where
  "refundable_amount order_id s =
     (case verified_for_order order_id s of None \<Rightarrow> Inr D0
      | Some (_, r) \<Rightarrow> quantize_money (dsub (paid_amount r) (refunded_total order_id s)))"

text \<open>The amount a request is recorded with: the remainder by default, at most the remainder otherwise.\<close>

definition refund_amount :: "decimal option \<Rightarrow> decimal \<Rightarrow> decimal \<Rightarrow> error + decimal" where
  "refund_amount amount paid already =
     (case quantize_money (dsub paid already) of Inl e \<Rightarrow> Inl e
      | Inr remaining \<Rightarrow>
        if dle remaining D0 then Inl ConflictError
        else case (case amount of None \<Rightarrow> Inr remaining | Some a \<Rightarrow> quantize_money a) of Inl e \<Rightarrow> Inl e
        | Inr requested \<Rightarrow>
          if dle requested D0 then Inl ValidationError
          else if dlt remaining requested then Inl ValidationError
          else Inr requested)"

definition request_refund ::
    "env \<Rightarrow> nat \<Rightarrow> decimal option \<Rightarrow> nat \<Rightarrow> string option \<Rightarrow> string option \<Rightarrow> nat dbm" where
  "request_refund env order_id amount requested_by_id destination destination_network =
     bindS (loadS orders order_id) (\<lambda>o1.
     thenS (guardS (order_is_paid (o_status o1)) ConflictError)
    (bindS (getsS (verified_for_order order_id)) (\<lambda>v.
     case v of None \<Rightarrow> raiseS ConflictError
     | Some (i, r) \<Rightarrow>
       bindS (getsS (refunded_total order_id)) (\<lambda>already.
       bindS (liftS (refund_amount amount (paid_amount r) already)) (\<lambda>requested.
       bindS (liftS (numeric_30_8 requested)) (\<lambda>stored.
       insert_refund \<lparr>rf_order_id = order_id, rf_payment_intent_id = Some i, rf_amount = stored,
         rf_currency = sn_asset (i_snap r), rf_status = RefundStatus.REQUESTED,
         rf_destination = destination, rf_destination_network = destination_network,
         rf_external_reference = None, rf_requested_by_id = Some requested_by_id,
         rf_approved_by_id = None, rf_processed_at = None\<rparr>))))))"

definition approve_refund :: "nat \<Rightarrow> nat \<Rightarrow> unit dbm" where
  "approve_refund k actor_id =
     bindS (loadS refunds k) (\<lambda>r.
     thenS (guardS (rf_status r = RefundStatus.REQUESTED) ConflictError)
    (updS refunds_update k (\<lambda>r. r\<lparr>rf_status := RefundStatus.APPROVED, rf_approved_by_id := Some actor_id\<rparr>)))"

definition reject_refund :: "nat \<Rightarrow> nat \<Rightarrow> unit dbm" where
  "reject_refund k actor_id =
     bindS (loadS refunds k) (\<lambda>r.
     thenS (guardS (rf_status r \<noteq> RefundStatus.COMPLETED \<and> rf_status r \<noteq> RefundStatus.PROCESSING) ConflictError)
    (updS refunds_update k (\<lambda>r. r\<lparr>rf_status := RefundStatus.REJECTED, rf_approved_by_id := Some actor_id\<rparr>)))"

text \<open>The order is marked refunded when the refunds reach what was paid; a refusal of the guard is logged.\<close>

definition mark_refunded :: "env \<Rightarrow> nat \<Rightarrow> Order \<Rightarrow> unit dbm" where
  "mark_refunded env order_id o1 =
     bindS (getsS (refunded_total order_id)) (\<lambda>total_refunded.
     bindS (getsS (verified_for_order order_id)) (\<lambda>v.
     let paid = (case v of None \<Rightarrow> o_total o1 | Some (_, r) \<Rightarrow> paid_amount r) in
     whenS (dle paid total_refunded)
       (catchS (transition env order_id OrderStatus.REFUNDED) (\<lambda>_. returnS ()))))"

definition complete_refund :: "env \<Rightarrow> nat \<Rightarrow> nat \<Rightarrow> string \<Rightarrow> unit dbm" where
  "complete_refund env k actor_id external_reference =
     bindS (loadS refunds k) (\<lambda>r.
     if rf_status r = RefundStatus.COMPLETED then returnS ()
     else
       thenS (guardS (rf_status r = RefundStatus.APPROVED \<or> rf_status r = RefundStatus.PROCESSING) ConflictError)
      (thenS (guardS (py_strip external_reference \<noteq> []) ValidationError)
      (thenS (updS refunds_update k (\<lambda>r. r\<lparr>rf_status := RefundStatus.COMPLETED,
           rf_external_reference := Some (take 255 (py_strip external_reference)),
           rf_processed_at := Some (env_now env)\<rparr>))
      (bindS (getsS (\<lambda>s. tget (orders s) (rf_order_id r))) (\<lambda>order.
       bindS (record_ledger env LedgerEntryType.REFUND (dneg (rf_amount r)) (rf_currency r)
          (event_key ''refund'' k) (Some (rf_order_id r)) (rf_payment_intent_id r)
          (case order of None \<Rightarrow> None | Some o1 \<Rightarrow> o_user_id o1) (Some actor_id)) (\<lambda>_.
       case order of None \<Rightarrow> returnS ()
       | Some o1 \<Rightarrow>
           thenS (mark_refunded env (rf_order_id r) o1)
          (case o_user_id o1 of None \<Rightarrow> returnS ()
           | Some uid \<Rightarrow> bindS (create_notification env uid NotificationKind.ORDER) (\<lambda>_. returnS ()))))))))"

section \<open>Referrals\<close>

definition user_by_referral_code :: "string \<Rightarrow> db \<Rightarrow> (nat \<times> User) option" where
  "user_by_referral_code code s =
     (case tsel (\<lambda>u. u_referral_code u = py_upper (py_strip code)) (users s) of [] \<Rightarrow> None | x # _ \<Rightarrow> Some x)"

definition referral_for_user :: "nat \<Rightarrow> db \<Rightarrow> (nat \<times> Referral) option" where
  "referral_for_user referred_user_id s =
     (case tsel (\<lambda>r. rl_referred_user_id r = referred_user_id) (referrals s) of [] \<Rightarrow> None | x # _ \<Rightarrow> Some x)"

definition referral_stats :: "nat \<Rightarrow> db \<Rightarrow> nat \<times> nat \<times> decimal" where
  "referral_stats referrer_id s =
     (let mine = tsel (\<lambda>r. rl_referrer_id r = referrer_id) (referrals s) in
      (length mine,
       length (filter (\<lambda>x. rl_status (snd x) \<in> {ReferralStatus.QUALIFIED, ReferralStatus.REWARDED}) mine),
       numeric_sum (map (\<lambda>x. rl_reward_amount (snd x)) mine)))"

definition attribute :: "nat \<Rightarrow> string \<Rightarrow> nat option dbm" where
  "attribute new_user referral_code =
     (let code = py_upper (py_strip referral_code) in
      if code = [] then returnS None
      else
        bindS (loadS users new_user) (\<lambda>u.
        bindS (getsS (user_by_referral_code code)) (\<lambda>found.
        case found of None \<Rightarrow> returnS None
        | Some (referrer, _) \<Rightarrow>
          if referrer = new_user then returnS None
          else if u_referred_by_id u \<noteq> None then returnS None
          else
            bindS (getsS (referral_for_user new_user)) (\<lambda>existing.
            if existing \<noteq> None then returnS None
            else
              bindS (insert_referral \<lparr>rl_referrer_id = referrer, rl_referred_user_id = new_user,
                  rl_status = ReferralStatus.PENDING, rl_qualifying_order_id = None,
                  rl_reward_amount = D0, rl_reward_currency = ''USDT'', rl_rewarded_at = None\<rparr>) (\<lambda>k.
              thenS (updS users_update new_user (\<lambda>u. u\<lparr>u_referred_by_id := Some referrer\<rparr>))
             (returnS (Some k)))))))"

definition DEFAULT_REWARD_PERCENT :: decimal where
  "DEFAULT_REWARD_PERCENT = Dec 5 0"

definition referral_reward :: "decimal \<Rightarrow> decimal \<Rightarrow> error + decimal" where
  "referral_reward order_total reward_percent =
     (case ddiv (dmul order_total reward_percent) (Dec 100 0) of Inl e \<Rightarrow> Inl e
      | Inr d \<Rightarrow> quantize_money d)"

definition qualify_order :: "env \<Rightarrow> nat \<Rightarrow> decimal \<Rightarrow> nat option dbm" where
  "qualify_order env order_id reward_percent =
     bindS (loadS orders order_id) (\<lambda>o1.
     case o_user_id o1 of None \<Rightarrow> returnS None
     | Some uid \<Rightarrow>
       bindS (getsS (referral_for_user uid)) (\<lambda>found.
       case found of None \<Rightarrow> returnS None
       | Some (k, rl) \<Rightarrow>
         if rl_status rl \<noteq> ReferralStatus.PENDING then returnS None
         else
           bindS (liftS (referral_reward (o_total o1) reward_percent)) (\<lambda>reward.
           if dle reward D0 then returnS None
           else
             bindS (liftS (numeric_30_8 reward)) (\<lambda>stored.
             thenS (updS referrals_update k (\<lambda>r. r\<lparr>rl_status := ReferralStatus.REWARDED,
                 rl_qualifying_order_id := Some order_id, rl_reward_amount := stored,
                 rl_reward_currency := o_currency o1, rl_rewarded_at := Some (env_now env)\<rparr>))
            (bindS (getsS (\<lambda>s. tget (users s) (rl_referrer_id rl))) (\<lambda>referrer.
             thenS (case referrer of None \<Rightarrow> returnS ()
                | Some u \<Rightarrow>
                    bindS (liftS (numeric_30_8 (dadd (if coef (u_referral_balance u) = 0 then D0
                        else u_referral_balance u) reward))) (\<lambda>balance.
                    updS users_update (rl_referrer_id rl) (\<lambda>u. u\<lparr>u_referral_balance := balance\<rparr>)))
            (bindS (record_ledger env LedgerEntryType.REFERRAL_REWARD (dneg reward) (o_currency o1)
                (event_key ''referral'' k) (Some order_id) None (Some (rl_referrer_id rl)) None) (\<lambda>_.
             returnS (Some k)))))))))"

section \<open>Every operation is a step\<close>

lemma step_insert_refund_in:
  fixes s :: db
  assumes "db_ok X s \<Longrightarrow> has_verified oid s" and "rf_order_id r = oid"
  shows "step X s (snd (insert_refund r s))"
  using assms step_insert_refund [of r s X] by (auto simp: step_def)

lemma resp_request_refund [resp_intros]: "resp (step X) (request_refund env oid am by_id dst net)"
  unfolding request_refund_def
proof (intro respI step_load step_guard step_gets)
  fix s :: db and o1 :: Order
  show "step X s (snd ((case verified_for_order oid s of None \<Rightarrow> raiseS ConflictError
     | Some (i, r) \<Rightarrow>
       bindS (getsS (refunded_total oid)) (\<lambda>already.
       bindS (liftS (refund_amount am (paid_amount r) already)) (\<lambda>requested.
       bindS (liftS (numeric_30_8 requested)) (\<lambda>stored.
       insert_refund \<lparr>rf_order_id = oid, rf_payment_intent_id = Some i, rf_amount = stored,
         rf_currency = sn_asset (i_snap r), rf_status = RefundStatus.REQUESTED,
         rf_destination = dst, rf_destination_network = net,
         rf_external_reference = None, rf_requested_by_id = Some by_id,
         rf_approved_by_id = None, rf_processed_at = None\<rparr>)))) s))"
  proof (cases "verified_for_order oid s")
    case (Some x)
    have hv: "db_ok X s \<Longrightarrow> has_verified oid s" using Some verified_for_order_has by (auto simp: db_ok_def)
    obtain i r where x: "x = (i, r)" by fastforce
    show ?thesis unfolding Some x option.case prod.case
      by (rule step_gets, rule step_bind, rule step_resp, rule hist.resp_lift, rule step_bind,
          rule step_resp, rule hist.resp_lift, rule step_insert_refund_in)
        (auto simp: liftS_eq_Inr hv)
  qed (simp add: step_resp [OF hist.resp_raise])
qed

lemma resp_approve_refund [resp_intros]: "resp (step X) (approve_refund k ac)"
  unfolding approve_refund_def by (intro resp_intros) (simp add: refund_step_def)

lemma resp_reject_refund [resp_intros]: "resp (step X) (reject_refund k ac)"
  unfolding reject_refund_def by (intro resp_intros) (simp add: refund_step_def)

text \<open>
  An order with a recorded refund has a verified payment, so marking it refunded is a step even when
  the order has left the paid statuses.
\<close>

lemma step_mark_refunded:
  fixes s :: db
  assumes "db_ok X s \<Longrightarrow> has_verified oid s"
  shows "step X s (snd (mark_refunded env oid o1 s))"
proof -
  have "step X s (snd (transition env oid OrderStatus.REFUNDED s))"
    by (rule step_transition) (rule assms)
  then have "step X s (snd (catchS (transition env oid OrderStatus.REFUNDED) (\<lambda>_. returnS ()) s))"
    by (auto simp: catchS_def returnS_def split: prod.splits sum.splits)
  then show ?thesis by (simp add: mark_refunded_def whenS_def step_resp [OF hist.resp_return])
qed

lemma resp_complete_refund [resp_intros]: "resp (step X) (complete_refund env k ac ext)"
  unfolding complete_refund_def
proof (intro respI step_load)
  fix s :: db and r assume r: "tget (refunds s) k = Some r"
  let ?mark = "\<lambda>order. case order of None \<Rightarrow> returnS ()
       | Some o1 \<Rightarrow>
           thenS (mark_refunded env (rf_order_id r) o1)
          (case o_user_id o1 of None \<Rightarrow> returnS ()
           | Some uid \<Rightarrow> bindS (create_notification env uid NotificationKind.ORDER) (\<lambda>_. returnS ()))"
  have mark: "step X t (snd (?mark order t))" if "db_ok X s" "evolves s t" for order t
  proof -
    have "has_verified (rf_order_id r) s" using that(1) r by (auto simp: db_ok_def refunds_ok_def)
    then have "has_verified (rf_order_id r) t" using that(2) has_verified_evolves by blast
    then have "step X t (snd (mark_refunded env (rf_order_id r) o1 t))" for o1 by (rule step_mark_refunded)
    then have "step X t (snd (?mark (Some o1) t))" for o1
      unfolding option.case by (rule step_then) (rule step_resp, intro resp_intros)
    then show ?thesis by (cases order) (simp_all add: step_resp [OF hist.resp_return])
  qed
  let ?f = "\<lambda>r. r\<lparr>rf_status := RefundStatus.COMPLETED,
           rf_external_reference := Some (take 255 (py_strip ext)),
           rf_processed_at := Some (env_now env)\<rparr>"
  let ?journal = "\<lambda>order. record_ledger env LedgerEntryType.REFUND (dneg (rf_amount r)) (rf_currency r)
          (event_key ''refund'' k) (Some (rf_order_id r)) (rf_payment_intent_id r)
          (case order of None \<Rightarrow> None | Some o1 \<Rightarrow> o_user_id o1) (Some ac)"
  have rest: "step X t (snd (bindS (?journal order) (\<lambda>_. ?mark order) t))"
    if "db_ok X s" "evolves s t" for order t
    using that by (intro step_bind_ok step_resp [OF resp_record_ledger] mark) (blast intro: evolves_trans)+
  have "step X s (snd (thenS (updS refunds_update k ?f)
      (bindS (getsS (\<lambda>s. tget (orders s) (rf_order_id r))) (\<lambda>order.
       bindS (?journal order) (\<lambda>_. ?mark order))) s))"
  proof (rule step_then_ok, rule step_resp, rule resp_upd_refund)
    fix a t assume "db_ok X s" "evolves s t"
    then show "step X t (snd (bindS (getsS (\<lambda>s. tget (orders s) (rf_order_id r))) (\<lambda>order.
       bindS (?journal order) (\<lambda>_. ?mark order)) t))" by (intro step_gets rest)
  qed (simp add: refund_step_def)
  note body = this
  show "step X s (snd ((if rf_status r = RefundStatus.COMPLETED then returnS ()
     else
       thenS (guardS (rf_status r = RefundStatus.APPROVED \<or> rf_status r = RefundStatus.PROCESSING) ConflictError)
      (thenS (guardS (py_strip ext \<noteq> []) ValidationError)
      (thenS (updS refunds_update k ?f)
      (bindS (getsS (\<lambda>s. tget (orders s) (rf_order_id r))) (\<lambda>order.
       bindS (?journal order) (\<lambda>_. ?mark order)))))) s))"
  proof (cases "rf_status r = RefundStatus.COMPLETED")
    case False
    show ?thesis unfolding if_not_P [OF False] by (intro step_guard body)
  qed (simp add: step_resp [OF hist.resp_return])
qed

lemma resp_attribute [resp_intros]: "resp (step X) (attribute u code)"
  unfolding attribute_def Let_def by (intro resp_intros)

lemma resp_qualify_order [resp_intros]: "resp (step X) (qualify_order env oid pct)"
  unfolding qualify_order_def by (intro resp_intros)

end
