(* ===== verification/Workers.thy ===== *)
theory Workers
  imports Settlement Refunds
begin

text \<open>
  The background workers of \<^verbatim>\<open>app/workers\<close>: payment verification, expiry, the reservation reaper, provider
  health, delivery, and the reconciliation scans. Each unit of work runs in \<^verbatim>\<open>session_scope\<close>, which is
  \<open>atomic\<close>; what a worker catches inside its scope is not rolled back. Messages to Telegram are left out
  except for what their failure writes. The webhooks of a delivery run in a transaction of their own.
\<close>

section \<open>Payment verification\<close>

definition notify_payment_result :: "env \<Rightarrow> nat \<Rightarrow> VerificationResult \<Rightarrow> unit dbm" where
  "notify_payment_result env i result =
     bindS (loadS payment_intents i) (\<lambda>r.
     bindS (getsS (\<lambda>s. tget (orders s) (sn_order_id (i_snap r)))) (\<lambda>order.
     case (case order of None \<Rightarrow> None | Some o1 \<Rightarrow> o_user_id o1) of None \<Rightarrow> returnS ()
     | Some uid \<Rightarrow>
       bindS (getsS (\<lambda>s. tget (users s) uid)) (\<lambda>user.
       case user of None \<Rightarrow> returnS ()
       | Some u \<Rightarrow>
         whenS (\<not> u_is_bot_blocked u \<and> u_notifications_enabled u
             \<and> (vr_outcome result \<in> {VerificationOutcome.VERIFIED, VerificationOutcome.UNDERPAID,
                  VerificationOutcome.OVERPAID, VerificationOutcome.WRONG_NETWORK, VerificationOutcome.DUPLICATE}
                \<or> vr_needs_review result))
           (bindS (create_notification env uid NotificationKind.PAYMENT) (\<lambda>_.
            whenS (env_forbidden env uid)
              (updS users_update uid (\<lambda>u. u\<lparr>u_is_bot_blocked := True\<rparr>)))))))"

definition enqueue_delivery :: "env \<Rightarrow> nat \<Rightarrow> nat dbm" where
  "enqueue_delivery env order_id =
     bindS (getsS (\<lambda>s. tget (orders s) order_id)) (\<lambda>order.
     case order of None \<Rightarrow> returnS 0
     | Some _ \<Rightarrow> bindS (prepare_deliveries env order_id) (\<lambda>ds. returnS (length ds)))"

definition verify_and_enqueue :: "env \<Rightarrow> nat \<Rightarrow> nat dbm" where
  "verify_and_enqueue env i =
     bindS (getsS (\<lambda>s. tget (payment_intents s) i)) (\<lambda>intent.
     case intent of None \<Rightarrow> returnS 0
     | Some r \<Rightarrow>
       if \<not> payment_is_open (i_status r) then returnS 0
       else
         bindS (verify env i) (\<lambda>result.
         thenS (whenS (vr_newly_verified result)
            (bindS (enqueue_delivery env (sn_order_id (i_snap r))) (\<lambda>_. returnS ())))
        (thenS (whenS (env_bot env \<and> (vr_newly_verified result \<or> vr_needs_review result))
            (notify_payment_result env i result))
        (returnS 1))))"

definition verify_one :: "env \<Rightarrow> nat \<Rightarrow> nat dbm" where
  "verify_one env i =
     (if \<not> env_lock env then returnS 0
      else catchS (atomic (verify_and_enqueue env i)) (\<lambda>_. returnS 0))"

definition verification_pass :: "env \<Rightarrow> nat dbm" where
  "verification_pass env =
     bindS (getsS (due_for_polling (env_now env) 25)) (\<lambda>due.
     bindS (mapS (\<lambda>(i, _). verify_one env i) due) (\<lambda>ns. returnS (sum_list ns)))"

section \<open>Expiry, reservations, health\<close>

definition expire_unpaid :: "env \<Rightarrow> nat \<Rightarrow> nat dbm" where
  "expire_unpaid env order_id =
     bindS (getsS (active_intent order_id)) (\<lambda>active.
     if active \<noteq> None then returnS 0
     else thenS (expire env order_id) (returnS 1))"

definition expiry_pass :: "env \<Rightarrow> nat dbm" where
  "expiry_pass env = atomic
    (bindS (expire_due env 50) (\<lambda>expired.
     bindS (getsS (expired_pending (env_now env) 50)) (\<lambda>lapsed.
     bindS (mapS (\<lambda>(oid, _). expire_unpaid env oid) lapsed) (\<lambda>released.
     returnS (expired + sum_list released)))))"

definition reaper_pass :: "env \<Rightarrow> nat dbm" where
  "reaper_pass env = atomic (reap_expired env 200)"

definition probe_provider :: "env \<Rightarrow> (nat \<times> PaymentMethod) list \<Rightarrow> nat \<times> PaymentProvider \<Rightarrow> unit dbm" where
  "probe_provider env methods provider =
     (let mine = filter (\<lambda>m. pm_provider_id (snd m) = fst provider) methods in
      case env_health env (snd provider) (case mine of [] \<Rightarrow> None | m # _ \<Rightarrow> Some (snd m)) of
        Some healthy \<Rightarrow> record_health env (fst provider) healthy
      | None \<Rightarrow> record_health env (fst provider) False)"

definition health_pass :: "env \<Rightarrow> nat dbm" where
  "health_pass env = atomic
    (bindS (getsS (\<lambda>s. tsel pp_is_enabled (payment_providers s))) (\<lambda>providers.
     bindS (getsS payment_methods) (\<lambda>methods.
     bindS (mapS (probe_provider env methods) providers) (\<lambda>_. returnS (length providers)))))"

section \<open>Delivery\<close>

text \<open>
  A failed delivery is recorded in the same session, so what \<open>fulfil\<close> did before it failed stays. After a
  violated constraint the session accepts no further statement, and recording the failure fails as well.
\<close>

text \<open>What follows a fulfilled delivery, in the same transaction.\<close>

definition after_delivery :: "env \<Rightarrow> nat \<Rightarrow> unit dbm" where
  "after_delivery env order_id =
     bindS (getsS (\<lambda>s. tget (orders s) order_id)) (\<lambda>order.
     case order of None \<Rightarrow> returnS ()
     | Some o1 \<Rightarrow>
       bindS (finalise_order env order_id) (\<lambda>_.
       bindS (loadS orders order_id) (\<lambda>o2.
       thenS (whenS (o_status o2 = OrderStatus.COMPLETED)
          (bindS (qualify_order env order_id DEFAULT_REWARD_PERCENT) (\<lambda>_. returnS ())))
      (case o_user_id o1 of None \<Rightarrow> returnS ()
       | Some uid \<Rightarrow> bindS (create_notification env uid NotificationKind.DELIVERY) (\<lambda>_. returnS ())))))"

definition deliver_one :: "env \<Rightarrow> nat \<Rightarrow> nat dbm" where
  "deliver_one env k =
     (if \<not> env_lock env then returnS 0
      else atomic
       (bindS (getsS (\<lambda>s. tget (deliveries s) k)) (\<lambda>delivery.
        case delivery of None \<Rightarrow> returnS 0
        | Some d \<Rightarrow>
          if d_status d = DeliveryStatus.COMPLETED then returnS 0
          else
            bindS (catchS (bindS (fulfil env k) (\<lambda>p. returnS (Some p)))
               (\<lambda>err. if err = IntegrityError \<or> err = DataError then raiseS err
                 else thenS (record_failure env k) (returnS None))) (\<lambda>payload.
            case payload of None \<Rightarrow> returnS 0
            | Some _ \<Rightarrow> thenS (after_delivery env (d_order_id d)) (returnS 1)))))"

definition delivery_pass :: "env \<Rightarrow> nat dbm" where
  "delivery_pass env =
     bindS (getsS (due_deliveries (env_now env) 25)) (\<lambda>due.
     bindS (mapS (\<lambda>(k, _). deliver_one env k) due) (\<lambda>ns. returnS (sum_list ns)))"

section \<open>Reconciliation\<close>

text \<open>A finding: its kind, the key it is recorded under at most once, and what it is about.\<close>

type_synonym finding = "ReconciliationKind \<times> string \<times> nat option \<times> nat option"

definition file_findings :: "finding list \<Rightarrow> nat dbm" where
  "file_findings fs =
     bindS (mapS (\<lambda>(kind, key, i, oid). record_reconciliation kind key i oid) fs) (\<lambda>created.
     returnS (length (filter (\<lambda>c. c \<noteq> None) created)))"

definition about_intent :: "ReconciliationKind \<Rightarrow> string \<Rightarrow> nat \<times> PaymentIntent \<Rightarrow> finding" where
  "about_intent kind name x =
     (kind, event_key name (fst x), Some (fst x), Some (sn_order_id (i_snap (snd x))))"

definition stuck_reviews :: "env \<Rightarrow> db \<Rightarrow> finding list" where
  "stuck_reviews env s =
     map (about_intent ReconciliationKind.PROVIDER_INCONSISTENCY ''stuck_review'')
       (take 50 (filter (\<lambda>(i, r). i_status r = PaymentStatus.UNDER_REVIEW
          \<and> env_updated_at env i \<le> env_now env - seconds 86400) (payment_intents s)))"

definition paid_not_delivered :: "env \<Rightarrow> db \<Rightarrow> finding list" where
  "paid_not_delivered env s =
     map (\<lambda>x. (ReconciliationKind.STUCK_DELIVERY, event_key ''stuck_delivery'' (fst x), None, Some (fst x)))
       (take 50 (tsel (\<lambda>r. (o_status r = OrderStatus.PAYMENT_VERIFIED \<or> o_status r = OrderStatus.FULFILLING)
          \<and> (case o_paid_at r of None \<Rightarrow> False | Some t \<Rightarrow> t \<le> env_now env - seconds 7200)) (orders s)))"

definition exhausted_deliveries :: "db \<Rightarrow> finding list" where
  "exhausted_deliveries s =
     map (\<lambda>x. (ReconciliationKind.STUCK_DELIVERY, event_key ''exhausted_delivery'' (fst x), None,
         Some (d_order_id (snd x))))
       (take 50 (tsel (\<lambda>r. d_status r = DeliveryStatus.FAILED \<and> d_next_attempt_at r = None) (deliveries s)))"

definition verified_without_consumption :: "db \<Rightarrow> finding list" where
  "verified_without_consumption s =
     map (about_intent ReconciliationKind.ORPHAN_PAYMENT ''verified_no_consumption'')
       (take 50 (filter (\<lambda>(i, r). i_status r = PaymentStatus.VERIFIED
          \<and> \<not> texists (\<lambda>c. pc_payment_intent_id c = i) (payment_consumptions s)
          \<and> i_last_outcome r \<noteq> None) (payment_intents s)))"

definition orphan_consumptions :: "db \<Rightarrow> finding list" where
  "orphan_consumptions s =
     map (\<lambda>(k, c). (ReconciliationKind.UNMATCHED_TRANSACTION, event_key ''orphan_consumption'' k,
         Some (pc_payment_intent_id c),
         map_option (\<lambda>r. sn_order_id (i_snap r)) (tget (payment_intents s) (pc_payment_intent_id c))))
       (take 50 (filter (\<lambda>(_, c). case tget (payment_intents s) (pc_payment_intent_id c) of
            None \<Rightarrow> False | Some r \<Rightarrow> i_status r \<noteq> PaymentStatus.VERIFIED) (payment_consumptions s)))"

definition expired_with_funds :: "db \<Rightarrow> finding list" where
  "expired_with_funds s =
     map (about_intent ReconciliationKind.EXPIRED_WITH_FUNDS ''expired_with_funds'')
       (take 50 (tsel (\<lambda>r. i_status r = PaymentStatus.EXPIRED \<and> i_received_amount r \<noteq> None)
          (payment_intents s)))"

definition reconciliation_pass :: "env \<Rightarrow> nat dbm" where
  "reconciliation_pass env = atomic
    (bindS (mapS (\<lambda>scan. bindS (getsS scan) file_findings)
       [stuck_reviews env, paid_not_delivered env, exhausted_deliveries,
        verified_without_consumption, orphan_consumptions, expired_with_funds]) (\<lambda>ns.
     returnS (sum_list ns)))"

section \<open>Every pass is a step\<close>

lemma resp_notify_payment_result [resp_intros]: "resp (step X) (notify_payment_result env i res)"
  unfolding notify_payment_result_def by (intro resp_intros)

lemma resp_enqueue_delivery [resp_intros]: "resp (step X) (enqueue_delivery env oid)"
  unfolding enqueue_delivery_def by (intro resp_intros)

lemma resp_verify_one:
  "iteration_order (env_succ env) \<Longrightarrow> resp (step X) (verify_one env i)"
  unfolding verify_one_def verify_and_enqueue_def by (intro resp_intros resp_verify)

lemma resp_verification_pass:
  "iteration_order (env_succ env) \<Longrightarrow> resp (step X) (verification_pass env)"
  unfolding verification_pass_def by (intro resp_intros resp_verify_one)

lemma resp_expiry_pass:
  "iteration_order (env_succ env) \<Longrightarrow> resp (step X) (expiry_pass env)"
  unfolding expiry_pass_def expire_unpaid_def by (intro resp_intros resp_expire_due)

lemma resp_reaper_pass [resp_intros]: "resp (step X) (reaper_pass env)"
  unfolding reaper_pass_def by (intro resp_intros)

lemma resp_health_pass [resp_intros]: "resp (step X) (health_pass env)"
  unfolding health_pass_def probe_provider_def Let_def by (intro resp_intros)

lemma resp_after_delivery [resp_intros]: "resp (step X) (after_delivery env oid)"
  unfolding after_delivery_def by (intro resp_intros)

lemma resp_deliver_one [resp_intros]: "resp (step X) (deliver_one env k)"
  unfolding deliver_one_def by (intro resp_intros)

lemma resp_delivery_pass [resp_intros]: "resp (step X) (delivery_pass env)"
  unfolding delivery_pass_def by (intro resp_intros)

lemma resp_reconciliation_pass [resp_intros]: "resp (step X) (reconciliation_pass env)"
  unfolding reconciliation_pass_def file_findings_def by (intro resp_intros)

end
