(* ===== verification/System.thy ===== *)
theory System
  imports Workers
begin

text \<open>
  The application as a transition system: the commands that the bot, the reseller API, the admin panel
  and the workers issue, each run as one transaction, and the states they reach. A handler of the
  bot or of the panel that catches an application error returns normally, so its transaction commits what was done
  before the error; the other commands roll back.
\<close>

section \<open>Commands\<close>

definition handled :: "'a dbm \<Rightarrow> unit dbm" where
  "handled m = catchS (bindS m (\<lambda>_. returnS ())) (\<lambda>err. if is_AppError err then returnS () else raiseS err)"

text \<open>\<^verbatim>\<open>confirm_order\<close> of \<^verbatim>\<open>app/bot/handlers/checkout.py\<close>.\<close>

definition listed_product :: "nat \<Rightarrow> db \<Rightarrow> Product option" where
  "listed_product pid s =
     (case tget (products s) pid of None \<Rightarrow> None
      | Some p \<Rightarrow> if p_status p = ProductStatus.ACTIVE \<and> p_deleted_at p = None
                     \<and> p_available_to_customers p then Some p else None)"

definition confirm_order :: "env \<Rightarrow> nat \<Rightarrow> nat \<Rightarrow> int \<Rightarrow> string option \<Rightarrow> unit dbm" where
  "confirm_order env uid pid quantity coupon_code =
     bindS (getsS (listed_product pid)) (\<lambda>product.
     case product of None \<Rightarrow> returnS ()
     | Some p \<Rightarrow> handled
        (bindS (getsS (checkout_quote env pid p quantity (Some uid) coupon_code False)) (\<lambda>answer.
         bindS (liftS answer) (\<lambda>q.
         bindS (create_order env q (Some uid) None None None None ''telegram'') (\<lambda>oid.
         transition env oid OrderStatus.PAYMENT_PENDING)))))"

text \<open>\<^verbatim>\<open>create_order\<close> of \<^verbatim>\<open>app/api/routes/orders.py\<close>, after the replay of a stored response.\<close>

definition reseller_product :: "nat \<Rightarrow> db \<Rightarrow> Product option" where
  "reseller_product pid s =
     (case tget (products s) pid of None \<Rightarrow> None
      | Some p \<Rightarrow> if p_status p = ProductStatus.ACTIVE \<and> p_deleted_at p = None
                     \<and> p_available_to_resellers p then Some p else None)"

definition method_by_code :: "string \<Rightarrow> db \<Rightarrow> (nat \<times> PaymentMethod) option" where
  "method_by_code code s = (case tsel (\<lambda>m. pm_code m = code) (payment_methods s) of [] \<Rightarrow> None | x # _ \<Rightarrow> Some x)"

definition order_by_idempotency_key :: "nat \<Rightarrow> string \<Rightarrow> db \<Rightarrow> (nat \<times> Order) option" where
  "order_by_idempotency_key rid key s =
     (case tsel (\<lambda>r. o_reseller_id r = Some rid \<and> o_idempotency_key r = Some key) (orders s) of
        [] \<Rightarrow> None | x # _ \<Rightarrow> Some x)"

definition api_create_order ::
    "env \<Rightarrow> nat \<Rightarrow> string option \<Rightarrow> nat \<Rightarrow> int \<Rightarrow> string option \<Rightarrow> string option \<Rightarrow> string option
       \<Rightarrow> nat dbm" where
  "api_create_order env rid key pid quantity method_code customer_reference reseller_reference =
     bindS (getsS (\<lambda>s. if truthy_str key then order_by_idempotency_key rid (the key) s else None)) (\<lambda>existing.
     case existing of Some (oid, _) \<Rightarrow> returnS oid
     | None \<Rightarrow>
       bindS (getsS (reseller_product pid)) (\<lambda>product.
       case product of None \<Rightarrow> raiseS NotFoundError
       | Some p \<Rightarrow>
         bindS (getsS (checkout_quote env pid p quantity None None True)) (\<lambda>answer.
         bindS (liftS answer) (\<lambda>q.
         bindS (create_order env q None (Some rid) (if truthy_str key then key else None)
            customer_reference reseller_reference ''api'') (\<lambda>oid.
         thenS (transition env oid OrderStatus.PAYMENT_PENDING)
        (thenS (if truthy_str method_code then
             bindS (getsS (method_by_code (the method_code))) (\<lambda>m.
             case m of None \<Rightarrow> raiseS ValidationError
             | Some (mid, _) \<Rightarrow> bindS (create_intent env oid mid None) (\<lambda>_. returnS ()))
           else returnS ())
        (returnS oid)))))))"

text \<open>\<^verbatim>\<open>select_method\<close>, \<^verbatim>\<open>i_have_paid\<close> and \<^verbatim>\<open>submit_reference\<close> of \<^verbatim>\<open>app/bot/handlers/payments.py\<close>.\<close>

definition select_method :: "env \<Rightarrow> nat \<Rightarrow> string \<Rightarrow> unit dbm" where
  "select_method env oid code =
     bindS (getsS (method_by_code code)) (\<lambda>m.
     case m of None \<Rightarrow> returnS () | Some (mid, _) \<Rightarrow> handled (create_intent env oid mid None))"

definition claim_paid :: "env \<Rightarrow> nat \<Rightarrow> string option \<Rightarrow> unit dbm" where
  "claim_paid env oid reference =
     bindS (getsS (active_intent oid)) (\<lambda>intent.
     case intent of None \<Rightarrow> returnS ()
     | Some (i, _) \<Rightarrow> handled (submit_payment env i reference ''telegram''))"

text \<open>
  \<^verbatim>\<open>check_status\<close> and \<^verbatim>\<open>new_payment\<close>: both act on an order of the customer who asks (\<^verbatim>\<open>_load_order\<close>). The first runs a
  verification pass over the latest intent unless its customer has not reported a payment yet, the second brings an
  unpaid order back to \<open>PAYMENT_PENDING\<close>.
\<close>

definition load_order :: "nat \<Rightarrow> nat \<Rightarrow> db \<Rightarrow> Order option" where
  "load_order uid oid s =
     (case tget (orders s) oid of None \<Rightarrow> None | Some r \<Rightarrow> if o_user_id r = Some uid then Some r else None)"

definition check_status :: "env \<Rightarrow> nat \<Rightarrow> nat \<Rightarrow> unit dbm" where
  "check_status env uid oid =
     bindS (getsS (load_order uid oid)) (\<lambda>order.
     case order of None \<Rightarrow> returnS ()
     | Some _ \<Rightarrow>
       bindS (getsS (latest_intent oid)) (\<lambda>intent.
       case intent of None \<Rightarrow> returnS ()
       | Some (i, r) \<Rightarrow>
         if payment_is_open (i_status r) \<and> i_status r \<noteq> PaymentStatus.AWAITING_PAYMENT
         then handled (verify env i) else returnS ()))"

definition new_payment :: "env \<Rightarrow> nat \<Rightarrow> nat \<Rightarrow> unit dbm" where
  "new_payment env uid oid =
     bindS (getsS (load_order uid oid)) (\<lambda>order.
     case order of None \<Rightarrow> returnS ()
     | Some r \<Rightarrow>
       if order_is_paid (o_status r) then returnS ()
       else if o_status r \<noteq> OrderStatus.PAYMENT_PENDING
       then handled (transition env oid OrderStatus.PAYMENT_PENDING) else returnS ())"

text \<open>\<^verbatim>\<open>_retry_delivery\<close> of \<^verbatim>\<open>app/admin/handlers/orders.py\<close>: the backoff of what is not complete is cleared.\<close>

definition requeue :: "nat \<Rightarrow> unit dbm" where
  "requeue k = updS deliveries_update k (\<lambda>d. if d_status d \<noteq> DeliveryStatus.COMPLETED
     then d\<lparr>d_status := DeliveryStatus.PENDING, d_next_attempt_at := None\<rparr> else d)"

definition force_delivery :: "env \<Rightarrow> nat \<Rightarrow> unit dbm" where
  "force_delivery env oid =
     bindS (getsS (\<lambda>s. tget (orders s) oid)) (\<lambda>order.
     case order of None \<Rightarrow> returnS ()
     | Some _ \<Rightarrow> handled
        (thenS (assert_paid oid)
        (bindS (prepare_deliveries env oid) (\<lambda>ks. mapS requeue ks))))"

text \<open>\<^verbatim>\<open>_recheck\<close> and \<^verbatim>\<open>_do_approve\<close> of \<^verbatim>\<open>app/admin/handlers/payments.py\<close>.\<close>

definition panel_recheck :: "env \<Rightarrow> nat \<Rightarrow> unit dbm" where
  "panel_recheck env i =
     bindS (getsS (\<lambda>s. tget (payment_intents s) i)) (\<lambda>intent.
     case intent of None \<Rightarrow> returnS () | Some _ \<Rightarrow> handled (verify env i))"

definition panel_approve :: "env \<Rightarrow> nat \<Rightarrow> nat \<Rightarrow> unit dbm" where
  "panel_approve env i actor_id =
     bindS (getsS (\<lambda>s. tget (payment_intents s) i)) (\<lambda>intent.
     case intent of None \<Rightarrow> returnS () | Some _ \<Rightarrow> handled (approve_manually env i actor_id))"

datatype command =
    RegisterUser User | RegisterProduct Product | RegisterCoupon Coupon
  | RegisterProvider PaymentProvider | RegisterMethod PaymentMethod
  | AttributeReferral nat string
  | AddStock nat "string list" "nat option" | MarkInvalid nat "nat option"
  | ConfirmOrder nat nat int "string option"
  | ApiCreateOrder nat "string option" nat int "string option" "string option" "string option"
  | ApiCreatePayment nat string
  | SelectMethod nat string | ClaimPaid nat "string option" | CancelOrder nat
  | CheckStatus nat nat | NewPayment nat nat
  | ViewDelivery nat
  | VerificationPass | ExpiryPass | ReaperPass | HealthPass | DeliveryPass | ReconciliationPass
  | PanelRecheck nat | PanelApprove nat nat | PanelReject nat | ForceDelivery nat
  | Resolve nat "nat option" ReconciliationStatus
  | RequestRefund nat "decimal option" nat | ApproveRefund nat nat | RejectRefund nat nat
  | CompleteRefund nat nat string

fun run :: "env \<Rightarrow> command \<Rightarrow> unit dbm" where
  "run env (RegisterUser u) = thenS (insS users_update u) (returnS ())"
| "run env (RegisterProduct p) = thenS (insS products_update p) (returnS ())"
| "run env (RegisterCoupon c) = thenS (insS coupons_update c) (returnS ())"
| "run env (RegisterProvider p) = thenS (insS payment_providers_update p) (returnS ())"
| "run env (RegisterMethod m) = thenS (insS payment_methods_update m) (returnS ())"
| "run env (AttributeReferral u code) = thenS (attribute u code) (returnS ())"
| "run env (AddStock pid payloads actor) = thenS (add_stock env pid payloads actor) (returnS ())"
| "run env (MarkInvalid k actor) = mark_invalid k actor"
| "run env (ConfirmOrder uid pid quantity code) = confirm_order env uid pid quantity code"
| "run env (ApiCreateOrder rid key pid quantity m cr rr) =
     thenS (api_create_order env rid key pid quantity m cr rr) (returnS ())"
| "run env (ApiCreatePayment oid code) =
     bindS (getsS (method_by_code code)) (\<lambda>m. case m of None \<Rightarrow> raiseS ValidationError
       | Some (mid, _) \<Rightarrow> thenS (create_intent env oid mid None) (returnS ()))"
| "run env (SelectMethod oid code) = select_method env oid code"
| "run env (ClaimPaid oid reference) = claim_paid env oid reference"
| "run env (CancelOrder oid) = handled (cancel env oid)"
| "run env (CheckStatus uid oid) = check_status env uid oid"
| "run env (NewPayment uid oid) = new_payment env uid oid"
| "run env (ViewDelivery k) = handled (reveal_delivery env k)"
| "run env VerificationPass = thenS (verification_pass env) (returnS ())"
| "run env ExpiryPass = thenS (expiry_pass env) (returnS ())"
| "run env ReaperPass = thenS (reaper_pass env) (returnS ())"
| "run env HealthPass = thenS (health_pass env) (returnS ())"
| "run env DeliveryPass = thenS (delivery_pass env) (returnS ())"
| "run env ReconciliationPass = thenS (reconciliation_pass env) (returnS ())"
| "run env (PanelRecheck i) = panel_recheck env i"
| "run env (PanelApprove i actor) = panel_approve env i actor"
| "run env (PanelReject i) = handled (reject_manually env i)"
| "run env (ForceDelivery oid) = force_delivery env oid"
| "run env (Resolve k by_id st) = resolve_reconciliation env k by_id st"
| "run env (RequestRefund oid amount by_id) = handled (request_refund env oid amount by_id None None)"
| "run env (ApproveRefund k actor) = handled (approve_refund k actor)"
| "run env (RejectRefund k actor) = handled (reject_refund k actor)"
| "run env (CompleteRefund k actor ext) = handled (complete_refund env k actor ext)"

text \<open>
  The two batch workers over deliveries and payments open a transaction per item, so they are not wrapped
  in another one.
\<close>

fun transactional :: "command \<Rightarrow> bool" where
  "transactional VerificationPass = False"
| "transactional DeliveryPass = False"
| "transactional _ = True"

definition exec :: "env \<Rightarrow> command \<Rightarrow> db \<Rightarrow> db" where
  "exec env c s = snd ((if transactional c then atomic (run env c) else run env c) s)"

section \<open>Reachable states\<close>

inductive reaches :: "command set \<Rightarrow> db \<Rightarrow> db \<Rightarrow> bool" for C where
  reaches_refl: "reaches C s s"
| reaches_step: "reaches C s t \<Longrightarrow> c \<in> C \<Longrightarrow> iteration_order (env_succ env) \<Longrightarrow> reaches C s (exec env c t)"

abbreviation reachable :: "db \<Rightarrow> bool" where
  "reachable s \<equiv> reaches UNIV empty_db s"

text \<open>The intents an operator may have approved in a run that issues commands of \<open>C\<close> only.\<close>

definition approved_by_hand :: "command set \<Rightarrow> nat set" where
  "approved_by_hand C = {i. \<exists>a. PanelApprove i a \<in> C}"

lemma resp_handled [resp_intros]: "resp (step X) m \<Longrightarrow> resp (step X) (handled m)"
  unfolding handled_def by (intro resp_intros)

lemma resp_confirm_order [resp_intros]: "resp (step X) (confirm_order env u pid q c)"
  unfolding confirm_order_def by (intro resp_intros) simp_all

lemma resp_api_create_order [resp_intros]: "resp (step X) (api_create_order env r k pid q m cr rr)"
  unfolding api_create_order_def by (intro resp_intros) simp_all

lemma resp_select_method [resp_intros]: "resp (step X) (select_method env oid code)"
  unfolding select_method_def by (intro resp_intros)

lemma resp_claim_paid [resp_intros]: "resp (step X) (claim_paid env oid r)"
  unfolding claim_paid_def by (intro resp_intros)

lemma resp_force_delivery [resp_intros]: "resp (step X) (force_delivery env oid)"
  unfolding force_delivery_def requeue_def by (intro resp_intros) (auto split: if_splits)

lemma resp_check_status [resp_intros]:
  "iteration_order (env_succ env) \<Longrightarrow> resp (step X) (check_status env uid oid)"
  unfolding check_status_def by (intro resp_intros resp_verify)

lemma resp_new_payment [resp_intros]: "resp (step X) (new_payment env uid oid)"
  unfolding new_payment_def by (intro resp_intros) (simp_all add: order_is_paid_def)

lemma resp_panel_recheck [resp_intros]:
  "iteration_order (env_succ env) \<Longrightarrow> resp (step X) (panel_recheck env i)"
  unfolding panel_recheck_def by (intro resp_intros resp_verify)

lemma resp_panel_approve:
  "iteration_order (env_succ env) \<Longrightarrow> i \<in> X \<Longrightarrow> resp (step X) (panel_approve env i a)"
  unfolding panel_approve_def by (intro resp_intros resp_approve_manually)

lemma resp_run:
  assumes succ: "iteration_order (env_succ env)" and held: "\<And>i a. c = PanelApprove i a \<Longrightarrow> i \<in> X"
  shows "resp (step X) (run env c)"
proof (cases c)
  case (PanelApprove i a)
  with held resp_panel_approve [OF succ] show ?thesis by simp
qed (use succ in \<open>simp_all only: run.simps,
      (intro resp_intros resp_verification_pass resp_expiry_pass resp_reject_manually; assumption?)+\<close>)

lemma resp_exec:
  "resp (step X) (run env c) \<Longrightarrow> step X s (exec env c s)"
  unfolding exec_def by (cases "transactional c") (simp_all add: step_resp hist.resp_atomic)

lemma reaches_step_held: "reaches C s t \<Longrightarrow> approved_by_hand C \<subseteq> X \<Longrightarrow> step X s t"
proof (induction rule: reaches.induct)
  case (reaches_step s t c env)
  have "resp (step X) (run env c)"
    using reaches_step(2,5) by (intro resp_run [OF reaches_step(3)]) (auto simp: approved_by_hand_def)
  then have "step X t (exec env c t)" by (rule resp_exec)
  with reaches_step show ?case using hist.R_trans by blast
qed simp

lemma empty_db_ok [simp]: "db_ok X empty_db"
  by (simp add: db_ok_def keys_ok_def constraints_ok_def paid_ok_def delivered_ok_def refunds_ok_def backed_ok_def
      empty_db_def tbl_ok_def uniq_def tget_def)

lemma reaches_ok: "reaches C empty_db s \<Longrightarrow> db_ok (approved_by_hand C) s"
  using reaches_step_held [of C empty_db s "approved_by_hand C"] by (simp add: step_def)

lemma reachable_ok: "reachable s \<Longrightarrow> db_ok UNIV s"
  using reaches_step_held [of UNIV empty_db s UNIV] by (simp add: step_def)

lemma reachable_evolves: "reachable s \<Longrightarrow> reaches C s t \<Longrightarrow> evolves s t"
  using reachable_ok [of s] reaches_step_held [of C s t UNIV] by (simp add: step_def)

end
