(* ===== verification/Scenario.thy ===== *)
theory Scenario
  imports System
begin

text \<open>
  One concrete sale, evaluated by the simplifier: a user, a provider, a method and a product are registered,
  the user orders, picks the method and claims to have paid, the verification worker finds the transfer,
  and the delivery worker hands over the goods. The results about reachable states are instantiated
  at its states. The hash is the identity and the secret box reverses its text.
\<close>

section \<open>The world\<close>

definition demo_transfer :: ObservedTransaction where
  "demo_transfer =
     \<lparr>tx_provider = ProviderCode.TRON, tx_network = NetworkCode.TRC20, tx_external_id = ''ab'',
      tx_asset = ''USDT'', tx_amount_units = 10000000, tx_decimals = 6, tx_to_address = ''Tx'',
      tx_to_address_normalized = ''Tx'', tx_is_successful = True, tx_observed_at = 100, tx_log_index = 0,
      tx_from_address = None, tx_token_contract = None, tx_memo = None, tx_reference = None,
      tx_confirmations = 20, tx_block_number = None, tx_block_time = None, tx_txid = None,
      tx_status_label = [], tx_record_type = ''transfer''\<rparr>"

definition demo_env :: env where
  "demo_env = \<lparr>env_now = 100, env_succ = listed_order, env_sha256 = (\<lambda>x. x),
     env_encrypt = rev, env_decrypt = (\<lambda>x. Inr (rev x)), env_uuid = ''00000000'',
     env_fetch = (\<lambda>p m e ref. Inr [demo_transfer]),
     env_health = (\<lambda>_ _. None), env_lock = True, env_bot = False, env_forbidden = (\<lambda>_. False),
     env_updated_at = (\<lambda>_. 0), set_default_window_seconds = 3600,
     set_underpayment_tolerance = D0, set_overpayment_tolerance = D0, set_late_payment_grace_seconds = 0,
     set_verification_poll_interval = 15, set_max_verification_attempts = 10, set_reservation_ttl_seconds = 1800,
     set_delivery_max_attempts = 5, set_order_reference_prefix = ''TC'', set_coupons_enabled = False\<rparr>"

definition demo_user :: User where
  "demo_user = \<lparr>u_orders_count = 0, u_completed_orders_count = 0, u_total_spent = D0,
     u_status = UserStatus.ACTIVE, u_referral_code = ''A'', u_referred_by_id = None, u_referral_balance = D0,
     u_is_bot_blocked = False, u_notifications_enabled = True\<rparr>"
definition demo_provider :: PaymentProvider where
  "demo_provider = \<lparr>pp_code = ProviderCode.TRON, pp_kind = PaymentProviderKind.BLOCKCHAIN, pp_is_enabled = True,
    pp_healthy = None, pp_health_checked_at = None, pp_consecutive_failures = 0, pp_last_success_at = None\<rparr>"
definition demo_method :: PaymentMethod where
  "demo_method = \<lparr>pm_code = ''usdt'', pm_provider_id = 1, pm_is_enabled = True, pm_asset = ''USDT'', pm_asset_decimals = 6,
    pm_network = NetworkCode.TRC20, pm_receiving_address = Some ''Tx'', pm_token_contract = None, pm_requires_memo = False,
    pm_memo_template = None, pm_required_confirmations = 20, pm_payment_window_seconds = 1800, pm_min_amount = None,
    pm_max_amount = None, pm_quote_rate = Some (Dec 1 0)\<rparr>"
definition demo_product :: Product where
  "demo_product = \<lparr>p_sku = ''S'', p_category_id = None, p_name = ''Key'', p_price = Dec 10 0, p_currency = ''USD'',
    p_status = ProductStatus.ACTIVE, p_delivery_type = DeliveryType.STOCK_ITEM, p_delivery_payload = None,
    p_delivery_file_id = None, p_min_quantity = 1, p_max_quantity = None, p_stock_override = None,
    p_low_stock_threshold = 0, p_available_to_customers = True, p_available_to_resellers = True,
    p_reseller_price = None, p_sales_count = 0, p_deleted_at = None\<rparr>"


lemma demo_env_order [simp]: "iteration_order (env_succ demo_env)"
  by (simp add: demo_env_def listed_order_ok)

section \<open>The sale\<close>

fun run_all :: "env \<Rightarrow> command list \<Rightarrow> db \<Rightarrow> db" where
  "run_all env [] s = s"
| "run_all env (c # cs) s = run_all env cs (exec env c s)"

definition demo_setup :: "command list" where
  "demo_setup = [RegisterUser demo_user, RegisterProvider demo_provider, RegisterMethod demo_method,
     RegisterProduct demo_product, AddStock 3 [''k1'', ''k2''] None]"

definition demo_open :: db where
  "demo_open =
   \<lparr>db_next = 13,
    users =
      [(0, \<lparr>u_orders_count = 1, u_completed_orders_count = 0,
              u_total_spent = D0, u_status = UserStatus.ACTIVE,
              u_referral_code = ''A'', u_referred_by_id = None,
              u_referral_balance = D0, u_is_bot_blocked = False,
              u_notifications_enabled = True\<rparr>)],
    referrals = [],
    products =
      [(3, \<lparr>p_sku = ''S'', p_category_id = None, p_name = ''Key'',
              p_price = Dec 10 0, p_currency = ''USD'',
              p_status = ProductStatus.ACTIVE, p_delivery_type = STOCK_ITEM,
              p_delivery_payload = None, p_delivery_file_id = None,
              p_min_quantity = 1, p_max_quantity = None,
              p_stock_override = None, p_low_stock_threshold = 0,
              p_available_to_customers = True,
              p_available_to_resellers = True, p_reseller_price = None,
              p_sales_count = 0, p_deleted_at = None\<rparr>)],
    inventory_items =
      [(4, \<lparr>ii_product_id = 3, ii_status = RESERVED,
              ii_secret_payload = ''1k'', ii_fingerprint = ''k1'',
              ii_order_item_id = Some 8, ii_sold_at = None,
              ii_created_at = 100\<rparr>),
       (5, \<lparr>ii_product_id = 3, ii_status = AVAILABLE,
              ii_secret_payload = ''2k'', ii_fingerprint = ''k2'',
              ii_order_item_id = None, ii_sold_at = None,
              ii_created_at = 100\<rparr>)],
    inventory_reservations =
      [(9, \<lparr>ir_inventory_item_id = 4, ir_order_id = 7,
              ir_order_item_id = Some 8,
              ir_status = ReservationStatus.ACTIVE,
              ir_expires_at = 1800000100, ir_released_at = None,
              ir_consumed_at = None\<rparr>)],
    inventory_adjustments =
      [(6, \<lparr>ia_product_id = 3, ia_inventory_item_id = None,
              ia_actor_id = None, ia_action = ''add_stock'',
              ia_quantity = 2\<rparr>)],
    coupons = [], coupon_usages = [],
    orders =
      [(7, \<lparr>o_reference = ''TC-10001'', o_user_id = Some 0,
              o_reseller_id = None, o_idempotency_key = None,
              o_customer_reference = None, o_reseller_reference = None,
              o_status = PAYMENT_PENDING, o_currency = ''USD'',
              o_subtotal = Dec 1000000000 (- 8), o_discount_total = D0,
              o_total = Dec 1000000000 (- 8), o_coupon_id = None,
              o_coupon_code = None, o_channel = ''telegram'',
              o_paid_at = None, o_delivered_at = None,
              o_completed_at = None, o_cancelled_at = None,
              o_created_at = 100\<rparr>)],
    order_items =
      [(8, \<lparr>oi_order_id = 7, oi_product_id = Some 3,
              oi_product_name = ''Key'', oi_product_sku = ''S'',
              oi_delivery_type = STOCK_ITEM, oi_quantity = 1,
              oi_unit_price = Dec 1000000000 (- 8),
              oi_line_total = Dec 1000000000 (- 8),
              oi_currency = ''USD''\<rparr>)],
    deliveries = [], refunds = [],
    ledger_entries =
      [(10,
        \<lparr>l_entry_type = ORDER_CREATED, l_amount = Dec 0 (- 8),
           l_currency = ''USD'', l_order_id = Some 7,
           l_payment_intent_id = None, l_user_id = Some 0,
           l_actor_id = None, l_dedupe_key = ''order_created:7'',
           l_created_at = 100\<rparr>)],
    payment_providers =
      [(1, \<lparr>pp_code = TRON, pp_kind = BLOCKCHAIN, pp_is_enabled = True,
              pp_healthy = None, pp_health_checked_at = None,
              pp_consecutive_failures = 0, pp_last_success_at = None\<rparr>)],
    payment_methods =
      [(2, \<lparr>pm_code = ''usdt'', pm_provider_id = 1, pm_is_enabled = True,
              pm_asset = ''USDT'', pm_asset_decimals = 6,
              pm_network = TRC20, pm_receiving_address = Some ''Tx'',
              pm_token_contract = None, pm_requires_memo = False,
              pm_memo_template = None, pm_required_confirmations = 20,
              pm_payment_window_seconds = 1800, pm_min_amount = None,
              pm_max_amount = None, pm_quote_rate = Some (Dec 1 0)\<rparr>)],
    payment_intents =
      [(11,
        \<lparr>i_snap =
           \<lparr>sn_reference = ''TC-10001'', sn_order_id = 7,
              sn_payment_method_id = 2, sn_provider_code = TRON,
              sn_network = TRC20, sn_order_amount = Dec 1000000000 (- 8),
              sn_order_currency = ''USD'',
              sn_expected_amount = Dec 1000000000 (- 8),
              sn_expected_amount_units = 10000000, sn_asset = ''USDT'',
              sn_asset_decimals = 6, sn_destination = ''Tx'',
              sn_destination_normalized = ''Tx'', sn_token_contract = None,
              sn_memo = None, sn_required_confirmations = 20,
              sn_quote_rate = Dec 1 0, sn_expires_at = 1800000100,
              sn_created_at = 100\<rparr>,
           i_status = SUBMITTED, i_submitted_at = Some 100,
           i_detected_at = None, i_verified_at = None, i_failed_at = None,
           i_received_amount = None, i_received_amount_units = None,
           i_confirmations = 0, i_verification_attempts = 0,
           i_next_poll_at = Some 100, i_last_outcome = None\<rparr>)],
    payment_attempts =
      [(12,
        \<lparr>a_payment_intent_id = 11, a_provider_code = TRON,
           a_network = TRC20, a_submitted_reference = None,
           a_submitted_txid = None, a_submitted_at = 100,
           a_verification_count = 0, a_last_outcome = None,
           a_source = ''telegram''\<rparr>)],
    provider_transactions = [], blockchain_transactions = [],
    verification_attempts = [], payment_consumptions = [],
    reconciliation_records = [], notifications = []\<rparr>"

definition demo_paid :: db where
  "demo_paid =
   \<lparr>db_next = 18,
    users =
      [(0, \<lparr>u_orders_count = 1, u_completed_orders_count = 0,
              u_total_spent = D0, u_status = UserStatus.ACTIVE,
              u_referral_code = ''A'', u_referred_by_id = None,
              u_referral_balance = D0, u_is_bot_blocked = False,
              u_notifications_enabled = True\<rparr>)],
    referrals = [],
    products =
      [(3, \<lparr>p_sku = ''S'', p_category_id = None, p_name = ''Key'',
              p_price = Dec 10 0, p_currency = ''USD'',
              p_status = ProductStatus.ACTIVE, p_delivery_type = STOCK_ITEM,
              p_delivery_payload = None, p_delivery_file_id = None,
              p_min_quantity = 1, p_max_quantity = None,
              p_stock_override = None, p_low_stock_threshold = 0,
              p_available_to_customers = True,
              p_available_to_resellers = True, p_reseller_price = None,
              p_sales_count = 0, p_deleted_at = None\<rparr>)],
    inventory_items =
      [(4, \<lparr>ii_product_id = 3, ii_status = RESERVED,
              ii_secret_payload = ''1k'', ii_fingerprint = ''k1'',
              ii_order_item_id = Some 8, ii_sold_at = None,
              ii_created_at = 100\<rparr>),
       (5, \<lparr>ii_product_id = 3, ii_status = AVAILABLE,
              ii_secret_payload = ''2k'', ii_fingerprint = ''k2'',
              ii_order_item_id = None, ii_sold_at = None,
              ii_created_at = 100\<rparr>)],
    inventory_reservations =
      [(9, \<lparr>ir_inventory_item_id = 4, ir_order_id = 7,
              ir_order_item_id = Some 8,
              ir_status = ReservationStatus.ACTIVE,
              ir_expires_at = 1800000100, ir_released_at = None,
              ir_consumed_at = None\<rparr>)],
    inventory_adjustments =
      [(6, \<lparr>ia_product_id = 3, ia_inventory_item_id = None,
              ia_actor_id = None, ia_action = ''add_stock'',
              ia_quantity = 2\<rparr>)],
    coupons = [], coupon_usages = [],
    orders =
      [(7, \<lparr>o_reference = ''TC-10001'', o_user_id = Some 0,
              o_reseller_id = None, o_idempotency_key = None,
              o_customer_reference = None, o_reseller_reference = None,
              o_status = FULFILLING, o_currency = ''USD'',
              o_subtotal = Dec 1000000000 (- 8), o_discount_total = D0,
              o_total = Dec 1000000000 (- 8), o_coupon_id = None,
              o_coupon_code = None, o_channel = ''telegram'',
              o_paid_at = Some 100, o_delivered_at = None,
              o_completed_at = None, o_cancelled_at = None,
              o_created_at = 100\<rparr>)],
    order_items =
      [(8, \<lparr>oi_order_id = 7, oi_product_id = Some 3,
              oi_product_name = ''Key'', oi_product_sku = ''S'',
              oi_delivery_type = STOCK_ITEM, oi_quantity = 1,
              oi_unit_price = Dec 1000000000 (- 8),
              oi_line_total = Dec 1000000000 (- 8),
              oi_currency = ''USD''\<rparr>)],
    deliveries =
      [(17,
        \<lparr>d_order_id = 7, d_order_item_id = 8,
           d_status = DeliveryStatus.PENDING, d_delivery_type = STOCK_ITEM,
           d_encrypted_payload = None, d_file_id = None,
           d_inventory_item_ids = [], d_attempts = 0,
           d_next_attempt_at = Some 100, d_delivered_at = None,
           d_first_viewed_at = None, d_created_at = 100\<rparr>)],
    refunds = [],
    ledger_entries =
      [(10,
        \<lparr>l_entry_type = ORDER_CREATED, l_amount = Dec 0 (- 8),
           l_currency = ''USD'', l_order_id = Some 7,
           l_payment_intent_id = None, l_user_id = Some 0,
           l_actor_id = None, l_dedupe_key = ''order_created:7'',
           l_created_at = 100\<rparr>),
       (16,
        \<lparr>l_entry_type = LedgerEntryType.PAYMENT_VERIFIED,
           l_amount = Dec 1000000000 (- 8), l_currency = ''USDT'',
           l_order_id = Some 7, l_payment_intent_id = Some 11,
           l_user_id = Some 0, l_actor_id = None,
           l_dedupe_key = ''payment_verified:11'', l_created_at = 100\<rparr>)],
    payment_providers =
      [(1, \<lparr>pp_code = TRON, pp_kind = BLOCKCHAIN, pp_is_enabled = True,
              pp_healthy = Some True, pp_health_checked_at = Some 100,
              pp_consecutive_failures = 0, pp_last_success_at = Some 100\<rparr>)],
    payment_methods =
      [(2, \<lparr>pm_code = ''usdt'', pm_provider_id = 1, pm_is_enabled = True,
              pm_asset = ''USDT'', pm_asset_decimals = 6,
              pm_network = TRC20, pm_receiving_address = Some ''Tx'',
              pm_token_contract = None, pm_requires_memo = False,
              pm_memo_template = None, pm_required_confirmations = 20,
              pm_payment_window_seconds = 1800, pm_min_amount = None,
              pm_max_amount = None, pm_quote_rate = Some (Dec 1 0)\<rparr>)],
    payment_intents =
      [(11,
        \<lparr>i_snap =
           \<lparr>sn_reference = ''TC-10001'', sn_order_id = 7,
              sn_payment_method_id = 2, sn_provider_code = TRON,
              sn_network = TRC20, sn_order_amount = Dec 1000000000 (- 8),
              sn_order_currency = ''USD'',
              sn_expected_amount = Dec 1000000000 (- 8),
              sn_expected_amount_units = 10000000, sn_asset = ''USDT'',
              sn_asset_decimals = 6, sn_destination = ''Tx'',
              sn_destination_normalized = ''Tx'', sn_token_contract = None,
              sn_memo = None, sn_required_confirmations = 20,
              sn_quote_rate = Dec 1 0, sn_expires_at = 1800000100,
              sn_created_at = 100\<rparr>,
           i_status = PaymentStatus.VERIFIED, i_submitted_at = Some 100,
           i_detected_at = None, i_verified_at = Some 100,
           i_failed_at = None,
           i_received_amount = Some (Dec 1000000000 (- 8)),
           i_received_amount_units = Some 10000000, i_confirmations = 20,
           i_verification_attempts = 1, i_next_poll_at = Some 100,
           i_last_outcome = Some VerificationOutcome.VERIFIED\<rparr>)],
    payment_attempts =
      [(12,
        \<lparr>a_payment_intent_id = 11, a_provider_code = TRON,
           a_network = TRC20, a_submitted_reference = None,
           a_submitted_txid = None, a_submitted_at = 100,
           a_verification_count = 1,
           a_last_outcome = Some VerificationOutcome.VERIFIED,
           a_source = ''telegram''\<rparr>)],
    provider_transactions = [],
    blockchain_transactions =
      [(13,
        \<lparr>bt_network = TRC20, bt_txid = ''ab'', bt_log_index = 0,
           bt_asset = ''USDT'', bt_token_contract = None,
           bt_from_address = None, bt_to_address = ''Tx'',
           bt_to_address_normalized = ''Tx'', bt_amount_units = 10000000,
           bt_amount = Dec 1000000000 (- 8), bt_decimals = 6,
           bt_memo = None, bt_block_number = None, bt_block_time = None,
           bt_confirmations = 20, bt_is_successful = True,
           bt_observed_at = 100\<rparr>)],
    verification_attempts =
      [(15,
        \<lparr>v_payment_intent_id = 11, v_payment_attempt_id = Some 12,
           v_provider_code = TRON, v_outcome = VerificationOutcome.VERIFIED,
           v_checks =
             [(''transaction_successful'', True), (''network'', True),
              (''asset'', True), (''token_contract'', True),
              (''receiver'', True), (''amount'', True),
              (''payment_window'', True), (''confirmations'', True)],
           v_observed_amount = Some (Dec 1000000000 (- 8)),
           v_observed_confirmations = Some 20,
           v_external_reference = Some ''ab''\<rparr>)],
    payment_consumptions =
      [(14,
        \<lparr>pc_fingerprint = ''tron|trc20|ab|0'', pc_payment_intent_id = 11,
           pc_order_id = 7, pc_provider_code = TRON, pc_network = TRC20,
           pc_external_id = ''ab'', pc_amount = Dec 1000000000 (- 8),
           pc_amount_units = 10000000, pc_asset = ''USDT'',
           pc_consumed_at = 100\<rparr>)],
    reconciliation_records = [], notifications = []\<rparr>"

definition demo_done :: db where
  "demo_done =
   \<lparr>db_next = 22,
    users =
      [(0, \<lparr>u_orders_count = 1, u_completed_orders_count = 1,
              u_total_spent = Dec 1000000000 (- 8),
              u_status = UserStatus.ACTIVE, u_referral_code = ''A'',
              u_referred_by_id = None, u_referral_balance = D0,
              u_is_bot_blocked = False, u_notifications_enabled = True\<rparr>)],
    referrals = [],
    products =
      [(3, \<lparr>p_sku = ''S'', p_category_id = None, p_name = ''Key'',
              p_price = Dec 10 0, p_currency = ''USD'',
              p_status = ProductStatus.ACTIVE, p_delivery_type = STOCK_ITEM,
              p_delivery_payload = None, p_delivery_file_id = None,
              p_min_quantity = 1, p_max_quantity = None,
              p_stock_override = None, p_low_stock_threshold = 0,
              p_available_to_customers = True,
              p_available_to_resellers = True, p_reseller_price = None,
              p_sales_count = 1, p_deleted_at = None\<rparr>)],
    inventory_items =
      [(4, \<lparr>ii_product_id = 3, ii_status = SOLD, ii_secret_payload = ''1k'',
              ii_fingerprint = ''k1'', ii_order_item_id = Some 8,
              ii_sold_at = Some 100, ii_created_at = 100\<rparr>),
       (5, \<lparr>ii_product_id = 3, ii_status = AVAILABLE,
              ii_secret_payload = ''2k'', ii_fingerprint = ''k2'',
              ii_order_item_id = None, ii_sold_at = None,
              ii_created_at = 100\<rparr>)],
    inventory_reservations =
      [(9, \<lparr>ir_inventory_item_id = 4, ir_order_id = 7,
              ir_order_item_id = Some 8, ir_status = CONSUMED,
              ir_expires_at = 1800000100, ir_released_at = None,
              ir_consumed_at = Some 100\<rparr>)],
    inventory_adjustments =
      [(6, \<lparr>ia_product_id = 3, ia_inventory_item_id = None,
              ia_actor_id = None, ia_action = ''add_stock'',
              ia_quantity = 2\<rparr>)],
    coupons = [], coupon_usages = [],
    orders =
      [(7, \<lparr>o_reference = ''TC-10001'', o_user_id = Some 0,
              o_reseller_id = None, o_idempotency_key = None,
              o_customer_reference = None, o_reseller_reference = None,
              o_status = REFUNDED, o_currency = ''USD'',
              o_subtotal = Dec 1000000000 (- 8), o_discount_total = D0,
              o_total = Dec 1000000000 (- 8), o_coupon_id = None,
              o_coupon_code = None, o_channel = ''telegram'',
              o_paid_at = Some 100, o_delivered_at = Some 100,
              o_completed_at = Some 100, o_cancelled_at = None,
              o_created_at = 100\<rparr>)],
    order_items =
      [(8, \<lparr>oi_order_id = 7, oi_product_id = Some 3,
              oi_product_name = ''Key'', oi_product_sku = ''S'',
              oi_delivery_type = STOCK_ITEM, oi_quantity = 1,
              oi_unit_price = Dec 1000000000 (- 8),
              oi_line_total = Dec 1000000000 (- 8),
              oi_currency = ''USD''\<rparr>)],
    deliveries =
      [(17,
        \<lparr>d_order_id = 7, d_order_item_id = 8,
           d_status = DeliveryStatus.COMPLETED,
           d_delivery_type = STOCK_ITEM, d_encrypted_payload = Some ''1k'',
           d_file_id = None, d_inventory_item_ids = [4], d_attempts = 1,
           d_next_attempt_at = Some 100, d_delivered_at = Some 100,
           d_first_viewed_at = None, d_created_at = 100\<rparr>)],
    refunds =
      [(19,
        \<lparr>rf_order_id = 7, rf_payment_intent_id = Some 11,
           rf_amount = Dec 1000000000 (- 8), rf_currency = ''USDT'',
           rf_status = RefundStatus.COMPLETED, rf_destination = None,
           rf_destination_network = None,
           rf_external_reference = Some ''r'', rf_requested_by_id = Some 0,
           rf_approved_by_id = Some 0, rf_processed_at = Some 100\<rparr>)],
    ledger_entries =
      [(10,
        \<lparr>l_entry_type = ORDER_CREATED, l_amount = Dec 0 (- 8),
           l_currency = ''USD'', l_order_id = Some 7,
           l_payment_intent_id = None, l_user_id = Some 0,
           l_actor_id = None, l_dedupe_key = ''order_created:7'',
           l_created_at = 100\<rparr>),
       (16,
        \<lparr>l_entry_type = LedgerEntryType.PAYMENT_VERIFIED,
           l_amount = Dec 1000000000 (- 8), l_currency = ''USDT'',
           l_order_id = Some 7, l_payment_intent_id = Some 11,
           l_user_id = Some 0, l_actor_id = None,
           l_dedupe_key = ''payment_verified:11'', l_created_at = 100\<rparr>),
       (20,
        \<lparr>l_entry_type = REFUND, l_amount = Dec (- 1000000000) (- 8),
           l_currency = ''USDT'', l_order_id = Some 7,
           l_payment_intent_id = Some 11, l_user_id = Some 0,
           l_actor_id = Some 0, l_dedupe_key = ''refund:19'',
           l_created_at = 100\<rparr>)],
    payment_providers =
      [(1, \<lparr>pp_code = TRON, pp_kind = BLOCKCHAIN, pp_is_enabled = True,
              pp_healthy = Some True, pp_health_checked_at = Some 100,
              pp_consecutive_failures = 0, pp_last_success_at = Some 100\<rparr>)],
    payment_methods =
      [(2, \<lparr>pm_code = ''usdt'', pm_provider_id = 1, pm_is_enabled = True,
              pm_asset = ''USDT'', pm_asset_decimals = 6,
              pm_network = TRC20, pm_receiving_address = Some ''Tx'',
              pm_token_contract = None, pm_requires_memo = False,
              pm_memo_template = None, pm_required_confirmations = 20,
              pm_payment_window_seconds = 1800, pm_min_amount = None,
              pm_max_amount = None, pm_quote_rate = Some (Dec 1 0)\<rparr>)],
    payment_intents =
      [(11,
        \<lparr>i_snap =
           \<lparr>sn_reference = ''TC-10001'', sn_order_id = 7,
              sn_payment_method_id = 2, sn_provider_code = TRON,
              sn_network = TRC20, sn_order_amount = Dec 1000000000 (- 8),
              sn_order_currency = ''USD'',
              sn_expected_amount = Dec 1000000000 (- 8),
              sn_expected_amount_units = 10000000, sn_asset = ''USDT'',
              sn_asset_decimals = 6, sn_destination = ''Tx'',
              sn_destination_normalized = ''Tx'', sn_token_contract = None,
              sn_memo = None, sn_required_confirmations = 20,
              sn_quote_rate = Dec 1 0, sn_expires_at = 1800000100,
              sn_created_at = 100\<rparr>,
           i_status = PaymentStatus.VERIFIED, i_submitted_at = Some 100,
           i_detected_at = None, i_verified_at = Some 100,
           i_failed_at = None,
           i_received_amount = Some (Dec 1000000000 (- 8)),
           i_received_amount_units = Some 10000000, i_confirmations = 20,
           i_verification_attempts = 1, i_next_poll_at = Some 100,
           i_last_outcome = Some VerificationOutcome.VERIFIED\<rparr>)],
    payment_attempts =
      [(12,
        \<lparr>a_payment_intent_id = 11, a_provider_code = TRON,
           a_network = TRC20, a_submitted_reference = None,
           a_submitted_txid = None, a_submitted_at = 100,
           a_verification_count = 1,
           a_last_outcome = Some VerificationOutcome.VERIFIED,
           a_source = ''telegram''\<rparr>)],
    provider_transactions = [],
    blockchain_transactions =
      [(13,
        \<lparr>bt_network = TRC20, bt_txid = ''ab'', bt_log_index = 0,
           bt_asset = ''USDT'', bt_token_contract = None,
           bt_from_address = None, bt_to_address = ''Tx'',
           bt_to_address_normalized = ''Tx'', bt_amount_units = 10000000,
           bt_amount = Dec 1000000000 (- 8), bt_decimals = 6,
           bt_memo = None, bt_block_number = None, bt_block_time = None,
           bt_confirmations = 20, bt_is_successful = True,
           bt_observed_at = 100\<rparr>)],
    verification_attempts =
      [(15,
        \<lparr>v_payment_intent_id = 11, v_payment_attempt_id = Some 12,
           v_provider_code = TRON, v_outcome = VerificationOutcome.VERIFIED,
           v_checks =
             [(''transaction_successful'', True), (''network'', True),
              (''asset'', True), (''token_contract'', True),
              (''receiver'', True), (''amount'', True),
              (''payment_window'', True), (''confirmations'', True)],
           v_observed_amount = Some (Dec 1000000000 (- 8)),
           v_observed_confirmations = Some 20,
           v_external_reference = Some ''ab''\<rparr>)],
    payment_consumptions =
      [(14,
        \<lparr>pc_fingerprint = ''tron|trc20|ab|0'', pc_payment_intent_id = 11,
           pc_order_id = 7, pc_provider_code = TRON, pc_network = TRC20,
           pc_external_id = ''ab'', pc_amount = Dec 1000000000 (- 8),
           pc_amount_units = 10000000, pc_asset = ''USDT'',
           pc_consumed_at = 100\<rparr>)],
    reconciliation_records = [],
    notifications =
      [(18,
        \<lparr>n_user_id = 0, n_kind = DELIVERY, n_created_at = 100,
           n_read_at = None, n_pushed_at = None\<rparr>),
       (21,
        \<lparr>n_user_id = 0, n_kind = ORDER, n_created_at = 100,
           n_read_at = None, n_pushed_at = None\<rparr>)]\<rparr>"

lemma run_all_append: "run_all env (cs @ ds) s = run_all env ds (run_all env cs s)"
  by (induction cs arbitrary: s) simp_all

lemma reaches_run_all:
  "reaches C r s \<Longrightarrow> set cs \<subseteq> C \<Longrightarrow> iteration_order (env_succ env) \<Longrightarrow> reaches C r (run_all env cs s)"
  by (induction cs arbitrary: s) (simp_all add: reaches_step)

lemma reaches_mono: "reaches C s t \<Longrightarrow> C \<subseteq> D \<Longrightarrow> reaches D s t"
  by (induction rule: reaches.induct) (auto intro: reaches.intros)

lemma reaches_trans: "reaches C t u \<Longrightarrow> reaches C s t \<Longrightarrow> reaches C s u"
  by (induction rule: reaches.induct) (auto intro: reaches.intros)

text \<open>What the simplifier computes of the runs.\<close>

definition demo_checkout :: "command list" where
  "demo_checkout = demo_setup @ [ConfirmOrder 0 3 1 None, SelectMethod 7 ''usdt'', ClaimPaid 7 None]"

definition demo_refund :: "command list" where
  "demo_refund = [DeliveryPass, RequestRefund 7 None 0, ApproveRefund 19 0, CompleteRefund 19 0 ''r'']"

lemma demo_run_checkout: "run_all demo_env demo_checkout empty_db = demo_open"
  by code_simp

lemma demo_run_payment: "run_all demo_env [VerificationPass] demo_open = demo_paid"
  by code_simp

lemma demo_run_refund: "run_all demo_env demo_refund demo_paid = demo_done"
  by code_simp

lemmas demo_runs = demo_run_checkout demo_run_payment demo_run_refund

text \<open>The commands without the approval of an operator.\<close>

definition guarded_commands :: "command set" where
  "guarded_commands = {c. \<nexists>i a. c = PanelApprove i a}"

lemma approved_guarded [simp]: "approved_by_hand guarded_commands = {}"
  by (simp add: approved_by_hand_def guarded_commands_def)

lemma demo_guarded:
  "reaches guarded_commands empty_db demo_open" "reaches guarded_commands demo_open demo_paid"
  "reaches guarded_commands demo_paid demo_done"
proof -
  have "set demo_checkout \<subseteq> guarded_commands" "set [VerificationPass] \<subseteq> guarded_commands"
    "set demo_refund \<subseteq> guarded_commands"
    by (auto simp: demo_checkout_def demo_setup_def demo_refund_def guarded_commands_def)
  from this [THEN reaches_run_all [OF reaches_refl _ demo_env_order]]
  show "reaches guarded_commands empty_db demo_open" "reaches guarded_commands demo_open demo_paid"
    "reaches guarded_commands demo_paid demo_done" unfolding demo_runs [symmetric] by blast+
qed

lemma demo_reachable: "reachable demo_open" "reachable demo_paid" "reachable demo_done"
proof -
  show o: "reachable demo_open" by (rule reaches_mono [OF demo_guarded(1) subset_UNIV])
  show p: "reachable demo_paid" by (rule reaches_trans [OF reaches_mono [OF demo_guarded(2) subset_UNIV] o])
  show "reachable demo_done" by (rule reaches_trans [OF reaches_mono [OF demo_guarded(3) subset_UNIV] p])
qed

section \<open>An approval that fails\<close>

text \<open>
  The window of the sale lapses unpaid, an operator approves the expired payment in the panel, and the
  handler answers that this is not possible.
\<close>

definition late_env :: env where
  "late_env = demo_env\<lparr>env_now := seconds 3600\<rparr>"

definition late_commands :: "command list" where
  "late_commands =
     [ExpiryPass, PanelApprove 11 0, ForceDelivery 7, DeliveryPass]"

lemma late_rows:
  "map (\<lambda>x. (fst x, sn_order_id (i_snap (snd x)), i_status (snd x)))
     (payment_intents (run_all late_env late_commands demo_open)) = [(11, 7, PaymentStatus.VERIFIED)]"
  "map (\<lambda>x. (fst x, o_status (snd x))) (orders (run_all late_env late_commands demo_open))
     = [(7, OrderStatus.EXPIRED)]"
  "map (\<lambda>x. d_status (snd x)) (deliveries (run_all late_env late_commands demo_open))
     = [DeliveryStatus.COMPLETED]"
  "payment_consumptions (run_all late_env late_commands demo_open) = []"
  "map (\<lambda>x. l_dedupe_key (snd x)) (ledger_entries (run_all late_env late_commands demo_open))
     = [''order_created:7'']"
  by code_simp+

end
