(* ===== verification/Runs.thy ===== *)
theory Runs
  imports History
begin

text \<open>
  Two ways to state what an operation does, with equations that evaluate them along its structure:
  \<open>runs m s Q\<close> says that \<open>m\<close> returns from \<open>s\<close> and its result satisfies \<open>Q\<close>, \<open>ensures m s Q\<close> that its
  result satisfies \<open>Q\<close> if it returns. The equations are collected in \<open>runs_simps\<close>, so that \<open>simp\<close> turns
  a statement about a handler into one about the tables it reads.
\<close>

named_theorems runs_simps

definition runs :: "('s, 'a) svc \<Rightarrow> 's \<Rightarrow> ('a \<Rightarrow> 's \<Rightarrow> bool) \<Rightarrow> bool" where
  "runs m s Q \<longleftrightarrow> (\<exists>a t. m s = (Inr a, t) \<and> Q a t)"

definition ensures :: "('s, 'a) svc \<Rightarrow> 's \<Rightarrow> ('a \<Rightarrow> 's \<Rightarrow> bool) \<Rightarrow> bool" where
  "ensures m s Q \<longleftrightarrow> (\<forall>a t. m s = (Inr a, t) \<longrightarrow> Q a t)"

lemma runsI: "m s = (Inr a, t) \<Longrightarrow> Q a t \<Longrightarrow> runs m s Q"
  by (auto simp: runs_def)

lemma runsD: "runs m s Q \<Longrightarrow> \<exists>a t. m s = (Inr a, t) \<and> Q a t"
  by (simp add: runs_def)

lemma ensuresI: "(\<And>a t. m s = (Inr a, t) \<Longrightarrow> Q a t) \<Longrightarrow> ensures m s Q"
  by (simp add: ensures_def)

lemma ensuresD: "ensures m s Q \<Longrightarrow> m s = (Inr a, t) \<Longrightarrow> Q a t"
  by (simp add: ensures_def)

lemma runs_mono: "runs m s Q \<Longrightarrow> (\<And>a t. Q a t \<Longrightarrow> R a t) \<Longrightarrow> runs m s R"
  by (auto simp: runs_def)

lemma ensures_mono: "ensures m s Q \<Longrightarrow> (\<And>a t. Q a t \<Longrightarrow> R a t) \<Longrightarrow> ensures m s R"
  by (auto simp: ensures_def)

lemma runs_Inr: "m s = (Inr a, t) \<Longrightarrow> runs m s Q \<longleftrightarrow> Q a t"
  by (auto simp: runs_def)

lemma ensures_Inr: "m s = (Inr a, t) \<Longrightarrow> ensures m s Q \<longleftrightarrow> Q a t"
  by (auto simp: ensures_def)

section \<open>The combinators\<close>

lemma runs_bind [runs_simps]: "runs (bindS m f) s Q \<longleftrightarrow> runs m s (\<lambda>a t. runs (f a) t Q)"
  by (auto simp: runs_def bindS_eq_Inr)

lemma ensures_bind [runs_simps]: "ensures (bindS m f) s Q \<longleftrightarrow> ensures m s (\<lambda>a t. ensures (f a) t Q)"
  by (auto simp: ensures_def bindS_eq_Inr)

lemma runs_then [runs_simps]: "runs (thenS m n) s Q \<longleftrightarrow> runs m s (\<lambda>_ t. runs n t Q)"
  by (simp add: thenS_def runs_bind)

lemma ensures_then [runs_simps]: "ensures (thenS m n) s Q \<longleftrightarrow> ensures m s (\<lambda>_ t. ensures n t Q)"
  by (simp add: thenS_def ensures_bind)

lemma runs_prims [runs_simps]:
  "runs (returnS a) s Q0 \<longleftrightarrow> Q0 a s" "runs (raiseS e) s Q1 \<longleftrightarrow> False"
  "runs (getsS g) s Q2 \<longleftrightarrow> Q2 (g s) s" "runs (modifyS u) s Q3 \<longleftrightarrow> Q3 () (u s)"
  "runs (guardS b e) s Q4 \<longleftrightarrow> b \<and> Q4 () s"
  by (auto simp: runs_def guardS_eq)

lemma ensures_prims [runs_simps]:
  "ensures (returnS a) s Q0 \<longleftrightarrow> Q0 a s" "ensures (raiseS e) s Q1 \<longleftrightarrow> True"
  "ensures (getsS g) s Q2 \<longleftrightarrow> Q2 (g s) s" "ensures (modifyS u) s Q3 \<longleftrightarrow> Q3 () (u s)"
  "ensures (guardS b e) s Q4 \<longleftrightarrow> (b \<longrightarrow> Q4 () s)"
  by (auto simp: ensures_def guardS_eq)

lemma runs_when [runs_simps]: "runs (whenS b m) s Q \<longleftrightarrow> (if b then runs m s Q else Q () s)"
  by (simp add: whenS_def runs_prims)

lemma ensures_when [runs_simps]: "ensures (whenS b m) s Q \<longleftrightarrow> (if b then ensures m s Q else Q () s)"
  by (simp add: whenS_def ensures_prims)

lemma runs_lift [runs_simps]: "runs (liftS r) s Q \<longleftrightarrow> (\<exists>a. r = Inr a \<and> Q a s)"
  by (auto simp: runs_def liftS_eq_Inr)

lemma ensures_lift [runs_simps]: "ensures (liftS r) s Q \<longleftrightarrow> (\<forall>a. r = Inr a \<longrightarrow> Q a s)"
  by (auto simp: ensures_def liftS_eq_Inr)

lemma runs_catch [runs_simps]:
  "runs (catchS m h) s Q \<longleftrightarrow> runs m s Q \<or> (\<exists>e t. m s = (Inl e, t) \<and> runs (h e) t Q)"
  by (cases "m s" rule: prod.exhaust; cases "fst (m s)") (auto simp: runs_def catchS_def)

lemma ensures_catch [runs_simps]:
  "ensures (catchS m h) s Q \<longleftrightarrow> ensures m s Q \<and> (\<forall>e t. m s = (Inl e, t) \<longrightarrow> ensures (h e) t Q)"
  by (cases "m s" rule: prod.exhaust; cases "fst (m s)") (auto simp: ensures_def catchS_def)

lemma runs_atomic [runs_simps]: "runs (atomic m) s Q \<longleftrightarrow> runs m s Q"
  by (auto simp: runs_def atomic_def split: prod.splits sum.splits)

lemma ensures_atomic [runs_simps]: "ensures (atomic m) s Q \<longleftrightarrow> ensures m s Q"
  by (auto simp: ensures_def atomic_def split: prod.splits sum.splits)

lemma runs_mapS [runs_simps]:
  "runs (mapS f []) s Q \<longleftrightarrow> Q [] s"
  "runs (mapS f (x # xs)) s Q \<longleftrightarrow> runs (f x) s (\<lambda>y t. runs (mapS f xs) t (\<lambda>ys u. Q (y # ys) u))"
  by (simp_all add: runs_simps)

lemma ensures_mapS [runs_simps]:
  "ensures (mapS f []) s Q \<longleftrightarrow> Q [] s"
  "ensures (mapS f (x # xs)) s Q \<longleftrightarrow> ensures (f x) s (\<lambda>y t. ensures (mapS f xs) t (\<lambda>ys u. Q (y # ys) u))"
  by (simp_all add: runs_simps)

section \<open>The statements of the database\<close>

lemma runs_db [runs_simps]:
  "runs (loadS g0 k) s Q0 \<longleftrightarrow> (\<exists>r0. tget (g0 s) k = Some r0 \<and> Q0 r0 s)"
  "runs (updS u1 k f) s Q1 \<longleftrightarrow> Q1 () (u1 (tupd k f) s)"
  "runs (insS u2 r2) s Q2 \<longleftrightarrow> Q2 (db_next s) (u2 (tadd (db_next s) r2) (s\<lparr>db_next := Suc (db_next s)\<rparr>))"
  "runs (uniqueS g3 P) s Q3 \<longleftrightarrow> \<not> texists P (g3 s) \<and> Q3 () s"
  "runs (checkS b) s Q4 \<longleftrightarrow> b \<and> Q4 () s"
  by (auto simp: runs_def loadS_def updS_def insS_def uniqueS_def checkS_def guardS_eq bindS_def
      split: option.splits)

lemma ensures_db [runs_simps]:
  "ensures (loadS g0 k) s Q0 \<longleftrightarrow> (\<forall>r0. tget (g0 s) k = Some r0 \<longrightarrow> Q0 r0 s)"
  "ensures (updS u1 k f) s Q1 \<longleftrightarrow> Q1 () (u1 (tupd k f) s)"
  "ensures (insS u2 r2) s Q2 \<longleftrightarrow> Q2 (db_next s) (u2 (tadd (db_next s) r2) (s\<lparr>db_next := Suc (db_next s)\<rparr>))"
  "ensures (uniqueS g3 P) s Q3 \<longleftrightarrow> (\<not> texists P (g3 s) \<longrightarrow> Q3 () s)"
  "ensures (checkS b) s Q4 \<longleftrightarrow> (b \<longrightarrow> Q4 () s)"
  by (auto simp: ensures_def loadS_def updS_def insS_def uniqueS_def checkS_def guardS_eq bindS_def
      split: option.splits)

text \<open>An operation that keeps a table, whatever it returns.\<close>

definition leaves :: "('s \<Rightarrow> 'x) \<Rightarrow> 's \<Rightarrow> 's \<Rightarrow> bool" where
  "leaves g s t \<longleftrightarrow> g t = g s"

interpretation leave: step_rel "leaves g" for g
  by unfold_locales (simp_all add: leaves_def)

lemmas leaves_intros = leave.resp_return leave.resp_raise leave.resp_gets leave.resp_lift leave.resp_guard
  leave.resp_bind leave.resp_then leave.resp_catch leave.resp_when leave.resp_if leave.resp_option
  leave.resp_sum leave.resp_prod leave.resp_map leave.resp_atomic resp_modify

lemma resp_leavesD: "resp (leaves g) m \<Longrightarrow> m s = (r, t) \<Longrightarrow> g t = g s"
  using respD [of "leaves g" m s r t] by (simp add: leaves_def)

lemma leaves_db:
  "resp (leaves g) (loadS sel k)" "resp (leaves g) (uniqueS sel P)" "resp (leaves g) (checkS b)"
  "(\<And>s. g (up (tupd k f) s) = g s) \<Longrightarrow> resp (leaves g) (updS up k f)"
  "(\<And>s. g (up (tadd (db_next s) r) (s\<lparr>db_next := Suc (db_next s)\<rparr>)) = g s) \<Longrightarrow> resp (leaves g) (insS up r)"
  by (auto simp: resp_def leaves_def loadS_def updS_def insS_def uniqueS_def checkS_def guardS_eq bindS_def
      split: option.splits)

lemma runs_leaves: "runs m s Q \<Longrightarrow> resp (leaves g) m \<Longrightarrow> runs m s (\<lambda>a t. Q a t \<and> g t = g s)"
  by (auto simp: runs_def leaves_def resp_def) (metis snd_conv)

end
