(* ===== verification/Crediting.thy ===== *)
theory Crediting
  imports Scenario Runs
begin

text \<open>
  What one verification pass (\<^verbatim>\<open>PaymentService.verify\<close>) does to the payment it is about: only a transfer
  that passed every check and was claimed for this intent credits it, a transfer that belongs to another
  intent never does, and a matching unclaimed transfer always does.
\<close>

section \<open>The result of a pass\<close>

lemma mark_verified_newly: "ensures (mark_verified env i tr) s (\<lambda>b t. True)"
  by (simp add: ensures_def)

lemma settle_newly: "ensures (settle env i oc tr) s (\<lambda>(newly, _) t. newly \<longrightarrow> oc = VerificationOutcome.VERIFIED)"
  by (simp add: settle_def Let_def runs_simps if_distribR cong: if_cong) (simp add: ensures_def)

lemma record_outcome_result:
  "ensures (record_outcome env i att d tr) s (\<lambda>res t. vr_outcome res = dec_outcome d \<and> vr_decision res = d
     \<and> vr_transaction res = tr \<and> (vr_newly_verified res \<longrightarrow> dec_outcome d = VerificationOutcome.VERIFIED))"
proof -
  have "ensures (settle env i (dec_outcome d) tr) u (\<lambda>(newly, review, retry) t. newly \<longrightarrow>
      dec_outcome d = VerificationOutcome.VERIFIED)" for u
    using settle_newly [of env i "dec_outcome d" tr u] by (simp add: case_prod_unfold)
  then show ?thesis
    unfolding record_outcome_def Let_def
    by (auto simp: ensures_def bindS_eq_Inr thenS_eq_Inr returnS_def) blast+
qed

lemma decide_picks:
  assumes "decide env e ref txs = Inr (Some t, d)"
  shows "t \<in> set txs \<and> verify_transaction (set_underpayment_tolerance env) (set_overpayment_tolerance env)
     (seconds (set_late_payment_grace_seconds env)) e t = Inr d"
proof (cases "truthy_str ref \<and> length txs = 1")
  case True
  then obtain x where "txs = [x]" by (auto simp: length_Suc_conv)
  with True assms show ?thesis by (auto simp: decide_def Let_def split: sum.splits)
next
  case False
  with assms show ?thesis using select_best_candidate_best_parts(1) by (fastforce simp: decide_def Let_def)
qed

lemma claim_row:
  assumes "claim env i t s = (Inr (True, dup), u)"
  shows "\<exists>k c. (k, c) \<in> set (payment_consumptions u) \<and> pc_payment_intent_id c = i
     \<and> pc_fingerprint c = transaction_fingerprint (env_sha256 env) (tx_provider t) (tx_network t)
          (tx_external_id t) (tx_log_index t)"
proof -
  obtain r am c cl where cc: "claim_consumption (consumption_of env i r am t) s = (Inr (c, cl), u)"
    and ans: "claim_answer i (c, cl) = (True, dup)"
    by (rule claim_cases [OF assms])
  show ?thesis
  proof (cases cl)
    case True
    with cc claim_consumption_True [of "consumption_of env i r am t" s c u] show ?thesis
      by (intro exI [of _ "fst (the c)"] exI [of _ "consumption_of env i r am t"]) auto
  next
    case False
    with ans obtain k x where c: "c = Some (k, x)" "pc_payment_intent_id x = i"
      by (cases c) (auto split: if_splits)
    from False cc claim_consumption_False [of "consumption_of env i r am t" s c u] c(1)
    have "consumption_by_fingerprint (pc_fingerprint (consumption_of env i r am t)) s = Some (k, x)" "u = s"
      by auto
    from consumption_by_fingerprint_in [OF this(1)] this(2) c(2) show ?thesis
      by (intro exI [of _ k] exI [of _ x]) simp
  qed
qed

text \<open>A pass over an unverified intent, up to the answer of the adapter.\<close>

lemma verify_fetches:
  assumes "verify env i s = (Inr res, t)" and "tget (payment_intents s) i = Some r"
    and "i_status r \<noteq> PaymentStatus.VERIFIED" and "iteration_order (env_succ env)"
  obtains u att k m p ref where "step X s u"
    "\<exists>r'. tget (payment_intents u) i = Some r' \<and> i_status r' \<noteq> PaymentStatus.VERIFIED"
    "after_fetch env i att k (expectation i r) ref (env_fetch env p m (expectation i r) ref) u = (Inr res, t)"
proof -
  define ref where "ref = (case latest_attempt i s of None \<Rightarrow> None | Some (_, a) \<Rightarrow> a_submitted_txid a)"
  let ?start = "whenS (i_status r = PaymentStatus.SUBMITTED \<or> i_status r = PaymentStatus.AWAITING_PAYMENT)
     (pay_transition i PaymentStatus.DETECTING)"
  have "runs (verify env i) s (\<lambda>x y. x = res \<and> y = t)" using assms(1) by (simp add: runs_def)
  then have "runs ?start s (\<lambda>_ u. \<exists>m p. runs (after_fetch env i (map_option fst (latest_attempt i s))
      (pm_provider_id m) (expectation i r) ref (env_fetch env p m (expectation i r) ref)) u (\<lambda>x y. x = res \<and> y = t))"
    by (auto simp: verify_def Let_def runs_simps assms(2,3) ref_def simp del: runs_when elim!: runs_mono)
  then obtain x u m p where w: "?start s = (Inr x, u)"
    and a: "after_fetch env i (map_option fst (latest_attempt i s)) (pm_provider_id m) (expectation i r) ref
       (env_fetch env p m (expectation i r) ref) u = (Inr res, t)"
    by (auto simp: runs_def)
  have "resp (step X) ?start" by (intro resp_intros) simp
  note u = respD [OF this w]
  have "\<exists>r'. tget (payment_intents u) i = Some r' \<and> i_status r' \<noteq> PaymentStatus.VERIFIED"
    using w assms(2,3) by (auto simp: whenS_def pay_transition_cases split: if_splits option.splits sum.splits)
  from u this a show ?thesis by (rule that)
qed

lemma leaves_settled:
  "resp (leaves payment_consumptions) (record_outcome env i att d tr)"
  unfolding record_outcome_def settle_def mark_verified_def credit_order_def to_review_def expire_intent_def
    raise_reconciliation_def record_reconciliation_def record_ledger_def insert_ledger_entry_def
    transition_def advance_def pay_transition_def schedule_next_poll_def Let_def
  by (intro leaves_intros leaves_db) simp_all

text \<open>A verified outcome comes from a transfer that was chosen, verified and claimed.\<close>

lemma conclude_cases:
  assumes "conclude env i att tr d s = (Inr res, t)"
  obtains v where "\<not> (dec_outcome d = VerificationOutcome.VERIFIED \<and> tr \<noteq> None)"
      "record_outcome env i att d tr v = (Inr res, t)"
  | tx y b dup w where "dec_outcome d = VerificationOutcome.VERIFIED" "tr = Some tx"
      "claim env i tx y = (Inr (b, dup), w)"
      "record_outcome env i att (if b then d else duplicate_decision d) (Some tx) w = (Inr res, t)"
proof (cases "dec_outcome d = VerificationOutcome.VERIFIED \<and> tr \<noteq> None")
  case True
  then obtain tx where "tr = Some tx" by blast
  with True assms that(2) show ?thesis by (auto simp: conclude_def svc_elims)
next
  case False
  then have "\<exists>v. record_outcome env i att d tr v = (Inr res, t)" using assms unfolding conclude_def
    by (cases "dec_outcome d"; cases tr) (auto simp: thenS_eq_Inr)
  with False that(1) show ?thesis by blast
qed

lemma conclude_outcome:
  "conclude env i att tr d s = (Inr res, t) \<Longrightarrow> \<exists>d tr v. record_outcome env i att d tr v = (Inr res, t)"
  by (erule conclude_cases) blast+

lemma after_fetch_outcome:
  "after_fetch env i att k e ref ans u = (Inr res, t) \<Longrightarrow>
   \<exists>d tr v. record_outcome env i att d tr v = (Inr res, t)"
  unfolding after_fetch_def
  by (auto simp: svc_elims dest!: conclude_outcome split: sum.splits if_splits)

lemma after_fetch_newly:
  assumes "after_fetch env i att k e ref ans u = (Inr res, t)" and "vr_newly_verified res"
  shows "vr_outcome res = VerificationOutcome.VERIFIED"
  using after_fetch_outcome [OF assms(1)] ensuresD [OF record_outcome_result] assms(2) by metis

lemma after_fetch_verified:
  assumes "after_fetch env i att k e ref ans u = (Inr res, t)"
    and "vr_outcome res = VerificationOutcome.VERIFIED"
  obtains txs tx d dup v w where "ans = Inr txs" "tx \<in> set txs"
    "verify_transaction (set_underpayment_tolerance env) (set_overpayment_tolerance env)
       (seconds (set_late_payment_grace_seconds env)) e tx = Inr d" "is_verified d"
    "claim env i tx v = (Inr (True, dup), w)" "record_outcome env i att d (Some tx) w = (Inr res, t)"
    "vr_transaction res = Some tx"
proof -
  note result = ensuresD [OF record_outcome_result]
  have no: "vr_outcome res \<noteq> VerificationOutcome.VERIFIED" if "record_outcome env i att (rejected oc cs) tr v = (Inr res, t)"
    "oc \<noteq> VerificationOutcome.VERIFIED" for oc cs tr v
    using result [OF that(1)] that(2) by simp
  show ?thesis
  proof (cases ans)
    case (Inl err)
    with assms no show ?thesis
      by (auto simp: after_fetch_def thenS_eq_Inr split: if_splits)
  next
    case (Inr txs)
    with assms(1) obtain v tr d where d: "decide env e ref txs = Inr (tr, d)"
      and c: "conclude env i att tr d v = (Inr res, t)"
      by (auto simp: after_fetch_def svc_elims)
    from c obtain tx y b dup w where v: "dec_outcome d = VerificationOutcome.VERIFIED"
      and tx: "tr = Some tx" and cl: "claim env i tx y = (Inr (b, dup), w)"
      and r: "record_outcome env i att (if b then d else duplicate_decision d) (Some tx) w = (Inr res, t)"
    proof (cases rule: conclude_cases)
      case (1 v)
      then have "dec_outcome d = VerificationOutcome.VERIFIED" using result [OF 1(2)] assms(2) by simp
      with 1(1) decide_None [of env e ref txs d] d show ?thesis by auto
    qed (use that in blast)
    have b: "b" using result [OF r] assms(2) by (auto simp: duplicate_decision_def split: if_splits)
    show ?thesis
      using that [OF Inr, of tx d y dup w] decide_picks [of env e ref txs tx d] d cl r v b tx result [OF r]
      by (simp add: is_verified_def)
  qed
qed

lemma newly_verified_transfer:
  assumes "reachable s" and "iteration_order (env_succ env)"
    and "tget (payment_intents s) i = Some r" and "i_status r \<noteq> PaymentStatus.VERIFIED"
    and "verify env i s = (Inr res, t)" and "vr_newly_verified res"
  shows "\<exists>provider method reference txs tx d k c.
     env_fetch env provider method (expectation i r) reference = Inr txs \<and> tx \<in> set txs
     \<and> verify_transaction (set_underpayment_tolerance env) (set_overpayment_tolerance env)
         (seconds (set_late_payment_grace_seconds env)) (expectation i r) tx = Inr d \<and> is_verified d
     \<and> (k, c) \<in> set (payment_consumptions t) \<and> pc_payment_intent_id c = i
     \<and> pc_fingerprint c = transaction_fingerprint (env_sha256 env) (tx_provider tx) (tx_network tx)
         (tx_external_id tx) (tx_log_index tx)"
proof -
  obtain u att k m p ref where a:
    "after_fetch env i att k (expectation i r) ref (env_fetch env p m (expectation i r) ref) u = (Inr res, t)"
    by (rule verify_fetches [OF assms(5,3,4,2)])
  obtain txs tx d dup v w where b: "env_fetch env p m (expectation i r) ref = Inr txs" "tx \<in> set txs"
    "verify_transaction (set_underpayment_tolerance env) (set_overpayment_tolerance env)
       (seconds (set_late_payment_grace_seconds env)) (expectation i r) tx = Inr d" "is_verified d"
    "claim env i tx v = (Inr (True, dup), w)" "record_outcome env i att d (Some tx) w = (Inr res, t)"
    by (rule after_fetch_verified [OF a after_fetch_newly [OF a assms(6)]])
  from claim_row [OF b(5)] obtain k' c where c: "(k', c) \<in> set (payment_consumptions w)"
    "pc_payment_intent_id c = i" "pc_fingerprint c = transaction_fingerprint (env_sha256 env)
      (tx_provider tx) (tx_network tx) (tx_external_id tx) (tx_log_index tx)" by blast
  have "resp (leaves payment_consumptions) (record_outcome env i att d (Some tx))" by (rule leaves_settled)
  then have "payment_consumptions t = payment_consumptions w" using b(6) by (rule resp_leavesD)
  with b(1-4) c show ?thesis by metis
qed

text \<open>
  C7: only a matching transfer credits a payment. When a pass reports that it verified an intent, the adapter
  returned a transfer that passed every check against the frozen expectation of that intent, and the
  books hold a consumption of exactly this transfer by exactly this intent.
\<close>

theorem credit_needs_matching_transfer:
  assumes "reachable s" and "iteration_order (env_succ env)"
    and "tget (payment_intents s) i = Some r" and "i_status r \<noteq> PaymentStatus.VERIFIED"
    and "verify env i s = (Inr res, t)" and "vr_newly_verified res"
  shows "\<exists>provider method reference txs tx d k c.
     env_fetch env provider method (expectation i r) reference = Inr txs \<and> tx \<in> set txs
     \<and> verify_transaction (set_underpayment_tolerance env) (set_overpayment_tolerance env)
         (seconds (set_late_payment_grace_seconds env)) (expectation i r) tx = Inr d \<and> is_verified d
     \<and> (k, c) \<in> set (payment_consumptions t) \<and> pc_payment_intent_id c = i
     \<and> pc_fingerprint c = transaction_fingerprint (env_sha256 env) (tx_provider tx) (tx_network tx)
         (tx_external_id tx) (tx_log_index tx)"
  using assms by (rule newly_verified_transfer)

lemma credit_witness_run:
  "\<exists>res t. verify demo_env 11 demo_open = (Inr res, t) \<and> vr_newly_verified res"
proof -
  have "case verify demo_env 11 demo_open of (Inl _, _) \<Rightarrow> False | (Inr res, _) \<Rightarrow> vr_newly_verified res"
    by code_simp
  then show ?thesis by (auto split: prod.splits sum.splits)
qed

theorem credit_needs_matching_transfer_witness:
  "\<exists>t k c. (k, c) \<in> set (payment_consumptions t) \<and> pc_payment_intent_id c = 11
     \<and> (\<exists>res. verify demo_env 11 demo_open = (Inr res, t))"
proof -
  obtain res t where v: "verify demo_env 11 demo_open = (Inr res, t)" "vr_newly_verified res"
    using credit_witness_run by blast
  have 1: "tget (payment_intents demo_open) 11 = Some (snd (hd (payment_intents demo_open)))"
    "i_status (snd (hd (payment_intents demo_open))) \<noteq> PaymentStatus.VERIFIED"
    by (simp_all add: demo_open_def tget_def)
  have 2: "iteration_order (env_succ demo_env)" by (simp add: demo_env_def listed_order_ok)
  from credit_needs_matching_transfer [OF demo_reachable(1) 2 1 v] v(1) show ?thesis by blast
qed

section \<open>A matching transfer is credited\<close>

lemma runs_pay_transition [runs_simps]:
  "runs (pay_transition i x) s Q \<longleftrightarrow> (\<exists>r. tget (payment_intents s) i = Some r
     \<and> (i_status r = x \<or> can_transition_payment (i_status r) x)
     \<and> Q () (payment_intents_update (tupd i (\<lambda>r. r\<lparr>i_status := x\<rparr>)) s))"
  by (auto simp: runs_def pay_transition_cases assert_payment_transition_def split: option.splits sum.splits if_splits)

lemma runs_transition [runs_simps]:
  "runs (transition env oid x) s Q \<longleftrightarrow> (\<exists>r. tget (orders s) oid = Some r
     \<and> (o_status r = x \<or> can_transition_order (o_status r) x)
     \<and> Q () (orders_update (tupd oid (stamp_order env x)) s))"
  by (auto simp: runs_def transition_cases assert_order_transition_def split: option.splits sum.splits if_splits)

lemma ensures_pay_transition [runs_simps]:
  "ensures (pay_transition i x) s Q \<longleftrightarrow> (\<forall>r. tget (payment_intents s) i = Some r \<longrightarrow>
     i_status r = x \<or> can_transition_payment (i_status r) x \<longrightarrow>
     Q () (payment_intents_update (tupd i (\<lambda>r. r\<lparr>i_status := x\<rparr>)) s))"
  by (auto simp: ensures_def pay_transition_cases assert_payment_transition_def split: option.splits sum.splits if_splits)

lemma ensures_transition [runs_simps]:
  "ensures (transition env oid x) s Q \<longleftrightarrow> (\<forall>r. tget (orders s) oid = Some r \<longrightarrow>
     o_status r = x \<or> can_transition_order (o_status r) x \<longrightarrow>
     Q () (orders_update (tupd oid (stamp_order env x)) s))"
  by (auto simp: ensures_def transition_cases assert_order_transition_def split: option.splits sum.splits if_splits)

lemma runs_record_ledger:
  "numeric_30_8 a = Inr st \<Longrightarrow> (\<And>x T n. ledger_has k (s\<lparr>db_next := n, ledger_entries := T\<rparr>) \<Longrightarrow>
     Q x (s\<lparr>db_next := n, ledger_entries := T\<rparr>)) \<Longrightarrow>
   runs (record_ledger env ty a c k oid i u ac) s Q"
proof -
  assume n: "numeric_30_8 a = Inr st"
    and Q: "\<And>x T n. ledger_has k (s\<lparr>db_next := n, ledger_entries := T\<rparr>) \<Longrightarrow> Q x (s\<lparr>db_next := n, ledger_entries := T\<rparr>)"
  show ?thesis
  proof (cases "ledger_has k s")
    case True
    then show ?thesis using Q [of "ledger_entries s" "db_next s" None] by (simp add: runs_def record_ledger_eq)
  next
    case False
    let ?T = "tadd (db_next s) \<lparr>l_entry_type = ty, l_amount = st, l_currency = c, l_order_id = oid,
        l_payment_intent_id = i, l_user_id = u, l_actor_id = ac, l_dedupe_key = k,
        l_created_at = env_now env\<rparr> (ledger_entries s)"
    have "Q (Some (db_next s)) (s\<lparr>db_next := Suc (db_next s), ledger_entries := ?T\<rparr>)"
      by (rule Q) (simp add: ledger_has_def texists_def)
    moreover have "record_ledger env ty a c k oid i u ac s
        = (Inr (Some (db_next s)), s\<lparr>db_next := Suc (db_next s), ledger_entries := ?T\<rparr>)"
      using False n by (cases s) (simp add: record_ledger_eq)
    ultimately show ?thesis by (intro runsI)
  qed
qed

lemma runs_advance:
  assumes "iteration_order (env_succ env)" and "tget (payment_intents s) i = Some r"
    and "\<exists>p. legal_walk (i_status r) p b"
    and "\<And>T. tget T i = Some (r\<lparr>i_status := b\<rparr>) \<Longrightarrow> Q () (s\<lparr>payment_intents := T\<rparr>)"
  shows "runs (advance env i b) s Q"
  using advance_ok [OF assms(1-3)] assms(4) by (auto simp: runs_def)

text \<open>Every open intent has a way to \<open>VERIFIED\<close>.\<close>

lemma open_can_verify: "a \<noteq> PaymentStatus.CANCELLED \<Longrightarrow> \<exists>p. legal_walk a p PaymentStatus.VERIFIED"
  using payment_path_complete_parts(3) [OF listed_order_ok, of a] payment_path_total [OF listed_order_ok] by blast

lemma runs_mark_verified:
  assumes succ: "iteration_order (env_succ env)"
    and r: "tget (payment_intents s) i = Some r" "i_status r \<noteq> PaymentStatus.VERIFIED"
      "i_status r \<noteq> PaymentStatus.CANCELLED"
    and o1: "tget (orders s) (sn_order_id (i_snap r)) = Some o1"
      "can_transition_order (o_status o1) OrderStatus.PAYMENT_VERIFIED"
    and am: "numeric_30_8 (received_or_expected
      (case tr of None \<Rightarrow> i_received_amount r | Some t \<Rightarrow> Some (tx_amount t)) r) = Inr am"
  shows "runs (mark_verified env i tr) s (\<lambda>b t. b
     \<and> (\<exists>r'. tget (payment_intents t) i = Some r' \<and> i_status r' = PaymentStatus.VERIFIED)
     \<and> (\<exists>o2. tget (orders t) (sn_order_id (i_snap r)) = Some o2 \<and> o_status o2 = OrderStatus.PAYMENT_VERIFIED)
     \<and> ledger_has (event_key ''payment_verified'' i) t)"
proof -
  have ne: "o_status o1 \<noteq> OrderStatus.PAYMENT_VERIFIED"
    using o1(2) by (cases "o_status o1") (simp_all add: can_transition_order_def)
  show ?thesis unfolding mark_verified_def
    apply (simp add: runs_simps r del: runs_pay_transition)
    apply (rule runs_advance [OF succ r(1) open_can_verify [OF r(3)]])
    apply (simp add: credit_order_def runs_simps o1 ne)
    apply (rule runs_record_ledger [OF am])
    apply (use o1(1) in \<open>auto simp: ledger_has_def\<close>)
    done
qed

definition credited :: "nat \<Rightarrow> nat \<Rightarrow> db \<Rightarrow> bool" where
  "credited i order_id t \<longleftrightarrow>
     (\<exists>r. tget (payment_intents t) i = Some r \<and> i_status r = PaymentStatus.VERIFIED)
   \<and> (\<exists>r. tget (orders t) order_id = Some r \<and> o_status r = OrderStatus.PAYMENT_VERIFIED)
   \<and> ledger_has (event_key ''payment_verified'' i) t"

definition fingerprint_of :: "env \<Rightarrow> ObservedTransaction \<Rightarrow> string" where
  "fingerprint_of env tx = transaction_fingerprint (env_sha256 env) (tx_provider tx) (tx_network tx)
     (tx_external_id tx) (tx_log_index tx)"

text \<open>The part of the state the steps before the settlement leave alone.\<close>

definition pay_view :: "db \<Rightarrow> PaymentIntent table \<times> Order table \<times> PaymentConsumption table" where
  "pay_view s = (payment_intents s, orders s, payment_consumptions s)"

lemma runs_persist:
  assumes "numeric_30_8 (tx_amount tx) = Inr am"
    and "\<And>t. pay_view t = pay_view s \<Longrightarrow> Q () t"
  shows "runs (persist_transaction tx) s Q"
proof -
  have "runs (persist_transaction tx) s (\<lambda>_ _. True)"
    unfolding persist_transaction_def upsert_provider_def upsert_blockchain_def
    by (simp add: runs_simps assms(1) split: list.split)
  moreover have "resp (leaves pay_view) (persist_transaction tx)"
    unfolding persist_transaction_def upsert_provider_def upsert_blockchain_def
    by (intro leaves_intros leaves_db resp_list) (simp_all add: pay_view_def)
  ultimately have "runs (persist_transaction tx) s (\<lambda>_ t. True \<and> pay_view t = pay_view s)" by (rule runs_leaves)
  then show ?thesis by (rule runs_mono) (use assms(2) in simp)
qed

lemma runs_claim:
  assumes "tget (payment_intents s) i = Some r" and "numeric_30_8 (tx_amount tx) = Inr am"
    and "\<not> texists (\<lambda>c. pc_fingerprint c = fingerprint_of env tx \<or> pc_payment_intent_id c = i) (payment_consumptions s)"
    and "\<And>dup t. payment_intents t = payment_intents s \<Longrightarrow> orders t = orders s \<Longrightarrow> Q (True, dup) t"
  shows "runs (claim env i tx) s Q"
  using assms
  by (auto simp: claim_def claim_consumption_def insert_consumption_def runs_simps consumption_of_def
      fingerprint_of_def texists_def)

lemma runs_record_verified:
  assumes succ: "iteration_order (env_succ env)"
    and r: "tget (payment_intents s) i = Some r" "i_status r \<noteq> PaymentStatus.VERIFIED"
      "i_status r \<noteq> PaymentStatus.CANCELLED"
    and o1: "tget (orders s) (sn_order_id (i_snap r)) = Some o1"
      "can_transition_order (o_status o1) OrderStatus.PAYMENT_VERIFIED"
    and am: "numeric_30_8 (tx_amount tx) = Inr am" "coef (tx_amount tx) \<noteq> 0"
    and d: "dec_outcome d = VerificationOutcome.VERIFIED" "dec_observed_amount d = Some (tx_amount tx)"
  shows "runs (record_outcome env i att d (Some tx)) s
    (\<lambda>res t. vr_newly_verified res \<and> credited i (sn_order_id (i_snap r)) t)"
proof -
  have rec: "numeric_30_8 (received_or_expected (Some (tx_amount tx)) r') = Inr am" for r'
    using am by (simp add: received_or_expected_def)
  have settle: "runs (settle env i VerificationOutcome.VERIFIED (Some tx)) u (\<lambda>(newly, _, retry) t. newly
      \<and> retry = None \<and> credited i (sn_order_id (i_snap r)) t)"
    if "map_option (\<lambda>x. (i_status x, i_snap x)) (tget (payment_intents u) i) = Some (i_status r, i_snap r)"
      "tget (orders u) (sn_order_id (i_snap r)) = Some o1" for u
  proof -
    from that(1) obtain r' where r': "tget (payment_intents u) i = Some r'" "i_status r' = i_status r"
      "i_snap r' = i_snap r" by auto
    from runs_mark_verified [OF succ r'(1), of o1 "Some tx" am] r' r o1 rec that(2) show ?thesis
      by (auto simp: settle_def runs_simps credited_def elim!: runs_mono)
  qed
  show ?thesis
    unfolding record_outcome_def Let_def d(1)
    apply (cases att)
     apply (simp_all add: runs_simps r am d(2) numeric_opt_def)
     apply (rule runs_mono, rule settle, simp add: r, simp add: o1, auto simp: runs_simps)+
    done
qed

lemma verified_decision:
  "verify_transaction u ov g e t = Inr d \<Longrightarrow> is_verified d \<Longrightarrow> dec_observed_amount d = Some (tx_amount t)"
  by (auto simp: verify_transaction_def Let_def is_verified_def observed_def rejected_def
      split: if_splits sum.splits)

lemma decide_single:
  assumes "verify_transaction (set_underpayment_tolerance env) (set_overpayment_tolerance env)
     (seconds (set_late_payment_grace_seconds env)) e t = Inr d" and "is_verified d"
  shows "decide env e ref [t] = Inr (Some t, d)"
  using assms by (simp add: decide_def Let_def select_best_candidate_def rank_of_def is_verified_def)

lemma runs_after_fetch_verified:
  assumes succ: "iteration_order (env_succ env)"
    and r: "tget (payment_intents s) i = Some r" "i_status r \<noteq> PaymentStatus.VERIFIED"
      "i_status r \<noteq> PaymentStatus.CANCELLED"
    and o1: "tget (orders s) (sn_order_id (i_snap r)) = Some o1"
      "can_transition_order (o_status o1) OrderStatus.PAYMENT_VERIFIED"
    and am: "numeric_30_8 (tx_amount tx) = Inr am" "coef (tx_amount tx) \<noteq> 0"
    and d: "verify_transaction (set_underpayment_tolerance env) (set_overpayment_tolerance env)
       (seconds (set_late_payment_grace_seconds env)) e tx = Inr d" "is_verified d"
    and free: "\<not> texists (\<lambda>c. pc_fingerprint c = fingerprint_of env tx \<or> pc_payment_intent_id c = i)
       (payment_consumptions s)"
  shows "runs (after_fetch env i att k e ref (Inr [tx])) s
    (\<lambda>res t. vr_newly_verified res \<and> credited i (sn_order_id (i_snap r)) t)"
proof -
  have oc: "dec_outcome d = VerificationOutcome.VERIFIED" using d(2) by (simp add: is_verified_def)
  have rest: "runs (bindS (claim env i tx) (\<lambda>(claimed, dup). record_outcome env i att
      (if claimed then d else duplicate_decision d) (Some tx))) t
      (\<lambda>res t. vr_newly_verified res \<and> credited i (sn_order_id (i_snap r)) t)"
    if t: "pay_view t = pay_view s" for t
  proof -
    from t have eq: "payment_intents t = payment_intents s" "orders t = orders s"
      "payment_consumptions t = payment_consumptions s" by (simp_all add: pay_view_def)
    show ?thesis unfolding runs_bind
    proof (rule runs_claim)
      show "tget (payment_intents t) i = Some r" "numeric_30_8 (tx_amount tx) = Inr am" using eq r am by simp_all
      show "\<not> texists (\<lambda>c. pc_fingerprint c = fingerprint_of env tx \<or> pc_payment_intent_id c = i)
        (payment_consumptions t)" using eq free by simp
      fix dup and u :: db assume "payment_intents u = payment_intents t" "orders u = orders t"
      with eq r o1 show "runs (case (True, dup) of (claimed, dup) \<Rightarrow> record_outcome env i att
          (if claimed then d else duplicate_decision d) (Some tx)) u
          (\<lambda>res t. vr_newly_verified res \<and> credited i (sn_order_id (i_snap r)) t)"
        using runs_record_verified [OF succ, of u i r o1 tx am d att] am oc verified_decision [OF d] by simp
    qed
  qed
  show ?thesis
    apply (simp add: after_fetch_def record_health_def runs_simps decide_single [OF d] conclude_def oc del: runs_bind)
    apply (rule runs_persist [OF am(1)])
    apply (rule rest)
    apply (simp add: pay_view_def)
    done
qed

text \<open>
  C8: a matching payment is credited. If the provider shows exactly one transfer, the engine accepts it for an
  open intent, nothing has consumed it and the order can still be paid, the next pass returns, reports
  the intent newly verified, and leaves it VERIFIED with its order PAYMENT_VERIFIED and the money journalled.
\<close>

theorem matching_transfer_is_credited:
  assumes "iteration_order (env_succ env)"
    and "tget (payment_intents s) i = Some r" and "payment_is_open (i_status r)"
    and "tget (orders s) (sn_order_id (i_snap r)) = Some o1"
    and "can_transition_order (o_status o1) OrderStatus.PAYMENT_VERIFIED"
    and "tget (payment_methods s) (sn_payment_method_id (i_snap r)) = Some m"
    and "tget (payment_providers s) (pm_provider_id m) = Some p"
    and "env_fetch env p m (expectation i r)
           (case latest_attempt i s of None \<Rightarrow> None | Some (_, a) \<Rightarrow> a_submitted_txid a) = Inr [tx]"
    and "verify_transaction (set_underpayment_tolerance env) (set_overpayment_tolerance env)
           (seconds (set_late_payment_grace_seconds env)) (expectation i r) tx = Inr d" and "is_verified d"
    and "numeric_30_8 (tx_amount tx) = Inr am" and "coef (tx_amount tx) \<noteq> 0"
    and "\<not> texists (\<lambda>c. pc_fingerprint c = fingerprint_of env tx \<or> pc_payment_intent_id c = i)
           (payment_consumptions s)"
  shows "\<exists>res t. verify env i s = (Inr res, t) \<and> vr_newly_verified res \<and> credited i (sn_order_id (i_snap r)) t"
proof -
  have st: "i_status r \<noteq> PaymentStatus.VERIFIED" "i_status r \<noteq> PaymentStatus.CANCELLED"
    using assms(3) by (auto simp: payment_is_open_def)
  have start: "can_transition_payment (i_status r) PaymentStatus.DETECTING"
    if "i_status r = PaymentStatus.SUBMITTED \<or> i_status r = PaymentStatus.AWAITING_PAYMENT"
    using that by (auto simp: can_transition_payment_def)
  have fetched: "runs (after_fetch env i att k (expectation i r) ref (Inr [tx])) t
      (\<lambda>res t. vr_newly_verified res \<and> credited i (sn_order_id (i_snap r)) t)"
    if "tget (payment_intents t) i = Some r'" "i_snap r' = i_snap r" "i_status r' \<noteq> PaymentStatus.VERIFIED"
      "i_status r' \<noteq> PaymentStatus.CANCELLED" "orders t = orders s" "payment_consumptions t = payment_consumptions s"
    for att k ref t r'
    using runs_after_fetch_verified [OF assms(1) that(1,3,4), of o1 tx am "expectation i r" d att k ref] assms that
    by simp
  have "runs (verify env i) s (\<lambda>res t. vr_newly_verified res \<and> credited i (sn_order_id (i_snap r)) t)"
    using assms(2,6-8) st start
    by (auto simp: verify_def Let_def runs_simps intro!: fetched)
  then show ?thesis by (simp add: runs_def)
qed

theorem matching_transfer_is_credited_witness:
  "\<exists>res t. verify demo_env 11 demo_open = (Inr res, t) \<and> vr_newly_verified res \<and> credited 11 7 t"
proof -
  let ?r = "snd (hd (payment_intents demo_open))" and ?o = "snd (hd (orders demo_open))"
  have r: "tget (payment_intents demo_open) 11 = Some ?r" "payment_is_open (i_status ?r)" "sn_order_id (i_snap ?r) = 7"
    "tget (orders demo_open) (sn_order_id (i_snap ?r)) = Some ?o"
    "can_transition_order (o_status ?o) OrderStatus.PAYMENT_VERIFIED"
    by (simp_all add: demo_open_def tget_def payment_is_open_def can_transition_order_def)
  have m: "tget (payment_methods demo_open) (sn_payment_method_id (i_snap ?r)) = Some demo_method"
    "tget (payment_providers demo_open) (pm_provider_id demo_method) = Some (snd (hd (payment_providers demo_open)))"
    by (simp_all add: demo_open_def tget_def demo_method_def)
  have "case verify_transaction (set_underpayment_tolerance demo_env) (set_overpayment_tolerance demo_env)
      (seconds (set_late_payment_grace_seconds demo_env)) (expectation 11 ?r) demo_transfer of
      Inl _ \<Rightarrow> False | Inr d \<Rightarrow> is_verified d" by code_simp
  then obtain d where d: "verify_transaction (set_underpayment_tolerance demo_env) (set_overpayment_tolerance demo_env)
      (seconds (set_late_payment_grace_seconds demo_env)) (expectation 11 ?r) demo_transfer = Inr d" "is_verified d"
    by (auto split: sum.splits)
  have "case numeric_30_8 (tx_amount demo_transfer) of Inl _ \<Rightarrow> False | Inr _ \<Rightarrow> True" by code_simp
  then obtain am where am: "numeric_30_8 (tx_amount demo_transfer) = Inr am" by (auto split: sum.splits)
  have c: "coef (tx_amount demo_transfer) \<noteq> 0" by code_simp
  have f: "\<not> texists (\<lambda>c. pc_fingerprint c = fingerprint_of demo_env demo_transfer \<or> pc_payment_intent_id c = 11)
      (payment_consumptions demo_open)" by (simp add: demo_open_def texists_def)
  have "iteration_order (env_succ demo_env)" by (simp add: demo_env_def listed_order_ok)
  from matching_transfer_is_credited [OF this r(1,2,4,5) m _ d am c f] r(3) show ?thesis
    by (simp add: demo_env_def)
qed

section \<open>A transfer of another payment\<close>

lemma ensures_advance:
  assumes "iteration_order (env_succ env)"
    and "\<And>r T. tget (payment_intents s) i = Some r \<Longrightarrow> tget T i = Some (r\<lparr>i_status := b\<rparr>) \<Longrightarrow>
      Q () (s\<lparr>payment_intents := T\<rparr>)"
  shows "ensures (advance env i b) s Q"
proof (rule ensuresI)
  fix a t assume "advance env i b s = (Inr a, t)"
  then show "Q a t" using advance_Inr [OF assms(1), of i b s t] assms(2) by auto
qed

definition unverified :: "nat \<Rightarrow> db \<Rightarrow> bool" where
  "unverified i s \<longleftrightarrow> (\<exists>r. tget (payment_intents s) i = Some r \<and> i_status r \<noteq> PaymentStatus.VERIFIED)"

lemma unverified_leaves: "resp (leaves payment_intents) m \<Longrightarrow> unverified i s \<Longrightarrow> ensures m s (\<lambda>_ t. unverified i t)"
  by (rule ensuresI) (auto dest: resp_leavesD simp: unverified_def)

lemma unverified_advance:
  "iteration_order (env_succ env) \<Longrightarrow> b \<noteq> PaymentStatus.VERIFIED \<Longrightarrow>
   ensures (advance env i b) s (\<lambda>_ t. unverified i t)"
  by (rule ensures_advance) (simp_all add: unverified_def)

lemma leaves_order_moves:
  "resp (leaves payment_intents) (transition env oid target)"
  "resp (leaves payment_intents) (raise_reconciliation i oc tr)"
  unfolding transition_def raise_reconciliation_def record_reconciliation_def Let_def
  by (intro leaves_intros leaves_db; simp)+

lemma unverified_to_review:
  assumes "iteration_order (env_succ env)"
  shows "ensures (to_review env i) s (\<lambda>_ t. unverified i t)"
proof -
  let ?rest = "bindS (loadS payment_intents i) (\<lambda>r.
     bindS (getsS (\<lambda>s. tget (orders s) (sn_order_id (i_snap r)))) (\<lambda>order.
     case order of None \<Rightarrow> returnS ()
     | Some o1 \<Rightarrow>
         whenS (\<not> order_is_paid (o_status o1) \<and> \<not> order_is_terminal (o_status o1))
           (catchS (transition env (sn_order_id (i_snap r)) OrderStatus.MANUAL_REVIEW) (\<lambda>_. returnS ()))))"
  have "resp (leaves payment_intents) ?rest" by (intro leaves_intros leaves_db leaves_order_moves)
  then have "ensures ?rest t (\<lambda>_ u. unverified i u)" if "unverified i t" for t
    using that by (rule unverified_leaves)
  with unverified_advance [OF assms, of PaymentStatus.UNDER_REVIEW i s] show ?thesis
    unfolding to_review_def by (simp only: ensures_then) (auto elim: ensures_mono)
qed

lemma unverified_settle:
  assumes "iteration_order (env_succ env)" and "oc \<noteq> VerificationOutcome.VERIFIED" and "unverified i s"
  shows "ensures (settle env i oc tr) s (\<lambda>_ t. unverified i t)"
proof -
  note adv = unverified_advance [OF assms(1)] unverified_to_review [OF assms(1)]
  have rec: "ensures (raise_reconciliation i oc tr) t (\<lambda>_ u. unverified i u)" if "unverified i t" for t
    using that by (intro unverified_leaves leaves_order_moves)
  have det: "ensures (pay_transition i PaymentStatus.DETECTING) s (\<lambda>_ t. unverified i t)"
    by (rule ensuresI) (auto simp: pay_transition_cases unverified_def split: option.splits sum.splits)
  show ?thesis
    unfolding settle_def Let_def if_not_P [OF assms(2)]
    by (auto simp: runs_simps expire_intent_def assms(3) simp del: ensures_pay_transition intro!: ensures_mono [OF adv(1)] ensures_mono [OF adv(2)]
        ensures_mono [OF det] rec)
qed

lemma unverified_record_outcome:
  assumes "iteration_order (env_succ env)" and "dec_outcome d \<noteq> VerificationOutcome.VERIFIED"
    and "unverified i s"
  shows "ensures (record_outcome env i att d tr) s (\<lambda>_ t. unverified i t)"
  unfolding record_outcome_def Let_def
  using assms(3)
  by (cases att; cases tr)
    (auto simp: runs_simps schedule_next_poll_def unverified_def split: option.split
      intro!: ensures_mono [OF unverified_settle [OF assms(1,2), unfolded unverified_def]])

lemma unverified_outcome:
  assumes "iteration_order (env_succ env)" and "unverified i s"
  shows "ensures (record_outcome env i att d tr) s
    (\<lambda>res t. vr_outcome res \<noteq> VerificationOutcome.VERIFIED \<longrightarrow> unverified i t)"
proof (rule ensuresI, rule impI)
  fix res t assume r: "record_outcome env i att d tr s = (Inr res, t)" "vr_outcome res \<noteq> VerificationOutcome.VERIFIED"
  then have "dec_outcome d \<noteq> VerificationOutcome.VERIFIED" using ensuresD [OF record_outcome_result r(1)] by simp
  from ensuresD [OF unverified_record_outcome [OF assms(1) this assms(2)] r(1)] show "unverified i t" .
qed

lemma unverified_conclude:
  assumes "iteration_order (env_succ env)" and "unverified i s"
  shows "ensures (conclude env i att tr d) s
    (\<lambda>res t. vr_outcome res \<noteq> VerificationOutcome.VERIFIED \<longrightarrow> unverified i t)"
proof -
  have persist: "ensures (case tr of None \<Rightarrow> returnS () | Some t \<Rightarrow> persist_transaction t) s (\<lambda>_ t. unverified i t)"
    unfolding persist_transaction_def upsert_provider_def upsert_blockchain_def
    by (rule unverified_leaves [OF _ assms(2)]) (intro leaves_intros leaves_db resp_list, simp_all)
  have claim: "ensures (claim env i tx) t (\<lambda>_ u. unverified i u)" if "unverified i t" for t tx
    unfolding claim_def claim_consumption_def insert_consumption_def
    by (rule unverified_leaves [OF _ that]) (intro leaves_intros leaves_db, simp_all)
  show ?thesis unfolding conclude_def ensures_then
  proof (rule ensures_mono [OF persist])
    fix a t assume t: "unverified i t"
    show "ensures (case (dec_outcome d, tr) of
       (VerificationOutcome.VERIFIED, Some t) \<Rightarrow>
         bindS (claim env i t) (\<lambda>(claimed, duplicate_of).
         record_outcome env i att (if claimed then d else duplicate_decision d) (Some t))
     | _ \<Rightarrow> record_outcome env i att d tr) t
      (\<lambda>res t. vr_outcome res \<noteq> VerificationOutcome.VERIFIED \<longrightarrow> unverified i t)"
      by (cases "dec_outcome d"; cases tr)
        (auto simp: ensures_bind t intro!: unverified_outcome [OF assms(1)] ensures_mono [OF claim])
  qed
qed

lemma unverified_after_fetch:
  assumes "iteration_order (env_succ env)" and "unverified i s"
  shows "ensures (after_fetch env i att k e ref ans) s
    (\<lambda>res t. vr_outcome res \<noteq> VerificationOutcome.VERIFIED \<longrightarrow> unverified i t)"
  using assms(2) unfolding after_fetch_def record_health_def
  by (cases ans) (auto simp: runs_simps unverified_def simp del: ensures_when
    intro!: unverified_outcome [OF assms(1), unfolded unverified_def]
      unverified_conclude [OF assms(1), unfolded unverified_def])

text \<open>
  C9: a transfer that pays one intent never pays another. If the transfer that a pass settles on has been
  consumed by a different intent, the pass does not report a verified outcome and the intent is not verified
  after it.
\<close>

theorem consumed_transfer_never_credits:
  assumes "reachable s" and "iteration_order (env_succ env)"
    and "tget (payment_intents s) i = Some r" and "i_status r \<noteq> PaymentStatus.VERIFIED"
    and "(k, c) \<in> set (payment_consumptions s)" and "pc_payment_intent_id c \<noteq> i"
    and "verify env i s = (Inr res, t)" and "vr_transaction res = Some tx"
    and "pc_fingerprint c = fingerprint_of env tx"
  shows "vr_outcome res \<noteq> VerificationOutcome.VERIFIED \<and> unverified i t"
proof -
  obtain u att m p pid ref where u: "step UNIV s u" and
    u': "\<exists>r'. tget (payment_intents u) i = Some r' \<and> i_status r' \<noteq> PaymentStatus.VERIFIED" and
    a: "after_fetch env i att pid (expectation i r) ref (env_fetch env p m (expectation i r) ref) u = (Inr res, t)"
    by (rule verify_fetches [OF assms(7,3,4,2)])
  have "step UNIV s t" using respD [OF resp_verify [OF assms(2)] assms(7)] .
  with reachable_ok [OF assms(1)] have t: "db_ok UNIV t" "evolves s t" by (simp_all add: step_def)
  have out: "vr_outcome res \<noteq> VerificationOutcome.VERIFIED"
  proof
    assume v: "vr_outcome res = VerificationOutcome.VERIFIED"
    obtain txs tx' d dup v' w where b: "claim env i tx' v' = (Inr (True, dup), w)"
      "record_outcome env i att d (Some tx') w = (Inr res, t)" "vr_transaction res = Some tx'"
      by (rule after_fetch_verified [OF a v])
    from claim_row [OF b(1)] assms(8) b(3) obtain k' c' where c': "(k', c') \<in> set (payment_consumptions w)"
      "pc_payment_intent_id c' = i" "pc_fingerprint c' = fingerprint_of env tx"
      by (auto simp: fingerprint_of_def)
    have "payment_consumptions t = payment_consumptions w" using leaves_settled b(2) by (rule resp_leavesD)
    with c' have "(k', c') \<in> set (payment_consumptions t)" by simp
    moreover have "(k, c) \<in> set (payment_consumptions t)"
      using t(2) assms(5) by (auto simp: evolves_def prefix_def)
    moreover have "uniq pc_fingerprint (payment_consumptions t)"
      using t(1) by (simp add: db_ok_def constraints_ok_def)
    ultimately have "(k, c) = (k', c')" using uniqD assms(9) c'(3) by fastforce
    with assms(6) c'(2) show False by simp
  qed
  have "unverified i u" using u' by (simp add: unverified_def)
  from ensuresD [OF unverified_after_fetch [OF assms(2) this] a] out show ?thesis by blast
qed

text \<open>A second sale of the same amount, for which the provider shows the transfer of the first.\<close>

definition second_sale :: db where
  "second_sale = run_all demo_env [ConfirmOrder 0 3 1 None, SelectMethod 18 ''usdt'', ClaimPaid 18 None] demo_paid"

lemma second_sale_facts:
  "case tget (payment_intents second_sale) 22 of None \<Rightarrow> False | Some r \<Rightarrow> i_status r = PaymentStatus.SUBMITTED"
  by code_simp

lemma second_sale_pass:
  "case verify demo_env 22 second_sale of (Inl _, _) \<Rightarrow> False
     | (Inr res, _) \<Rightarrow> map_option (fingerprint_of demo_env) (vr_transaction res)
         = Some (pc_fingerprint (snd (hd (payment_consumptions demo_paid))))"
  by code_simp

theorem consumed_transfer_never_credits_witness:
  "\<exists>res t. verify demo_env 22 second_sale = (Inr res, t)
     \<and> vr_outcome res \<noteq> VerificationOutcome.VERIFIED \<and> unverified 22 t"
proof -
  let ?c = "snd (hd (payment_consumptions demo_paid))"
  have succ: "iteration_order (env_succ demo_env)" by simp
  have run: "reaches UNIV demo_paid second_sale"
    unfolding second_sale_def by (rule reaches_run_all [OF reaches_refl subset_UNIV succ])
  have s: "reachable second_sale" by (rule reaches_trans [OF run demo_reachable(2)])
  have c: "(14, ?c) \<in> set (payment_consumptions second_sale)" "pc_payment_intent_id ?c \<noteq> 22"
    using reachable_evolves [OF demo_reachable(2) run]
    by (auto simp: evolves_def prefix_def demo_paid_def)
  from second_sale_facts obtain r where r: "tget (payment_intents second_sale) 22 = Some r"
    "i_status r \<noteq> PaymentStatus.VERIFIED" by (auto split: option.splits)
  from second_sale_pass obtain res t tx where v: "verify demo_env 22 second_sale = (Inr res, t)"
    "vr_transaction res = Some tx" "pc_fingerprint ?c = fingerprint_of demo_env tx"
    by (auto split: prod.splits sum.splits)
  from consumed_transfer_never_credits [OF s succ r c v] v(1) show ?thesis by blast
qed

end
