(* ===== verification/Checkout.thy ===== *)
theory Checkout
  imports Crediting
begin

text \<open>
  What the creation of an intent and of an order, the reservation of stock and its release do, stated on
  the tables they write.
\<close>

section \<open>The intent that a checkout creates\<close>

text \<open>The last steps of \<open>create_intent\<close>: the row is inserted under a fresh id and waits for its payment.\<close>

lemma ensures_open_intent:
  assumes "tget (payment_intents s) (db_next s) = None" and "i_status r = PaymentStatus.CREATED"
    and "\<And>k u r'. tget (payment_intents u) k = Some r' \<Longrightarrow> i_snap r' = i_snap r \<Longrightarrow>
      i_status r' = PaymentStatus.AWAITING_PAYMENT \<Longrightarrow> orders u = orders s \<Longrightarrow> Q k u"
  shows "ensures (insert_intent r) s (\<lambda>k t. ensures (pay_transition k PaymentStatus.AWAITING_PAYMENT) t (\<lambda>_ u. Q k u))"
  using assms by (auto simp: insert_intent_def runs_simps tget_tadd)

lemma ensures_memo:
  "(\<And>memo. Q memo s) \<Longrightarrow>
   ensures (if b then (case x of None \<Rightarrow> raiseS e | Some m \<Rightarrow> returnS (Some m)) else returnS None) s Q"
  by (auto simp: ensures_prims split: option.split)

lemma created_intent:
  assumes "reachable s" and "create_intent env oid mid w s = (Inr i, t)"
  shows "\<exists>o1 m p rate q am units r. tget (orders s) oid = Some o1 \<and> \<not> order_is_paid (o_status o1)
     \<and> tget (payment_methods s) mid = Some m \<and> pm_is_enabled m
     \<and> tget (payment_providers s) (pm_provider_id m) = Some p \<and> pp_is_enabled p
     \<and> pm_quote_rate m = Some rate \<and> quote_expected_amount (o_total o1) rate (pm_asset_decimals m) = Inr q
     \<and> numeric_30_8 q = Inr am \<and> base_units q (pm_asset_decimals m) = Inr units
     \<and> tget (payment_intents t) i = Some r \<and> i_status r = PaymentStatus.AWAITING_PAYMENT
     \<and> sn_order_id (i_snap r) = oid \<and> sn_reference (i_snap r) = o_reference o1
     \<and> sn_expected_amount (i_snap r) = am \<and> sn_expected_amount_units (i_snap r) = units
     \<and> pm_receiving_address m = Some (sn_destination (i_snap r)) \<and> sn_network (i_snap r) = pm_network m
     \<and> sn_expires_at (i_snap r) = env_now env + seconds (payment_window env w m) \<and> orders t = orders s"
proof -
  have keys: "keys_ok s" using reachable_ok [OF assms(1)] by (simp add: db_ok_def)
  let ?post = "\<lambda>i t. \<exists>o1 m p rate q am units r. tget (orders s) oid = Some o1 \<and> \<not> order_is_paid (o_status o1)
     \<and> tget (payment_methods s) mid = Some m \<and> pm_is_enabled m
     \<and> tget (payment_providers s) (pm_provider_id m) = Some p \<and> pp_is_enabled p
     \<and> pm_quote_rate m = Some rate \<and> quote_expected_amount (o_total o1) rate (pm_asset_decimals m) = Inr q
     \<and> numeric_30_8 q = Inr am \<and> base_units q (pm_asset_decimals m) = Inr units
     \<and> tget (payment_intents t) i = Some r \<and> i_status r = PaymentStatus.AWAITING_PAYMENT
     \<and> sn_order_id (i_snap r) = oid \<and> sn_reference (i_snap r) = o_reference o1
     \<and> sn_expected_amount (i_snap r) = am \<and> sn_expected_amount_units (i_snap r) = units
     \<and> pm_receiving_address m = Some (sn_destination (i_snap r)) \<and> sn_network (i_snap r) = pm_network m
     \<and> sn_expires_at (i_snap r) = env_now env + seconds (payment_window env w m) \<and> orders t = orders s"
  have cancel: "ensures (case existing of None \<Rightarrow> returnS () | Some (k, _) \<Rightarrow> pay_transition k PaymentStatus.CANCELLED) s
      (\<lambda>_ u. tget (payment_intents u) (db_next u) = None \<and> orders u = orders s)" for existing
    using keys_okD(7) [OF keys]
    by (auto simp: runs_simps split: option.splits)
  have "ensures (create_intent env oid mid w) s ?post"
    unfolding create_intent_def
    apply (simp only: ensures_bind ensures_then ensures_db ensures_prims ensures_lift)
    apply (intro allI impI)
    apply (split option.split, intro conjI allI impI)
     apply (simp add: ensures_prims)
    apply (simp only: ensures_bind ensures_then ensures_prims ensures_lift)
    apply (intro allI impI)
    apply (rule ensures_mono [OF cancel], elim conjE)
    apply (rule ensures_memo, intro allI impI)
    apply (rule ensures_open_intent, assumption, simp)
    apply (auto simp: truthy_str_def)
    done
  then show ?thesis using assms(2) by (rule ensuresD)
qed

text \<open>
  C21: the terms of a payment are those of the order and of the method at that moment. A successful
  \<open>create_intent\<close> leaves an intent that awaits payment of the quoted amount, rounded up on the grid of the asset, to
  the destination of an enabled method, within its window; the order is not paid.
\<close>

theorem created_intent_terms:
  assumes "reachable s" and "create_intent env oid mid w s = (Inr i, t)"
  shows "\<exists>o1 m p rate q am units r. tget (orders s) oid = Some o1 \<and> \<not> order_is_paid (o_status o1)
     \<and> tget (payment_methods s) mid = Some m \<and> pm_is_enabled m
     \<and> tget (payment_providers s) (pm_provider_id m) = Some p \<and> pp_is_enabled p
     \<and> pm_quote_rate m = Some rate \<and> quote_expected_amount (o_total o1) rate (pm_asset_decimals m) = Inr q
     \<and> numeric_30_8 q = Inr am \<and> base_units q (pm_asset_decimals m) = Inr units
     \<and> tget (payment_intents t) i = Some r \<and> i_status r = PaymentStatus.AWAITING_PAYMENT
     \<and> sn_order_id (i_snap r) = oid \<and> sn_reference (i_snap r) = o_reference o1
     \<and> sn_expected_amount (i_snap r) = am \<and> sn_expected_amount_units (i_snap r) = units
     \<and> pm_receiving_address m = Some (sn_destination (i_snap r)) \<and> sn_network (i_snap r) = pm_network m
     \<and> sn_expires_at (i_snap r) = env_now env + seconds (payment_window env w m) \<and> orders t = orders s"
  using assms by (rule created_intent)

text \<open>Until its first payment the demonstration order has no intent.\<close>

definition demo_ordered :: db where
  "demo_ordered = run_all demo_env (demo_setup @ [ConfirmOrder 0 3 1 None]) empty_db"

lemma demo_ordered_reachable: "reachable demo_ordered"
  unfolding demo_ordered_def by (rule reaches_run_all [OF reaches_refl subset_UNIV]) simp

lemma demo_intent_run: "\<exists>i t. create_intent demo_env 7 2 None demo_ordered = (Inr i, t)"
proof -
  have "case fst (create_intent demo_env 7 2 None demo_ordered) of Inl _ \<Rightarrow> False | Inr _ \<Rightarrow> True" by code_simp
  then show ?thesis by (cases "create_intent demo_env 7 2 None demo_ordered") (auto split: sum.splits)
qed

theorem created_intent_terms_witness:
  "\<exists>i t r. create_intent demo_env 7 2 None demo_ordered = (Inr i, t) \<and> tget (payment_intents t) i = Some r
     \<and> sn_order_id (i_snap r) = 7 \<and> i_status r = PaymentStatus.AWAITING_PAYMENT"
proof -
  obtain i t where c: "create_intent demo_env 7 2 None demo_ordered = (Inr i, t)" using demo_intent_run by blast
  from created_intent_terms [OF demo_ordered_reachable this] c show ?thesis by blast
qed

lemma create_intent_taken:
  assumes "tget (orders s) oid = Some o1"
    and "texists (\<lambda>x. sn_reference (i_snap x) = o_reference o1) (payment_intents s)"
  shows "ensures (create_intent env oid mid w) s (\<lambda>_ _. False)"
proof -
  have cancel: "ensures (case existing of None \<Rightarrow> returnS () | Some (k, _) \<Rightarrow> pay_transition k PaymentStatus.CANCELLED) s
      (\<lambda>_ u. texists (\<lambda>x. sn_reference (i_snap x) = o_reference o1) (payment_intents u))" for existing
    using assms(2) by (force simp: runs_simps texists_def set_tupd split: option.splits)
  show ?thesis
    unfolding create_intent_def
    apply (simp only: ensures_bind ensures_then ensures_db ensures_prims ensures_lift assms(1) option.inject)
    apply (intro allI impI)
    apply (split option.split, intro conjI allI impI)
     apply (simp add: ensures_prims)
    apply (simp only: ensures_bind ensures_then ensures_prims ensures_lift)
    apply (intro allI impI)
    apply (rule ensures_mono [OF cancel])
    apply (rule ensures_memo, intro allI impI)
    apply (simp add: insert_intent_def runs_simps)
    done
qed

text \<open>
  C22: an order has one payment intent for life. After one has been created, whatever the application does
  next, another call of \<open>create_intent\<close> for the same order, by any method, raises: the reference of an intent is the reference of
  its order, and the column is UNIQUE. The screen that offers a new payment after an expiry cannot work.
\<close>

theorem second_intent_never:
  assumes "reachable s" and "create_intent env oid mid w s = (Inr i, u)" and "evolves u t"
  shows "\<nexists>k v. create_intent env' oid mid' w' t = (Inr k, v)"
proof -
  obtain o1 r where r: "tget (orders u) oid = Some o1" "tget (payment_intents u) i = Some r"
    "sn_reference (i_snap r) = o_reference o1"
    using created_intent [OF assms(1,2)] by metis
  from assms(3) have ti: "table_step (intent_step) (payment_intents u) (payment_intents t)"
    and to: "table_step (order_step) (orders u) (orders t)" by (simp_all add: evolves_def)
  from ti r(2) obtain r' where r': "tget (payment_intents t) i = Some r'" "i_snap r' = i_snap r"
    by (auto simp: table_step_def intent_step_def)
  from to r(1) obtain o2 where o2: "tget (orders t) oid = Some o2" "o_reference o2 = o_reference o1"
    by (auto simp: table_step_def order_step_def order_frozen_def)
  have "texists (\<lambda>x. sn_reference (i_snap x) = o_reference o2) (payment_intents t)"
    unfolding texists_def using tget_in_set [OF r'(1)] r'(2) o2(2) r(3) by (intro bexI [of _ "(i, r')"]) simp_all
  then have "ensures (create_intent env' oid mid' w') t (\<lambda>_ _. False)"
    by (rule create_intent_taken [OF o2(1)])
  then show ?thesis by (auto simp: ensures_def)
qed

theorem second_intent_never_witness:
  "\<exists>i u. create_intent demo_env 7 2 None demo_ordered = (Inr i, u)
     \<and> (\<nexists>k v. create_intent demo_env 7 2 None u = (Inr k, v))"
proof -
  obtain i u where c: "create_intent demo_env 7 2 None demo_ordered = (Inr i, u)" using demo_intent_run by blast
  from second_intent_never [OF demo_ordered_reachable c evolves_refl] c show ?thesis by blast
qed

section \<open>Stock held by an order\<close>

text \<open>A run of updates of one kind is one pass over the table.\<close>

lemma fold_tupd:
  "(\<And>r. f (f r) = f r) \<Longrightarrow> fold (\<lambda>k. tupd k f) ks t = map (\<lambda>(i, r). (i, if i \<in> set ks then f r else r)) t"
proof (induction ks arbitrary: t)
  case (Cons k ks)
  then show ?case by (auto simp: tupd_def)
qed simp

definition held :: "nat \<Rightarrow> nat \<Rightarrow> time \<Rightarrow> nat \<Rightarrow> InventoryReservation" where
  "held oid oiid ex k = \<lparr>ir_inventory_item_id = k, ir_order_id = oid, ir_order_item_id = Some oiid,
     ir_status = ReservationStatus.ACTIVE, ir_expires_at = ex, ir_released_at = None, ir_consumed_at = None\<rparr>"

definition take_item :: "nat \<Rightarrow> InventoryItem \<Rightarrow> InventoryItem" where
  "take_item oiid r = r\<lparr>ii_status := StockItemStatus.RESERVED, ii_order_item_id := Some oiid\<rparr>"

definition give_item :: "InventoryItem \<Rightarrow> InventoryItem" where
  "give_item r = (if ii_status r = StockItemStatus.RESERVED
     then r\<lparr>ii_status := StockItemStatus.AVAILABLE, ii_order_item_id := None\<rparr> else r)"

lemma ensures_hold_item:
  "ensures (hold_item oid oiid ex k) s (\<lambda>i t. inventory_items t = tupd k (take_item oiid) (inventory_items s)
     \<and> inventory_reservations t = inventory_reservations s @ [(i, held oid oiid ex k)])"
  by (simp add: runs_simps hold_item_def insert_reservation_def tadd_def held_def take_item_def [abs_def])

lemma hold_all:
  "ensures (mapS (\<lambda>(k, _). hold_item oid oiid ex k) xs) s (\<lambda>ids t. length ids = length xs
     \<and> inventory_items t = fold (\<lambda>k. tupd k (take_item oiid)) (map fst xs) (inventory_items s)
     \<and> inventory_reservations t = inventory_reservations s @ zip ids (map (held oid oiid ex \<circ> fst) xs))"
proof (induction xs arbitrary: s)
  case (Cons x xs)
  have "ensures (hold_item oid oiid ex k) s (\<lambda>i t. ensures (mapS (\<lambda>(k, _). hold_item oid oiid ex k) xs) t
      (\<lambda>ids t. length ids = length xs
     \<and> inventory_items t = fold (\<lambda>k. tupd k (take_item oiid)) (k # map fst xs) (inventory_items s)
     \<and> inventory_reservations t = inventory_reservations s @
         zip (i # ids) (map (held oid oiid ex) (k # map fst xs))))" for k
    by (rule ensures_mono [OF ensures_hold_item], rule ensures_mono [OF Cons.IH]) (simp add: comp_def)
  then show ?case by (cases x) (simp only: ensures_mapS, simp add: comp_def)
qed (simp add: runs_simps)

lemma ensures_release:
  "ensures (release env x) s (\<lambda>_ t. inventory_items t = tupd (ir_inventory_item_id (snd x)) give_item (inventory_items s)
     \<and> inventory_reservations t = tupd (fst x)
          (\<lambda>r. r\<lparr>ir_released_at := Some (env_now env), ir_status := ReservationStatus.RELEASED\<rparr>)
          (inventory_reservations s))"
  by (auto simp: runs_simps release_def free_item_def set_reservation_status_def give_item_def [abs_def])

lemma release_all:
  "ensures (mapS (release env) xs) s (\<lambda>ys t. length ys = length xs
     \<and> inventory_items t = fold (\<lambda>k. tupd k give_item) (map (ir_inventory_item_id \<circ> snd) xs) (inventory_items s)
     \<and> inventory_reservations t = fold (\<lambda>k. tupd k
          (\<lambda>r. r\<lparr>ir_released_at := Some (env_now env), ir_status := ReservationStatus.RELEASED\<rparr>))
          (map fst xs) (inventory_reservations s))"
proof (induction xs arbitrary: s)
  case (Cons x xs)
  show ?case
    by (simp only: ensures_mapS, rule ensures_mono [OF ensures_release], rule ensures_mono [OF Cons.IH]) (simp add: comp_def)
qed (simp add: runs_simps)

text \<open>What a successful \<open>reserve\<close> has done.\<close>

lemma reserved:
  assumes "reserve env pid p q oid oiid ttl s = (Inr ids, t)" and "p_delivery_type p = DeliveryType.STOCK_ITEM"
  obtains ex ks where "ks = map fst (claim_available pid q s)" "q \<le> int (length ks)" "length ids = length ks"
    "inventory_items t = fold (\<lambda>k. tupd k (take_item oiid)) ks (inventory_items s)"
    "inventory_reservations t = inventory_reservations s @ zip ids (map (held oid oiid ex) ks)"
proof -
  define ex where "ex = env_now env + seconds (case ttl of None \<Rightarrow> set_reservation_ttl_seconds env
     | Some t \<Rightarrow> if t = 0 then set_reservation_ttl_seconds env else t)"
  let ?ks = "map fst (claim_available pid q s)"
  have "ensures (reserve env pid p q oid oiid ttl) s (\<lambda>ids t. q \<le> int (length ?ks) \<and> length ids = length ?ks
     \<and> inventory_items t = fold (\<lambda>k. tupd k (take_item oiid)) ?ks (inventory_items s)
     \<and> inventory_reservations t = inventory_reservations s @ zip ids (map (held oid oiid ex) ?ks))"
    using hold_all [of oid oiid ex "claim_available pid q s" s] assms(2)
    by (simp add: reserve_def Let_def ensures_bind ensures_then ensures_prims ensures_catch ex_def comp_def
        ensures_mono)
  from ensuresD [OF this assms(1)] show ?thesis by (intro that [of ?ks ex]) simp_all
qed

lemma filter_map_same:
  "(\<And>x. x \<in> set xs \<Longrightarrow> P (f x) \<longleftrightarrow> P x) \<Longrightarrow> (\<And>x. x \<in> set xs \<Longrightarrow> fst (f x) = fst x) \<Longrightarrow>
   map fst (filter P (map f xs)) = map fst (filter P xs)"
  by (induction xs) auto

lemma released:
  assumes "reserve env pid p q oid oiid ttl s = (Inr ids, t)" and "p_delivery_type p = DeliveryType.STOCK_ITEM"
    and "active_for_order oid s = []" and "distinct (map fst (inventory_items s))"
    and "release_for_order env oid t = (Inr n, u)"
  shows "n = length ids" "map fst (available_items pid' u) = map fst (available_items pid' s)"
proof -
  obtain ex ks where r: "ks = map fst (claim_available pid q s)" "length ids = length ks"
    "inventory_items t = fold (\<lambda>k. tupd k (take_item oiid)) ks (inventory_items s)"
    "inventory_reservations t = inventory_reservations s @ zip ids (map (held oid oiid ex) ks)"
    using assms(1,2) by (rule reserved)
  have act: "active_for_order oid t = zip ids (map (held oid oiid ex) ks)"
    using assms(3) r(4) by (auto simp: active_for_order_def tsel_def filter_id_conv held_def dest!: set_zip_rightD)
  from assms(5) obtain ys where m: "mapS (release env) (active_for_order oid t) t = (Inr ys, u)" "n = length ys"
    by (auto simp: release_for_order_def svc_elims)
  note f = ensuresD [OF release_all m(1)]
  from f m(2) act r(2) show "n = length ids" by simp
  have "map (ir_inventory_item_id \<circ> snd) (active_for_order oid t) = ks"
    using r(2) by (intro nth_equalityI) (simp_all add: act held_def)
  with f have "inventory_items u = fold (\<lambda>k. tupd k give_item) ks (inventory_items t)" by simp
  also have "\<dots> = map (\<lambda>(i, r). (i, if i \<in> set ks then give_item (take_item oiid r) else r)) (inventory_items s)"
    by (subst r(3), subst fold_tupd, simp add: give_item_def, subst fold_tupd, simp add: take_item_def) auto
  finally have u: "inventory_items u = \<dots>" .
  have av: "ii_status x = StockItemStatus.AVAILABLE" if "(i, x) \<in> set (inventory_items s)" "i \<in> set ks" for i x
  proof -
    from that(2) r(1) obtain y where "(i, y) \<in> set (available_items pid s)"
      by (auto simp: claim_available_def dest!: in_set_takeD)
    then have "tget (inventory_items s) i = Some y" "ii_status y = StockItemStatus.AVAILABLE"
      using in_set_tget [OF assms(4)] by (auto simp: available_items_def tsel_in)
    with in_set_tget [OF assms(4) that(1)] show ?thesis by simp
  qed
  show "map fst (available_items pid' u) = map fst (available_items pid' s)"
    unfolding available_items_def tsel_def u
    by (rule filter_map_same) (auto simp: give_item_def take_item_def av split: if_splits)
qed

text \<open>
  C23: a cancelled hold leaves no trace in the stock. After a successful \<open>reserve\<close> for an order without other holds, a
  successful \<open>release_for_order\<close> gives back exactly the reserved items, and what is available of every
  product is what was available before.
\<close>

theorem release_undoes_reserve:
  assumes "reachable s" and "active_for_order oid s = []"
    and "reserve env pid p q oid oiid ttl s = (Inr ids, t)" and "p_delivery_type p = DeliveryType.STOCK_ITEM"
    and "release_for_order env oid t = (Inr n, u)"
  shows "n = length ids \<and> map fst (available_items pid' u) = map fst (available_items pid' s)"
proof -
  have "keys_ok s" using reachable_ok [OF assms(1)] by (simp add: db_ok_def)
  from released [OF assms(3,4,2) keys_okD(3) [OF this] assms(5)] show ?thesis by simp
qed

definition demo_stocked :: db where
  "demo_stocked = run_all demo_env demo_setup empty_db"

lemma demo_stocked_reachable: "reachable demo_stocked"
  unfolding demo_stocked_def by (rule reaches_run_all [OF reaches_refl subset_UNIV]) simp

theorem release_undoes_reserve_witness:
  "\<exists>ids t u. reserve demo_env 3 demo_product 2 7 8 None demo_stocked = (Inr ids, t)
     \<and> release_for_order demo_env 7 t = (Inr 2, u)
     \<and> map fst (available_items 3 u) = map fst (available_items 3 demo_stocked)"
proof -
  have "case reserve demo_env 3 demo_product 2 7 8 None demo_stocked of (Inl _, _) \<Rightarrow> False
    | (Inr ids, t) \<Rightarrow> length ids = 2 \<and> (case release_for_order demo_env 7 t of (Inl _, _) \<Rightarrow> False | (Inr n, _) \<Rightarrow> True)"
    by code_simp
  then obtain ids t n u where r: "reserve demo_env 3 demo_product 2 7 8 None demo_stocked = (Inr ids, t)"
    "length ids = 2" "release_for_order demo_env 7 t = (Inr n, u)"
    by (auto split: prod.splits sum.splits)
  have "active_for_order 7 demo_stocked = []" by code_simp
  from release_undoes_reserve [OF demo_stocked_reachable this r(1) _ r(3)] r show ?thesis
    by (auto simp: demo_product_def)
qed

text \<open>An item that has been released once keeps its \<open>RELEASED\<close> row.\<close>

lemma release_once:
  assumes "tget (inventory_reservations s) k = Some r" and "k \<in> fst ` set xs"
    and "(j, x) \<in> set (inventory_reservations s)" and "j \<noteq> k" and "ir_inventory_item_id x = ir_inventory_item_id r"
    and "ir_status x = ReservationStatus.RELEASED"
  shows "ensures (mapS (release env) xs) s (\<lambda>_ _. False)"
  using assms
proof (induction xs arbitrary: s r x)
  case (Cons y xs)
  show ?case
  proof (cases "fst y = k")
    case True
    with Cons.prems show ?thesis
      by (auto simp: runs_simps release_def free_item_def set_reservation_status_def)
  next
    case False
    have "ensures (release env y) s (\<lambda>_ t. ensures (mapS (release env) xs) t (\<lambda>_ _. False))"
    proof (rule ensures_mono [OF ensures_release], elim conjE)
      fix t :: db assume t: "inventory_reservations t = tupd (fst y)
          (\<lambda>r. r\<lparr>ir_released_at := Some (env_now env), ir_status := ReservationStatus.RELEASED\<rparr>)
          (inventory_reservations s)"
      let ?x = "if j = fst y then x\<lparr>ir_released_at := Some (env_now env), ir_status := ReservationStatus.RELEASED\<rparr> else x"
      from Cons.prems(3) have "(j, ?x) \<in> set (inventory_reservations t)" by (force simp: t set_tupd)
      with Cons.prems False show "ensures (mapS (release env) xs) t (\<lambda>_ _. False)"
        by (intro Cons.IH [of _ r ?x]) (auto simp: t)
    qed
    then show ?thesis by (simp only: ensures_mapS)
  qed
qed simp

text \<open>
  C24: an item can be released only once. When an order holds an item that an earlier order has released, the
  order cannot be cancelled: UNIQUE(inventory_item_id, status) on the reservations makes every attempt raise.
\<close>

theorem released_item_never_released_again:
  assumes "reachable s" and "(k, r) \<in> set (active_for_order oid s)"
    and "(j, x) \<in> set (inventory_reservations s)" and "ir_status x = ReservationStatus.RELEASED"
    and "ir_inventory_item_id x = ir_inventory_item_id r"
  shows "\<nexists>t. cancel env oid s = (Inr (), t)"
proof -
  have keys: "distinct (map fst (inventory_reservations s))"
    using reachable_ok [OF assms(1)] by (intro keys_okD) (simp add: db_ok_def)
  have r: "tget (inventory_reservations s) k = Some r" "ir_status r = ReservationStatus.ACTIVE"
    using in_set_tget [OF keys] assms(2) by (auto simp: active_for_order_def tsel_in)
  have "j \<noteq> k" using r assms(3,4) in_set_tget [OF keys assms(3)] by auto
  have "ensures (release_for_order env oid) u (\<lambda>_ _. False)"
    if "inventory_reservations u = inventory_reservations s" for u
  proof -
    have "active_for_order oid u = active_for_order oid s" using that by (simp add: active_for_order_def)
    with release_once [of u k r "active_for_order oid u" j x env] that assms r \<open>j \<noteq> k\<close> show ?thesis
      by (force simp: release_for_order_def runs_simps elim: ensures_mono)
  qed
  then have "ensures (release_for_order env oid) u Q"
    if "inventory_reservations u = inventory_reservations s" for u Q
    by (rule ensures_mono) (use that in simp_all)
  then have "ensures (cancel env oid) s (\<lambda>_ _. False)"
    by (simp add: cancel_def runs_simps)
  then show ?thesis by (auto simp: ensures_def)
qed

definition demo_released :: db where
  "demo_released = run_all demo_env (demo_setup @ [ConfirmOrder 0 3 1 None, CancelOrder 7, ConfirmOrder 0 3 1 None]) empty_db"

lemma demo_released_reachable: "reachable demo_released"
  unfolding demo_released_def by (rule reaches_run_all [OF reaches_refl subset_UNIV]) simp

theorem released_item_never_released_again_witness:
  "\<exists>oid o1. tget (orders demo_released) oid = Some o1 \<and> o_status o1 = OrderStatus.PAYMENT_PENDING
     \<and> (\<nexists>t. cancel demo_env oid demo_released = (Inr (), t))"
proof -
  have "list_ex (\<lambda>(oid, o1). o_status o1 = OrderStatus.PAYMENT_PENDING
      \<and> (case tget (orders demo_released) oid of None \<Rightarrow> False | Some o2 \<Rightarrow> o2 = o1)
      \<and> list_ex (\<lambda>(k, r). list_ex (\<lambda>(j, x). ir_status x = ReservationStatus.RELEASED
          \<and> ir_inventory_item_id x = ir_inventory_item_id r) (inventory_reservations demo_released))
        (active_for_order oid demo_released)) (orders demo_released)"
    by code_simp
  then obtain oid o1 k r j x where a: "tget (orders demo_released) oid = Some o1"
    "o_status o1 = OrderStatus.PAYMENT_PENDING" "(k, r) \<in> set (active_for_order oid demo_released)"
    "(j, x) \<in> set (inventory_reservations demo_released)" "ir_status x = ReservationStatus.RELEASED"
    "ir_inventory_item_id x = ir_inventory_item_id r"
    by (fastforce simp: list_ex_iff split: option.splits)
  from released_item_never_released_again [OF demo_released_reachable a(3-6)] a(1,2) show ?thesis by blast
qed

end
