(* ===== verification/AdapterFacts.thy ===== *)
theory AdapterFacts
  imports Reports Checkout
begin

text \<open>
  What a credited payment means on the chain: the composition of an adapter, the engine and one verification pass.
\<close>

section \<open>ERC-20 payments\<close>

text \<open>
  The abstract meaning of an ERC-20 payment: the receipt of the transaction, obtained from the node, reports
  success, and one of its logs is a \<^verbatim>\<open>Transfer\<close> emitted by the configured contract to the destination.
\<close>

definition erc20_payment :: "rpc \<Rightarrow> NetworkCode \<Rightarrow> PaymentExpectation \<Rightarrow> string \<Rightarrow> int \<Rightarrow> int \<Rightarrow> bool" where
  "erc20_payment post network e tx_hash units confirmations \<longleftrightarrow>
     (\<exists>receipt head_block logs entry topics raw_address receiver block_number head_number raw_data.
        evm_rpc post ''eth_getTransactionReceipt'' [JStr tx_hash] = Inr receipt
      \<and> evm_rpc post ''eth_blockNumber'' [] = Inr head_block
      \<and> bindE (jget receipt ''status'') hex_to_int = Inr 1
      \<and> bindE (jget receipt ''logs'') (\<lambda>ls. jiter (por ls (JList []))) = Inr logs \<and> entry \<in> set logs
      \<and> jget entry ''topics'' = Inr topics \<and> is_transfer_log TRANSFER_TOPIC (por topics (JList [])) = Inr True
      \<and> jget entry ''address'' = Inr raw_address
      \<and> normalize_value raw_address network = Inr (normalize_address (exp_token_contract e) (Some network))
      \<and> bindE (jindex (por topics (JList [])) 2) topic_to_address = Inr receiver
      \<and> normalize_address (Some receiver) (Some network) = exp_destination_normalized e
      \<and> jget entry ''data'' = Inr raw_data \<and> hex_to_int (por raw_data (JStr ''0x0'')) = Inr units
      \<and> bindE (jget receipt ''blockNumber'') hex_to_int = Inr block_number
      \<and> hex_to_int head_block = Inr head_number \<and> confirmations = depth head_number block_number)"

lemma normalize_value_idem:
  "normalize_value v n = Inr c \<Longrightarrow> normalize_address (Some c) (Some n) = c"
  by (auto simp: normalize_value_def bindE_eq_Inr normalize_address_idem_lemma split: if_splits)

lemma evm_find_token:
  assumes "evm_find now post network e ref = Inr txs" and "truthy_str (exp_token_contract e)" and "t \<in> set txs"
    and "attributable e t"
  shows "erc20_payment post network e (tx_external_id t) (tx_amount_units t) (tx_confirmations t)
    \<and> tx_decimals t = exp_asset_decimals e"
proof -
  from assms(1-3) obtain h receipt transaction head_block b hd_n st bt logs entry where
    r: "evm_rpc post ''eth_getTransactionReceipt'' [JStr h] = Inr receipt"
    "evm_rpc post ''eth_blockNumber'' [] = Inr head_block"
    "bindE (jget receipt ''blockNumber'') hex_to_int = Inr b" "hex_to_int head_block = Inr hd_n"
    "bindE (jget receipt ''status'') hex_to_int = Inr st"
    "bindE (jget receipt ''logs'') (\<lambda>ls. jiter (por ls (JList []))) = Inr logs" "entry \<in> set logs"
    and t: "evm_token_transfer now network e receipt (depth hd_n b) (st = 1) bt h entry = Inr (Some t)"
    by (auto simp: evm_find_def Let_def bindE_eq_Inr split: if_splits dest!: collectE_in)
  from t obtain topics raw_address contract receiver raw_data units where
    l: "jget entry ''topics'' = Inr topics" "is_transfer_log TRANSFER_TOPIC (por topics (JList [])) = Inr True"
    "jget entry ''address'' = Inr raw_address" "normalize_value raw_address network = Inr contract"
    "bindE (jindex (por topics (JList [])) 2) topic_to_address = Inr receiver"
    "jget entry ''data'' = Inr raw_data" "hex_to_int (por raw_data (JStr ''0x0'')) = Inr units"
    and f: "tx_external_id t = h" "tx_amount_units t = units" "tx_confirmations t = depth hd_n b"
    "tx_decimals t = exp_asset_decimals e" "tx_is_successful t = (st = 1)" "tx_network t = network"
    "tx_token_contract t = Some contract" "tx_to_address t = receiver"
    "tx_to_address_normalized t = normalize_address (Some receiver) (Some network)"
    by (auto simp: evm_token_transfer_def Let_def bindE_eq_Inr split: if_splits)
  have "contract = normalize_address (exp_token_contract e) (Some network)"
    using assms(2,4) f normalize_value_idem [OF l(4)] by (simp add: attributable_def contract_ok_def Let_def)
  moreover have "normalize_address (Some receiver) (Some network) = exp_destination_normalized e"
    using assms(4) f by (simp add: attributable_def receiver_ok_def Let_def split: if_splits)
  moreover have "st = 1" using assms(4) f by (simp add: attributable_def)
  ultimately show ?thesis using r l f unfolding erc20_payment_def by blast
qed

text \<open>
  C25: a credited ERC-20 payment is on the chain. When the adapter of an EVM network serves a token payment and a pass newly
  verifies it, the node's receipt of some transaction reports success, and one of its logs is a \<^verbatim>\<open>Transfer\<close> emitted by
  the configured contract to the frozen destination, deep enough, of the expected amount within the tolerances;
  a token with the same symbol but another contract never credits.
\<close>

theorem erc20_credit_is_on_chain:
  assumes "reachable s" and "iteration_order (env_succ env)"
    and "tget (payment_intents s) i = Some r" and "i_status r \<noteq> PaymentStatus.VERIFIED"
    and "env_fetch env = (\<lambda>p m e ref. evm_find (env_now env) post network e ref)"
    and "truthy_str (exp_token_contract (expectation i r))"
    and "verify env i s = (Inr res, t)" and "vr_newly_verified res"
  shows "\<exists>tx_hash units confirmations.
     erc20_payment post network (expectation i r) tx_hash units confirmations
   \<and> max (exp_required_confirmations (expectation i r)) 0 \<le> confirmations
   \<and> (units = exp_expected_amount_units (expectation i r)
      \<or> compare_amounts (exp_expected_amount (expectation i r))
          (from_base_units units (exp_asset_decimals (expectation i r)))
          (set_underpayment_tolerance env) (set_overpayment_tolerance env) = Inr AmountMatch.EXACT)"
proof -
  from newly_verified_transfer [OF assms(1-4,7,8)] obtain p m ref txs tx d where
    f: "env_fetch env p m (expectation i r) ref = Inr txs" "tx \<in> set txs"
    "verify_transaction (set_underpayment_tolerance env) (set_overpayment_tolerance env)
         (seconds (set_late_payment_grace_seconds env)) (expectation i r) tx = Inr d" "is_verified d" by blast
  then have v: "attributable (expectation i r) tx" "finality_ok (expectation i r) tx"
    "amount_match (set_underpayment_tolerance env) (set_overpayment_tolerance env) (expectation i r) tx = Inr AmountMatch.EXACT"
    using verified_iff by blast+
  from f(1) have "evm_find (env_now env) post network (expectation i r) ref = Inr txs" by (simp add: assms(5))
  from evm_find_token [OF this assms(6) f(2) v(1)] v(2,3) show ?thesis
    by (intro exI [of _ "tx_external_id tx"] exI [of _ "tx_amount_units tx"] exI [of _ "tx_confirmations tx"])
      (auto simp: finality_ok_def amount_match_def exact_units_def tx_amount_def split: if_splits)
qed

text \<open>A payment of ten tokens on BNB Smart Chain, its node and its state before the pass.\<close>

definition evm_node :: rpc where
  "evm_node meth params =
     (if meth = ''eth_getTransactionReceipt'' then Inr (JDict [(''result'', JDict
        [(''blockNumber'', JStr ''0x10''), (''status'', JStr ''0x1''), (''logs'', JList [JDict
          [(''address'', JStr ''0xC0''), (''topics'', JList [JStr TRANSFER_TOPIC, JStr ''0xaa'', JStr ''0xdd'']),
           (''data'', JStr ''0x989680''), (''logIndex'', JStr ''0x0'')]])])])
      else if meth = ''eth_getTransactionByHash'' then Inr (JDict [(''result'', JDict [(''hash'', JStr ''0xab'')])])
      else if meth = ''eth_blockNumber'' then Inr (JDict [(''result'', JStr ''0x30'')])
      else Inr JNull)"

definition evm_env :: env where
  "evm_env = demo_env\<lparr>env_fetch := (\<lambda>p m e ref. evm_find 100 evm_node NetworkCode.BEP20 e ref)\<rparr>"

definition evm_open :: db where
  "evm_open = run_all evm_env
     [RegisterUser demo_user, RegisterProvider (demo_provider\<lparr>pp_code := ProviderCode.EVM\<rparr>),
      RegisterMethod (demo_method\<lparr>pm_network := NetworkCode.BEP20, pm_receiving_address := Some ''0xDD'',
         pm_token_contract := Some ''0xC0''\<rparr>),
      RegisterProduct demo_product, AddStock 3 [''k1'', ''k2''] None,
      ConfirmOrder 0 3 1 None, SelectMethod 7 ''usdt'', ClaimPaid 7 (Some ''0xab'')] empty_db"

lemma evm_open_reachable: "reachable evm_open"
  unfolding evm_open_def by (rule reaches_run_all [OF reaches_refl subset_UNIV]) (simp add: evm_env_def)

theorem erc20_credit_is_on_chain_witness:
  "\<exists>e tx_hash units confirmations. exp_token_contract e = Some ''0xC0''
     \<and> erc20_payment evm_node NetworkCode.BEP20 e tx_hash units confirmations \<and> 20 \<le> confirmations"
proof -
  have run: "case tget (payment_intents evm_open) 11 of None \<Rightarrow> False | Some r \<Rightarrow>
      i_status r = PaymentStatus.SUBMITTED \<and> exp_token_contract (expectation 11 r) = Some ''0xC0''
    \<and> exp_required_confirmations (expectation 11 r) = 20
    \<and> (case verify evm_env 11 evm_open of (Inl _, _) \<Rightarrow> False | (Inr res, _) \<Rightarrow> vr_newly_verified res)"
    by code_simp
  then obtain r res t where r: "tget (payment_intents evm_open) 11 = Some r" "i_status r \<noteq> PaymentStatus.VERIFIED"
    "exp_token_contract (expectation 11 r) = Some ''0xC0''" "exp_required_confirmations (expectation 11 r) = 20"
    and v: "verify evm_env 11 evm_open = (Inr res, t)" "vr_newly_verified res"
    by (auto split: option.splits prod.splits sum.splits)
  have "\<exists>tx_hash units confirmations. erc20_payment evm_node NetworkCode.BEP20 (expectation 11 r) tx_hash units confirmations
     \<and> max (exp_required_confirmations (expectation 11 r)) 0 \<le> confirmations
     \<and> (units = exp_expected_amount_units (expectation 11 r)
      \<or> compare_amounts (exp_expected_amount (expectation 11 r))
          (from_base_units units (exp_asset_decimals (expectation 11 r)))
          (set_underpayment_tolerance evm_env) (set_overpayment_tolerance evm_env) = Inr AmountMatch.EXACT)"
    by (rule erc20_credit_is_on_chain [OF evm_open_reachable _ r(1,2) _ _ v])
      (simp_all add: evm_env_def r(3) truthy_str_def demo_env_def listed_order_ok)
  then show ?thesis using r(3,4) by (metis max.bounded_iff)
qed

section \<open>TRON payments\<close>

text \<open>A node whose transaction \<^verbatim>\<open>ab\<close> carries one log, a transfer of some token.\<close>

definition tron_node :: "string \<Rightarrow> string \<Rightarrow> string \<Rightarrow> rpc" where
  "tron_node token topic data path params =
     (if path = ''/wallet/gettransactionbyid'' then Inr (JDict [(''txID'', JStr ''ab''),
        (''ret'', JList [JDict [(''contractRet'', JStr ''SUCCESS'')]])])
      else if path = ''/wallet/gettransactioninfobyid'' then Inr (JDict
        [(''receipt'', JDict [(''result'', JStr ''SUCCESS'')]), (''blockNumber'', JInt 16), (''log'', JList [JDict
          [(''address'', JStr token), (''topics'', JList [JStr TRON_TRANSFER_TOPIC, JStr [], JStr topic]),
           (''data'', JStr data)]])])
      else Inr (JDict [(''block_header'', JDict [(''raw_data'', JDict [(''number'', JInt 48)])])]))"

lemma tron_node_log:
  assumes "hex_to_base58_address c (JStr token) = Inr contract"
    and "hex_to_base58_address c (JStr (last_chars 40 topic)) = Inr receiver" and "int_of_text 16 data = Inr units"
    and "data \<noteq> []"
  shows "\<exists>t. tron_find now c (tron_node token topic data) e (Some ''ab'') = Inr [t]
     \<and> tx_token_contract t = Some contract \<and> tx_network t = NetworkCode.TRC20 \<and> tx_asset t = exp_asset e
     \<and> tx_is_successful t \<and> tx_amount_units t = units \<and> tx_decimals t = exp_asset_decimals e
     \<and> tx_to_address t = receiver \<and> tx_to_address_normalized t = normalize_address (Some receiver) (Some NetworkCode.TRC20)
     \<and> tx_confirmations t = 33 \<and> tx_block_time t = None \<and> tx_observed_at t = now"
proof -
  have ab: "normalize_txid (Some ''ab'') = ''ab''" by code_simp
  have chars: "char_upper (CHR ''S'') = CHR ''S''" "char_upper (CHR ''U'') = CHR ''U''" "char_upper (CHR ''C'') = CHR ''C''"
    "char_upper (CHR ''E'') = CHR ''E''" by code_simp+
  have up: "py_upper ''SUCCESS'' = ''SUCCESS''" "py_lower TRON_TRANSFER_TOPIC = TRON_TRANSFER_TOPIC" by code_simp+
  have empty: "hex_to_base58_address c (JStr []) = Inr []" by (simp add: hex_to_base58_address_def jstring_def)
  have log: "is_transfer_log TRON_TRANSFER_TOPIC (JList [JStr TRON_TRANSFER_TOPIC, JStr [], JStr topic]) = Inr True"
    by (simp add: is_transfer_log_def jlen_def jindex_def jstring_def up)
  show ?thesis
    by (simp add: tron_find_def ab tron_node_def tron_post_def is_dict_def tron_succeeded_def jsub_def por_def jindex_def
        up time_or_none_def jiter_def collectE_def tron_transfer_def log empty topic_tail_def last_chars_def
        assms [unfolded last_chars_def] exceptE_def List.map_filter_def depth_def py_int_def chars Let_def)
qed

text \<open>
  C31: a payment in TRX accepts any token. When a method expects the native coin, that is, has no token
  contract, a \<^verbatim>\<open>Transfer\<close> of the expected number of units of any TRC-20 contract to the destination is
  verified: \<^verbatim>\<open>find_transactions\<close> reports the token transfers of the transaction as transfers of the expected asset, and the
  engine compares contracts only when one is expected.
\<close>

theorem tron_native_accepts_any_token:
  assumes "\<not> truthy_str (exp_token_contract e)" and "exp_network e = NetworkCode.TRC20"
    and "\<not> truthy_str (exp_memo e)" and "exp_required_confirmations e \<le> 33"
    and "exp_created_at e - seconds 600 \<le> now" and "now \<le> exp_expires_at e + grace"
    and "hex_to_base58_address c (JStr token) = Inr contract"
    and "hex_to_base58_address c (JStr (last_chars 40 topic)) = Inr receiver"
    and "normalize_address (Some receiver) (Some NetworkCode.TRC20) = exp_destination_normalized e"
    and "int_of_text 16 data = Inr (exp_expected_amount_units e)" and "data \<noteq> []"
  shows "\<exists>t d. tron_find now c (tron_node token topic data) e (Some ''ab'') = Inr [t]
     \<and> tx_token_contract t = Some contract
     \<and> verify_transaction u ov grace e t = Inr d \<and> is_verified d"
proof -
  obtain t where t: "tron_find now c (tron_node token topic data) e (Some ''ab'') = Inr [t]"
    "tx_token_contract t = Some contract" "tx_network t = NetworkCode.TRC20" "tx_asset t = exp_asset e"
    "tx_is_successful t" "tx_amount_units t = exp_expected_amount_units e" "tx_decimals t = exp_asset_decimals e"
    "tx_to_address t = receiver" "tx_to_address_normalized t = normalize_address (Some receiver) (Some NetworkCode.TRC20)"
    "tx_confirmations t = 33" "tx_block_time t = None" "tx_observed_at t = now"
    using tron_node_log [OF assms(7,8,10,11)] by blast
  have "\<exists>d. verify_transaction u ov grace e t = Inr d \<and> is_verified d"
    unfolding verified_iff using t assms
    by (simp add: attributable_def receiver_ok_def amount_match_def exact_units_def window_ok_def tx_timestamp_def
        finality_ok_def)
  with t(1,2) show ?thesis by blast
qed

definition trx_expectation :: PaymentExpectation where
  "trx_expectation = sample_expectation\<lparr>exp_asset := ''TRX'', exp_token_contract := None, exp_memo := None,
     exp_network := NetworkCode.TRC20, exp_destination_normalized := ''Tx'', exp_expected_amount_units := 10000000\<rparr>"

definition demo_codec :: codec where
  "demo_codec = \<lparr>b58_encode = map char_of, b58_decode = (\<lambda>s. Some (map of_char s)),
     b58_decode_check = (\<lambda>s. Some (map of_char s)), digest = (\<lambda>b. b)\<rparr>"

theorem tron_native_accepts_any_token_witness:
  "\<exists>t d. tron_find (exp_created_at trx_expectation) demo_codec (tron_node ''FAKE'' ''Tx'' ''989680'')
       trx_expectation (Some ''ab'') = Inr [t]
     \<and> tx_token_contract t = Some ''FAKE'' \<and> verify_transaction D0 D0 0 trx_expectation t = Inr d \<and> is_verified d"
proof -
  have n: "normalize_address (Some ''Tx'') (Some NetworkCode.TRC20) = ''Tx''" "int_of_text 16 ''989680'' = Inr 10000000"
    "last_chars 40 ''Tx'' = ''Tx''" "hex_to_base58_address demo_codec (JStr ''FAKE'') = Inr ''FAKE''"
    "hex_to_base58_address demo_codec (JStr ''Tx'') = Inr ''Tx''" by code_simp+
  show ?thesis
    by (rule tron_native_accepts_any_token [where receiver = "''Tx''"])
      (simp_all add: trx_expectation_def sample_expectation_def truthy_str_def n)
qed

section \<open>Outputs of a Bitcoin transaction\<close>

lemma collectE_enumerate:
  assumes "collectE f (enumerate n xs) = Inr ys" and "\<And>i x y. f (i, x) = Inr (Some y) \<Longrightarrow> g y = int i"
  shows "distinct (map g ys) \<and> (\<forall>y \<in> set ys. int n \<le> g y)"
  using assms
proof (induction xs arbitrary: n ys)
  case Nil
  then show ?case by (simp add: collectE_def List.map_filter_def)
next
  case (Cons x xs)
  then obtain y zs where y: "f (n, x) = Inr y" and z: "collectE f (enumerate (Suc n) xs) = Inr zs"
    and ys: "ys = (case y of None \<Rightarrow> zs | Some v \<Rightarrow> v # zs)"
    by (auto simp: collectE_def bindE_eq_Inr List.map_filter_def split: option.splits)
  from Cons.IH [OF z] Cons.prems(2) have "distinct (map g zs)" "\<forall>y \<in> set zs. int (Suc n) \<le> g y" by blast+
  with y ys Cons.prems(2) [of n x] show ?case by (auto split: option.splits)
qed

text \<open>
  C27: every output of a Bitcoin or Litecoin transaction that is reported pays the destination, and the outputs of one
  transaction have distinct indices, hence distinct fingerprints: each can be credited once, none twice. An
  unconfirmed transaction has no confirmations.
\<close>

theorem utxo_outputs_pay_us:
  assumes "outputs_to_us now network transaction e tip = Inr txs"
  shows "distinct (map (\<lambda>t. fingerprint_identity (tx_provider t) (tx_network t) (tx_external_id t) (tx_log_index t)) txs)
    \<and> (\<forall>t \<in> set txs. tx_to_address_normalized t = exp_destination_normalized e \<and> tx_network t = network
         \<and> tx_decimals t = SATOSHI_DECIMALS \<and> (tx_status_label t = ''mempool'' \<longrightarrow> tx_confirmations t = 0))"
proof -
  from assms obtain bh cf cs bt txid sender vouts where
    c: "collectE (utxo_output now network e bh cf cs bt txid sender) (enumerate 0 vouts) = Inr txs"
    and cs: "cf \<or> cs = 0"
    by (force simp: outputs_to_us_def Let_def bindE_eq_Inr split: if_splits)
  have o1: "tx_log_index t = int i \<and> tx_to_address_normalized t = exp_destination_normalized e \<and> tx_network t = network
      \<and> tx_decimals t = SATOSHI_DECIMALS \<and> (tx_status_label t = ''mempool'' \<longrightarrow> tx_confirmations t = 0)"
    if "utxo_output now network e bh cf cs bt txid sender (i, v) = Inr (Some t)" for i v t
    using that cs by (auto simp: utxo_output_def Let_def bindE_eq_Inr split: if_splits)
  have "distinct (map tx_log_index txs)" using collectE_enumerate [OF c, of tx_log_index] o1 by blast
  then have "distinct (map (\<lambda>t. fingerprint_identity (tx_provider t) (tx_network t) (tx_external_id t) (tx_log_index t)) txs)"
    by (auto simp: distinct_map inj_on_def dest!: fingerprint_identity_inj)
  moreover have "\<forall>t \<in> set txs. tx_to_address_normalized t = exp_destination_normalized e \<and> tx_network t = network
         \<and> tx_decimals t = SATOSHI_DECIMALS \<and> (tx_status_label t = ''mempool'' \<longrightarrow> tx_confirmations t = 0)"
  proof
    fix t assume "t \<in> set txs"
    from collectE_in [OF c this] obtain x where "utxo_output now network e bh cf cs bt txid sender x = Inr (Some t)" by blast
    then show "tx_to_address_normalized t = exp_destination_normalized e \<and> tx_network t = network
         \<and> tx_decimals t = SATOSHI_DECIMALS \<and> (tx_status_label t = ''mempool'' \<longrightarrow> tx_confirmations t = 0)"
      using o1 by (cases x) blast
  qed
  ultimately show ?thesis by simp
qed

definition btc_transaction :: json where
  "btc_transaction = JDict [(''txid'', JStr ''ab''), (''status'', JDict [(''confirmed'', JBool False)]),
     (''vout'', JList [JDict [(''scriptpubkey_address'', JStr ''1A''), (''value'', JInt 5)],
        JDict [(''scriptpubkey_address'', JStr ''1B''), (''value'', JInt 6)],
        JDict [(''scriptpubkey_address'', JStr ''1A''), (''value'', JInt 5)]])]"

theorem utxo_outputs_pay_us_witness:
  "\<exists>a b. outputs_to_us 0 NetworkCode.BTC btc_transaction (sample_expectation\<lparr>exp_destination_normalized := ''1A''\<rparr>) 9 = Inr [a, b]
     \<and> fingerprint_identity (tx_provider a) (tx_network a) (tx_external_id a) (tx_log_index a)
       \<noteq> fingerprint_identity (tx_provider b) (tx_network b) (tx_external_id b) (tx_log_index b)"
proof -
  have "case outputs_to_us 0 NetworkCode.BTC btc_transaction (sample_expectation\<lparr>exp_destination_normalized := ''1A''\<rparr>) 9 of
      Inl _ \<Rightarrow> False | Inr xs \<Rightarrow> length xs = 2" by code_simp
  then obtain a b where r: "outputs_to_us 0 NetworkCode.BTC btc_transaction
      (sample_expectation\<lparr>exp_destination_normalized := ''1A''\<rparr>) 9 = Inr [a, b]"
    by (auto simp: length_Suc_conv numeral_2_eq_2 split: sum.splits)
  from utxo_outputs_pay_us [OF this] r show ?thesis by auto
qed

section \<open>Deposits at an exchange\<close>

text \<open>
  What a record of an exchange says, read off its JSON: a whole number, an amount in base units of the asset, the
  currency, and the address it went to.
\<close>

definition row_int :: "json \<Rightarrow> string \<Rightarrow> int \<Rightarrow> bool" where
  "row_int row key n \<longleftrightarrow> (\<exists>v. jgetd row key (JInt (- 1)) = Inr v \<and> py_int v = Inr n)"

definition row_amount :: "json \<Rightarrow> string \<Rightarrow> PaymentExpectation \<Rightarrow> int \<Rightarrow> bool" where
  "row_amount row key e units \<longleftrightarrow> (\<exists>a v. jgetd row key (JStr ''0'') = Inr a \<and> to_decimal_text (py_str a) = Inr v
     \<and> units_of v (exp_asset_decimals e) = Inr units)"

definition row_currency :: "json \<Rightarrow> string \<Rightarrow> PaymentExpectation \<Rightarrow> bool" where
  "row_currency row key e \<longleftrightarrow> (\<exists>c. jgetd row key (JStr []) = Inr c
     \<and> py_upper (py_upper (py_str c)) = py_upper (exp_asset e))"

definition paid_to :: "PaymentExpectation \<Rightarrow> string \<Rightarrow> bool" where
  "paid_to e address \<longleftrightarrow> normalize_address (Some address) (Some (exp_network e)) = exp_destination_normalized e"

lemma attributable_paid_to:
  "attributable e t \<Longrightarrow> tx_to_address_normalized t = normalize_address (Some (tx_to_address t)) (Some (tx_network t)) \<Longrightarrow>
   paid_to e (tx_to_address t)"
  by (auto simp: attributable_def receiver_ok_def paid_to_def Let_def split: if_splits)

lemma attributable_currency:
  "attributable e t \<Longrightarrow> tx_asset t = py_upper c \<Longrightarrow> py_upper (py_upper c) = py_upper (exp_asset e)"
  by (simp add: attributable_def)

lemma binance_row:
  assumes "normalize_deposit now row e = Inr (Some t)" and "attributable e t"
  shows "row_int row ''status'' 1 \<and> row_amount row ''amount'' e (tx_amount_units t) \<and> row_currency row ''coin'' e
    \<and> (\<exists>a. jgetd row ''address'' (JStr []) = Inr a \<and> paid_to e (py_str a))"
proof -
  have n: "tx_network t = exp_network e" "tx_is_successful t" using assms(2) by (simp_all add: attributable_def)
  have "row_int row ''status'' 1 \<and> row_amount row ''amount'' e (tx_amount_units t)
    \<and> (\<exists>c. jgetd row ''coin'' (JStr []) = Inr c \<and> tx_asset t = py_upper (py_str c))
    \<and> (\<exists>a. jgetd row ''address'' (JStr []) = Inr a \<and> tx_to_address t = py_str a
        \<and> tx_to_address_normalized t = normalize_address (Some (tx_to_address t)) (Some (tx_network t)))"
    using assms(1) n
    by (auto simp: normalize_deposit_def bindE_eq_Inr exceptE_Some Let_def row_int_def row_amount_def
        BINANCE_DEPOSIT_SUCCESS_def split: option.splits if_splits)
  then show ?thesis
    using attributable_paid_to [OF assms(2)] attributable_currency [OF assms(2)] unfolding row_currency_def by metis
qed

lemma bybit_amounts_row:
  "bybit_amounts row e = Inr (Some (units, status)) \<Longrightarrow> row_int row ''status'' status \<and> row_amount row ''amount'' e units"
  by (auto simp: bybit_amounts_def bindE_eq_Inr exceptE_Some row_int_def row_amount_def)

lemma bybit_onchain_row:
  assumes "bybit_onchain now e row = Inr (Some t)" and "attributable e t"
  shows "row_int row ''status'' 3 \<and> row_amount row ''amount'' e (tx_amount_units t) \<and> row_currency row ''coin'' e
    \<and> (\<exists>a. jget row ''toAddress'' = Inr a \<and> paid_to e (py_str (por a (JStr []))))"
proof -
  have n: "tx_is_successful t" using assms(2) by (simp add: attributable_def)
  have "row_int row ''status'' 3 \<and> row_amount row ''amount'' e (tx_amount_units t)
    \<and> (\<exists>c. jgetd row ''coin'' (JStr []) = Inr c \<and> tx_asset t = py_upper (py_str c))
    \<and> (\<exists>a. jget row ''toAddress'' = Inr a \<and> tx_to_address t = py_str (por a (JStr []))
        \<and> tx_to_address_normalized t = normalize_address (Some (tx_to_address t)) (Some (tx_network t)))"
    using assms(1) n
    by (auto simp: bybit_onchain_def bindE_eq_Inr Let_def BYBIT_DEPOSIT_SUCCESS_def
        split: option.splits if_splits dest!: bybit_amounts_row)
  then show ?thesis
    using attributable_paid_to [OF assms(2)] attributable_currency [OF assms(2)] unfolding row_currency_def by metis
qed

lemma bybit_internal_row:
  assumes "bybit_internal now e row = Inr (Some t)" and "attributable e t"
  shows "row_int row ''status'' 2 \<and> row_amount row ''amount'' e (tx_amount_units t) \<and> row_currency row ''coin'' e"
proof -
  from assms(1) obtain units status where a: "bybit_amounts row e = Inr (Some (units, status))"
    by (auto simp: bybit_internal_def bindE_eq_Inr split: option.splits)
  have n: "tx_is_successful t" using assms(2) by (simp add: attributable_def)
  have "status = 2 \<and> tx_amount_units t = units
    \<and> (\<exists>c. jgetd row ''coin'' (JStr []) = Inr c \<and> tx_asset t = py_upper (py_str c))"
    using assms(1) n by (cases "status = 2") (auto simp: bybit_internal_def a bindE_eq_Inr Let_def split: if_splits)
  then show ?thesis
    using bybit_amounts_row [OF a] attributable_currency [OF assms(2)] unfolding row_currency_def by metis
qed

lemma binance_pay_row:
  assumes "binance_pay_find now post e reference = Inr txs" and "t \<in> set txs" and "attributable e t"
  shows "\<exists>params response data st. binance_pay_post post ''/binancepay/openapi/order/query'' params = Inr response
    \<and> jsub response ''data'' = Inr data \<and> jgetd data ''status'' (JStr []) = Inr st \<and> py_upper (py_str st) = ''PAID''
    \<and> row_amount data ''orderAmount'' e (tx_amount_units t) \<and> row_currency data ''currency'' e"
proof -
  have n: "tx_is_successful t" using assms(3) by (simp add: attributable_def)
  let ?trade = "str_or reference (Some (exp_reference e))"
  from assms(1,2) obtain response data st c units where
    r: "binance_pay_post post ''/binancepay/openapi/order/query'' [(''merchantTradeNo'', JStr ?trade)] = Inr response"
      "jsub response ''data'' = Inr data" "jgetd data ''status'' (JStr []) = Inr st" "jgetd data ''currency'' (JStr []) = Inr c"
    and u: "exceptE [ValueError, TypeError] (bindE (jgetd data ''orderAmount'' (JStr ''0''))
        (\<lambda>a. bindE (to_decimal_text (py_str a)) (\<lambda>amount. units_of amount (exp_asset_decimals e)))) = Inr (Some units)"
    and t: "tx_amount_units t = units" "tx_asset t = py_upper (py_str c)"
      "tx_is_successful t \<longleftrightarrow> py_upper (py_str st) \<in> set PAID_STATUSES"
    by (fastforce simp: binance_pay_find_def Let_def bindE_eq_Inr split: if_splits option.splits)
  from u t(1) have "row_amount data ''orderAmount'' e (tx_amount_units t)"
    by (auto simp: row_amount_def exceptE_Some bindE_eq_Inr)
  moreover from n t(3) have "py_upper (py_str st) = ''PAID''" by (simp add: PAID_STATUSES_def)
  moreover have "row_currency data ''currency'' e"
    using r(4) attributable_currency [OF assms(3) t(2)] by (auto simp: row_currency_def)
  ultimately show ?thesis using r by blast
qed

lemma binance_rows:
  "binance_find now get l e = Inr txs \<Longrightarrow> \<exists>params rows. get ''/sapi/v1/capital/deposit/hisrec'' params = Inr (JList rows)
    \<and> collectE (\<lambda>row. normalize_deposit now row e) rows = Inr txs"
  unfolding binance_find_def bindE_eq_Inr by (elim exE conjE, rename_tac v, case_tac v) auto

lemma bybit_rows:
  assumes "bybit_find now get l e = Inr txs"
  shows "\<exists>params result rows. bybit_get get (if exp_network e = NetworkCode.EXCHANGE_INTERNAL
      then ''/v5/asset/deposit/query-internal-record'' else ''/v5/asset/deposit/query-record'') params = Inr result
    \<and> bindE (jget result ''rows'') (\<lambda>rs. jiter (por rs (JList []))) = Inr rows
    \<and> collectE (if exp_network e = NetworkCode.EXCHANGE_INTERNAL then bybit_internal now e else bybit_onchain now e) rows
        = Inr txs"
proof -
  have split: "\<exists>a. m = Inr a \<and> f a = Inr b" if "bindE m f = Inr b" for m :: "error + 'x" and f and b :: "'y"
    using that by (simp add: bindE_eq_Inr)
  from assms show ?thesis unfolding bybit_find_def Let_def by (blast dest: split)
qed

lemma okx_rows:
  "okx_find now get l cs e = Inr txs \<Longrightarrow> \<exists>params rows. okx_get get ''/api/v5/asset/deposit-history'' params = Inr rows
    \<and> collectE (okx_deposit now cs e) rows = Inr txs"
  unfolding okx_find_def bindE_eq_Inr by blast

lemma okx_row:
  assumes "okx_deposit now states e row = Inr (Some t)" and "attributable e t"
  shows "(\<exists>st. jgetd row ''state'' (JStr []) = Inr st \<and> py_str st \<in> set states)
    \<and> row_amount row ''amt'' e (tx_amount_units t) \<and> row_currency row ''ccy'' e
    \<and> (\<exists>a. jget row ''to'' = Inr a \<and> paid_to e (py_str (por a (JStr []))))"
proof -
  have n: "tx_is_successful t" using assms(2) by (simp add: attributable_def)
  have "(\<exists>st. jgetd row ''state'' (JStr []) = Inr st \<and> py_str st \<in> set states)
    \<and> row_amount row ''amt'' e (tx_amount_units t)
    \<and> (\<exists>c. jgetd row ''ccy'' (JStr []) = Inr c \<and> tx_asset t = py_upper (py_str c))
    \<and> (\<exists>a. jget row ''to'' = Inr a \<and> tx_to_address t = py_str (por a (JStr []))
        \<and> tx_to_address_normalized t = normalize_address (Some (tx_to_address t)) (Some (tx_network t)))"
    using assms(1) n
    by (auto simp: okx_deposit_def bindE_eq_Inr exceptE_Some Let_def row_amount_def split: option.splits if_splits)
  then show ?thesis
    using attributable_paid_to [OF assms(2)] attributable_currency [OF assms(2)] unfolding row_currency_def by metis
qed

text \<open>The OKX adapter credits state 2 unless the operators configured the states of a provider.\<close>

definition okx_state_allowed :: "ProviderSetup \<Rightarrow> string \<Rightarrow> bool" where
  "okx_state_allowed p state \<longleftrightarrow> (\<exists>cfg. jget (por (ps_config p) (JDict [])) ''credited_states'' = Inr cfg
     \<and> (if truthy cfg then \<exists>xs. jiter cfg = Inr xs \<and> state \<in> py_str ` set xs else state = ''2''))"

lemma built_okx:
  assumes "build_adapter env p network = Inr (OKXAdapter url l cs)" and "state \<in> set (if cs = [] then DEFAULT_CREDITED_STATES else cs)"
  shows "okx_state_allowed p state"
proof -
  from assms(1) obtain cfg where c: "jget (por (ps_config p) (JDict [])) ''credited_states'' = Inr cfg"
    "credited_states_of cfg = Inr cs"
    by (auto simp: build_adapter_def Let_def bindE_eq_Inr split: if_splits option.splits)
  have "xs \<noteq> []" if "truthy cfg" "jiter cfg = Inr xs" for xs
    using that by (cases cfg) (auto simp: jiter_def)
  with c assms(2) show ?thesis
    by (auto simp: okx_state_allowed_def credited_states_of_def bindE_eq_Inr DEFAULT_CREDITED_STATES_def split: if_splits)
qed

text \<open>
  C26: an exchange credits only what it reports as final. When the engine verifies a transfer that the adapter of an
  exchange reports, the answer of the exchange holds a record of that amount, of that currency and of that receiving
  address with status 1 (success) at Binance, status 3 (success) at Bybit or 2 for an internal transfer, and at OKX with
  state 2 or one of the states the operators configured for the provider; an order of Binance Pay is \<^verbatim>\<open>PAID\<close>.
\<close>

theorem exchange_credit_is_final:
  assumes "build_adapter env p network = Inr a" and "find_transactions now w a e reference = Inr txs" and "t \<in> set txs"
    and "verify_transaction under_tol over_tol grace e t = Inr d" and "is_verified d"
  shows "case ps_code p of
      ProviderCode.BINANCE \<Rightarrow> \<exists>url params rows row.
        w_web w url ''/sapi/v1/capital/deposit/hisrec'' params = Inr (JList rows) \<and> row \<in> set rows
        \<and> row_int row ''status'' 1 \<and> row_amount row ''amount'' e (tx_amount_units t) \<and> row_currency row ''coin'' e
        \<and> (\<exists>a. jgetd row ''address'' (JStr []) = Inr a \<and> paid_to e (py_str a))
    | ProviderCode.BYBIT \<Rightarrow> \<exists>url path params result rows row.
        bybit_get (w_web w url) path params = Inr result
        \<and> bindE (jget result ''rows'') (\<lambda>rs. jiter (por rs (JList []))) = Inr rows \<and> row \<in> set rows
        \<and> row_amount row ''amount'' e (tx_amount_units t) \<and> row_currency row ''coin'' e
        \<and> (if exp_network e = NetworkCode.EXCHANGE_INTERNAL
            then path = ''/v5/asset/deposit/query-internal-record'' \<and> row_int row ''status'' 2
            else path = ''/v5/asset/deposit/query-record'' \<and> row_int row ''status'' 3
              \<and> (\<exists>a. jget row ''toAddress'' = Inr a \<and> paid_to e (py_str (por a (JStr [])))))
    | ProviderCode.OKX \<Rightarrow> \<exists>url params rows row.
        okx_get (w_web w url) ''/api/v5/asset/deposit-history'' params = Inr rows \<and> row \<in> set rows
        \<and> (\<exists>st. jgetd row ''state'' (JStr []) = Inr st \<and> okx_state_allowed p (py_str st))
        \<and> row_amount row ''amt'' e (tx_amount_units t) \<and> row_currency row ''ccy'' e
        \<and> (\<exists>a. jget row ''to'' = Inr a \<and> paid_to e (py_str (por a (JStr []))))
    | ProviderCode.BINANCE_PAY \<Rightarrow> \<exists>url params response data st.
        binance_pay_post (w_web w url) ''/binancepay/openapi/order/query'' params = Inr response
        \<and> jsub response ''data'' = Inr data \<and> jgetd data ''status'' (JStr []) = Inr st \<and> py_upper (py_str st) = ''PAID''
        \<and> row_amount data ''orderAmount'' e (tx_amount_units t) \<and> row_currency data ''currency'' e
    | _ \<Rightarrow> True"
proof -
  have att: "attributable e t" using assms(4,5) verified_iff by blast
  show ?thesis
  proof (cases a)
    case (BinanceDepositAdapter url rw l)
    then have code: "ps_code p = ProviderCode.BINANCE" using built_adapter(1) [OF assms(1)] by simp
    from assms(2) BinanceDepositAdapter have "binance_find now (w_web w url) l e = Inr txs"
      by (simp add: find_transactions_def)
    from binance_rows [OF this] assms(3) obtain params rows row where
      r: "w_web w url ''/sapi/v1/capital/deposit/hisrec'' params = Inr (JList rows)" "row \<in> set rows"
      and t: "normalize_deposit now row e = Inr (Some t)"
      by (blast dest: collectE_in)
    from r binance_row [OF t att] show ?thesis unfolding code ProviderCode.case by blast
  next
    case (BinancePayAdapter url)
    then have code: "ps_code p = ProviderCode.BINANCE_PAY" using built_adapter(1) [OF assms(1)] by simp
    from assms(2,3) BinancePayAdapter have "binance_pay_find now (w_web w url) e reference = Inr txs"
      by (simp add: find_transactions_def)
    from binance_pay_row [OF this assms(3) att] show ?thesis unfolding code ProviderCode.case by blast
  next
    case (BybitAdapter url rw l)
    then have code: "ps_code p = ProviderCode.BYBIT" using built_adapter(1) [OF assms(1)] by simp
    let ?path = "if exp_network e = NetworkCode.EXCHANGE_INTERNAL then ''/v5/asset/deposit/query-internal-record''
        else ''/v5/asset/deposit/query-record''"
    from assms(2) BybitAdapter have "bybit_find now (w_web w url) l e = Inr txs" by (simp add: find_transactions_def)
    from bybit_rows [OF this] assms(3) obtain params result rows row where
      r: "bybit_get (w_web w url) ?path params = Inr result"
        "bindE (jget result ''rows'') (\<lambda>rs. jiter (por rs (JList []))) = Inr rows" "row \<in> set rows"
      and t: "(if exp_network e = NetworkCode.EXCHANGE_INTERNAL then bybit_internal now e else bybit_onchain now e) row = Inr (Some t)"
      by (blast dest: collectE_in)
    show ?thesis
    proof (cases "exp_network e = NetworkCode.EXCHANGE_INTERNAL")
      case True
      with t have "bybit_internal now e row = Inr (Some t)" by simp
      from bybit_internal_row [OF this att] r True show ?thesis unfolding code ProviderCode.case by (simp only: refl if_True) blast
    next
      case False
      with t have "bybit_onchain now e row = Inr (Some t)" by simp
      from bybit_onchain_row [OF this att] r False show ?thesis unfolding code ProviderCode.case by (simp only: if_False) blast
    qed
  next
    case (OKXAdapter url l cs)
    then have code: "ps_code p = ProviderCode.OKX" using built_adapter(1) [OF assms(1)] by simp
    let ?states = "if cs = [] then DEFAULT_CREDITED_STATES else cs"
    from assms(2) OKXAdapter have "okx_find now (w_web w url) l ?states e = Inr txs" by (simp add: find_transactions_def)
    from okx_rows [OF this] assms(3) obtain params rows row where
      r: "okx_get (w_web w url) ''/api/v5/asset/deposit-history'' params = Inr rows" "row \<in> set rows"
      and t: "okx_deposit now ?states e row = Inr (Some t)"
      by (blast dest: collectE_in)
    from okx_row [OF t att] built_okx [OF assms(1) [unfolded OKXAdapter]] have
      "(\<exists>st. jgetd row ''state'' (JStr []) = Inr st \<and> okx_state_allowed p (py_str st))
        \<and> row_amount row ''amt'' e (tx_amount_units t) \<and> row_currency row ''ccy'' e
        \<and> (\<exists>a. jget row ''to'' = Inr a \<and> paid_to e (py_str (por a (JStr []))))"
      by blast
    with r show ?thesis unfolding code ProviderCode.case by blast
  qed (use built_adapter(1) [OF assms(1)] in simp_all)
qed

definition okx_setup :: ProviderSetup where
  "okx_setup = \<lparr>ps_code = ProviderCode.OKX, ps_base_url = Some ''https://okx'', ps_config = JNull,
     ps_encrypted_api_key = Some ''k'', ps_encrypted_api_secret = Some ''s'', ps_encrypted_passphrase = Some ''p'',
     ps_account_identifier = None\<rparr>"

definition okx_row_seen :: json where
  "okx_row_seen = JDict [(''chain'', JStr ''USDT-TRC20''), (''amt'', JStr ''10''), (''ccy'', JStr ''usdt''), (''depId'', JStr ''d1''),
     (''state'', JStr ''2''), (''to'', JStr ''Tx''), (''actualDepBlkConfirm'', JStr ''30'')]"

definition okx_world :: world where
  "okx_world = \<lparr>w_codec = demo_codec, w_rpc = (\<lambda>_ _ _. Inr JNull),
     w_web = (\<lambda>_ _ _. Inr (JDict [(''code'', JStr ''0''), (''data'', JList [okx_row_seen])])),
     w_tip = (\<lambda>_. Inr ''0''), w_pay_probe = (\<lambda>_. Inr True)\<rparr>"

theorem exchange_credit_is_final_witness:
  "\<exists>st. jgetd okx_row_seen ''state'' (JStr []) = Inr st \<and> okx_state_allowed okx_setup (py_str st) \<and> py_str st = ''2''"
proof -
  let ?e = "sample_expectation\<lparr>exp_token_contract := None, exp_memo := None, exp_network := NetworkCode.TRC20,
     exp_destination_normalized := ''Tx''\<rparr>"
  have "case build_adapter demo_env okx_setup None of Inl _ \<Rightarrow> False | Inr a \<Rightarrow>
      (case find_transactions 100 okx_world a ?e None of Inl _ \<Rightarrow> False | Inr ts \<Rightarrow>
        (case ts of [] \<Rightarrow> False | t # _ \<Rightarrow> (case verify_transaction D0 D0 0 ?e t of Inl _ \<Rightarrow> False | Inr d \<Rightarrow> is_verified d)))"
    by code_simp
  then obtain a t ts d where a: "build_adapter demo_env okx_setup None = Inr a" "find_transactions 100 okx_world a ?e None = Inr (t # ts)"
    and v: "verify_transaction D0 D0 0 ?e t = Inr d" "is_verified d"
    by (auto split: sum.splits list.splits)
  have code: "ps_code okx_setup = ProviderCode.OKX" by (simp add: okx_setup_def)
  from exchange_credit_is_final [OF a _ v] obtain params rows row st where
    "okx_get (w_web okx_world url) ''/api/v5/asset/deposit-history'' params = Inr rows" "row \<in> set rows"
    "jgetd row ''state'' (JStr []) = Inr st" "okx_state_allowed okx_setup (py_str st)" for url
    unfolding code by (auto simp: okx_world_def)
  moreover have "okx_get (w_web okx_world url) ''/api/v5/asset/deposit-history'' params = Inr [okx_row_seen]" for url params
    by (simp add: okx_world_def okx_get_def is_dict_def)
  ultimately show ?thesis by (auto simp: okx_row_seen_def)
qed

section \<open>Token balances on Solana\<close>

text \<open>
  What the node says of token balances: an account of a transaction (its index) and a mint, the raw amount, the decimals.
\<close>

definition token_account :: "json \<Rightarrow> int \<Rightarrow> string \<Rightarrow> bool" where
  "token_account entry n mint \<longleftrightarrow> jget entry ''accountIndex'' = Inr (JInt n) \<and> jget entry ''mint'' = Inr (JStr mint)"

definition token_balance :: "json \<Rightarrow> int \<Rightarrow> bool" where
  "token_balance entry b \<longleftrightarrow> (\<exists>ui a. jsub entry ''uiTokenAmount'' = Inr ui \<and> jget ui ''amount'' = Inr a
     \<and> py_int (por a (JInt 0)) = Inr b)"

definition balance_before :: "json list \<Rightarrow> int \<Rightarrow> string \<Rightarrow> int \<Rightarrow> bool" where
  "balance_before entries n mint b \<longleftrightarrow> (let own = filter (\<lambda>x. token_account x n mint) entries in
     if own = [] then b = 0 else token_balance (last own) b)"

definition balances_of :: "json \<Rightarrow> string \<Rightarrow> error + json list" where
  "balances_of meta key = bindE (jget meta key) (\<lambda>b. jiter (por b (JList [])))"

text \<open>Every entry names its account by a number and its mint by a text, as the RPC interface documents.\<close>

definition balances_typed :: "json list \<Rightarrow> bool" where
  "balances_typed entries \<longleftrightarrow> (\<forall>x \<in> set entries. \<exists>n m. token_account x n m)"

text \<open>
  A token payment: the node knows the transaction, it did not fail, and the balance that the destination holds of the
  configured mint in one of its accounts grew by the amount; the slots since then are the confirmations.
\<close>

definition spl_payment :: "rpc \<Rightarrow> PaymentExpectation \<Rightarrow> string \<Rightarrow> int \<Rightarrow> int \<Rightarrow> int \<Rightarrow> bool" where
  "spl_payment post e signature units decimals confirmations \<longleftrightarrow>
     (\<exists>options slot_options transaction current_slot meta pres posts entry n mint receiver before after ui d s slot current.
        solana_rpc post ''getTransaction'' (JStr signature # options) = Inr transaction
      \<and> solana_rpc post ''getSlot'' slot_options = Inr current_slot
      \<and> jsub transaction ''meta'' = Inr meta \<and> jget meta ''err'' = Inr JNull
      \<and> balances_of meta ''preTokenBalances'' = Inr pres \<and> balances_of meta ''postTokenBalances'' = Inr posts
      \<and> entry \<in> set posts \<and> token_account entry n mint \<and> exp_token_contract e = Some mint
      \<and> jgetd entry ''owner'' (JStr []) = Inr receiver
      \<and> normalize_address (Some (py_str receiver)) (Some NetworkCode.SOL) = exp_destination_normalized e
      \<and> token_balance entry after \<and> balance_before pres n mint before \<and> before < after \<and> units = after - before
      \<and> jsub entry ''uiTokenAmount'' = Inr ui \<and> jget ui ''decimals'' = Inr d
      \<and> py_int (por d (JInt (exp_asset_decimals e))) = Inr decimals
      \<and> jget transaction ''slot'' = Inr s \<and> py_int (por s (JInt 0)) = Inr slot
      \<and> py_int (por current_slot (JInt 0)) = Inr current \<and> confirmations = max (current - slot) 0)"

lemma str_int_no_colon: "CHR '':'' \<notin> set (str_int n)"
proof -
  have "digit_char d \<noteq> CHR '':''" if "d < 10" for d
    using digit_val_digit_char [OF that] by (auto simp: digit_val_def)
  then have "CHR '':'' \<notin> set (str_nat m)" for m using str_nat_set by metis
  then show ?thesis by (simp add: str_int_def)
qed

lemma before_separator: "c \<notin> set u \<Longrightarrow> c \<notin> set v \<Longrightarrow> u @ c # x = v @ c # y \<longleftrightarrow> u = v \<and> x = y"
  by (induction u arbitrary: v) (case_tac v; auto)+

lemma index_key_typed: "token_account x n m \<Longrightarrow> index_key x = Inr (str_int n @ '':'' @ m)"
  by (simp add: token_account_def index_key_def bindE_eq_Inr)

lemma token_account_key:
  "token_account x k m' \<Longrightarrow> str_int k @ '':'' @ m' = str_int n @ '':'' @ m \<longleftrightarrow> token_account x n m"
  using before_separator [OF str_int_no_colon str_int_no_colon, of k m' n m] str_int_inj
  by (auto simp: token_account_def)

lemma balance_index_lookup:
  assumes "balances_typed pres" and "balance_index pres = Inr pre"
  shows "map_of pre (str_int n @ '':'' @ m) =
    (let own = filter (\<lambda>x. token_account x n m) pres in if own = [] then None else Some (last own))"
proof -
  obtain ps where ps: "mapE (\<lambda>entry. bindE (index_key entry) (\<lambda>k. Inr (k, entry))) pres = Inr ps" "pre = rev ps"
    using assms(2) by (auto simp: balance_index_def bindE_eq_Inr)
  from ps(1) have "list_all2 (\<lambda>x y. index_key x = Inr (fst y) \<and> snd y = x) pres ps"
    by (simp add: mapE_eq_Inr bindE_eq_Inr) (erule list_all2_mono, auto)
  then have "map_of (rev ps) (str_int n @ '':'' @ m) =
    (let own = filter (\<lambda>x. token_account x n m) pres in if own = [] then None else Some (last own))"
    using assms(1)
  proof (induction rule: list_all2_induct)
    case (Cons x xs y ys)
    from Cons.prems obtain k m' where t: "token_account x k m'" by (auto simp: balances_typed_def)
    with Cons.hyps index_key_typed have "y = (str_int k @ '':'' @ m', x)" by (cases y) auto
    moreover have "str_int k @ '':'' @ m' = str_int n @ '':'' @ m \<longleftrightarrow> token_account x n m" by (rule token_account_key [OF t])
    ultimately show ?case using Cons by (auto simp: Let_def balances_typed_def map_add_def split: option.split)
  qed simp
  with ps show ?thesis by simp
qed

lemma token_account_truthy: "token_account x n m \<Longrightarrow> truthy x"
  by (cases x) (auto simp: token_account_def jget_def jgetd_def)

lemma spl_transfer_row:
  assumes "spl_transfer now e pre confirmations succeeded block_time signature slot (position, entry) = Inr (Some t)"
    and "truthy_str (exp_token_contract e)" and "token_account entry n m" and "attributable e t"
  shows "\<exists>receiver before after ui d.
      exp_token_contract e = Some m \<and> jgetd entry ''owner'' (JStr []) = Inr receiver
    \<and> normalize_address (Some (py_str receiver)) (Some NetworkCode.SOL) = exp_destination_normalized e
    \<and> token_balance entry after \<and> (case map_of pre (str_int n @ '':'' @ m) of None \<Rightarrow> before = 0
        | Some previous \<Rightarrow> if truthy previous then token_balance previous before else before = 0)
    \<and> before < after \<and> tx_amount_units t = after - before \<and> succeeded \<and> tx_confirmations t = confirmations
    \<and> tx_external_id t = signature \<and> jsub entry ''uiTokenAmount'' = Inr ui \<and> jget ui ''decimals'' = Inr d
    \<and> py_int (por d (JInt (exp_asset_decimals e))) = Inr (tx_decimals t)"
proof -
  have amount: "token_amount_of x = Inr b \<longleftrightarrow> token_balance x b" for x b
    by (auto simp: token_amount_of_def token_balance_def bindE_eq_Inr)
  have m: "jgetd entry ''mint'' (JStr []) = Inr (JStr m)"
    using assms(3) by (cases entry) (auto simp: token_account_def jget_def jgetd_def split: option.splits)
  have mint: "the (exp_token_contract e) = m"
    using assms(1) by (simp add: spl_transfer_def Let_def m bindE_eq_Inr split: if_splits)
  note key = index_key_typed [OF assms(3)]
  from assms(1) obtain receiver before after ui d where
    r: "jgetd entry ''owner'' (JStr []) = Inr receiver" "token_amount_of entry = Inr after"
      "(case map_of pre (str_int n @ '':'' @ m) of None \<Rightarrow> Inr 0
        | Some previous \<Rightarrow> if truthy previous then token_amount_of previous else Inr 0) = Inr before"
      "before < after" "jsub entry ''uiTokenAmount'' = Inr ui" "jget ui ''decimals'' = Inr d"
      "py_int (por d (JInt (exp_asset_decimals e))) = Inr (tx_decimals t)"
    and t: "tx_amount_units t = after - before" "tx_to_address t = py_str receiver" "tx_network t = NetworkCode.SOL"
      "tx_to_address_normalized t = normalize_address (Some (py_str receiver)) (Some NetworkCode.SOL)"
      "tx_is_successful t = succeeded" "tx_confirmations t = confirmations" "tx_external_id t = signature"
    unfolding spl_transfer_def Let_def bindE_eq_Inr prod.case m mint key py_str_simps
    by (clarsimp simp: bindE_eq_Inr split: if_splits)
  have "paid_to e (py_str receiver)" "succeeded" "exp_network e = NetworkCode.SOL"
    using attributable_paid_to [OF assms(4)] assms(4) t by (simp_all add: attributable_def)
  moreover have "exp_token_contract e = Some m" using assms(2) mint by (auto simp: truthy_str_def split: option.splits)
  moreover have "case map_of pre (str_int n @ '':'' @ m) of None \<Rightarrow> before = 0
        | Some previous \<Rightarrow> if truthy previous then token_balance previous before else before = 0"
    using r(3) by (auto simp: amount split: option.splits if_splits)
  moreover have "token_balance entry after" using r(2) by (simp only: amount)
  ultimately show ?thesis
    using r(1,4-7) t(1,6,7)
    by (intro exI [of _ receiver] exI [of _ before] exI [of _ after] exI [of _ ui] exI [of _ d]) (simp add: paid_to_def)
qed

lemma solana_find_token:
  assumes "solana_find now post e ref = Inr txs" and "truthy_str (exp_token_contract e)" and "t \<in> set txs"
    and "attributable e t"
    and typed: "\<And>params transaction meta key entries. solana_rpc post ''getTransaction'' params = Inr transaction \<Longrightarrow>
      jsub transaction ''meta'' = Inr meta \<Longrightarrow> balances_of meta key = Inr entries \<Longrightarrow> balances_typed entries"
  shows "spl_payment post e (tx_external_id t) (tx_amount_units t) (tx_decimals t) (tx_confirmations t)"
proof -
  from assms(1-3) obtain options slot_options signature transaction current_slot meta failure s slot current block_time pres pre posts
      position entry where
    r: "solana_rpc post ''getTransaction'' (JStr signature # options) = Inr transaction"
      "solana_rpc post ''getSlot'' slot_options = Inr current_slot" "jsub transaction ''meta'' = Inr meta" "jget meta ''err'' = Inr failure"
      "jget transaction ''slot'' = Inr s" "py_int (por s (JInt 0)) = Inr slot"
      "py_int (por current_slot (JInt 0)) = Inr current"
      "balances_of meta ''preTokenBalances'' = Inr pres" "balance_index pres = Inr pre"
      "balances_of meta ''postTokenBalances'' = Inr posts" "(position, entry) \<in> set (enumerate 0 posts)"
    and t: "spl_transfer now e pre (max (current - slot) 0) (failure = JNull) block_time signature slot (position, entry) = Inr (Some t)"
    by (auto simp: solana_find_def balances_of_def Let_def bindE_eq_Inr split: if_splits dest!: collectE_in)
  have entry: "entry \<in> set posts" using r(11) by (auto simp: in_set_enumerate_eq)
  from typed [OF r(1,3,10)] entry obtain n m where acc: "token_account entry n m" by (auto simp: balances_typed_def)
  from spl_transfer_row [OF t assms(2) acc assms(4)] obtain receiver before after ui d where
    x: "exp_token_contract e = Some m" "jgetd entry ''owner'' (JStr []) = Inr receiver"
      "normalize_address (Some (py_str receiver)) (Some NetworkCode.SOL) = exp_destination_normalized e"
      "token_balance entry after" "before < after" "tx_amount_units t = after - before" "failure = JNull"
      "tx_confirmations t = max (current - slot) 0" "tx_external_id t = signature"
      "jsub entry ''uiTokenAmount'' = Inr ui" "jget ui ''decimals'' = Inr d"
      "py_int (por d (JInt (exp_asset_decimals e))) = Inr (tx_decimals t)"
    and b: "case map_of pre (str_int n @ '':'' @ m) of None \<Rightarrow> before = 0
        | Some previous \<Rightarrow> if truthy previous then token_balance previous before else before = 0"
    by blast
  have "balance_before pres n m before"
  proof (cases "filter (\<lambda>x. token_account x n m) pres = []")
    case True
    with b balance_index_lookup [OF typed [OF r(1,3,8)] r(9), of n m] show ?thesis by (simp add: balance_before_def)
  next
    case False
    let ?last = "last (filter (\<lambda>x. token_account x n m) pres)"
    have "?last \<in> set (filter (\<lambda>x. token_account x n m) pres)" using False by (rule last_in_set)
    then have "truthy ?last" by (intro token_account_truthy [of _ n m]) simp
    with False b balance_index_lookup [OF typed [OF r(1,3,8)] r(9), of n m] show ?thesis
      by (simp add: balance_before_def)
  qed
  then show ?thesis
    unfolding spl_payment_def using r(1,2,3,4,5,6,7,8,10) x acc entry by metis
qed


definition spl_entry :: "string \<Rightarrow> json" where
  "spl_entry amount = JDict [(''accountIndex'', JInt 1), (''mint'', JStr ''EP''), (''owner'', JStr ''So''),
     (''uiTokenAmount'', JDict [(''amount'', JStr amount), (''decimals'', JInt 6)])]"

definition solana_meta :: json where
  "solana_meta = JDict [(''err'', JNull), (''preTokenBalances'', JList [spl_entry ''40'']),
     (''postTokenBalances'', JList [spl_entry ''10000040''])]"

definition solana_node :: rpc where
  "solana_node meth params = Inr (JDict [(''result'',
     if meth = ''getTransaction'' then JDict [(''slot'', JInt 9), (''meta'', solana_meta)] else JInt 40)])"

definition solana_env :: env where
  "solana_env = demo_env\<lparr>env_fetch := (\<lambda>p m e ref. solana_find 100 solana_node e ref)\<rparr>"

definition solana_open :: db where
  "solana_open = run_all solana_env
     [RegisterUser demo_user, RegisterProvider (demo_provider\<lparr>pp_code := ProviderCode.SOLANA\<rparr>),
      RegisterMethod (demo_method\<lparr>pm_network := NetworkCode.SOL, pm_receiving_address := Some ''So'',
         pm_token_contract := Some ''EP''\<rparr>),
      RegisterProduct demo_product, AddStock 3 [''k1'', ''k2''] None,
      ConfirmOrder 0 3 1 None, SelectMethod 7 ''usdt'', ClaimPaid 7 (Some ''sig'')] empty_db"

lemma solana_open_reachable: "reachable solana_open"
  unfolding solana_open_def by (rule reaches_run_all [OF reaches_refl subset_UNIV]) (simp add: solana_env_def)

lemma solana_node_typed:
  assumes "solana_rpc solana_node ''getTransaction'' params = Inr transaction" and "jsub transaction ''meta'' = Inr meta"
    and "balances_of meta key = Inr entries"
  shows "balances_typed entries"
proof -
  have "transaction = JDict [(''slot'', JInt 9), (''meta'', solana_meta)]"
    using assms(1) by (simp add: solana_rpc_def solana_node_def is_dict_def)
  then have "meta = solana_meta" using assms(2) by (simp add: jsub_def solana_meta_def)
  with assms(3) show ?thesis
    by (auto simp: balances_of_def solana_meta_def balances_typed_def token_account_def spl_entry_def jiter_def por_def
        split: if_splits)
qed


section \<open>Round trips\<close>

lemma takeWhile_str_nat: "takeWhile (\<lambda>c. c \<noteq> CHR ''/'') (str_nat n @ CHR ''/'' # r) = str_nat n"
proof -
  have "digit_char d \<noteq> CHR ''/''" if "d < 10" for d
    using digit_val_digit_char [OF that] by (auto simp: digit_val_def)
  then have "c \<noteq> CHR ''/''" if "c \<in> set (str_nat n)" for c using str_nat_set [OF that] by auto
  then show ?thesis by (simp add: takeWhile_append)
qed

lemma digit_char_space: "d < 10 \<Longrightarrow> \<not> is_space (digit_char d)"
  by (auto simp: is_space_def digit_char_def Let_def)

lemma str_nat_no_sign:
  "read_sign (str_nat n) = (1, str_nat n)" "py_strip (str_nat n) = str_nat n"
proof -
  have d: "digit_char d \<noteq> CHR ''-'' \<and> digit_char d \<noteq> CHR ''+'' \<and> \<not> is_space (digit_char d)" if "d < 10" for d
    using digit_val_digit_char [OF that] digit_char_space [OF that] by (auto simp: digit_val_def)
  have c: "c \<noteq> CHR ''-'' \<and> c \<noteq> CHR ''+'' \<and> \<not> is_space c" if "c \<in> set (str_nat n)" for c
    using str_nat_set [OF that] d by auto
  then show "read_sign (str_nat n) = (1, str_nat n)"
    by (cases "str_nat n") (auto simp: read_sign_def startswith_def)
  show "py_strip (str_nat n) = str_nat n" by (rule py_strip_id) (use c in auto)
qed

text \<open>
  \<^verbatim>\<open>_parse_confirmations\<close> reads the number before the slash of Binance's \<^verbatim>\<open>"done/required"\<close>, and a plain number as
  itself; a text that is no number counts as no confirmation.
\<close>

lemma confirmations_roundtrip:
  "parse_confirmations (JStr (str_nat n @ ''/'' @ r)) = int n \<and> parse_confirmations (JInt (int n)) = int n
    \<and> parse_confirmations JNull = 0 \<and> parse_confirmations (JStr ''n/a'') = 0"
proof -
  have i: "int_of_text 10 (str_nat n) = Inr (int n)"
    by (simp add: int_of_text_def str_nat_no_sign read_digits_str_nat)
  have s: "str_int (int n) = str_nat n" by (simp add: str_int_def)
  have t: "takeWhile (\<lambda>c. c \<noteq> CHR ''/'') (str_nat n) = str_nat n"
    using takeWhile_str_nat [of n "[]"] by (metis takeWhile_idem)
  have x: "parse_confirmations (JStr ''n/a'') = 0" by code_simp
  show ?thesis using takeWhile_str_nat [of n r] x by (simp add: parse_confirmations_def i s t)
qed

lemma hex_char:
  assumes "c \<in> set hex_digits"
  shows "\<exists>v < 16. digit_val c = Some v \<and> hex_digit v = c \<and> of_char c \<notin> {9, 10, 11, 12, 13, 32 :: nat} \<and> char_lower c = c"
proof -
  have "list_all (\<lambda>c. case digit_val c of None \<Rightarrow> False
      | Some v \<Rightarrow> v < 16 \<and> hex_digit v = c \<and> of_char c \<notin> {9, 10, 11, 12, 13, 32 :: nat} \<and> char_lower c = c) hex_digits"
    by code_simp
  with assms show ?thesis by (auto simp: list_all_iff split: option.splits)
qed

lemma from_hex_text:
  "set h \<subseteq> set hex_digits \<Longrightarrow> even (length h) \<Longrightarrow>
   \<exists>bs. from_hex h = Some bs \<and> length h = 2 * length bs \<and> concat (map hex_byte bs) = h \<and> set bs \<subseteq> {..<256}"
proof (induction h rule: from_hex.induct)
  case (3 c d cs)
  from 3(3) obtain u v where c: "digit_val c = Some u" "hex_digit u = c" "of_char c \<notin> {9, 10, 11, 12, 13, 32 :: nat}"
    "u < 16" and d: "digit_val d = Some v" "hex_digit v = d" "v < 16"
    using hex_char [of c] hex_char [of d] by auto
  from 3(2) [OF c(3) refl c(1) d(1)] 3(3,4) obtain bs where "from_hex cs = Some bs" "length cs = 2 * length bs"
    "concat (map hex_byte bs) = cs" "set bs \<subseteq> {..<256}" by auto
  moreover have "hex_byte (u * 16 + v) = [c, d]" using c d by (simp add: hex_byte_def)
  ultimately show ?case using c d by auto
qed auto

text \<open>
  The two forms of a TRON address convert back and forth. For every 21-byte address in lower-case hexadecimal with the
  prefix of the main network, \<^verbatim>\<open>base58_to_hex_address\<close> undoes \<^verbatim>\<open>hex_to_base58_address\<close>, if base58 decodes the bytes
  it encodes and a digest has at least four bytes.
\<close>

lemma tron_address_roundtrip:
  assumes "set h \<subseteq> set hex_digits" and "length h = 42" and "startswith h ''41''"
    and "\<And>bs. set bs \<subseteq> {..<256} \<Longrightarrow> b58_decode c (b58_encode c bs) = Some bs"
    and "\<And>bs. 4 \<le> length (digest c bs) \<and> set (digest c bs) \<subseteq> {..<256}"
  shows "\<exists>a. hex_to_base58_address c (JStr h) = Inr a \<and> base58_to_hex_address c a = h"
proof -
  obtain bs where b: "from_hex h = Some bs" "length h = 2 * length bs" "concat (map hex_byte bs) = h" "set bs \<subseteq> {..<256}"
    using from_hex_text [OF assms(1)] assms(2) by auto
  let ?sum = "take 4 (digest c (digest c bs))"
  have n: "length bs = 21" "length ?sum = 4" using b(2) assms(2,5) by auto
  have "set ?sum \<subseteq> {..<256}" using assms(5) set_take_subset by fast
  with b(4) have "b58_decode c (b58_encode c (bs @ ?sum)) = Some (bs @ ?sum)" by (intro assms(4)) auto
  moreover have "py_lower h = h"
    using assms(1) hex_char by (force simp: py_lower_def intro!: map_idI)
  moreover have "\<not> startswith h ''0x''" using assms(3) by (auto simp: startswith_def)
  ultimately show ?thesis
    using assms(2,3) b n by (simp add: hex_to_base58_address_def jstring_def Let_def base58_to_hex_address_def)
qed

section \<open>What an adapter reports\<close>

text \<open>
  C29: an adapter speaks for its provider. Whatever the provider answers, every transfer that the adapter built for
  a provider reports carries the code of that provider, and the adapters of one chain report only its network; so the
  fingerprint of a transfer never names another provider.
\<close>

theorem adapter_speaks_for_its_provider:
  assumes "build_adapter env p network = Inr a" and "find_transactions now w a e reference = Inr txs" and "t \<in> set txs"
  shows "tx_provider t = ps_code p
    \<and> (ps_code p \<in> {ProviderCode.EVM, ProviderCode.UTXO} \<longrightarrow> network = Some (tx_network t))"
  using found_reports [OF assms(2,3)] built_adapter [OF assms(1)] by (cases a) auto

definition evm_setup :: ProviderSetup where
  "evm_setup = \<lparr>ps_code = ProviderCode.EVM, ps_base_url = Some ''https://node'', ps_config = JNull,
     ps_encrypted_api_key = None, ps_encrypted_api_secret = None, ps_encrypted_passphrase = None,
     ps_account_identifier = None\<rparr>"

definition evm_world :: world where
  "evm_world = \<lparr>w_codec = demo_codec, w_rpc = (\<lambda>_. evm_node), w_web = (\<lambda>_ _ _. Inr JNull), w_tip = (\<lambda>_. Inr ''0''),
     w_pay_probe = (\<lambda>_. Inr True)\<rparr>"

theorem adapter_speaks_for_its_provider_witness:
  "\<exists>a t. build_adapter demo_env evm_setup (Some NetworkCode.BEP20) = Inr a
     \<and> find_transactions 100 evm_world a (sample_expectation\<lparr>exp_token_contract := Some ''0xC0''\<rparr>) (Some ''ab'') = Inr [t]
     \<and> tx_provider t = ProviderCode.EVM"
  (is "\<exists>a t. ?b = Inr a \<and> find_transactions 100 evm_world a ?e ?r = Inr [t] \<and> _")
proof -
  have "case ?b of Inl _ \<Rightarrow> False | Inr a \<Rightarrow>
      (case find_transactions 100 evm_world a ?e ?r of Inl _ \<Rightarrow> False | Inr ts \<Rightarrow> length ts = 1)" by code_simp
  then obtain a t where a: "?b = Inr a" "find_transactions 100 evm_world a ?e ?r = Inr [t]"
    by (auto simp: length_Suc_conv split: sum.splits)
  from adapter_speaks_for_its_provider [OF this, of t] a show ?thesis by (auto simp: evm_setup_def)
qed

text \<open>
  C30: a chain without a search by address finds nothing without a hash: for an EVM, Solana or TRON provider a pass
  over a payment whose customer gave no reference returns no transfer, whatever the node holds. The checkout makes the
  reference mandatory for the first two and not for TRON, where such a payment is never detected.
\<close>

theorem nothing_without_reference:
  assumes "adapter_code a \<in> {ProviderCode.EVM, ProviderCode.SOLANA, ProviderCode.TRON}" and "py_strip (or_else reference []) = []"
  shows "find_transactions now w a e reference = Inr []
    \<and> (requires_customer_reference (adapter_code a) \<longleftrightarrow> adapter_code a \<noteq> ProviderCode.TRON)"
proof -
  have "normalize_txid reference = []" using assms(2) by (cases reference) (auto simp: normalize_txid_def Let_def)
  with assms show ?thesis
    by (cases a) (simp_all add: find_transactions_def evm_find_def solana_find_def tron_find_def requires_customer_reference_def)
qed

theorem nothing_without_reference_witness:
  "find_transactions 100 evm_world (TronAdapter ''https://node'' JNull) sample_expectation None = Inr []
   \<and> \<not> requires_customer_reference ProviderCode.TRON"
  using nothing_without_reference [of "TronAdapter ''https://node'' JNull" None 100 evm_world sample_expectation]
  by simp

end
