(* ===== verification/Access.thy ===== *)
theory Access
  imports Enums
begin

text \<open>
  Role-based access control of the panel (\<^verbatim>\<open>app/admin/permissions/rbac.py\<close>): a permission is granted when one of
  the roles an operator holds lists it.
\<close>

section \<open>Permissions and roles\<close>

datatype Permissions =
    DASHBOARD_VIEW | ANALYTICS_VIEW | AUDIT_VIEW | LOGS_VIEW | ORDERS_VIEW | ORDERS_CANCEL |
    ORDERS_FORCE_DELIVERY | PAYMENTS_VIEW | PAYMENTS_RECHECK | PAYMENTS_APPROVE | PAYMENTS_REJECT |
    REFUNDS_CREATE | REFUNDS_COMPLETE | RECONCILIATION_RESOLVE | PRODUCTS_VIEW | PRODUCTS_MANAGE |
    PRODUCTS_ARCHIVE | CATEGORIES_MANAGE | INVENTORY_VIEW | INVENTORY_MANAGE | INVENTORY_ADJUST |
    COUPONS_VIEW | COUPONS_MANAGE | REFERRALS_VIEW | USERS_VIEW | USERS_MANAGE | USERS_BAN | RESELLERS_VIEW |
    RESELLERS_MANAGE | RESELLERS_KEYS | SUPPORT_VIEW | SUPPORT_REPLY | SUPPORT_ASSIGN | PROVIDERS_VIEW |
    PROVIDERS_MANAGE | PROVIDERS_CREDENTIALS | PAYMENT_METHODS_MANAGE | BLOCKCHAIN_MANAGE | SETTINGS_MANAGE |
    MAINTENANCE_TOGGLE | BROADCAST_SEND | ROLES_MANAGE

fun permission_value :: "Permissions \<Rightarrow> string" where
  "permission_value DASHBOARD_VIEW = ''dashboard.view''"
| "permission_value ANALYTICS_VIEW = ''analytics.view''"
| "permission_value AUDIT_VIEW = ''audit.view''"
| "permission_value LOGS_VIEW = ''logs.view''"
| "permission_value ORDERS_VIEW = ''orders.view''"
| "permission_value ORDERS_CANCEL = ''orders.cancel''"
| "permission_value ORDERS_FORCE_DELIVERY = ''orders.force_delivery''"
| "permission_value PAYMENTS_VIEW = ''payments.view''"
| "permission_value PAYMENTS_RECHECK = ''payments.recheck''"
| "permission_value PAYMENTS_APPROVE = ''payments.approve''"
| "permission_value PAYMENTS_REJECT = ''payments.reject''"
| "permission_value REFUNDS_CREATE = ''refunds.create''"
| "permission_value REFUNDS_COMPLETE = ''refunds.complete''"
| "permission_value RECONCILIATION_RESOLVE = ''reconciliation.resolve''"
| "permission_value PRODUCTS_VIEW = ''products.view''"
| "permission_value PRODUCTS_MANAGE = ''products.manage''"
| "permission_value PRODUCTS_ARCHIVE = ''products.archive''"
| "permission_value CATEGORIES_MANAGE = ''categories.manage''"
| "permission_value INVENTORY_VIEW = ''inventory.view''"
| "permission_value INVENTORY_MANAGE = ''inventory.manage''"
| "permission_value INVENTORY_ADJUST = ''inventory.adjust''"
| "permission_value COUPONS_VIEW = ''coupons.view''"
| "permission_value COUPONS_MANAGE = ''coupons.manage''"
| "permission_value REFERRALS_VIEW = ''referrals.view''"
| "permission_value USERS_VIEW = ''users.view''"
| "permission_value USERS_MANAGE = ''users.manage''"
| "permission_value USERS_BAN = ''users.ban''"
| "permission_value RESELLERS_VIEW = ''resellers.view''"
| "permission_value RESELLERS_MANAGE = ''resellers.manage''"
| "permission_value RESELLERS_KEYS = ''resellers.keys''"
| "permission_value SUPPORT_VIEW = ''support.view''"
| "permission_value SUPPORT_REPLY = ''support.reply''"
| "permission_value SUPPORT_ASSIGN = ''support.assign''"
| "permission_value PROVIDERS_VIEW = ''providers.view''"
| "permission_value PROVIDERS_MANAGE = ''providers.manage''"
| "permission_value PROVIDERS_CREDENTIALS = ''providers.credentials''"
| "permission_value PAYMENT_METHODS_MANAGE = ''payment_methods.manage''"
| "permission_value BLOCKCHAIN_MANAGE = ''blockchain.manage''"
| "permission_value SETTINGS_MANAGE = ''settings.manage''"
| "permission_value MAINTENANCE_TOGGLE = ''maintenance.toggle''"
| "permission_value BROADCAST_SEND = ''broadcast.send''"
| "permission_value ROLES_MANAGE = ''roles.manage''"

definition PERMISSIONS :: "Permissions list" where
  "PERMISSIONS = [
     DASHBOARD_VIEW, ANALYTICS_VIEW, AUDIT_VIEW, LOGS_VIEW, ORDERS_VIEW, ORDERS_CANCEL, ORDERS_FORCE_DELIVERY,
     PAYMENTS_VIEW, PAYMENTS_RECHECK, PAYMENTS_APPROVE, PAYMENTS_REJECT, REFUNDS_CREATE, REFUNDS_COMPLETE,
     RECONCILIATION_RESOLVE, PRODUCTS_VIEW, PRODUCTS_MANAGE, PRODUCTS_ARCHIVE, CATEGORIES_MANAGE,
     INVENTORY_VIEW, INVENTORY_MANAGE, INVENTORY_ADJUST, COUPONS_VIEW, COUPONS_MANAGE, REFERRALS_VIEW,
     USERS_VIEW, USERS_MANAGE, USERS_BAN, RESELLERS_VIEW, RESELLERS_MANAGE, RESELLERS_KEYS, SUPPORT_VIEW,
     SUPPORT_REPLY, SUPPORT_ASSIGN, PROVIDERS_VIEW, PROVIDERS_MANAGE, PROVIDERS_CREDENTIALS,
     PAYMENT_METHODS_MANAGE, BLOCKCHAIN_MANAGE, SETTINGS_MANAGE, MAINTENANCE_TOGGLE, BROADCAST_SEND,
     ROLES_MANAGE]"

definition HIGH_RISK_PERMISSIONS :: "Permissions list" where
  "HIGH_RISK_PERMISSIONS = [
     PAYMENTS_APPROVE, PAYMENTS_REJECT, REFUNDS_CREATE, REFUNDS_COMPLETE, PROVIDERS_CREDENTIALS,
     PAYMENT_METHODS_MANAGE, BLOCKCHAIN_MANAGE, INVENTORY_ADJUST, PRODUCTS_ARCHIVE, USERS_BAN, BROADCAST_SEND,
     MAINTENANCE_TOGGLE, ROLES_MANAGE, ORDERS_FORCE_DELIVERY]"

definition READ_ONLY :: "Permissions list" where
  "READ_ONLY = [
     DASHBOARD_VIEW, ORDERS_VIEW, PAYMENTS_VIEW, PRODUCTS_VIEW, INVENTORY_VIEW, USERS_VIEW, COUPONS_VIEW,
     RESELLERS_VIEW, SUPPORT_VIEW, ANALYTICS_VIEW, REFERRALS_VIEW, PROVIDERS_VIEW]"

fun ROLE_PERMISSIONS :: "RoleName \<Rightarrow> Permissions list" where
  "ROLE_PERMISSIONS RoleName.SUPER_ADMIN = PERMISSIONS"
| "ROLE_PERMISSIONS RoleName.ADMIN =
     filter (\<lambda>p. p \<notin> {ROLES_MANAGE, PROVIDERS_CREDENTIALS, BLOCKCHAIN_MANAGE}) PERMISSIONS"
| "ROLE_PERMISSIONS RoleName.PAYMENT_MANAGER = READ_ONLY @
     [PAYMENTS_RECHECK, PAYMENTS_APPROVE, PAYMENTS_REJECT, REFUNDS_CREATE,
      RECONCILIATION_RESOLVE, ORDERS_CANCEL, AUDIT_VIEW]"
| "ROLE_PERMISSIONS RoleName.PRODUCT_MANAGER = READ_ONLY @
     [PRODUCTS_MANAGE, PRODUCTS_ARCHIVE, CATEGORIES_MANAGE, INVENTORY_MANAGE,
      INVENTORY_ADJUST, COUPONS_MANAGE]"
| "ROLE_PERMISSIONS RoleName.SUPPORT_AGENT = READ_ONLY @
     [SUPPORT_REPLY, SUPPORT_ASSIGN, PAYMENTS_RECHECK]"
| "ROLE_PERMISSIONS RoleName.ANALYST = READ_ONLY @
     [AUDIT_VIEW]"
| "ROLE_PERMISSIONS RoleName.RESELLER_MANAGER = READ_ONLY @
     [RESELLERS_MANAGE, RESELLERS_KEYS]"

definition permissions_for :: "RoleName list \<Rightarrow> Permissions set" where
  "permissions_for role_names = fold (\<lambda>role granted. granted \<union> set (ROLE_PERMISSIONS role)) role_names {}"

definition permission_named :: "string \<Rightarrow> Permissions option" where
  "permission_named code = find (\<lambda>p. permission_value p = code) PERMISSIONS"

definition has_permission :: "RoleName list \<Rightarrow> string \<Rightarrow> bool" where
  "has_permission role_names code =
     (case permission_named code of None \<Rightarrow> False | Some needed \<Rightarrow> needed \<in> permissions_for role_names)"

definition require_permission :: "RoleName list \<Rightarrow> string \<Rightarrow> error + unit" where
  "require_permission role_names code = (if has_permission role_names code then Inr () else Inl PermissionDeniedError)"

definition is_high_risk :: "string \<Rightarrow> bool" where
  "is_high_risk code = (case permission_named code of None \<Rightarrow> False | Some p \<Rightarrow> p \<in> set HIGH_RISK_PERMISSIONS)"

section \<open>The operator\<close>

text \<open>
  \<^verbatim>\<open>app/admin/services/context.py\<close>: the roles come from the database; an account named in the configuration holds
  \<^verbatim>\<open>SUPER_ADMIN\<close> as well. Without a role there is no context and the panel does not answer.
\<close>

record AdminContext =
  ad_user :: nat
  ad_roles :: "RoleName list"
  ad_permissions :: "Permissions set"

definition load_admin_context :: "int list \<Rightarrow> int \<Rightarrow> nat \<Rightarrow> RoleName list \<Rightarrow> AdminContext option" where
  "load_admin_context bootstrap_admin_ids telegram_id user stored_roles =
     (let role_names = (if telegram_id \<in> set bootstrap_admin_ids \<and> RoleName.SUPER_ADMIN \<notin> set stored_roles
                        then RoleName.SUPER_ADMIN # stored_roles else stored_roles) in
      if role_names = [] then None
      else Some \<lparr>ad_user = user, ad_roles = role_names, ad_permissions = permissions_for role_names\<rparr>)"

definition admin_require :: "AdminContext \<Rightarrow> Permissions \<Rightarrow> error + unit" where
  "admin_require a p = (if p \<in> ad_permissions a then Inr () else Inl PermissionDeniedError)"

section \<open>What the roles grant\<close>

lemma permissions_for_iff: "p \<in> permissions_for roles \<longleftrightarrow> (\<exists>r \<in> set roles. p \<in> set (ROLE_PERMISSIONS r))"
proof -
  have "p \<in> fold (\<lambda>role granted. granted \<union> set (ROLE_PERMISSIONS role)) roles g
      \<longleftrightarrow> p \<in> g \<or> (\<exists>r \<in> set roles. p \<in> set (ROLE_PERMISSIONS r))" for g
    by (induction roles arbitrary: g) auto
  then show ?thesis by (simp add: permissions_for_def)
qed

lemma permission_named_value: "permission_named (permission_value p) = Some p"
proof -
  have "\<forall>p \<in> set PERMISSIONS. permission_named (permission_value p) = Some p" by code_simp
  moreover have "p \<in> set PERMISSIONS" by (cases p) (simp_all add: PERMISSIONS_def)
  ultimately show ?thesis by blast
qed

lemma has_permission_iff: "has_permission roles (permission_value p) \<longleftrightarrow> (\<exists>r \<in> set roles. p \<in> set (ROLE_PERMISSIONS r))"
  by (simp add: has_permission_def permission_named_value permissions_for_iff)

text \<open>Where customer money arrives is changed by a super admin only.\<close>

lemma super_admin_only:
  "p \<in> {ROLES_MANAGE, PROVIDERS_CREDENTIALS, BLOCKCHAIN_MANAGE} \<Longrightarrow>
   p \<in> permissions_for roles \<longleftrightarrow> RoleName.SUPER_ADMIN \<in> set roles"
proof -
  assume p: "p \<in> {ROLES_MANAGE, PROVIDERS_CREDENTIALS, BLOCKCHAIN_MANAGE}"
  have "p \<in> set (ROLE_PERMISSIONS r) \<longleftrightarrow> r = RoleName.SUPER_ADMIN" for r
    using p by (cases r) (auto simp: PERMISSIONS_def READ_ONLY_def)
  then show ?thesis by (auto simp: permissions_for_iff)
qed

lemma load_admin_context_super:
  assumes "load_admin_context bootstrap t u roles = Some a" "p \<in> {ROLES_MANAGE, PROVIDERS_CREDENTIALS, BLOCKCHAIN_MANAGE}"
  shows "ad_user a = u" "p \<in> ad_permissions a \<longleftrightarrow> RoleName.SUPER_ADMIN \<in> set roles \<or> t \<in> set bootstrap"
proof -
  define rs where "rs = (if t \<in> set bootstrap \<and> RoleName.SUPER_ADMIN \<notin> set roles then RoleName.SUPER_ADMIN # roles else roles)"
  have a: "a = \<lparr>ad_user = u, ad_roles = rs, ad_permissions = permissions_for rs\<rparr>"
    using assms(1) unfolding load_admin_context_def Let_def rs_def [symmetric] by (auto split: if_splits)
  then show "ad_user a = u" by simp
  have "p \<in> ad_permissions a \<longleftrightarrow> RoleName.SUPER_ADMIN \<in> set rs" using super_admin_only [OF assms(2), of rs] a by simp
  also have "\<dots> \<longleftrightarrow> RoleName.SUPER_ADMIN \<in> set roles \<or> t \<in> set bootstrap" by (auto simp: rs_def)
  finally show "p \<in> ad_permissions a \<longleftrightarrow> RoleName.SUPER_ADMIN \<in> set roles \<or> t \<in> set bootstrap" .
qed

end
