(* ===== verification/Checksums.thy ===== *)
theory Checksums
  imports Prelude
begin

text \<open>
  The checksums of \<^verbatim>\<open>app/domain/payments/addresses.py\<close> over Python integers: the BCH code of Bech32 and
  CRC-16/XMODEM. The locale \<open>checksum_code\<close> is their contract: a register that takes one symbol at a time, injective in
  the register and in the symbol, which is what makes it notice one changed symbol.
\<close>

unbundle bit_operations_syntax

section \<open>The contract\<close>

locale checksum_code =
  fixes ok :: "'s \<Rightarrow> bool" and symbol :: "'v \<Rightarrow> bool" and step :: "'s \<Rightarrow> 'v \<Rightarrow> 's"
  assumes step_ok: "ok s \<Longrightarrow> symbol v \<Longrightarrow> ok (step s v)"
    and register_inj: "ok s \<Longrightarrow> ok s' \<Longrightarrow> symbol v \<Longrightarrow> step s v = step s' v \<Longrightarrow> s = s'"
    and symbol_inj: "ok s \<Longrightarrow> symbol v \<Longrightarrow> symbol v' \<Longrightarrow> step s v = step s v' \<Longrightarrow> v = v'"
begin

lemma fold_ok: "ok s \<Longrightarrow> list_all symbol xs \<Longrightarrow> ok (foldl step s xs)"
  by (induction xs arbitrary: s) (auto intro: step_ok)

lemma fold_inj: "ok s \<Longrightarrow> ok s' \<Longrightarrow> list_all symbol xs \<Longrightarrow> foldl step s xs = foldl step s' xs \<Longrightarrow> s = s'"
  by (induction xs arbitrary: s s') (auto dest: register_inj intro: step_ok)

lemma notices_change:
  assumes "ok s" "list_all symbol xs" "i < length xs" "symbol v" "v \<noteq> xs ! i"
  shows "foldl step s (xs[i := v]) \<noteq> foldl step s xs"
proof
  let ?r = "foldl step s (take i xs)"
  have xs: "list_all symbol (take i xs)" "symbol (xs ! i)" "list_all symbol (drop (Suc i) xs)"
    using assms by (auto simp: list_all_iff dest: in_set_takeD in_set_dropD)
  have r: "ok ?r" using assms(1) xs(1) by (rule fold_ok)
  assume eq: "foldl step s (xs[i := v]) = foldl step s xs"
  have "foldl step (step ?r v) (drop (Suc i) xs) = foldl step (step ?r (xs ! i)) (drop (Suc i) xs)"
    using eq assms(3) id_take_nth_drop [OF assms(3)]
    by (metis foldl_Cons foldl_append upd_conv_take_nth_drop)
  then have "step ?r v = step ?r (xs ! i)"
    using fold_inj step_ok r xs assms(4) by blast
  with symbol_inj r xs assms(4,5) show False by blast
qed

end

section \<open>Bech32\<close>

definition BECH32_GENERATOR :: "int list" where
  "BECH32_GENERATOR = [0x3B6A57B2, 0x26508E6D, 0x1EA119FA, 0x3D4233DD, 0x2A1462B3]"

definition BECH32_CONST :: int where "BECH32_CONST = 1"
definition BECH32M_CONST :: int where "BECH32M_CONST = 0x2BC830A3"

definition polymod_step :: "int \<Rightarrow> int \<Rightarrow> int" where
  "polymod_step checksum v =
     (let top = drop_bit 25 checksum;
          shifted = push_bit 5 (checksum AND 0x1FFFFFF) XOR v
      in foldl (\<lambda>c (index, g). c XOR (if drop_bit index top AND 1 \<noteq> 0 then g else 0)) shifted (enumerate 0 BECH32_GENERATOR))"

definition bech32_polymod :: "int list \<Rightarrow> int" where
  "bech32_polymod values = foldl polymod_step 1 values"

text \<open>The step is linear over the two-element field: a shift with feedback, and the new symbol added.\<close>

definition tap :: "int \<Rightarrow> nat \<Rightarrow> int \<Rightarrow> int" where
  "tap g i t = (if bit t i then g else 0)"

definition feedback :: "int \<Rightarrow> int" where
  "feedback t = tap 0x3B6A57B2 0 t XOR tap 0x26508E6D 1 t XOR tap 0x1EA119FA 2 t XOR tap 0x3D4233DD 3 t XOR tap 0x2A1462B3 4 t"

definition shift5 :: "int \<Rightarrow> int" where
  "shift5 c = push_bit 5 (take_bit 25 c) XOR feedback (drop_bit 25 c)"

lemma xor_cancel: "(a XOR c) = (b XOR c) \<longleftrightarrow> a = b" "(c XOR a) = (c XOR b) \<longleftrightarrow> a = b" "a XOR b = 0 \<longleftrightarrow> a = b"
  "a = a XOR b \<longleftrightarrow> b = 0" "a XOR b = a \<longleftrightarrow> b = 0"
  for a b c :: int
  by (auto simp: bit_eq_iff bit_xor_iff)

lemma tap_eq: "(if drop_bit i t AND 1 \<noteq> 0 then g else 0) = tap g i t"
  by (simp add: tap_def and_one_eq bit_iff_odd_drop_bit odd_iff_mod_2_eq_one)

lemma generator_taps:
  "enumerate 0 BECH32_GENERATOR = [(0, 0x3B6A57B2), (1, 0x26508E6D), (2, 0x1EA119FA), (3, 0x3D4233DD), (4, 0x2A1462B3)]"
  by (simp add: BECH32_GENERATOR_def)

lemma polymod_step_linear: "polymod_step c v = shift5 c XOR v"
proof -
  have m: "c AND 0x1FFFFFF = take_bit 25 c" by (simp add: take_bit_eq_mask mask_eq_exp_minus_1)
  show ?thesis
    by (simp only: polymod_step_def Let_def generator_taps foldl_Cons foldl_Nil case_prod_conv tap_eq shift5_def feedback_def m
        xor.assoc xor.commute xor.left_commute)
qed

lemma tap_xor: "tap g i (a XOR b) = tap g i a XOR tap g i b"
  by (simp add: tap_def bit_xor_iff)

lemma feedback_xor: "feedback (a XOR b) = feedback a XOR feedback b"
  by (simp add: feedback_def tap_xor ac_simps)

lemma shift5_xor: "shift5 (a XOR b) = shift5 a XOR shift5 b"
  by (simp add: shift5_def take_bit_xor drop_bit_xor push_bit_xor feedback_xor ac_simps)

abbreviation bits30 :: "int \<Rightarrow> bool" where "bits30 c \<equiv> take_bit 30 c = c"
abbreviation symbol5 :: "int \<Rightarrow> bool" where "symbol5 v \<equiv> take_bit 5 v = v"

lemma symbol5_iff: "symbol5 v \<longleftrightarrow> v \<in> set [0..31]"
  by (auto simp: take_bit_int_eq_self_iff)

lemma feedback_cases: "\<forall>t \<in> set [0..31]. take_bit 30 (feedback t) = feedback t \<and> (take_bit 5 (feedback t) = 0 \<longrightarrow> t = 0)"
  by code_simp

lemma top_symbol: "bits30 c \<Longrightarrow> drop_bit 25 c \<in> set [0..31]"
proof -
  assume "bits30 c"
  then have "drop_bit 25 c = drop_bit 25 (take_bit 30 c)" by simp
  also have "\<dots> = take_bit 5 (drop_bit 25 c)" by (simp add: drop_bit_take_bit)
  finally show ?thesis by (metis symbol5_iff)
qed

lemma shift5_bits30: "bits30 c \<Longrightarrow> bits30 (shift5 c)"
  using feedback_cases top_symbol [of c] by (simp add: shift5_def take_bit_xor take_bit_push_bit)

lemma shift5_kernel:
  assumes "bits30 d" "shift5 d = 0"
  shows "d = 0"
proof -
  have eq: "push_bit 5 (take_bit 25 d) = feedback (drop_bit 25 d)" using assms(2) by (simp add: shift5_def xor_cancel)
  then have "take_bit 5 (feedback (drop_bit 25 d)) = 0"
    by (metis push_bit_take_bit take_bit_push_bit diff_self_eq_0 push_bit_of_0 take_bit_0)
  then have top: "drop_bit 25 d = 0" using feedback_cases top_symbol [OF assms(1)] by blast
  with eq have "take_bit 25 d = 0" by (simp add: feedback_def tap_def)
  with top show ?thesis by (metis bits_ident push_bit_of_0 add.right_neutral)
qed

lemma shift5_inj: "bits30 c \<Longrightarrow> bits30 d \<Longrightarrow> shift5 c = shift5 d \<Longrightarrow> c = d"
  using shift5_kernel [of "c XOR d"] by (simp add: shift5_xor take_bit_xor xor_cancel)

lemma symbol5_bits30: "symbol5 v \<Longrightarrow> bits30 v"
  by (auto simp: take_bit_int_eq_self_iff)

interpretation bch: checksum_code bits30 symbol5 polymod_step
  by unfold_locales
    (auto simp: polymod_step_linear xor_cancel take_bit_xor shift5_bits30 symbol5_bits30 intro: shift5_inj)

text \<open>How far a change of one symbol is carried by the symbols that follow it.\<close>

lemma polymod_difference: "foldl polymod_step c xs XOR foldl polymod_step d xs = (shift5 ^^ length xs) (c XOR d)"
proof (induction xs arbitrary: c d)
  case (Cons x xs)
  have "polymod_step c x XOR polymod_step d x = shift5 (c XOR d)"
    by (simp add: polymod_step_linear shift5_xor ac_simps)
  then show ?case using Cons by (simp add: funpow_swap1)
qed simp

text \<open>
  The two constants of the encodings differ by a value that no single symbol reaches within the length of an address:
  walking backwards from it, every predecessor is larger than a symbol.
\<close>

definition unshift5 :: "int \<Rightarrow> int" where
  "unshift5 y = (case filter (\<lambda>t. take_bit 5 (feedback t) = take_bit 5 y) [0..31] of
     [] \<Rightarrow> 0 | t # _ \<Rightarrow> push_bit 25 t XOR drop_bit 5 (y XOR feedback t))"

fun unreached :: "nat \<Rightarrow> int \<Rightarrow> bool" where
  "unreached 0 y \<longleftrightarrow> 31 < y"
| "unreached (Suc n) y \<longleftrightarrow> 31 < y \<and> take_bit 30 (unshift5 y) = unshift5 y \<and> shift5 (unshift5 y) = y \<and> unreached n (unshift5 y)"

lemma unreached_symbol: "unreached n y \<Longrightarrow> k \<le> n \<Longrightarrow> symbol5 v \<Longrightarrow> (shift5 ^^ k) v \<noteq> y"
proof (induction n arbitrary: k y)
  case 0
  then show ?case using symbol5_iff [of v] by auto
next
  case (Suc n)
  show ?case
  proof (cases k)
    case 0
    with Suc.prems show ?thesis using symbol5_iff [of v] by auto
  next
    case (Suc j)
    have "bits30 ((shift5 ^^ j) v)" by (induction j) (auto intro: shift5_bits30 symbol5_bits30 [OF Suc.prems(3)])
    moreover have "(shift5 ^^ j) v \<noteq> unshift5 y" using Suc.IH Suc.prems Suc by auto
    ultimately show ?thesis using Suc Suc.prems(1) shift5_inj [of "(shift5 ^^ j) v" "unshift5 y"] by auto
  qed
qed

lemma constants_apart: "unreached 88 (BECH32_CONST XOR BECH32M_CONST)"
  by code_simp

section \<open>CRC-16/XMODEM\<close>

definition crc16_shift :: "int \<Rightarrow> int" where
  "crc16_shift crc = (if crc AND 0x8000 \<noteq> 0 then (push_bit 1 crc XOR 0x1021) AND 0xFFFF else push_bit 1 crc AND 0xFFFF)"

definition crc16_byte :: "int \<Rightarrow> int \<Rightarrow> int" where
  "crc16_byte crc b = (crc16_shift ^^ 8) (crc XOR push_bit 8 b)"

definition crc16_xmodem :: "int list \<Rightarrow> int" where
  "crc16_xmodem data = foldl crc16_byte 0 data"

text \<open>The same register fed bit by bit, the highest bit of a byte first.\<close>

definition crc16_bit :: "int \<Rightarrow> bool \<Rightarrow> int" where
  "crc16_bit crc b = crc16_shift (crc XOR (if b then 0x8000 else 0))"

definition bits_of :: "nat \<Rightarrow> int \<Rightarrow> bool list" where
  "bits_of n v = map (\<lambda>i. bit v i) (rev [0..<n])"

abbreviation bits16 :: "int \<Rightarrow> bool" where "bits16 c \<equiv> take_bit 16 c = c"

lemma crc16_shift_linear: "crc16_shift c = take_bit 16 (push_bit 1 c XOR tap 0x1021 15 c)"
proof -
  have m: "c AND 0xFFFF = take_bit 16 c" for c :: int by (simp add: take_bit_eq_mask mask_eq_exp_minus_1)
  have "(c AND 0x8000 \<noteq> 0) = bit c 15"
    using and_exp_eq_0_iff_not_bit [of c 15] by simp
  then show ?thesis by (simp add: crc16_shift_def tap_def m)
qed

lemma crc16_shift_xor: "crc16_shift (a XOR b) = crc16_shift a XOR crc16_shift b"
  by (simp add: crc16_shift_linear tap_xor push_bit_xor take_bit_xor ac_simps)

lemma crc16_shift_bits16: "bits16 (crc16_shift c)"
  by (simp add: crc16_shift_linear)

lemma crc16_shift_kernel:
  assumes "bits16 d" "crc16_shift d = 0"
  shows "d = 0"
proof -
  have z: "bit (take_bit 16 (push_bit 1 d XOR tap 0x1021 15 d)) n = False" for n
    using assms(2) by (simp add: crc16_shift_linear)
  have "bit d 15 = bit (take_bit 16 (push_bit 1 d XOR tap 0x1021 15 d)) 0"
    unfolding bit_take_bit_iff bit_xor_iff bit_push_bit_iff by (simp add: tap_def bit_0)
  then have "\<not> bit d 15" using z by simp
  have "bit d n = bit (take_bit 16 (push_bit 1 d XOR tap 0x1021 15 d)) (Suc n)" if "n < 15" for n
    unfolding bit_take_bit_iff bit_xor_iff bit_push_bit_iff using that \<open>\<not> bit d 15\<close> by (simp add: tap_def)
  then have "\<not> bit d n" if "n < 15" for n using z that by simp
  moreover have "\<not> bit d n" if "16 \<le> n" for n
    using assms(1) that by (metis bit_take_bit_iff not_le)
  ultimately have "\<not> bit d n" for n
    using \<open>\<not> bit d 15\<close> by (cases "n < 15"; cases "n = 15") auto
  then show ?thesis by (auto simp: bit_eq_iff)
qed

lemma crc16_shift_inj: "bits16 c \<Longrightarrow> bits16 d \<Longrightarrow> crc16_shift c = crc16_shift d \<Longrightarrow> c = d"
  using crc16_shift_kernel [of "c XOR d"] by (simp add: crc16_shift_xor take_bit_xor xor_cancel)

interpretation crc_bit: checksum_code bits16 "\<lambda>_. True" crc16_bit
  by unfold_locales
    (auto simp: crc16_bit_def crc16_shift_bits16 take_bit_xor xor_cancel split: if_splits dest!: crc16_shift_inj [rotated 2])

lemma funpow_bits16: "0 < n \<Longrightarrow> bits16 ((crc16_shift ^^ n) c)"
  by (cases n) (simp_all add: crc16_shift_bits16)

lemma crc16_byte_bits16: "bits16 (crc16_byte c b)"
  unfolding crc16_byte_def by (rule funpow_bits16) simp

lemma crc16_xmodem_bits16: "bits16 (crc16_xmodem data)"
  by (cases data rule: rev_cases) (simp_all add: crc16_xmodem_def crc16_byte_bits16)

lemma funpow_xor: "(crc16_shift ^^ n) (a XOR b) = (crc16_shift ^^ n) a XOR (crc16_shift ^^ n) b"
  by (induction n) (simp_all add: crc16_shift_xor)

lemma funpow_zero: "(crc16_shift ^^ n) 0 = 0"
  by (induction n) (simp_all add: crc16_shift_def)

lemma push_bit_inject: "push_bit n a = push_bit n b \<longleftrightarrow> a = b" for a b :: int
  by (simp add: push_bit_eq_mult)

lemma crc16_shift_small: "take_bit 15 x = x \<Longrightarrow> crc16_shift x = push_bit 1 x"
proof -
  assume x: "take_bit 15 x = x"
  then have "\<not> bit x 15" by (metis bit_take_bit_iff less_irrefl)
  moreover have "take_bit 16 (push_bit 1 x) = push_bit 1 x"
    using x take_bit_push_bit [of 16 1 x] by simp
  ultimately show ?thesis by (simp add: crc16_shift_linear tap_def)
qed

lemma bits_of_Suc: "bits_of (Suc n) v = bit v n # bits_of n v"
  by (simp add: bits_of_def)

lemma bits_of_register:
  "n \<le> 16 \<Longrightarrow> foldl crc16_bit c (bits_of n b) = (crc16_shift ^^ n) (c XOR push_bit (16 - n) (take_bit n b))"
proof (induction n arbitrary: c)
  case (Suc n)
  let ?x = "push_bit (15 - n) (take_bit n b)"
  have "take_bit (Suc n) b = take_bit n b XOR (if bit b n then push_bit n 1 else 0)"
    by (rule bit_eqI) (auto simp: bit_xor_iff bit_exp_iff bit_take_bit_iff less_Suc_eq)
  moreover have "push_bit (15 - n) (2 ^ n) = (0x8000 :: int)"
    using Suc.prems by (simp add: push_bit_eq_mult flip: power_add)
  ultimately have top: "push_bit (15 - n) (take_bit (Suc n) b) = ?x XOR (if bit b n then 0x8000 else 0)"
    using Suc.prems by (simp add: push_bit_xor)
  have "take_bit 15 ?x = ?x" using Suc.prems by (simp add: take_bit_push_bit)
  moreover have "16 - n = Suc (15 - n)" using Suc.prems by arith
  ultimately have "crc16_shift ?x = push_bit (16 - n) (take_bit n b)"
    by (simp add: crc16_shift_small)
  with Suc top show ?case
    by (simp add: bits_of_Suc crc16_bit_def crc16_shift_xor funpow_swap1 ac_simps)
qed (simp add: bits_of_def)

lemma crc16_byte_bits: "0 \<le> b \<Longrightarrow> b < 256 \<Longrightarrow> crc16_byte c b = foldl crc16_bit c (bits_of 8 b)"
  by (simp add: bits_of_register crc16_byte_def take_bit_int_eq_self)

lemma funpow_inj: "bits16 c \<Longrightarrow> bits16 d \<Longrightarrow> (crc16_shift ^^ n) c = (crc16_shift ^^ n) d \<Longrightarrow> c = d"
  by (induction n arbitrary: c d) (auto simp: funpow_swap1 crc16_shift_bits16 intro: crc16_shift_inj)

text \<open>A character of base 64 carries six bits.\<close>

abbreviation symbol6 :: "int \<Rightarrow> bool" where "symbol6 v \<equiv> take_bit 6 v = v"

definition crc16_sextet :: "int \<Rightarrow> int \<Rightarrow> int" where
  "crc16_sextet crc v = foldl crc16_bit crc (bits_of 6 v)"

interpretation crc_sextet: checksum_code bits16 symbol6 crc16_sextet
proof unfold_locales
  fix s s' v v' :: int
  have step: "crc16_sextet s v = (crc16_shift ^^ 6) (s XOR push_bit 10 v)" if "symbol6 v" for s v
    using that by (simp add: crc16_sextet_def bits_of_register)
  have ok: "bits16 (s XOR push_bit 10 v)" if "bits16 s" "symbol6 v" for s v
    using that by (simp add: take_bit_xor take_bit_push_bit)
  show "bits16 (crc16_sextet s v)" if "bits16 s" "symbol6 v"
    using that unfolding crc16_sextet_def by (intro crc_bit.fold_ok) (simp_all add: list_all_iff)
  show "s = s'" if "bits16 s" "bits16 s'" "symbol6 v" "crc16_sextet s v = crc16_sextet s' v"
    using funpow_inj [OF ok ok, of s v s' v 6] that by (simp add: step xor_cancel)
  show "v = v'" if "bits16 s" "symbol6 v" "symbol6 v'" "crc16_sextet s v = crc16_sextet s v'"
    using funpow_inj [OF ok ok, of s v s v' 6] that by (simp add: step xor_cancel push_bit_inject)
qed

text \<open>A message followed by its checksum leaves the register empty.\<close>

abbreviation octet :: "int \<Rightarrow> bool" where "octet b \<equiv> take_bit 8 b = b"

lemma crc16_bytes_bits: "list_all octet bs \<Longrightarrow> foldl crc16_byte c bs = foldl crc16_bit c (concat (map (bits_of 8) bs))"
  by (induction bs arbitrary: c) (auto simp: crc16_byte_bits take_bit_int_eq_self_iff)

lemma bits_of_pair:
  assumes "octet l"
  shows "bits_of 16 (256 * h + l) = bits_of 8 h @ bits_of 8 l"
proof -
  have l: "0 \<le> l" "l < 256" using assms by (auto simp: take_bit_int_eq_self_iff)
  have low: "take_bit 8 (256 * h + l) = l" using l by (simp add: take_bit_int_def)
  have high: "drop_bit 8 (256 * h + l) = h" using l by (simp add: drop_bit_int_def)
  have 1: "bit (256 * h + l) i = bit l i" if "i < 8" for i using that low by (metis bit_take_bit_iff)
  have 2: "bit (256 * h + l) (8 + i) = bit h i" for i using high by (metis bit_drop_bit_eq comp_apply)
  have "rev [0..<16] = map ((+) 8) (rev [0..<8]) @ rev [0..<8]" by code_simp
  then show ?thesis by (simp add: bits_of_def 1 2)
qed

lemma crc16_check:
  assumes "list_all octet (data @ [h, l])"
  shows "crc16_xmodem data = 256 * h + l \<longleftrightarrow> foldl crc16_bit 0 (concat (map (bits_of 8) (data @ [h, l]))) = 0"
proof -
  let ?w = "256 * h + l"
  have hl: "octet h" "octet l" "list_all octet data" using assms by auto
  then have w: "bits16 ?w" by (auto simp: take_bit_int_eq_self_iff)
  have "foldl crc16_bit 0 (concat (map (bits_of 8) (data @ [h, l]))) = foldl crc16_bit (crc16_xmodem data) (bits_of 16 ?w)"
    using hl by (simp add: crc16_xmodem_def crc16_bytes_bits bits_of_pair)
  also have "\<dots> = (crc16_shift ^^ 16) (crc16_xmodem data XOR ?w)"
    using w by (simp add: bits_of_register)
  also have "\<dots> = 0 \<longleftrightarrow> crc16_xmodem data = ?w"
    using funpow_inj [of "crc16_xmodem data XOR ?w" 0 16] w crc16_xmodem_bits16 [of data]
    by (auto simp: take_bit_xor xor_cancel funpow_zero)
  finally show ?thesis by simp
qed

section \<open>Base 64\<close>

text \<open>\<^verbatim>\<open>binascii.a2b_base64\<close>: characters outside the alphabet are skipped, padding ends the text only in its place.\<close>

definition b64_value :: "char \<Rightarrow> int option" where
  "b64_value c = (let n = (of_char c :: int) in
     if 65 \<le> n \<and> n \<le> 90 then Some (n - 65) else if 97 \<le> n \<and> n \<le> 122 then Some (n - 71)
     else if 48 \<le> n \<and> n \<le> 57 then Some (n + 4)
     else if c = CHR ''+'' then Some 62 else if c = CHR ''/'' then Some 63 else None)"

fun a2b_base64 :: "nat \<Rightarrow> int \<Rightarrow> nat \<Rightarrow> string \<Rightarrow> int list option" where
  "a2b_base64 quad left pads [] = (if quad = 0 then Some [] else None)"
| "a2b_base64 quad left pads (c # cs) =
     (if c = CHR ''='' then
        if 2 \<le> quad \<and> 4 \<le> quad + Suc pads then Some []
        else a2b_base64 quad left (if 2 \<le> quad then Suc pads else pads) cs
      else case b64_value c of None \<Rightarrow> a2b_base64 quad left pads cs
      | Some v \<Rightarrow>
         if quad = 0 then a2b_base64 1 v 0 cs
         else if quad = 1 then map_option ((#) (push_bit 2 left OR drop_bit 4 v)) (a2b_base64 2 (v AND 0xF) 0 cs)
         else if quad = 2 then map_option ((#) (push_bit 4 left OR drop_bit 2 v)) (a2b_base64 3 (v AND 0x3) 0 cs)
         else map_option ((#) (push_bit 6 left OR v)) (a2b_base64 0 0 0 cs))"

definition urlsafe_b64decode :: "string \<Rightarrow> int list option" where
  "urlsafe_b64decode s =
     (if \<exists>c \<in> set s. 128 \<le> (of_char c :: int) then None
      else a2b_base64 0 0 0 (replace_char (CHR ''_'') (CHR ''/'') (replace_char (CHR ''-'') (CHR ''+'') s)))"

lemma b64_value_symbol: "b64_value c = Some v \<Longrightarrow> symbol6 v \<and> c \<noteq> CHR ''=''"
  by (auto simp: b64_value_def Let_def take_bit_int_eq_self_iff split: if_splits)

text \<open>Four characters of the alphabet are three bytes.\<close>

lemma quad_bits:
  assumes "symbol6 a" "symbol6 b" "symbol6 c" "symbol6 d"
  shows "bits_of 8 (push_bit 2 a OR drop_bit 4 b) @ bits_of 8 (push_bit 4 (b AND 0xF) OR drop_bit 2 c)
      @ bits_of 8 (push_bit 6 (c AND 0x3) OR d) = bits_of 6 a @ bits_of 6 b @ bits_of 6 c @ bits_of 6 d"
proof -
  have z: "\<not> bit v i" if "symbol6 v" "6 \<le> i" for v :: int and i using that by (metis bit_take_bit_iff not_le)
  have m: "v AND 0xF = take_bit 4 v" "v AND 0x3 = take_bit 2 v" for v :: int
    by (simp_all add: take_bit_eq_mask mask_eq_exp_minus_1)
  show ?thesis
    by (simp add: bits_of_def upt_rec [of _ "numeral _"] upt_rec [of _ "Suc _"] bit_or_iff bit_push_bit_iff bit_drop_bit_eq m bit_take_bit_iff z assms)
      (simp add: eval_nat_numeral)
qed

definition sextets :: "string \<Rightarrow> int list" where
  "sextets cs = map (\<lambda>c. the (b64_value c)) cs"

abbreviation in_alphabet :: "char \<Rightarrow> bool" where "in_alphabet c \<equiv> b64_value c \<noteq> None"

lemma quad_octets: "symbol6 a \<Longrightarrow> symbol6 b \<Longrightarrow> symbol6 c \<Longrightarrow> symbol6 d \<Longrightarrow>
    octet (push_bit 2 a OR drop_bit 4 b) \<and> octet (push_bit 4 (b AND 0xF) OR drop_bit 2 c) \<and> octet (push_bit 6 (c AND 0x3) OR d)"
proof -
  assume sym: "symbol6 a" "symbol6 b" "symbol6 c" "symbol6 d"
  have m: "v AND 0xF = take_bit 4 v" "v AND 0x3 = take_bit 2 v" for v :: int
    by (simp_all add: take_bit_eq_mask mask_eq_exp_minus_1)
  have drop: "octet (drop_bit n v)" if "symbol6 v" for v n
  proof -
    have "0 \<le> v" "v < 64" using that by (auto simp: take_bit_int_eq_self_iff)
    moreover from this have "v div 2 ^ n \<le> v" using zdiv_mono2 [of v 1 "2 ^ n"] by simp
    ultimately show ?thesis by (simp add: take_bit_int_eq_self_iff drop_bit_int_def pos_imp_zdiv_nonneg_iff)
  qed
  from drop [of d 0] show ?thesis using sym drop by (simp add: m take_bit_or take_bit_push_bit)
qed

lemma a2b_quads:
  "length cs = 4 * k \<Longrightarrow> list_all in_alphabet cs \<Longrightarrow>
   \<exists>bs. a2b_base64 0 left pads cs = Some bs \<and> length bs = 3 * k \<and> list_all octet bs
     \<and> concat (map (bits_of 8) bs) = concat (map (bits_of 6) (sextets cs))"
proof (induction k arbitrary: cs left pads)
  case 0
  then show ?case by (simp add: sextets_def)
next
  case (Suc k)
  then obtain p q r s rest where cs: "cs = p # q # r # s # rest" "length rest = 4 * k"
    by (auto simp: length_Suc_conv numeral_eq_Suc)
  with Suc.prems obtain a b c d where v: "b64_value p = Some a" "b64_value q = Some b" "b64_value r = Some c" "b64_value s = Some d"
    by auto
  obtain bs where bs: "a2b_base64 0 0 0 rest = Some bs" "length bs = 3 * k" "list_all octet bs"
      "concat (map (bits_of 8) bs) = concat (map (bits_of 6) (sextets rest))"
    using Suc.IH [OF cs(2)] Suc.prems(2) cs(1) by auto
  note symbols = v [THEN b64_value_symbol]
  show ?case
    using symbols bs quad_bits [of a b c d] quad_octets [of a b c d]
    by (auto simp: cs(1) v sextets_def)
qed

fun carried :: "nat \<Rightarrow> nat" where
  "carried 0 = 0" | "carried (Suc q) = 6 - 2 * q"

lemma a2b_length:
  "a2b_base64 quad left pads cs = Some bs \<Longrightarrow> quad < 4 \<Longrightarrow> 8 * length bs \<le> 6 * length (filter in_alphabet cs) + carried quad"
proof (induction cs arbitrary: quad left pads bs)
  case (Cons c cs)
  then show ?case
    by (force split: if_splits option.splits simp: less_Suc_eq numeral_eq_Suc)
qed (auto split: if_splits)

definition from_bytes :: "int list \<Rightarrow> int" where
  "from_bytes bs = foldl (\<lambda>n b. 256 * n + b) 0 bs"

lemma sextets_feed: "foldl crc16_sextet c vs = foldl crc16_bit c (concat (map (bits_of 6) vs))"
  by (induction vs arbitrary: c) (simp_all add: crc16_sextet_def)

lemma b64_checksum:
  assumes "length cs = 48" "list_all in_alphabet cs" "a2b_base64 0 left pads cs = Some raw"
  shows "length raw = 36" "crc16_xmodem (take 34 raw) = from_bytes (drop 34 raw) \<longleftrightarrow> foldl crc16_sextet 0 (sextets cs) = 0"
proof -
  from a2b_quads [of cs 12 left pads] assms have raw: "length raw = 36" "list_all octet raw"
      "concat (map (bits_of 8) raw) = concat (map (bits_of 6) (sextets cs))" by auto
  then have "length (drop 34 raw) = Suc (Suc 0)" by simp
  then obtain h l where hl: "drop 34 raw = [h, l]" by (auto simp: length_Suc_conv simp del: length_drop)
  then have split: "raw = take 34 raw @ [h, l]" using append_take_drop_id [of 34 raw] by simp
  show "length raw = 36" by (rule raw)
  have "list_all octet (take 34 raw @ [h, l])" using raw(2) split by simp
  from crc16_check [OF this] show "crc16_xmodem (take 34 raw) = from_bytes (drop 34 raw) \<longleftrightarrow> foldl crc16_sextet 0 (sextets cs) = 0"
    using raw(3) split hl by (simp add: from_bytes_def sextets_feed)
qed

end
