(* ===== verification/Addresses.thy ===== *)
theory Addresses
  imports Checksums Chains
begin

text \<open>
  Validation of a receiving address (\<^verbatim>\<open>app/domain/payments/addresses.py\<close>). The messages shown to the operator are the
  constructors of \<open>address_problem\<close>. Base58 is the record \<open>codec\<close>.
\<close>

section \<open>Bech32\<close>

datatype address_problem =
    UnsupportedNetwork | EmptyAddress | HasWhitespace | TooLong | NotEvmShape | NotTronShape | NotSolanaLength
  | NotBech32 | ForeignPrefix string string | NoWitnessVersion | InvalidWitnessVersion | NeedsBech32 | NeedsBech32m
  | ChecksumMismatch | WrongPayloadLength | WrongVersionByte nat
  | NotBase58 | NotSolanaKey
  | NotTonLength | NotTon | NotTonBytes | TonTestnet

definition BECH32_CHARSET :: string where "BECH32_CHARSET = ''qpzry9x8gf2tvdw0s3jn54khce6mua7l''"

text \<open>\<^verbatim>\<open>str.find\<close> of one character, and \<^verbatim>\<open>str.rfind\<close>; \<open>None\<close> where Python returns -1.\<close>

fun find_char :: "char \<Rightarrow> string \<Rightarrow> nat option" where
  "find_char c [] = None"
| "find_char c (d # ds) = (if c = d then Some 0 else map_option Suc (find_char c ds))"

fun rfind_char :: "char \<Rightarrow> string \<Rightarrow> nat option" where
  "rfind_char c [] = None"
| "rfind_char c (d # ds) = (case rfind_char c ds of Some n \<Rightarrow> Some (Suc n) | None \<Rightarrow> if c = d then Some 0 else None)"

definition hrp_expand :: "string \<Rightarrow> int list" where
  "hrp_expand hrp = map (\<lambda>c. of_char c div 32) hrp @ [0] @ map (\<lambda>c. of_char c mod 32) hrp"

fun charset_values :: "string \<Rightarrow> int list option" where
  "charset_values [] = Some []"
| "charset_values (c # cs) = (case find_char c BECH32_CHARSET of None \<Rightarrow> None
     | Some n \<Rightarrow> map_option ((#) (int n)) (charset_values cs))"

definition decode_bech32 :: "string \<Rightarrow> (string \<times> int list \<times> int) option" where
  "decode_bech32 raw =
     (if \<exists>c \<in> set raw. of_char c < (33 :: int) \<or> of_char c > (126 :: int) then None
      else if py_lower raw \<noteq> raw \<and> py_upper raw \<noteq> raw then None
      else let address = py_lower raw in
        case rfind_char (CHR ''1'') address of None \<Rightarrow> None
        | Some position \<Rightarrow>
          if position < 1 \<or> position + 7 > length address \<or> length address > 90 then None
          else let hrp = take position address; payload = drop (position + 1) address in
            case charset_values payload of None \<Rightarrow> None
            | Some data \<Rightarrow>
              let constant = bech32_polymod (hrp_expand hrp @ data) in
              if constant \<noteq> BECH32_CONST \<and> constant \<noteq> BECH32M_CONST then None
              else Some (hrp, take (length data - 6) data, constant))"

definition BECH32_HRP :: "NetworkCode \<Rightarrow> string" where
  "BECH32_HRP n = (if n = NetworkCode.BTC then ''bc'' else ''ltc'')"

definition check_bech32 :: "string \<Rightarrow> NetworkCode \<Rightarrow> address_problem option" where
  "check_bech32 address network =
     (case decode_bech32 address of None \<Rightarrow> Some NotBech32
      | Some (hrp, data, constant) \<Rightarrow>
        if hrp \<noteq> BECH32_HRP network then Some (ForeignPrefix hrp (BECH32_HRP network))
        else case data of [] \<Rightarrow> Some NoWitnessVersion
        | witness_version # _ \<Rightarrow>
          if witness_version > 16 then Some InvalidWitnessVersion
          else if witness_version = 0 \<and> constant \<noteq> BECH32_CONST then Some NeedsBech32
          else if witness_version > 0 \<and> constant \<noteq> BECH32M_CONST then Some NeedsBech32m
          else None)"

section \<open>Base58\<close>

definition BASE58_VERSIONS :: "NetworkCode \<Rightarrow> nat list" where
  "BASE58_VERSIONS n = (if n = NetworkCode.TRC20 then [0x41] else if n = NetworkCode.BTC then [0x00, 0x05]
     else [0x30, 0x32, 0x05])"

definition check_base58 :: "codec \<Rightarrow> string \<Rightarrow> NetworkCode \<Rightarrow> address_problem option" where
  "check_base58 c address network =
     (case b58_decode_check c address of None \<Rightarrow> Some ChecksumMismatch
      | Some payload \<Rightarrow>
        if length payload \<noteq> 21 then Some WrongPayloadLength
        else if hd payload \<notin> set (BASE58_VERSIONS network) then Some (WrongVersionByte (hd payload))
        else None)"

definition check_solana :: "codec \<Rightarrow> string \<Rightarrow> address_problem option" where
  "check_solana c address =
     (case b58_decode c address of None \<Rightarrow> Some NotBase58
      | Some decoded \<Rightarrow> if length decoded \<noteq> 32 then Some NotSolanaKey else None)"

section \<open>TON\<close>

definition is_hex :: "char \<Rightarrow> bool" where
  "is_hex c \<longleftrightarrow> c \<in> set ''0123456789abcdefABCDEF''"

text \<open>\<^verbatim>\<open>^-?\d+:[0-9a-fA-F]{64}$\<close>; the dollar also matches before a final line feed.\<close>

definition ton_raw :: "string \<Rightarrow> bool" where
  "ton_raw address =
     (let unsigned = (if startswith address ''-'' then drop 1 address else address);
          digits = takeWhile is_digit unsigned; rest = dropWhile is_digit unsigned in
      digits \<noteq> [] \<and> take 1 rest = '':'' \<and> length rest \<ge> 65 \<and> list_all is_hex (take 64 (drop 1 rest))
      \<and> (drop 65 rest = [] \<or> drop 65 rest = [CHR 0x0A]))"

definition check_ton :: "string \<Rightarrow> address_problem option" where
  "check_ton address =
     (if ton_raw address then None
      else if length address \<noteq> 48 then Some NotTonLength
      else case urlsafe_b64decode (replace_char (CHR ''/'') (CHR ''_'') (replace_char (CHR ''+'') (CHR ''-'') address)) of
        None \<Rightarrow> Some NotTon
      | Some raw \<Rightarrow>
        if length raw \<noteq> 36 then Some NotTonBytes
        else if crc16_xmodem (take 34 raw) \<noteq> from_bytes (drop 34 raw) then Some ChecksumMismatch
        else if hd raw AND 0x40 \<noteq> 0 then Some TonTestnet
        else None)"

section \<open>One address\<close>

definition ADDRESS_EVM_NETWORKS :: "NetworkCode list" where
  "ADDRESS_EVM_NETWORKS = [NetworkCode.BEP20, NetworkCode.ERC20, NetworkCode.AVAXC, NetworkCode.ARBITRUM, NetworkCode.POLYGON]"

definition evm_shape :: "string \<Rightarrow> bool" where
  "evm_shape address \<longleftrightarrow> take 2 address = ''0x'' \<and> length address \<ge> 42 \<and> list_all is_hex (take 40 (drop 2 address))
     \<and> (drop 42 address = [] \<or> drop 42 address = [CHR 0x0A])"

definition validate_address :: "codec \<Rightarrow> string \<Rightarrow> NetworkCode \<Rightarrow> address_problem option" where
  "validate_address c address network =
     (if address = [] then Some EmptyAddress
      else if \<exists>ch \<in> set address. is_space ch then Some HasWhitespace
      else if length address > 128 then Some TooLong
      else if network \<in> set ADDRESS_EVM_NETWORKS then (if evm_shape address then None else Some NotEvmShape)
      else if network = NetworkCode.TRC20 then
        (if \<not> startswith address ''T'' \<or> length address \<noteq> 34 then Some NotTronShape
         else check_base58 c address network)
      else if network = NetworkCode.SOL then
        (if \<not> (32 \<le> length address \<and> length address \<le> 44) then Some NotSolanaLength else check_solana c address)
      else if network = NetworkCode.TON then check_ton address
      else if network \<in> {NetworkCode.BTC, NetworkCode.LTC} then
        (if startswith (py_lower address) (BECH32_HRP network @ ''1'') then check_bech32 address network
         else check_base58 c address network)
      else if network = NetworkCode.EXCHANGE_INTERNAL then None
      else Some UnsupportedNetwork)"

end
