(* ===== verification/AddressFacts.thy ===== *)
theory AddressFacts
  imports Addresses
begin

section \<open>A Bech32 address notices a typing error\<close>

lemma find_char_Some: "find_char c s = Some n \<Longrightarrow> n < length s \<and> s ! n = c"
  by (induction s arbitrary: n) (auto split: if_splits)

lemma rfind_char_Some: "rfind_char c s = Some n \<Longrightarrow> n < length s \<and> s ! n = c"
  by (induction s arbitrary: n) (auto split: if_splits option.splits)

lemma charset_values_eq:
  "charset_values cs = Some vs \<longleftrightarrow>
     list_all (\<lambda>c. find_char c BECH32_CHARSET \<noteq> None) cs \<and> vs = map (\<lambda>c. int (the (find_char c BECH32_CHARSET))) cs"
  by (induction cs arbitrary: vs) (auto split: option.splits)

lemma charset_symbol: "find_char c BECH32_CHARSET \<noteq> None \<Longrightarrow> symbol5 (int (the (find_char c BECH32_CHARSET)))"
  using find_char_Some [of c BECH32_CHARSET] by (force simp: take_bit_int_eq_self_iff BECH32_CHARSET_def)

lemma charset_inj:
  "find_char c BECH32_CHARSET \<noteq> None \<Longrightarrow> find_char d BECH32_CHARSET \<noteq> None \<Longrightarrow>
   the (find_char c BECH32_CHARSET) = the (find_char d BECH32_CHARSET) \<Longrightarrow> c = d"
  using find_char_Some by (metis option.collapse)

lemma hrp_expand_symbols: "list_all symbol5 (hrp_expand hrp)"
proof -
  have bounds: "0 \<le> x div 32 \<and> x div 32 < 32 \<and> 0 \<le> x mod 32 \<and> x mod 32 < 32" if "0 \<le> x" "x < 256" for x :: int
    using that by presburger
  have "0 \<le> (of_char c :: int)" "(of_char c :: int) < 256" for c
    by (metis of_char_mod_256 pos_mod_bound pos_mod_sign zero_less_numeral)+
  from bounds [OF this] have "symbol5 (of_char c div 32)" "symbol5 (of_char c mod 32)" for c
    by (simp_all add: take_bit_int_eq_self_iff)
  then show ?thesis by (auto simp: hrp_expand_def list_all_iff)
qed

lemma polymod_bits30: "list_all symbol5 vs \<Longrightarrow> bits30 (foldl polymod_step 1 vs)"
  by (rule bch.fold_ok) (auto simp: take_bit_int_eq_self_iff)

text \<open>What an accepted address looks like.\<close>

definition segwit :: "NetworkCode \<Rightarrow> string \<Rightarrow> int list \<Rightarrow> bool" where
  "segwit n a data \<longleftrightarrow> (py_lower a = a \<or> py_upper a = a) \<and> length a \<le> 90
     \<and> take (length (BECH32_HRP n)) (py_lower a) = BECH32_HRP n
     \<and> charset_values (drop (Suc (length (BECH32_HRP n))) (py_lower a)) = Some data \<and> data \<noteq> []
     \<and> bech32_polymod (hrp_expand (BECH32_HRP n) @ data) = (if hd data = 0 then BECH32_CONST else BECH32M_CONST)"

lemma decode_bech32_Some:
  assumes "decode_bech32 a = Some (hrp, rest, k)"
  obtains data where "py_lower a = a \<or> py_upper a = a" "length a \<le> 90" "take (length hrp) (py_lower a) = hrp"
    "charset_values (drop (Suc (length hrp)) (py_lower a)) = Some data" "rest = take (length data - 6) data"
    "bech32_polymod (hrp_expand hrp @ data) = k" "k = BECH32_CONST \<or> k = BECH32M_CONST"
proof -
  obtain p where p: "rfind_char (CHR ''1'') (py_lower a) = Some p" "hrp = take p (py_lower a)"
    using assms by (auto simp: decode_bech32_def Let_def split: if_splits option.splits)
  then have "length hrp = p" using rfind_char_Some [OF p(1)] by simp
  with assms p that show thesis
    by (fastforce simp: decode_bech32_def Let_def py_lower_def split: if_splits option.splits)
qed

lemma check_bech32_segwit:
  assumes "check_bech32 a n = None"
  obtains data where "segwit n a data"
proof -
  obtain rest k where dec: "decode_bech32 a = Some (BECH32_HRP n, rest, k)" and rest: "rest \<noteq> []"
      and k: "hd rest = 0 \<longrightarrow> k = BECH32_CONST" "0 < hd rest \<longrightarrow> k = BECH32M_CONST"
    using assms by (auto simp: check_bech32_def split: option.splits if_splits list.splits)
  from decode_bech32_Some [OF dec] obtain data where data: "py_lower a = a \<or> py_upper a = a" "length a \<le> 90"
    "take (length (BECH32_HRP n)) (py_lower a) = BECH32_HRP n"
    "charset_values (drop (Suc (length (BECH32_HRP n))) (py_lower a)) = Some data" "rest = take (length data - 6) data"
    "bech32_polymod (hrp_expand (BECH32_HRP n) @ data) = k" .
  from rest data(5) have ne: "data \<noteq> []" "hd rest = hd data" by (auto simp: hd_take)
  have "0 \<le> hd data" using data(4) ne(1) by (cases data) (auto simp: charset_values_eq map_eq_Cons_conv Cons_eq_map_conv)
  with data ne k show thesis by (intro that [of data]) (auto simp: segwit_def)
qed

text \<open>Two accepted addresses never differ in exactly one value after the prefix.\<close>

lemma polymod_change:
  assumes "list_all symbol5 (xs @ data)" "j < length data" "symbol5 v" "v \<noteq> data ! j" "length data \<le> 89"
    and "bech32_polymod (xs @ data) = (if hd data = 0 then BECH32_CONST else BECH32M_CONST)"
  shows "bech32_polymod (xs @ data[j := v]) \<noteq> (if hd (data[j := v]) = 0 then BECH32_CONST else BECH32M_CONST)"
proof
  assume eq: "bech32_polymod (xs @ data[j := v]) = (if hd (data[j := v]) = 0 then BECH32_CONST else BECH32M_CONST)"
  have one: "bits30 1" by simp
  have changed: "bech32_polymod (xs @ data[j := v]) \<noteq> bech32_polymod (xs @ data)"
    using bch.notices_change [OF one assms(1), of "length xs + j" v] assms(2-4)
    by (simp add: bech32_polymod_def list_update_append nth_append del: foldl_append list_all_append)
  then have "(hd (data[j := v]) = 0) \<noteq> (hd data = 0)" using eq assms(6) by (auto split: if_splits)
  then have j: "j = 0" by (cases data; cases j) auto
  then obtain w rest where data: "data = w # rest" using assms(2) by (cases data) auto
  let ?c = "foldl polymod_step 1 xs"
  have "bech32_polymod (xs @ data) XOR bech32_polymod (xs @ data[j := v]) = (shift5 ^^ length rest) (w XOR v)"
    using polymod_difference [of "polymod_step ?c w" rest "polymod_step ?c v"]
    by (simp add: bech32_polymod_def data j polymod_step_linear xor.assoc xor.left_commute xor.commute)
  moreover have "bech32_polymod (xs @ data) XOR bech32_polymod (xs @ data[j := v]) = BECH32_CONST XOR BECH32M_CONST"
    using eq assms(6) changed by (auto simp: xor.commute)
  moreover have "(shift5 ^^ length rest) (w XOR v) \<noteq> BECH32_CONST XOR BECH32M_CONST"
    using constants_apart assms(1,3,5) data by (intro unreached_symbol) (auto simp: take_bit_xor)
  ultimately show False by simp
qed

lemma segwit_change:
  assumes "segwit n a data" "segwit n (a[i := c]) data'" "length (BECH32_HRP n) < i" "i < length a"
  shows "char_lower c = char_lower (a ! i)"
proof (rule ccontr)
  let ?p = "Suc (length (BECH32_HRP n))" and ?f = "\<lambda>c. int (the (find_char c BECH32_CHARSET))"
  let ?x = "drop ?p (py_lower a)"
  assume neq: "char_lower c \<noteq> char_lower (a ! i)"
  have x: "drop ?p (py_lower (a[i := c])) = ?x[i - ?p := char_lower c]"
    using assms(3) by (simp add: py_lower_def map_update drop_update_swap)
  have d: "list_all (\<lambda>c. find_char c BECH32_CHARSET \<noteq> None) ?x" "data = map ?f ?x"
    using assms(1) by (auto simp: segwit_def charset_values_eq)
  have d': "list_all (\<lambda>c. find_char c BECH32_CHARSET \<noteq> None) (?x[i - ?p := char_lower c])"
      "data' = data[i - ?p := ?f (char_lower c)]"
    using assms(2) x d(2) by (auto simp: segwit_def charset_values_eq map_update)
  have j: "i - ?p < length ?x" "?x ! (i - ?p) = char_lower (a ! i)"
    using assms(3,4) by (auto simp: py_lower_def)
  have f: "find_char (char_lower c) BECH32_CHARSET \<noteq> None" "find_char (char_lower (a ! i)) BECH32_CHARSET \<noteq> None"
    using d(1) d'(1) set_update_memI [OF j(1)] nth_mem [OF j(1)] unfolding list_all_iff j(2) by blast+
  have "list_all symbol5 (hrp_expand (BECH32_HRP n) @ data)"
    using d hrp_expand_symbols charset_symbol by (auto simp: list_all_iff)
  moreover have "length data \<le> 89" using assms(1) d(2) by (auto simp: segwit_def py_lower_def)
  moreover have "?f (char_lower c) \<noteq> data ! (i - ?p)"
    using charset_inj [OF f] neq d(2) j by auto
  ultimately have "bech32_polymod (hrp_expand (BECH32_HRP n) @ data[i - ?p := ?f (char_lower c)])
      \<noteq> (if hd (data[i - ?p := ?f (char_lower c)]) = 0 then BECH32_CONST else BECH32M_CONST)"
    using assms(1) j(1) d(2) charset_symbol [OF f(1)] by (intro polymod_change) (auto simp: segwit_def)
  with assms(2) d'(2) show False by (auto simp: segwit_def)
qed

text \<open>A letter in the other case makes the address mixed.\<close>

lemma case_change:
  assumes "segwit n a data" "segwit n (a[i := c]) data'" "length (BECH32_HRP n) < i" "i < length a"
    and "char_lower c = char_lower (a ! i)"
  shows "c = a ! i"
proof -
  have ul: "char_upper (char_lower x) = char_upper x" for x
    by (auto simp: char_upper_def char_lower_def Let_def)
  have i0: "0 < i" "a[i := c] ! 0 = a ! 0" "0 < length a" using assms(3,4) by auto
  have "py_lower a ! 0 = take (length (BECH32_HRP n)) (py_lower a) ! 0" by (simp add: BECH32_HRP_def)
  also have "\<dots> = BECH32_HRP n ! 0" using assms(1) by (simp add: segwit_def)
  finally have "py_lower a ! 0 = BECH32_HRP n ! 0" .
  then have first: "char_lower (a ! 0) \<in> {CHR ''b'', CHR ''l''}"
    using i0 by (auto simp: py_lower_def BECH32_HRP_def split: if_splits)
  have lower: "py_lower b = b \<Longrightarrow> j < length b \<Longrightarrow> char_lower (b ! j) = b ! j"
    and upper: "py_upper b = b \<Longrightarrow> j < length b \<Longrightarrow> char_upper (b ! j) = b ! j" for b j
    by (metis py_lower_def py_upper_def nth_map)+
  have both: "(\<forall>j < length b. char_lower (b ! j) = b ! j) \<or> (\<forall>j < length b. char_upper (b ! j) = b ! j)"
    if "segwit n b d" for b d
    using that lower upper by (auto simp only: segwit_def)
  have one_case: "if char_lower (b ! 0) = b ! 0 then char_lower (b ! i) = b ! i else char_upper (b ! i) = b ! i"
    if "segwit n b d" "b ! 0 = a ! 0" "i < length b" for b d
  proof (cases "char_lower (b ! 0) = b ! 0")
    case True
    moreover have "char_upper CHR ''b'' \<noteq> CHR ''b''" "char_upper CHR ''l'' \<noteq> CHR ''l''" by code_simp+
    ultimately have "char_upper (b ! 0) \<noteq> b ! 0" using first that(2) by auto
    with both [OF that(1)] that(3) i0(1) have "\<forall>j < length b. char_lower (b ! j) = b ! j" by fastforce
    with True that(3) show ?thesis by simp
  next
    case False
    with both [OF that(1)] that(3) i0(1) have "\<forall>j < length b. char_upper (b ! j) = b ! j" by fastforce
    with False that(3) show ?thesis by simp
  qed
  have len: "i < length (a[i := c])" and c: "a[i := c] ! i = c" using assms(4) by simp_all
  note a = one_case [OF assms(1) refl assms(4)] and b = one_case [OF assms(2) i0(2) len, unfolded c i0(2)]
  show ?thesis
  proof (cases "char_lower (a ! 0) = a ! 0")
    case True
    with a b assms(5) show ?thesis by simp
  next
    case False
    with a b have "char_upper (a ! i) = a ! i" "char_upper c = c" by simp_all
    with assms(5) show ?thesis by (metis ul)
  qed
qed

section \<open>A TON address notices a typing error\<close>

definition b64_standard :: "string \<Rightarrow> string" where
  "b64_standard s = replace_char (CHR ''_'') (CHR ''/'') (replace_char (CHR ''-'') (CHR ''+'')
     (replace_char (CHR ''/'') (CHR ''_'') (replace_char (CHR ''+'') (CHR ''-'') s)))"

text \<open>The value of one character in either alphabet.\<close>

definition b64_either :: "char \<Rightarrow> int option" where
  "b64_either c = (if c = CHR ''-'' then Some 62 else if c = CHR ''_'' then Some 63 else b64_value c)"

lemma b64_standard_map: "b64_standard s = map (\<lambda>c. if c = CHR ''-'' then CHR ''+'' else if c = CHR ''_'' then CHR ''/'' else c) s"
  by (auto simp: b64_standard_def replace_char_def)

lemma b64_standard_value: "b64_value (b64_standard s ! i) = b64_either (s ! i)" if "i < length s"
  using that by (auto simp: b64_standard_map b64_either_def b64_value_def)

lemma ton_raw_length: "ton_raw a \<Longrightarrow> 65 < length a"
proof -
  assume raw: "ton_raw a"
  define u where "u = (if startswith a ''-'' then drop 1 a else a)"
  have "takeWhile is_digit u \<noteq> []" "65 \<le> length (dropWhile is_digit u)"
    using raw by (auto simp: ton_raw_def Let_def u_def)
  moreover have "length (takeWhile is_digit u) + length (dropWhile is_digit u) = length u"
    by (metis length_append takeWhile_dropWhile_id)
  moreover have "length u \<le> length a" by (simp add: u_def)
  ultimately show ?thesis by (cases "takeWhile is_digit u") auto
qed

lemma check_ton_None:
  assumes "check_ton a = None" "length a = 48"
  shows "list_all in_alphabet (b64_standard a)" "foldl crc16_sextet 0 (sextets (b64_standard a)) = 0"
proof -
  have "\<not> ton_raw a"
    using ton_raw_length [of a] assms(2) by auto
  with assms obtain raw where raw: "a2b_base64 0 0 0 (b64_standard a) = Some raw" "length raw = 36"
      "crc16_xmodem (take 34 raw) = from_bytes (drop 34 raw)"
    by (auto simp: check_ton_def urlsafe_b64decode_def b64_standard_def split: if_splits option.splits)
  have len: "length (b64_standard a) = 48" using assms(2) by (simp add: b64_standard_map)
  have "288 \<le> 6 * length (filter in_alphabet (b64_standard a))" using a2b_length [OF raw(1)] raw(2) by simp
  then have "length (filter in_alphabet (b64_standard a)) = length (b64_standard a)"
    using length_filter_le [of in_alphabet "b64_standard a"] len by linarith
  then show all: "list_all in_alphabet (b64_standard a)"
    by (metis filter_id_conv length_filter_less list_all_iff nless_le)
  from b64_checksum(2) [OF len all raw(1)] raw(3) show "foldl crc16_sextet 0 (sextets (b64_standard a)) = 0" by simp
qed

lemma ton_change:
  assumes "check_ton a = None" "check_ton (a[i := c]) = None" "length a = 48" "i < 48"
  shows "b64_either c = b64_either (a ! i)"
proof (rule ccontr)
  assume neq: "b64_either c \<noteq> b64_either (a ! i)"
  let ?s = "b64_standard a" and ?t = "b64_standard (a[i := c])"
  have a: "list_all in_alphabet ?s" "foldl crc16_sextet 0 (sextets ?s) = 0" using check_ton_None assms by auto
  have t: "list_all in_alphabet ?t" "foldl crc16_sextet 0 (sextets ?t) = 0" using check_ton_None [OF assms(2)] assms(3) by auto
  have i: "i < length ?s" "i < length ?t" using assms by (auto simp: b64_standard_map)
  have v: "b64_value (?s ! i) = b64_either (a ! i)" "b64_value (?t ! i) = b64_either c"
    using b64_standard_value [of i a] b64_standard_value [of i "a[i := c]"] assms(3,4) by auto
  have up: "sextets ?t = (sextets ?s)[i := the (b64_either c)]"
    using v(2) assms(3,4) by (simp add: sextets_def b64_standard_map map_update) 
  have in_alpha: "b64_either c \<noteq> None" "b64_either (a ! i) \<noteq> None"
    using a(1) t(1) i v unfolding list_all_length by metis+
  have sym: "list_all symbol6 (sextets ?s)" "symbol6 (the (b64_either c))"
    using a(1) in_alpha v b64_value_symbol by (force simp: sextets_def list_all_iff)+
  have "foldl crc16_sextet 0 ((sextets ?s)[i := the (b64_either c)]) \<noteq> foldl crc16_sextet 0 (sextets ?s)"
    using sym i(1) in_alpha v neq by (intro crc_sextet.notices_change) (auto simp: sextets_def)
  with a(2) t(2) up show False by simp
qed

section \<open>The properties\<close>

text \<open>
  C35: a typing error in a Bech32 address is noticed. If a Bitcoin or Litecoin address with the prefix of its chain is
  accepted and one character after the separator is replaced by another, the result is not accepted: the checksum of
  a segregated-witness address detects every single substitution, a letter in the other case makes the string mixed,
  and no substitution of the witness version turns a Bech32 checksum into a Bech32m one.
\<close>

theorem bech32_typo_is_rejected:
  assumes "validate_address codec a n = None" and "n = NetworkCode.BTC \<or> n = NetworkCode.LTC"
    and "startswith (py_lower a) (BECH32_HRP n @ ''1'')"
    and "length (BECH32_HRP n) < i" and "i < length a" and "c \<noteq> a ! i"
  shows "validate_address codec (a[i := c]) n \<noteq> None"
proof
  assume valid: "validate_address codec (a[i := c]) n = None"
  have "startswith (py_lower (a[i := c])) (BECH32_HRP n @ ''1'')"
    using assms(3,4) by (simp add: startswith_def py_lower_def map_update)
  with valid assms(2) have 1: "check_bech32 (a[i := c]) n = None"
    by (auto simp: validate_address_def ADDRESS_EVM_NETWORKS_def split: if_splits)
  from assms(1-3) have 2: "check_bech32 a n = None"
    by (auto simp: validate_address_def ADDRESS_EVM_NETWORKS_def split: if_splits)
  obtain d d' where "segwit n a d" "segwit n (a[i := c]) d'" using 1 2 check_bech32_segwit by metis
  with segwit_change case_change assms(4-6) show False by metis
qed

definition no_base58 :: codec where
  "no_base58 = \<lparr>b58_encode = (\<lambda>_. []), b58_decode = (\<lambda>_. None), b58_decode_check = (\<lambda>_. None), digest = id\<rparr>"

theorem bech32_typo_is_rejected_witness:
  "validate_address no_base58 (''BC1QW508D6QEJXTDG4Y5R3ZARVARY0C5XW7KV8F3T4''[10 := CHR ''7'']) NetworkCode.BTC \<noteq> None"
proof (rule bech32_typo_is_rejected)
  show "validate_address no_base58 ''BC1QW508D6QEJXTDG4Y5R3ZARVARY0C5XW7KV8F3T4'' NetworkCode.BTC = None" by code_simp
  show "startswith (py_lower ''BC1QW508D6QEJXTDG4Y5R3ZARVARY0C5XW7KV8F3T4'') (BECH32_HRP NetworkCode.BTC @ ''1'')" by code_simp
qed (simp_all add: BECH32_HRP_def)

text \<open>
  C36: a typing error in a user-friendly TON address is noticed. If such an address is accepted and one character is replaced
  by one that does not stand for the same six bits (\<^verbatim>\<open>-\<close> and \<^verbatim>\<open>+\<close>, \<^verbatim>\<open>_\<close> and \<^verbatim>\<open>/\<close> do), or by one outside
  the alphabet, the result is not accepted.
\<close>

theorem ton_typo_is_rejected:
  assumes "validate_address codec a NetworkCode.TON = None" and "length a = 48" and "i < 48"
    and "b64_either c \<noteq> b64_either (a ! i)"
  shows "validate_address codec (a[i := c]) NetworkCode.TON \<noteq> None"
proof
  assume "validate_address codec (a[i := c]) NetworkCode.TON = None"
  then have "check_ton (a[i := c]) = None" by (auto simp: validate_address_def ADDRESS_EVM_NETWORKS_def split: if_splits)
  moreover from assms(1) have "check_ton a = None"
    by (auto simp: validate_address_def ADDRESS_EVM_NETWORKS_def split: if_splits)
  ultimately show False using ton_change assms(2-4) by blast
qed

theorem ton_typo_is_rejected_witness:
  "validate_address no_base58 (''EQAvDfWFG0oYX19jwNDNBBL1rKNT9XfaGP9HyTb5nb2Eml6y''[10 := CHR ''7'']) NetworkCode.TON \<noteq> None"
proof (rule ton_typo_is_rejected)
  show "validate_address no_base58 ''EQAvDfWFG0oYX19jwNDNBBL1rKNT9XfaGP9HyTb5nb2Eml6y'' NetworkCode.TON = None" by code_simp
  show "b64_either CHR ''7'' \<noteq> b64_either (''EQAvDfWFG0oYX19jwNDNBBL1rKNT9XfaGP9HyTb5nb2Eml6y'' ! 10)" by code_simp
qed simp_all

end
