(* ===== verification/Panel.thy ===== *)
theory Panel
  imports Access AddressFacts Store
begin

text \<open>
  Payment methods and their panel: the readiness rules (\<^verbatim>\<open>app/domain/payments/methods.py\<close>), the two-step dialogues
  of \<^verbatim>\<open>app/admin/handlers/providers.py\<close> and the one-time confirmations of \<^verbatim>\<open>app/admin/services/context.py\<close>
  and \<^verbatim>\<open>handle_confirmation\<close> in \<^verbatim>\<open>app/admin/handlers/payments.py\<close>. Screens and the audit log are left out.
\<close>

section \<open>Readiness\<close>

definition NATIVE_ASSETS :: "NetworkCode \<Rightarrow> string option" where
  "NATIVE_ASSETS n = map_of
     [(NetworkCode.TRC20, ''TRX''), (NetworkCode.BTC, ''BTC''), (NetworkCode.LTC, ''LTC''), (NetworkCode.TON, ''TON''),
      (NetworkCode.SOL, ''SOL''), (NetworkCode.ERC20, ''ETH''), (NetworkCode.BEP20, ''BNB''),
      (NetworkCode.POLYGON, ''POL''), (NetworkCode.ARBITRUM, ''ETH''), (NetworkCode.AVAXC, ''AVAX'')] n"

definition requires_token_contract :: "PaymentMethod \<Rightarrow> bool" where
  "requires_token_contract m =
     (case NATIVE_ASSETS (pm_network m) of None \<Rightarrow> False | Some native \<Rightarrow> py_upper (pm_asset m) \<noteq> native)"

definition is_pegged :: "PaymentMethod \<Rightarrow> bool" where
  "is_pegged m = (case pm_quote_rate m of None \<Rightarrow> False | Some q \<Rightarrow> deq q (Dec 1 0))"

definition RATE_STALE_AFTER_HOURS :: int where "RATE_STALE_AFTER_HOURS = 6"

definition is_rate_stale :: "time \<Rightarrow> time option \<Rightarrow> PaymentMethod \<Rightarrow> bool" where
  "is_rate_stale now updated_at m =
     (if is_pegged m then False
      else case updated_at of None \<Rightarrow> True | Some t \<Rightarrow> now - t > seconds (RATE_STALE_AFTER_HOURS * 3600))"

datatype blocker =
    NoAddress | BadAddress address_problem | NoTokenContract | NoQuoteRate | NoMemoTemplate | BadDecimals

definition readiness_blocker :: "codec \<Rightarrow> PaymentProviderKind \<Rightarrow> PaymentMethod \<Rightarrow> blocker option" where
  "readiness_blocker codec kind m =
     (case (if truthy_str (pm_receiving_address m) then
              (if kind = PaymentProviderKind.BLOCKCHAIN then
                 (case validate_address codec (or_else (pm_receiving_address m) []) (pm_network m) of
                    Some problem \<Rightarrow> Some (BadAddress problem)
                  | None \<Rightarrow> if requires_token_contract m \<and> \<not> truthy_str (pm_token_contract m)
                            then Some NoTokenContract else None)
               else None)
            else Some NoAddress) of
        Some b \<Rightarrow> Some b
      | None \<Rightarrow>
          if (case pm_quote_rate m of None \<Rightarrow> True | Some q \<Rightarrow> dle q D0) then Some NoQuoteRate
          else if pm_requires_memo m \<and> \<not> truthy_str (pm_memo_template m) then Some NoMemoTemplate
          else if pm_asset_decimals m < 0 then Some BadDecimals
          else None)"

section \<open>Confirmations\<close>

text \<open>A pending action carries its operator; taking it removes it, whoever takes it.\<close>

datatype pending = MethodAddress nat string | MethodContract nat string | MethodRate nat dec_value

type_synonym confirmations = "string \<Rightarrow> ((nat \<times> pending) \<times> time) option"

definition create_confirmation :: "time \<Rightarrow> int \<Rightarrow> string \<Rightarrow> nat \<Rightarrow> pending \<Rightarrow> confirmations \<Rightarrow> confirmations" where
  "create_confirmation now ttl token actor_id act store = store(token \<mapsto> ((actor_id, act), now + seconds ttl))"

definition consume_confirmation :: "time \<Rightarrow> string \<Rightarrow> nat \<Rightarrow> confirmations \<Rightarrow> pending option \<times> confirmations" where
  "consume_confirmation now token actor_id store =
     (case store token of None \<Rightarrow> (None, store)
      | Some ((owner, act), expires) \<Rightarrow>
          if expires \<le> now then (None, store)
          else (if owner \<noteq> actor_id then None else Some act, store(token := None)))"

section \<open>The dialogues\<close>

datatype AdminFlow = NoFlow | AwaitAddress nat | AwaitContract nat | AwaitRate nat

record panel =
  pn_db :: db
  pn_confirmations :: confirmations
  pn_flow :: "nat \<Rightarrow> AdminFlow"

record panel_env =
  pe_codec :: codec
  pe_ttl :: int

definition set_flow :: "nat \<Rightarrow> AdminFlow \<Rightarrow> panel \<Rightarrow> panel" where
  "set_flow actor f s = s\<lparr>pn_flow := (pn_flow s)(actor := f)\<rparr>"

abbreviation method_row :: "panel \<Rightarrow> nat \<Rightarrow> PaymentMethod option" where
  "method_row s i \<equiv> tget (payment_methods (pn_db s)) i"

abbreviation kind_of :: "panel \<Rightarrow> PaymentMethod \<Rightarrow> PaymentProviderKind option" where
  "kind_of s m \<equiv> map_option pp_kind (tget (payment_providers (pn_db s)) (pm_provider_id m))"

definition put_method :: "nat \<Rightarrow> (PaymentMethod \<Rightarrow> PaymentMethod) \<Rightarrow> panel \<Rightarrow> panel" where
  "put_method i f s = s\<lparr>pn_db := payment_methods_update (tupd i f) (pn_db s)\<rparr>"

text \<open>A handler leaves a state and maybe an exception; what Redis and the dialogue hold survives the exception, the tables do not.\<close>

type_synonym handled = "panel \<times> error option"

definition requiring :: "AdminContext \<Rightarrow> Permissions \<Rightarrow> panel \<Rightarrow> handled \<Rightarrow> handled" where
  "requiring a p s next_step = (case admin_require a p of Inl err \<Rightarrow> (s, Some err) | Inr _ \<Rightarrow> next_step)"

definition toggle_method :: "panel_env \<Rightarrow> nat \<Rightarrow> panel \<Rightarrow> handled" where
  "toggle_method e i s =
     (case method_row s i of None \<Rightarrow> (s, None)
      | Some m \<Rightarrow> (case kind_of s m of None \<Rightarrow> (s, Some AttributeError)
         | Some kind \<Rightarrow>
             if \<not> pm_is_enabled m \<and> readiness_blocker (pe_codec e) kind m \<noteq> None then (s, None)
             else (put_method i (\<lambda>m. m\<lparr>pm_is_enabled := \<not> pm_is_enabled m\<rparr>) s, None)))"

definition prompt_address :: "AdminContext \<Rightarrow> nat \<Rightarrow> panel \<Rightarrow> handled" where
  "prompt_address a i s = requiring a BLOCKCHAIN_MANAGE s (set_flow (ad_user a) (AwaitAddress i) s, None)"

definition prompt_contract :: "AdminContext \<Rightarrow> nat \<Rightarrow> panel \<Rightarrow> handled" where
  "prompt_contract a i s = requiring a BLOCKCHAIN_MANAGE s (set_flow (ad_user a) (AwaitContract i) s, None)"

definition prompt_rate :: "AdminContext \<Rightarrow> nat \<Rightarrow> panel \<Rightarrow> handled" where
  "prompt_rate a i s = requiring a PAYMENT_METHODS_MANAGE s
     (case method_row s i of None \<Rightarrow> (s, None) | Some _ \<Rightarrow> (set_flow (ad_user a) (AwaitRate i) s, None))"

definition method_section :: "panel_env \<Rightarrow> AdminContext \<Rightarrow> string \<Rightarrow> nat \<Rightarrow> panel \<Rightarrow> handled" where
  "method_section e a act i s = requiring a PAYMENT_METHODS_MANAGE s
     (if act = ''toggle'' then toggle_method e i s
      else if act = ''address'' then prompt_address a i s
      else if act = ''contract'' then prompt_contract a i s
      else if act = ''rate'' then prompt_rate a i s
      else (s, None))"

definition confirm_later :: "panel_env \<Rightarrow> time \<Rightarrow> AdminContext \<Rightarrow> string \<Rightarrow> pending \<Rightarrow> panel \<Rightarrow> panel" where
  "confirm_later e now a token act s =
     s\<lparr>pn_confirmations := create_confirmation now (pe_ttl e) token (ad_user a) act (pn_confirmations s)\<rparr>"

definition receive_address :: "panel_env \<Rightarrow> time \<Rightarrow> AdminContext \<Rightarrow> string \<Rightarrow> string \<Rightarrow> nat \<Rightarrow> panel \<Rightarrow> handled" where
  "receive_address e now a token text i s = requiring a BLOCKCHAIN_MANAGE s
     (let cleared = set_flow (ad_user a) NoFlow s; address = py_strip text in
      case method_row s i of None \<Rightarrow> (cleared, None)
      | Some m \<Rightarrow> (case validate_address (pe_codec e) address (pm_network m) of
           Some _ \<Rightarrow> (cleared, None)
         | None \<Rightarrow> (confirm_later e now a token (MethodAddress i address) cleared, None)))"

definition receive_contract :: "panel_env \<Rightarrow> time \<Rightarrow> AdminContext \<Rightarrow> string \<Rightarrow> string \<Rightarrow> nat \<Rightarrow> panel \<Rightarrow> handled" where
  "receive_contract e now a token text i s = requiring a BLOCKCHAIN_MANAGE s
     (let cleared = set_flow (ad_user a) NoFlow s; contract = py_strip text in
      case method_row s i of None \<Rightarrow> (cleared, None)
      | Some _ \<Rightarrow> (confirm_later e now a token (MethodContract i contract) cleared, None))"

text \<open>
  A rate: separators of thousands are dropped; a NaN cannot be compared; an infinity is larger than zero and fails
  when it is written. The sample shown to the operator is computed after the confirmation is stored.
\<close>

definition receive_rate :: "panel_env \<Rightarrow> time \<Rightarrow> AdminContext \<Rightarrow> string \<Rightarrow> string \<Rightarrow> nat \<Rightarrow> panel \<Rightarrow> handled" where
  "receive_rate e now a token text i s = requiring a PAYMENT_METHODS_MANAGE s
     (let cleared = set_flow (ad_user a) NoFlow s; raw = filter (\<lambda>c. c \<noteq> CHR '','') (py_strip text) in
      case method_row s i of None \<Rightarrow> (cleared, None)
      | Some m \<Rightarrow> (case read_decimal raw of None \<Rightarrow> (s, None)
         | Some (Number rate) \<Rightarrow>
             if dle rate D0 then (s, None)
             else let asked = confirm_later e now a token (MethodRate i (Number rate)) cleared in
               (case quote_expected_amount (Dec 100 0) rate (pm_asset_decimals m) of
                  Inl err \<Rightarrow> (asked, Some err) | Inr _ \<Rightarrow> (asked, None))
         | Some Infinite \<Rightarrow>
             if startswith (py_strip raw) ''-'' then (s, None)
             else (confirm_later e now a token (MethodRate i Infinite) cleared, None)
         | Some _ \<Rightarrow> (s, Some InvalidOperation)))"

definition receive_text :: "panel_env \<Rightarrow> time \<Rightarrow> AdminContext \<Rightarrow> string \<Rightarrow> string \<Rightarrow> panel \<Rightarrow> handled" where
  "receive_text e now a token text s =
     (case pn_flow s (ad_user a) of
        NoFlow \<Rightarrow> (s, None)
      | AwaitAddress i \<Rightarrow> receive_address e now a token text i s
      | AwaitContract i \<Rightarrow> receive_contract e now a token text i s
      | AwaitRate i \<Rightarrow> receive_rate e now a token text i s)"

definition confirmed_address :: "AdminContext \<Rightarrow> nat \<Rightarrow> string \<Rightarrow> panel \<Rightarrow> handled" where
  "confirmed_address a i address s = requiring a BLOCKCHAIN_MANAGE s
     (put_method i (\<lambda>m. m\<lparr>pm_receiving_address := Some address\<rparr>) s, None)"

definition confirmed_contract :: "AdminContext \<Rightarrow> nat \<Rightarrow> string \<Rightarrow> panel \<Rightarrow> handled" where
  "confirmed_contract a i contract s = requiring a BLOCKCHAIN_MANAGE s
     (if method_row s i \<noteq> None \<and> 128 < length contract then (s, Some DataError)
      else (put_method i (\<lambda>m. m\<lparr>pm_token_contract := Some contract\<rparr>) s, None))"

definition confirmed_rate :: "AdminContext \<Rightarrow> nat \<Rightarrow> dec_value \<Rightarrow> panel \<Rightarrow> handled" where
  "confirmed_rate a i v s = requiring a PAYMENT_METHODS_MANAGE s
     (case method_row s i of None \<Rightarrow> (s, None)
      | Some _ \<Rightarrow> (case v of
           Number rate \<Rightarrow> (case numeric_30_8 rate of Inl err \<Rightarrow> (s, Some err)
             | Inr stored \<Rightarrow> (put_method i (\<lambda>m. m\<lparr>pm_quote_rate := Some stored\<rparr>) s, None))
         | _ \<Rightarrow> (s, Some DataError)))"

definition handle_confirmation :: "time \<Rightarrow> AdminContext \<Rightarrow> bool \<Rightarrow> string \<Rightarrow> panel \<Rightarrow> handled" where
  "handle_confirmation now a yes token s =
     (if \<not> yes then (s, None)
      else let (entry, store) = consume_confirmation now token (ad_user a) (pn_confirmations s);
               s1 = s\<lparr>pn_confirmations := store\<rparr> in
        case entry of None \<Rightarrow> (s1, None)
        | Some (MethodAddress i address) \<Rightarrow> confirmed_address a i address s1
        | Some (MethodContract i contract) \<Rightarrow> confirmed_contract a i contract s1
        | Some (MethodRate i rate) \<Rightarrow> confirmed_rate a i rate s1)"

section \<open>The panel as a machine\<close>

record operator =
  op_user :: nat
  op_telegram_id :: int
  op_roles :: "RoleName list"

datatype panel_command = Tap operator string nat | Say operator string string | Confirm operator bool string

fun sender :: "panel_command \<Rightarrow> operator" where
  "sender (Tap who _ _) = who" | "sender (Say who _ _) = who" | "sender (Confirm who _ _) = who"

text \<open>\<open>IsAdmin\<close> turns the sender into an operator or ignores the update.\<close>

definition panel_step :: "panel_env \<Rightarrow> int list \<Rightarrow> time \<Rightarrow> panel_command \<Rightarrow> panel \<Rightarrow> handled" where
  "panel_step e bootstrap now c s =
     (case load_admin_context bootstrap (op_telegram_id (sender c)) (op_user (sender c)) (op_roles (sender c)) of
        None \<Rightarrow> (s, None)
      | Some a \<Rightarrow> (case c of
           Tap _ act i \<Rightarrow> method_section e a act i s
         | Say _ token text \<Rightarrow> receive_text e now a token text s
         | Confirm _ yes token \<Rightarrow> handle_confirmation now a yes token s))"

definition panel_run :: "panel_env \<Rightarrow> int list \<Rightarrow> (time \<times> panel_command) list \<Rightarrow> panel \<Rightarrow> panel" where
  "panel_run e bootstrap cs s = foldl (\<lambda>s (now, c). fst (panel_step e bootstrap now c s)) s cs"

section \<open>An enabled method stays payable\<close>

text \<open>Ready, whatever the rate.\<close>

definition payable :: "codec \<Rightarrow> PaymentProviderKind \<Rightarrow> PaymentMethod \<Rightarrow> bool" where
  "payable codec kind m \<longleftrightarrow> readiness_blocker codec kind (m\<lparr>pm_quote_rate := Some (Dec 1 0)\<rparr>) = None"

fun pending_ok :: "codec \<Rightarrow> panel \<Rightarrow> pending \<Rightarrow> bool" where
  "pending_ok codec s (MethodAddress i address) \<longleftrightarrow>
     (case method_row s i of None \<Rightarrow> True | Some m \<Rightarrow> validate_address codec address (pm_network m) = None)"
| "pending_ok codec s (MethodContract i contract) \<longleftrightarrow> contract \<noteq> []"
| "pending_ok codec s (MethodRate i rate) \<longleftrightarrow> True"

definition enabled_payable :: "codec \<Rightarrow> panel \<Rightarrow> bool" where
  "enabled_payable codec s \<longleftrightarrow> (\<forall>i m kind. method_row s i = Some m \<and> kind_of s m = Some kind \<and> pm_is_enabled m \<longrightarrow> payable codec kind m)"

definition pendings_ok :: "codec \<Rightarrow> panel \<Rightarrow> bool" where
  "pendings_ok codec s \<longleftrightarrow> (\<forall>token user act expires. pn_confirmations s token = Some ((user, act), expires) \<longrightarrow> pending_ok codec s act)"

lemma method_row_put [simp]: "method_row (put_method i f s) j = (if j = i then map_option f (method_row s j) else method_row s j)"
  by (simp add: put_method_def)

lemma put_method_simps [simp]:
  "payment_providers (pn_db (put_method i f s)) = payment_providers (pn_db s)"
  "pn_confirmations (put_method i f s) = pn_confirmations s"
  "pn_db (set_flow u f' s) = pn_db s" "pn_confirmations (set_flow u f' s) = pn_confirmations s"
  "pn_db (confirm_later e now a token act s) = pn_db s"
  by (simp_all add: put_method_def set_flow_def confirm_later_def)

lemma requires_token_contract_iff:
  "requires_token_contract m \<longleftrightarrow> (\<exists>native. NATIVE_ASSETS (pm_network m) = Some native \<and> py_upper (pm_asset m) \<noteq> native)"
  by (auto simp: requires_token_contract_def split: option.split)

lemma one_positive: "\<not> dle (Dec 1 0) D0"
  by code_simp

lemma payable_iff:
  "payable codec kind m \<longleftrightarrow> truthy_str (pm_receiving_address m)
     \<and> (kind = PaymentProviderKind.BLOCKCHAIN \<longrightarrow>
          validate_address codec (or_else (pm_receiving_address m) []) (pm_network m) = None
          \<and> (requires_token_contract m \<longrightarrow> truthy_str (pm_token_contract m)))
     \<and> (pm_requires_memo m \<longrightarrow> truthy_str (pm_memo_template m)) \<and> 0 \<le> pm_asset_decimals m"
  by (auto simp: payable_def readiness_blocker_def requires_token_contract_def one_positive split: option.splits if_splits)

lemma ready_payable: "readiness_blocker codec kind m = None \<Longrightarrow> payable codec kind m"
  by (auto simp: payable_iff readiness_blocker_def split: option.splits if_splits)

definition panel_ok :: "codec \<Rightarrow> panel \<Rightarrow> bool" where
  "panel_ok codec s \<longleftrightarrow> enabled_payable codec s \<and> pendings_ok codec s"

lemma panel_ok_cong:
  "panel_ok codec s \<Longrightarrow> payment_methods (pn_db s') = payment_methods (pn_db s) \<Longrightarrow>
   payment_providers (pn_db s') = payment_providers (pn_db s) \<Longrightarrow>
   (\<And>token p. pn_confirmations s' token = Some p \<Longrightarrow> pn_confirmations s token = Some p \<or> pending_ok codec s (snd (fst p))) \<Longrightarrow>
   panel_ok codec s'"
proof -
  assume ok: "panel_ok codec s" and db: "payment_methods (pn_db s') = payment_methods (pn_db s)"
    "payment_providers (pn_db s') = payment_providers (pn_db s)"
    and conf: "\<And>token p. pn_confirmations s' token = Some p \<Longrightarrow> pn_confirmations s token = Some p \<or> pending_ok codec s (snd (fst p))"
  have "pending_ok codec s' p \<longleftrightarrow> pending_ok codec s p" for p by (cases p) (simp_all add: db)
  then have "pendings_ok codec s'" using ok conf by (fastforce simp: panel_ok_def pendings_ok_def)
  have "enabled_payable codec s' = enabled_payable codec s" by (simp only: enabled_payable_def db)
  then have "enabled_payable codec s'" using ok by (simp add: panel_ok_def)
  with \<open>pendings_ok codec s'\<close> show ?thesis by (simp add: panel_ok_def)
qed

text \<open>A write of one row that keeps its network and provider, and leaves it payable when it is enabled.\<close>

lemma panel_ok_put:
  assumes "panel_ok codec s" and "\<And>m. pm_network (f m) = pm_network m \<and> pm_provider_id (f m) = pm_provider_id m"
    and "\<And>m kind. method_row s i = Some m \<Longrightarrow> kind_of s m = Some kind \<Longrightarrow> pm_is_enabled (f m) \<Longrightarrow>
           (pm_is_enabled m \<Longrightarrow> payable codec kind m) \<Longrightarrow> payable codec kind (f m)"
  shows "panel_ok codec (put_method i f s)"
proof -
  have "pending_ok codec (put_method i f s) p \<longleftrightarrow> pending_ok codec s p" for p
    using assms(2) by (cases p) (auto split: option.splits)
  then have "pendings_ok codec (put_method i f s)" using assms(1) by (simp add: panel_ok_def pendings_ok_def)
  moreover have "enabled_payable codec (put_method i f s)"
    unfolding enabled_payable_def
  proof (intro allI impI)
    fix j m' kind
    assume a: "method_row (put_method i f s) j = Some m' \<and> kind_of (put_method i f s) m' = Some kind \<and> pm_is_enabled m'"
    have old: "method_row s j = Some m \<Longrightarrow> kind_of s m = Some kind \<Longrightarrow> pm_is_enabled m \<Longrightarrow> payable codec kind m" for m
      using assms(1) by (auto simp: panel_ok_def enabled_payable_def)
    show "payable codec kind m'"
    proof (cases "j = i")
      case True
      with a obtain m where m: "method_row s i = Some m" "m' = f m" by auto
      moreover have "kind_of s m = Some kind" using a m(2) assms(2) by simp
      ultimately show ?thesis using assms(3) [of m kind] old [of m] a True by auto
    next
      case False
      with a old show ?thesis by simp
    qed
  qed
  ultimately show ?thesis by (simp add: panel_ok_def)
qed

lemma toggle_ok: "panel_ok (pe_codec e) s \<Longrightarrow> panel_ok (pe_codec e) (fst (toggle_method e i s))"
  by (auto simp: toggle_method_def split: option.split intro!: panel_ok_put) (auto simp: payable_iff requires_token_contract_iff dest: ready_payable)

lemma requiring_ok: "panel_ok codec s \<Longrightarrow> (panel_ok codec s \<Longrightarrow> panel_ok codec (fst h)) \<Longrightarrow> panel_ok codec (fst (requiring a p s h))"
  by (simp add: requiring_def split: sum.split)

lemma set_flow_ok: "panel_ok codec s \<Longrightarrow> panel_ok codec (set_flow u f s)"
  by (erule panel_ok_cong) simp_all

lemma confirm_later_ok: "panel_ok codec s \<Longrightarrow> pending_ok codec s act \<Longrightarrow> panel_ok codec (confirm_later e now a token act s)"
  by (erule panel_ok_cong) (auto simp: confirm_later_def create_confirmation_def split: if_splits)

lemma method_section_ok: "panel_ok (pe_codec e) s \<Longrightarrow> panel_ok (pe_codec e) (fst (method_section e a act i s))"
  unfolding method_section_def prompt_address_def prompt_contract_def prompt_rate_def
  by (intro requiring_ok) (auto simp: toggle_ok set_flow_ok requiring_ok split: option.split)

lemma receive_text_ok:
  assumes "panel_ok (pe_codec e) s" "py_strip text \<noteq> []"
  shows "panel_ok (pe_codec e) (fst (receive_text e now a token text s))"
proof -
  note flow = set_flow_ok [OF assms(1)]
  have 1: "panel_ok (pe_codec e) (fst (receive_address e now a token text i s))" for i
    unfolding receive_address_def Let_def using assms(1)
    by (intro requiring_ok) (auto simp: flow split: option.split intro!: confirm_later_ok)
  have 2: "panel_ok (pe_codec e) (fst (receive_contract e now a token text i s))" for i
    unfolding receive_contract_def Let_def using assms
    by (intro requiring_ok) (auto simp: flow split: option.split intro!: confirm_later_ok)
  have 3: "panel_ok (pe_codec e) (fst (receive_rate e now a token text i s))" for i
    unfolding receive_rate_def Let_def using assms(1)
    by (intro requiring_ok) (auto simp: flow split: option.split dec_value.split sum.split intro!: confirm_later_ok)
  show ?thesis using assms(1) 1 2 3 by (simp add: receive_text_def split: AdminFlow.split)
qed

lemma handle_confirmation_ok:
  assumes "panel_ok codec s"
  shows "panel_ok codec (fst (handle_confirmation now a yes token s))"
proof (cases "yes \<and> fst (consume_confirmation now token (ad_user a) (pn_confirmations s)) \<noteq> None")
  case False
  have "panel_ok codec (s\<lparr>pn_confirmations := snd (consume_confirmation now token (ad_user a) (pn_confirmations s))\<rparr>)"
    using assms by (rule panel_ok_cong) (auto simp: consume_confirmation_def split: option.splits if_splits)
  with False assms show ?thesis by (auto simp: handle_confirmation_def case_prod_unfold Let_def)
next
  case True
  then obtain act store where c: "consume_confirmation now token (ad_user a) (pn_confirmations s) = (Some act, store)" "yes"
    by (cases "consume_confirmation now token (ad_user a) (pn_confirmations s)") auto
  let ?s = "s\<lparr>pn_confirmations := store\<rparr>"
  have ok: "panel_ok codec ?s"
    using assms by (rule panel_ok_cong) (use c in \<open>auto simp: consume_confirmation_def split: option.splits if_splits\<close>)
  have "pending_ok codec s act"
    using assms c(1) by (fastforce simp: panel_ok_def pendings_ok_def consume_confirmation_def split: option.splits if_splits)
  then have act: "pending_ok codec ?s act" by (cases act) simp_all
  show ?thesis
  proof (cases act)
    case (MethodAddress i address)
    have "panel_ok codec (put_method i (\<lambda>m. m\<lparr>pm_receiving_address := Some address\<rparr>) ?s)"
      using ok act MethodAddress
      by (intro panel_ok_put) (auto simp: payable_iff requires_token_contract_iff truthy_str_def validate_address_def split: if_splits)
    with c MethodAddress ok show ?thesis
      by (simp add: handle_confirmation_def Let_def confirmed_address_def requiring_ok)
  next
    case (MethodContract i contract)
    have "panel_ok codec (put_method i (\<lambda>m. m\<lparr>pm_token_contract := Some contract\<rparr>) ?s)"
      using ok act MethodContract
      by (intro panel_ok_put) (auto simp: payable_iff requires_token_contract_iff truthy_str_def)
    with c MethodContract ok show ?thesis
      by (simp add: handle_confirmation_def Let_def confirmed_contract_def requiring_ok)
  next
    case (MethodRate i rate)
    have "panel_ok codec (put_method i (\<lambda>m. m\<lparr>pm_quote_rate := Some q\<rparr>) ?s)" for q
      using ok by (intro panel_ok_put) (auto simp: payable_iff requires_token_contract_iff)
    with c MethodRate ok show ?thesis
      by (simp add: handle_confirmation_def Let_def confirmed_rate_def requiring_ok split: option.split sum.split dec_value.split)
  qed
qed

lemma panel_step_ok:
  "panel_ok (pe_codec e) s \<Longrightarrow> (case c of Say _ _ text \<Rightarrow> py_strip text \<noteq> [] | _ \<Rightarrow> True) \<Longrightarrow>
   panel_ok (pe_codec e) (fst (panel_step e bootstrap now c s))"
  by (auto simp: panel_step_def method_section_ok receive_text_ok handle_confirmation_ok split: option.split panel_command.splits)

definition texts_ok :: "(time \<times> panel_command) list \<Rightarrow> bool" where
  "texts_ok cs \<longleftrightarrow> list_all (\<lambda>(now, c). case c of Say _ _ text \<Rightarrow> py_strip text \<noteq> [] | _ \<Rightarrow> True) cs"

lemma panel_run_ok: "panel_ok (pe_codec e) s \<Longrightarrow> texts_ok cs \<Longrightarrow> panel_ok (pe_codec e) (panel_run e bootstrap cs s)"
  unfolding panel_run_def texts_ok_def
  by (induction cs arbitrary: s) (auto simp: panel_step_ok)

lemma fresh_ok: "enabled_payable codec s \<Longrightarrow> pn_confirmations s = (\<lambda>_. None) \<Longrightarrow> panel_ok codec s"
  by (simp add: panel_ok_def pendings_ok_def)

section \<open>Who changes a receiving address\<close>

abbreviation address_row :: "panel \<Rightarrow> nat \<Rightarrow> string option option" where
  "address_row s i \<equiv> map_option pm_receiving_address (method_row s i)"

lemma requiring_cases: "requiring a p s h = (s', r) \<Longrightarrow> (s' = s \<and> p \<notin> ad_permissions a) \<or> (p \<in> ad_permissions a \<and> h = (s', r))"
  by (auto simp: requiring_def admin_require_def split: if_splits)

lemma method_section_address: "method_section e a act i s = (s', r) \<Longrightarrow> address_row s' j = address_row s j"
  by (auto simp: method_section_def prompt_address_def prompt_contract_def prompt_rate_def toggle_method_def
      dest!: requiring_cases split: if_splits option.splits)

lemma receive_text_address: "receive_text e now a token text s = (s', r) \<Longrightarrow> address_row s' j = address_row s j"
  by (auto simp: receive_text_def receive_address_def receive_contract_def receive_rate_def Let_def
      dest!: requiring_cases split: if_splits option.splits AdminFlow.splits dec_value.splits sum.splits)

lemma handle_confirmation_address:
  assumes "handle_confirmation now a yes token s = (s', r)" "address_row s' j \<noteq> address_row s j"
  shows "yes \<and> BLOCKCHAIN_MANAGE \<in> ad_permissions a \<and> (\<exists>address expires.
    pn_confirmations s token = Some ((ad_user a, MethodAddress j address), expires) \<and> now < expires
    \<and> address_row s' j = Some (Some address))"
proof -
  from assms(2) have "s' \<noteq> s" by auto
  with assms obtain act expires where c: "pn_confirmations s token = Some ((ad_user a, act), expires)" "now < expires" yes
    by (auto simp: handle_confirmation_def consume_confirmation_def Let_def split: if_splits option.splits)
  let ?s = "s\<lparr>pn_confirmations := (pn_confirmations s)(token := None)\<rparr>"
  show ?thesis
  proof (cases act)
    case (MethodAddress i address)
    with assms c have "confirmed_address a i address ?s = (s', r)"
      by (simp add: handle_confirmation_def consume_confirmation_def)
    with assms(2) MethodAddress c show ?thesis
      by (cases "method_row s i") (auto simp: confirmed_address_def dest!: requiring_cases split: if_splits)
  next
    case (MethodContract i contract)
    with assms c have "confirmed_contract a i contract ?s = (s', r)"
      by (simp add: handle_confirmation_def consume_confirmation_def)
    with assms(2) show ?thesis
      by (cases "method_row s i") (auto simp: confirmed_contract_def dest!: requiring_cases split: if_splits)
  next
    case (MethodRate i rate)
    with assms c have "confirmed_rate a i rate ?s = (s', r)"
      by (simp add: handle_confirmation_def consume_confirmation_def)
    with assms(2) show ?thesis
      by (auto simp: confirmed_rate_def dest!: requiring_cases split: if_splits option.splits dec_value.splits sum.splits)
  qed
qed

lemma panel_step_address:
  assumes "panel_step e bootstrap now c s = (s', r)" "address_row s' i \<noteq> address_row s i"
  obtains who token address expires where "c = Confirm who True token"
    "pn_confirmations s token = Some ((op_user who, MethodAddress i address), expires)" "now < expires"
    "address_row s' i = Some (Some address)"
    "RoleName.SUPER_ADMIN \<in> set (op_roles who) \<or> op_telegram_id who \<in> set bootstrap"
proof -
  obtain a where a: "load_admin_context bootstrap (op_telegram_id (sender c)) (op_user (sender c)) (op_roles (sender c)) = Some a"
    using assms by (auto simp: panel_step_def split: option.splits)
  note user = load_admin_context_super(1) [OF a, of BLOCKCHAIN_MANAGE]
    and super = load_admin_context_super(2) [OF a, of BLOCKCHAIN_MANAGE]
  show thesis
  proof (cases c)
    case (Confirm who yes token)
    with assms a have "handle_confirmation now a yes token s = (s', r)" by (simp add: panel_step_def)
    from handle_confirmation_address [OF this assms(2)] obtain address expires where
      "yes" "BLOCKCHAIN_MANAGE \<in> ad_permissions a"
      "pn_confirmations s token = Some ((ad_user a, MethodAddress i address), expires)" "now < expires"
      "address_row s' i = Some (Some address)" by blast
    with that [of who token address expires] Confirm user super show thesis by simp
  next
    case (Tap who act k)
    with assms(1) a have "method_section e a act k s = (s', r)" by (simp add: panel_step_def)
    with assms(2) method_section_address show thesis by metis
  next
    case (Say who token words)
    with assms(1) a have "receive_text e now a token words s = (s', r)" by (simp add: panel_step_def)
    with assms(2) receive_text_address show thesis by metis
  qed
qed

section \<open>The properties\<close>

text \<open>
  C33: only a super admin changes where money arrives, and only in two steps. Whatever the operators of the panel tapped, typed
  and confirmed since a start without pending confirmations, when a command changes the receiving address of a
  method it is a confirmation, the pending change it takes was requested by the same operator and has not expired, the operator is a
  super admin (by role or by configuration), and the new address is valid for the network of the method.
\<close>

theorem receiving_address_is_confirmed:
  assumes "enabled_payable (pe_codec e) s0" and "pn_confirmations s0 = (\<lambda>_. None)" and "texts_ok cs"
    and "panel_run e bootstrap cs s0 = s" and "panel_step e bootstrap now c s = (s', r)"
    and "method_row s i = Some m" and "method_row s' i = Some m'" and "pm_receiving_address m' \<noteq> pm_receiving_address m"
  shows "\<exists>who token address expires. c = Confirm who True token
    \<and> pn_confirmations s token = Some ((op_user who, MethodAddress i address), expires) \<and> now < expires
    \<and> pm_receiving_address m' = Some address \<and> validate_address (pe_codec e) address (pm_network m) = None
    \<and> (RoleName.SUPER_ADMIN \<in> set (op_roles who) \<or> op_telegram_id who \<in> set bootstrap)"
proof -
  have "address_row s' i \<noteq> address_row s i" using assms(6-8) by simp
  from panel_step_address [OF assms(5) this] obtain who token address expires where
    c: "c = Confirm who True token" "pn_confirmations s token = Some ((op_user who, MethodAddress i address), expires)"
      "now < expires" "address_row s' i = Some (Some address)"
      "RoleName.SUPER_ADMIN \<in> set (op_roles who) \<or> op_telegram_id who \<in> set bootstrap" by metis
  have "panel_ok (pe_codec e) s" using panel_run_ok [OF fresh_ok [OF assms(1,2)] assms(3)] assms(4) by blast
  with c(2) have "pending_ok (pe_codec e) s (MethodAddress i address)" unfolding panel_ok_def pendings_ok_def by blast
  with c assms(6,7) show ?thesis by auto
qed

text \<open>
  C34: a method that is enabled stays payable. If every enabled method can be sold with (its address is set and valid for
  its network, a token has its contract, a required memo its template), then the same holds after any sequence of panel
  commands in which no blank text is sent: enabling checks it, a changed address was validated and a contract is replaced, never removed.
\<close>

theorem enabled_methods_stay_payable:
  assumes "enabled_payable (pe_codec e) s0" and "pn_confirmations s0 = (\<lambda>_. None)" and "texts_ok cs"
  shows "enabled_payable (pe_codec e) (panel_run e bootstrap cs s0)"
  using panel_run_ok [OF fresh_ok [OF assms(1,2)] assms(3)] by (simp add: panel_ok_def)

text \<open>The rate is what the invariant leaves out: the dialogue checks its sign before the column rounds it.\<close>

lemma tiny_rate_stored_as_zero:
  "numeric_30_8 (Dec 4 (- 9)) = Inr (Dec 0 (- 8))" "dle (Dec 4 (- 9)) D0 = False"
  "readiness_blocker codec kind (m\<lparr>pm_quote_rate := Some (Dec 0 (- 8))\<rparr>) \<noteq> None"
  "quote_expected_amount order_amount (Dec 0 (- 8)) decimals = Inl ValueError"
proof -
  show "numeric_30_8 (Dec 4 (- 9)) = Inr (Dec 0 (- 8))" "dle (Dec 4 (- 9)) D0 = False" by code_simp+
  have zero: "dle (Dec 0 (- 8)) D0" by code_simp
  then show "readiness_blocker codec kind (m\<lparr>pm_quote_rate := Some (Dec 0 (- 8))\<rparr>) \<noteq> None"
    by (auto simp: readiness_blocker_def split: option.splits)
  from zero show "quote_expected_amount order_amount (Dec 0 (- 8)) decimals = Inl ValueError"
    by (simp add: quote_expected_amount_def)
qed

definition usdt_method :: PaymentMethod where
  "usdt_method = \<lparr>pm_code = ''usdt_ton'', pm_provider_id = 1, pm_is_enabled = True, pm_asset = ''USDT'', pm_asset_decimals = 6,
     pm_network = NetworkCode.TON, pm_receiving_address = Some ''EQAvDfWFG0oYX19jwNDNBBL1rKNT9XfaGP9HyTb5nb2Eml6y'',
     pm_token_contract = Some ''EQCxE6mUtQJKFnGfaROTKOt1lZbDiiX1kCixRv7Nw2Id_sDs'', pm_requires_memo = False,
     pm_memo_template = None, pm_required_confirmations = 1, pm_payment_window_seconds = 1800, pm_min_amount = None,
     pm_max_amount = None, pm_quote_rate = Some (Dec 1 0)\<rparr>"

definition ton_provider :: PaymentProvider where
  "ton_provider = \<lparr>pp_code = ProviderCode.TON, pp_kind = PaymentProviderKind.BLOCKCHAIN, pp_is_enabled = True, pp_healthy = None,
     pp_health_checked_at = None, pp_consecutive_failures = 0, pp_last_success_at = None\<rparr>"

definition shop_panel :: panel where
  "shop_panel = \<lparr>pn_db = empty_db\<lparr>payment_methods := [(2, usdt_method)], payment_providers := [(1, ton_provider)]\<rparr>,
     pn_confirmations = (\<lambda>_. None), pn_flow = (\<lambda>_. NoFlow)\<rparr>"

definition shop_env :: panel_env where
  "shop_env = \<lparr>pe_codec = no_base58, pe_ttl = 300\<rparr>"

definition owner :: operator where
  "owner = \<lparr>op_user = 7, op_telegram_id = 4711, op_roles = [RoleName.SUPER_ADMIN]\<rparr>"

definition new_address :: string where
  "new_address = ''0:0000000000000000000000000000000000000000000000000000000000000000''"

definition address_change :: "(time \<times> panel_command) list" where
  "address_change = [(0, Tap owner ''address'' 2), (5, Say owner ''tok'' new_address)]"

lemma shop_payable: "enabled_payable (pe_codec shop_env) shop_panel"
proof -
  have "payable no_base58 PaymentProviderKind.BLOCKCHAIN usdt_method" by code_simp
  then show ?thesis
    by (auto simp: enabled_payable_def shop_panel_def shop_env_def tget_def usdt_method_def ton_provider_def split: if_splits)
qed

theorem receiving_address_is_confirmed_witness:
  "\<exists>m'. method_row (fst (panel_step shop_env [] 10 (Confirm owner True ''tok'') (panel_run shop_env [] address_change shop_panel))) 2 = Some m'
     \<and> pm_receiving_address m' = Some new_address \<and> validate_address no_base58 new_address NetworkCode.TON = None"
proof -
  let ?s = "panel_run shop_env [] address_change shop_panel"
  obtain s' r where step: "panel_step shop_env [] 10 (Confirm owner True ''tok'') ?s = (s', r)" by force
  have old: "method_row ?s 2 = Some usdt_method" by code_simp
  have "map_option pm_receiving_address (method_row (fst (panel_step shop_env [] 10 (Confirm owner True ''tok'') ?s)) 2) = Some (Some new_address)"
    by code_simp
  then obtain m' where new: "method_row s' 2 = Some m'" "pm_receiving_address m' = Some new_address" using step by auto
  have changed: "pm_receiving_address m' \<noteq> pm_receiving_address usdt_method"
    using new(2) by (simp add: usdt_method_def new_address_def)
  have texts: "texts_ok address_change" by code_simp
  have none: "pn_confirmations shop_panel = (\<lambda>_. None)" by (simp add: shop_panel_def)
  from receiving_address_is_confirmed [OF shop_payable none texts refl step old new(1) changed] new step
  show ?thesis by (auto simp: shop_env_def usdt_method_def)
qed

theorem enabled_methods_stay_payable_witness:
  "\<exists>m. method_row (panel_run shop_env [] (address_change @ [(10, Confirm owner True ''tok'')]) shop_panel) 2 = Some m
     \<and> pm_is_enabled m \<and> pm_receiving_address m = Some new_address \<and> payable no_base58 PaymentProviderKind.BLOCKCHAIN m"
proof -
  let ?s = "panel_run shop_env [] (address_change @ [(10, Confirm owner True ''tok'')]) shop_panel"
  have texts: "texts_ok (address_change @ [(10, Confirm owner True ''tok'')])" by code_simp
  have none: "pn_confirmations shop_panel = (\<lambda>_. None)" by (simp add: shop_panel_def)
  have "case method_row ?s 2 of None \<Rightarrow> False | Some m \<Rightarrow> pm_is_enabled m \<and> pm_receiving_address m = Some new_address
      \<and> kind_of ?s m = Some PaymentProviderKind.BLOCKCHAIN" by code_simp
  then obtain m where m: "method_row ?s 2 = Some m" "pm_is_enabled m" "pm_receiving_address m = Some new_address"
      "kind_of ?s m = Some PaymentProviderKind.BLOCKCHAIN" by (auto split: option.splits)
  from enabled_methods_stay_payable [OF shop_payable none texts, of "[]"] m have "payable (pe_codec shop_env) PaymentProviderKind.BLOCKCHAIN m"
    unfolding enabled_payable_def by blast
  with m show ?thesis by (simp add: shop_env_def)
qed

end
