(* ===== verification/Coordination.thy ===== *)
theory Coordination
  imports Prelude
begin

text \<open>
  Coordination through Redis (\<^verbatim>\<open>app/core/redis.py\<close>): the lock with an owner token, the fixed-window rate limit, the
  suppression of repeated taps, and the two calls by which a confirmation is taken, interleaved. A key maps to its
  value and the instant it expires (lifetimes are given in seconds, \<^verbatim>\<open>TTL\<close> rounds to them); \<open>None\<close> in place of the store is a server that does not answer.
\<close>

section \<open>Keys that expire\<close>

datatype rvalue = Text string | Count nat

type_synonym redis = "string \<Rightarrow> (rvalue \<times> time) option"

definition live :: "redis \<Rightarrow> time \<Rightarrow> string \<Rightarrow> (rvalue \<times> time) option" where
  "live r now k = (case r k of None \<Rightarrow> None | Some (v, expires) \<Rightarrow> if now < expires then Some (v, expires) else None)"

definition set_nx :: "time \<Rightarrow> string \<Rightarrow> rvalue \<Rightarrow> int \<Rightarrow> redis \<Rightarrow> bool \<times> redis" where
  "set_nx now k v ttl r = (if live r now k = None then (True, r(k \<mapsto> (v, now + seconds ttl))) else (False, r))"

section \<open>The lock\<close>

text \<open>\<^verbatim>\<open>acquire\<close> without blocking, which is how the workers call it; an unreachable server counts as acquired.\<close>

definition acquire :: "time \<Rightarrow> string \<Rightarrow> string \<Rightarrow> int \<Rightarrow> redis option \<Rightarrow> bool \<times> redis option" where
  "acquire now key token ttl server =
     (case server of None \<Rightarrow> (True, None)
      | Some r \<Rightarrow> let (ok, r') = set_nx now key (Text token) ttl r in (ok, Some r'))"

text \<open>\<^verbatim>\<open>_RELEASE_LOCK\<close>: compare and delete.\<close>

definition release_lock :: "time \<Rightarrow> string \<Rightarrow> string \<Rightarrow> redis option \<Rightarrow> redis option" where
  "release_lock now key token server =
     (case server of None \<Rightarrow> None
      | Some r \<Rightarrow> if map_option fst (live r now key) = Some (Text token) then Some (r(key := None)) else Some r)"

definition extend_lock :: "time \<Rightarrow> string \<Rightarrow> int \<Rightarrow> redis option \<Rightarrow> redis option" where
  "extend_lock now key ttl server =
     (case server of None \<Rightarrow> None
      | Some r \<Rightarrow> (case live r now key of None \<Rightarrow> Some r | Some (v, _) \<Rightarrow> Some (r(key \<mapsto> (v, now + seconds ttl)))))"

lemma lock_is_exclusive:
  assumes "acquire now key token ttl (Some r) = (True, Some r')" and "now \<le> later" and "later < now + seconds ttl" and "other \<noteq> token"
  shows "fst (acquire later key other ttl' (Some r')) = False" "release_lock later key other (Some r') = Some r'"
    "release_lock later key token (Some r') = Some (r'(key := None))"
  using assms by (auto simp: acquire_def set_nx_def release_lock_def live_def Let_def split: if_splits)

section \<open>The rate limit\<close>

text \<open>\<^verbatim>\<open>_RATE_LIMIT\<close> and its caller; counting on a text is an error of Redis, after which the request is allowed.\<close>

definition rate_limit :: "time \<Rightarrow> string \<Rightarrow> int \<Rightarrow> int \<Rightarrow> redis option \<Rightarrow> (bool \<times> int) \<times> redis option" where
  "rate_limit now key limit window_seconds server =
     (case server of None \<Rightarrow> ((True, 0), None)
      | Some r \<Rightarrow> (case live r now key of Some (Text _, _) \<Rightarrow> ((True, 0), Some r)
         | entry \<Rightarrow>
             let (current, expires) = (case entry of Some (Count n, x) \<Rightarrow> (Suc n, x) | _ \<Rightarrow> (1, now + seconds window_seconds));
                 ttl = (expires - now + 500000) div 1000000; retry_after = (if 0 < ttl then ttl else window_seconds);
                 r' = r(key \<mapsto> (Count current, expires)) in
             (if limit < int current then ((False, retry_after), Some r') else ((True, 0), Some r'))))"

definition dedupe :: "time \<Rightarrow> string \<Rightarrow> int \<Rightarrow> redis option \<Rightarrow> bool \<times> redis option" where
  "dedupe now key ttl server =
     (case server of None \<Rightarrow> (True, None)
      | Some r \<Rightarrow> let (ok, r') = set_nx now key (Text ''1'') ttl r in (ok, Some r'))"

text \<open>The requests of one key at the given instants, each with its answer.\<close>

fun limited :: "string \<Rightarrow> nat \<Rightarrow> int \<Rightarrow> time list \<Rightarrow> redis \<Rightarrow> (time \<times> bool) list" where
  "limited key limit window [] r = []"
| "limited key limit window (now # ts) r =
     (case rate_limit now key (int limit) window (Some r) of ((allowed, _), server) \<Rightarrow>
        (now, allowed) # (case server of None \<Rightarrow> [] | Some r' \<Rightarrow> limited key limit window ts r'))"

text \<open>What the limiter keeps: how many requests the current window has seen and when it ends.\<close>

fun windowed :: "nat \<Rightarrow> time \<Rightarrow> time list \<Rightarrow> nat \<Rightarrow> time \<Rightarrow> (time \<times> bool) list" where
  "windowed limit window [] n x = []"
| "windowed limit window (now # ts) n x =
     (let (n', x') = (if now < x then (Suc n, x) else (1, now + window)) in
      (now, n' \<le> limit) # windowed limit window ts n' x')"

definition window_state :: "redis \<Rightarrow> string \<Rightarrow> nat \<Rightarrow> time \<Rightarrow> bool" where
  "window_state r key n x \<longleftrightarrow> r key = Some (Count n, x)"

lemma limited_windowed: "window_state r key n x \<Longrightarrow> limited key limit window ts r = windowed limit (seconds window) ts n x"
  by (induction ts arbitrary: r n x) (auto simp: window_state_def rate_limit_def live_def Let_def not_le)

lemma limited_first:
  assumes "r key = None"
  shows "limited key limit window (now # ts) r = windowed limit (seconds window) (now # ts) 0 now"
proof -
  have "window_state (r(key \<mapsto> (Count 1, now + seconds window))) key 1 (now + seconds window)" by (simp add: window_state_def)
  then show ?thesis using assms by (auto simp: rate_limit_def live_def Let_def limited_windowed not_le)
qed

abbreviation granted :: "time \<Rightarrow> (time \<times> bool) list \<Rightarrow> nat" where
  "granted b as \<equiv> length (filter (\<lambda>(t, ok). ok \<and> t < b) as)"

lemma windowed_times: "map fst (windowed limit window ts n x) = ts"
  by (induction ts arbitrary: n x) (auto simp: Let_def)

lemma granted_late:
  assumes "sorted (t # ts)" "b \<le> t"
  shows "granted b (windowed limit window ts n x) = 0"
proof -
  have "fst p \<in> set ts" if "p \<in> set (windowed limit window ts n x)" for p
    using that windowed_times [of limit window ts n x] by (metis image_eqI set_map)
  with assms show ?thesis by (fastforce simp: filter_empty_conv)
qed

text \<open>Within a window the limit is what is left; up to the end of the next one it is one limit more.\<close>

lemma granted_window:
  "sorted ts \<Longrightarrow> b \<le> x \<Longrightarrow> granted b (windowed limit window ts n x) \<le> limit - n"
proof (induction ts arbitrary: n)
  case (Cons t ts)
  show ?case
  proof (cases "t < b")
    case True
    then have "windowed limit window (t # ts) n x = (t, Suc n \<le> limit) # windowed limit window ts (Suc n) x"
      using Cons.prems by simp
    with Cons.IH [of "Suc n"] Cons.prems True show ?thesis by auto
  next
    case False
    with granted_late [of t ts b] Cons.prems show ?thesis by (auto simp: Let_def)
  qed
qed simp

lemma granted_two_windows:
  "sorted ts \<Longrightarrow> b \<le> x + window \<Longrightarrow> granted b (windowed limit window ts n x) \<le> limit - n + limit"
proof (induction ts arbitrary: n)
  case (Cons t ts)
  consider "b \<le> t" | "t < b" "t < x" | "t < b" "x \<le> t" by linarith
  then show ?case
  proof cases
    case 1
    with granted_late [of t ts b] Cons.prems show ?thesis by (auto simp: Let_def)
  next
    case 2
    then have "windowed limit window (t # ts) n x = (t, Suc n \<le> limit) # windowed limit window ts (Suc n) x" by simp
    with Cons.IH [of "Suc n"] Cons.prems 2 show ?thesis by auto
  next
    case 3
    then have "windowed limit window (t # ts) n x = (t, 1 \<le> limit) # windowed limit window ts 1 (t + window)" by simp
    moreover have "granted b (windowed limit window ts 1 (t + window)) \<le> limit - 1"
      using Cons.prems 3 by (intro granted_window) auto
    ultimately show ?thesis by auto
  qed
qed simp

lemma granted_interval:
  assumes "sorted ts"
  shows "length (filter (\<lambda>(t, ok). ok \<and> a \<le> t \<and> t < a + window) (windowed limit window ts n x)) \<le> 2 * limit"
  using assms
proof (induction ts arbitrary: n x)
  case (Cons t ts)
  let ?f = "\<lambda>(t, ok). ok \<and> a \<le> t \<and> t < a + window"
  show ?case
  proof (cases "t < a")
    case True
    with Cons show ?thesis by (simp add: Let_def split: prod.split)
  next
    case False
    have late: "filter ?f (windowed limit window (t # ts) n x) = filter (\<lambda>(s, ok). ok \<and> s < a + window) (windowed limit window (t # ts) n x)"
    proof (rule filter_cong [OF refl])
      fix p assume "p \<in> set (windowed limit window (t # ts) n x)"
      then have "fst p \<in> set (t # ts)" using windowed_times [of limit window "t # ts" n x] by (metis image_eqI set_map)
      with Cons.prems False show "?f p = (\<lambda>(s, ok). ok \<and> s < a + window) p" by (auto split: prod.splits)
    qed
    show ?thesis
    proof (cases "t < x")
      case True
      have "granted (a + window) (windowed limit window (t # ts) n x) \<le> limit - n + limit"
        using Cons.prems True False by (intro granted_two_windows) simp_all
      then show ?thesis by (simp only: late)
    next
      case new: False
      have "granted (a + window) (windowed limit window ts 1 (t + window)) \<le> limit - 1"
        using Cons.prems False by (intro granted_window) auto
      with new show ?thesis unfolding late by auto
    qed
  qed
qed simp

text \<open>A refusal is earned: that many earlier requests lie less than a window back.\<close>

lemma windowed_refusal:
  assumes "sorted (hs @ ts)" "0 < window" "n \<le> length (filter (\<lambda>h. x - window \<le> h) hs)" "\<forall>t \<in> set ts. x - window \<le> t"
    and "i < length ts" "windowed limit window ts n x ! i = (t, False)"
  shows "limit \<le> length (filter (\<lambda>s. t - window < s) (hs @ take i ts))"
  using assms
proof (induction ts arbitrary: hs n x i)
  case (Cons s ts)
  show ?case
  proof (cases i)
    case 0
    have mono: "length (filter (\<lambda>h. x - window \<le> h) hs) \<le> length (filter (\<lambda>h. s - window < h) hs)" if "s < x"
      using that by (induction hs) auto
    from 0 Cons.prems(6) have "t = s" "s < x \<longrightarrow> limit < Suc n" "\<not> s < x \<longrightarrow> limit < 1"
      by (auto simp: Let_def split: if_splits)
    with mono Cons.prems(3) 0 show ?thesis by auto
  next
    case (Suc j)
    show ?thesis
    proof (cases "s < x")
      case True
      with Cons.IH [of "hs @ [s]" "Suc n" x j] Cons.prems Suc show ?thesis by simp
    next
      case False
      with Cons.IH [of "hs @ [s]" 1 "s + window" j] Cons.prems Suc show ?thesis by (auto simp: sorted_append split: if_splits)
    qed
  qed
qed simp

section \<open>The properties\<close>

text \<open>
  C37: the Redis counter with its expiry refines a count of the requests of the current window. So the rate limit lets at most two limits through in any interval as long as a window, however the requests are spread
  over the edge of two windows, and refuses a request only if that many earlier requests of the key are less than
  a window old.
\<close>

theorem rate_limit_bounds:
  assumes "r key = None" and "sorted ts" and "0 < window"
  shows "limited key limit window ts r = windowed limit (seconds window) ts 0 (hd (ts @ [0]))
    \<and> length (filter (\<lambda>(t, ok). ok \<and> a \<le> t \<and> t < a + seconds window) (limited key limit window ts r)) \<le> 2 * limit
    \<and> (\<forall>i t. i < length ts \<and> limited key limit window ts r ! i = (t, False) \<longrightarrow>
          limit \<le> length (filter (\<lambda>s. t - seconds window < s) (take i ts)))"
proof -
  let ?x = "hd (ts @ [0])"
  have eq: "limited key limit window ts r = windowed limit (seconds window) ts 0 ?x"
    using limited_first [where r = r and key = key] assms(1) by (cases ts) simp_all
  have after: "\<forall>t \<in> set ts. ?x - seconds window \<le> t" using assms(2,3) by (cases ts) auto
  show ?thesis unfolding eq
  proof (intro conjI allI impI)
    show "length (filter (\<lambda>(t, ok). ok \<and> a \<le> t \<and> t < a + seconds window) (windowed limit (seconds window) ts 0 ?x)) \<le> 2 * limit"
      by (rule granted_interval [OF assms(2)])
    fix i t assume "i < length ts \<and> windowed limit (seconds window) ts 0 ?x ! i = (t, False)"
    then show "limit \<le> length (filter (\<lambda>s. t - seconds window < s) (take i ts))"
      using windowed_refusal [of "[]" ts "seconds window" 0 ?x i limit t] assms(2,3) after by simp
  qed (rule refl)
qed

theorem rate_limit_bounds_witness:
  "length (filter (\<lambda>(t, ok). ok \<and> seconds 8 \<le> t \<and> t < seconds 8 + seconds 10) (limited ''tg:1'' 2 10 [0, seconds 9, seconds 9, seconds 10, seconds 11, seconds 12] (\<lambda>_. None))) \<le> 4"
  using rate_limit_bounds [where r = "\<lambda>_. None" and ts = "[0, seconds 9, seconds 9, seconds 10, seconds 11, seconds 12]" and window = 10 and a = "seconds 8" and limit = 2
      and key = "''tg:1''"] by simp

end
