(* ===== verification/Confirmations.thy ===== *)
theory Confirmations
  imports Panel Coordination
begin

text \<open>
  The taps on one confirmation button, as Redis sees them: \<^verbatim>\<open>ThrottlingMiddleware\<close> of
  \<^verbatim>\<open>app/bot/middlewares/throttling.py\<close> drops a tap that repeats one of the last two seconds (an atomic \<^verbatim>\<open>SET NX\<close>), and the
  handler runs \<^verbatim>\<open>consume_confirmation\<close> of \<^verbatim>\<open>app/admin/services/context.py\<close>, a \<^verbatim>\<open>GET\<close> and a \<^verbatim>\<open>DELETE\<close>, between which
  time passes and other taps run. The rate limit before it can only drop more taps. Redis answers; while it does not,
  \<^verbatim>\<open>dedupe\<close> lets every tap through and no confirmation can be read.
\<close>

section \<open>Taps\<close>

text \<open>A tap that was let through remembers when it arrived, and an answer when it was given.\<close>

datatype tap =
    Idle | Dropped | Waiting time | Fetched time nat pending | Answered time time "pending option"

record race =
  rc_now :: time
  rc_seen :: redis
  rc_store :: confirmations
  rc_taps :: "nat \<Rightarrow> tap"

text \<open>The operator who tapped, the message with the button, and the data of the button, which holds the token.\<close>

definition callback_key :: "nat \<Rightarrow> nat \<Rightarrow> string \<Rightarrow> string" where
  "callback_key user message data = ''cb:'' @ str_nat user @ '':'' @ str_nat message @ '':'' @ data"

definition arrive :: "string \<Rightarrow> nat \<Rightarrow> race \<Rightarrow> race" where
  "arrive key i s =
     (case dedupe (rc_now s) key 2 (Some (rc_seen s)) of (fresh, server) \<Rightarrow>
        s\<lparr>rc_seen := (case server of None \<Rightarrow> rc_seen s | Some r \<Rightarrow> r),
          rc_taps := (rc_taps s)(i := if fresh then Waiting (rc_now s) else Dropped)\<rparr>)"

definition fetch :: "string \<Rightarrow> nat \<Rightarrow> time \<Rightarrow> race \<Rightarrow> race" where
  "fetch token i arrival s = s\<lparr>rc_taps := (rc_taps s)(i :=
     (case rc_store s token of None \<Rightarrow> Answered arrival (rc_now s) None
      | Some ((holder, act), expires) \<Rightarrow>
          if expires \<le> rc_now s then Answered arrival (rc_now s) None else Fetched arrival holder act))\<rparr>"

definition remove :: "string \<Rightarrow> nat \<Rightarrow> nat \<Rightarrow> time \<Rightarrow> nat \<Rightarrow> pending \<Rightarrow> race \<Rightarrow> race" where
  "remove token i actor_id arrival holder act s = s\<lparr>rc_store := (rc_store s)(token := None),
     rc_taps := (rc_taps s)(i := Answered arrival (rc_now s) (if holder \<noteq> actor_id then None else Some act))\<rparr>"

inductive tap_step :: "nat \<Rightarrow> string \<Rightarrow> string \<Rightarrow> (nat \<Rightarrow> nat) \<Rightarrow> race \<Rightarrow> race \<Rightarrow> bool"
  for message data token actor where
  wait: "rc_now s \<le> later \<Longrightarrow> tap_step message data token actor s (s\<lparr>rc_now := later\<rparr>)"
| limited: "rc_taps s i = Idle \<Longrightarrow> tap_step message data token actor s (s\<lparr>rc_taps := (rc_taps s)(i := Dropped)\<rparr>)"
| tap: "rc_taps s i = Idle \<Longrightarrow>
    tap_step message data token actor s (arrive (callback_key (actor i) message data) i s)"
| get: "rc_taps s i = Waiting arrival \<Longrightarrow> tap_step message data token actor s (fetch token i arrival s)"
| del: "rc_taps s i = Fetched arrival holder act \<Longrightarrow>
    tap_step message data token actor s (remove token i (actor i) arrival holder act s)"

lemma tapI:
  "rc_taps s i = Idle \<Longrightarrow> t = arrive (callback_key (actor i) message data) i s \<Longrightarrow> tap_step message data token actor s t"
  by (simp add: tap)

lemma getI: "rc_taps s i = Waiting a \<Longrightarrow> t = fetch token i a s \<Longrightarrow> tap_step message data token actor s t"
  by (simp add: get)

lemma delI:
  "rc_taps s i = Fetched a o' a' \<Longrightarrow> t = remove token i (actor i) a o' a' s \<Longrightarrow> tap_step message data token actor s t"
  by (simp add: del)

abbreviation taps_reach :: "nat \<Rightarrow> string \<Rightarrow> string \<Rightarrow> (nat \<Rightarrow> nat) \<Rightarrow> race \<Rightarrow> race \<Rightarrow> bool" where
  "taps_reach message data token actor \<equiv> (tap_step message data token actor)\<^sup>*\<^sup>*"

text \<open>A tap that is let through and then runs without interruption is \<^verbatim>\<open>consume_confirmation\<close>.\<close>

lemma uninterrupted:
  assumes "rc_taps s i = Waiting arrival"
  shows "taps_reach message data token actor s
    (s\<lparr>rc_store := snd (consume_confirmation (rc_now s) token (actor i) (rc_store s)),
      rc_taps := (rc_taps s)(i :=
        Answered arrival (rc_now s) (fst (consume_confirmation (rc_now s) token (actor i) (rc_store s))))\<rparr>)"
    (is "taps_reach _ _ _ _ s ?t")
proof -
  let ?u = "fetch token i arrival s"
  have first: "tap_step message data token actor s ?u" using assms by (rule get)
  show ?thesis
  proof (cases "\<exists>holder act expires. rc_store s token = Some ((holder, act), expires) \<and> rc_now s < expires")
    case True
    then obtain holder act expires where entry: "rc_store s token = Some ((holder, act), expires)" "rc_now s < expires"
      by blast
    then have "tap_step message data token actor ?u (remove token i (actor i) arrival holder act ?u)"
      by (intro del) (simp add: fetch_def)
    moreover have "remove token i (actor i) arrival holder act ?u = ?t"
      using entry by (simp add: fetch_def remove_def consume_confirmation_def)
    ultimately show ?thesis using first by (metis rtranclp.simps)
  next
    case False
    then have "?u = ?t" by (auto simp: fetch_def consume_confirmation_def split: option.splits)
    with first show ?thesis by (metis r_into_rtranclp)
  qed
qed

section \<open>What the taps keep\<close>

fun arrived :: "tap \<Rightarrow> time option" where
  "arrived (Waiting a) = Some a"
| "arrived (Fetched a _ _) = Some a"
| "arrived (Answered a _ _) = Some a"
| "arrived _ = None"

fun holds_action :: "tap \<Rightarrow> bool" where
  "holds_action (Fetched _ _ _) = True"
| "holds_action (Answered _ _ (Some _)) = True"
| "holds_action _ = False"

text \<open>An action only ever reaches the operator it was stored for.\<close>

definition bound_to :: "string \<Rightarrow> (nat \<Rightarrow> nat) \<Rightarrow> nat \<Rightarrow> pending \<Rightarrow> race \<Rightarrow> bool" where
  "bound_to token actor holder act s \<longleftrightarrow>
     (\<forall>o' a' x. rc_store s token = Some ((o', a'), x) \<longrightarrow> o' = holder \<and> a' = act)
   \<and> (\<forall>i b o' a'. rc_taps s i = Fetched b o' a' \<longrightarrow> o' = holder \<and> a' = act)
   \<and> (\<forall>i b x a'. rc_taps s i = Answered b x (Some a') \<longrightarrow> actor i = holder \<and> a' = act)"

text \<open>
  The marks of the middleware outlive two seconds, so the taps of one operator that were let through are two seconds apart.
\<close>

definition spaced :: "nat \<Rightarrow> string \<Rightarrow> (nat \<Rightarrow> nat) \<Rightarrow> race \<Rightarrow> bool" where
  "spaced message data actor s \<longleftrightarrow>
     (\<forall>i a. arrived (rc_taps s i) = Some a \<longrightarrow> a \<le> rc_now s
        \<and> (\<exists>v x. rc_seen s (callback_key (actor i) message data) = Some (v, x) \<and> a + seconds 2 \<le> x))
   \<and> (\<forall>i j a b. i \<noteq> j \<longrightarrow> actor i = actor j \<longrightarrow> arrived (rc_taps s i) = Some a \<longrightarrow>
        arrived (rc_taps s j) = Some b \<longrightarrow> a + seconds 2 \<le> b \<or> b + seconds 2 \<le> a)"

text \<open>Once the action was handed out the entry is gone, and whoever still holds it arrived before.\<close>

definition handed_out :: "string \<Rightarrow> race \<Rightarrow> bool" where
  "handed_out token s \<longleftrightarrow>
     (\<forall>i a x act. rc_taps s i = Answered a x (Some act) \<longrightarrow> rc_store s token = None
        \<and> (\<forall>j b. holds_action (rc_taps s j) \<longrightarrow> arrived (rc_taps s j) = Some b \<longrightarrow> b \<le> x))"

definition taps_ok :: "nat \<Rightarrow> string \<Rightarrow> string \<Rightarrow> (nat \<Rightarrow> nat) \<Rightarrow> nat \<Rightarrow> pending \<Rightarrow> race \<Rightarrow> bool" where
  "taps_ok message data token actor holder act s \<longleftrightarrow>
     bound_to token actor holder act s \<and> spaced message data actor s \<and> handed_out token s"

lemma bound_toD:
  assumes "bound_to token actor holder act s"
  shows "rc_store s token = Some ((o', a'), x) \<Longrightarrow> o' = holder \<and> a' = act"
    and "rc_taps s i = Fetched b o' a' \<Longrightarrow> o' = holder \<and> a' = act"
    and "rc_taps s i = Answered b y (Some a') \<Longrightarrow> actor i = holder \<and> a' = act"
  using assms by (simp_all add: bound_to_def)

lemma bound_toI:
  assumes "\<And>o' a' x. rc_store s token = Some ((o', a'), x) \<Longrightarrow> o' = holder \<and> a' = act"
    and "\<And>i b o' a'. rc_taps s i = Fetched b o' a' \<Longrightarrow> o' = holder \<and> a' = act"
    and "\<And>i b y a'. rc_taps s i = Answered b y (Some a') \<Longrightarrow> actor i = holder \<and> a' = act"
  shows "bound_to token actor holder act s"
  unfolding bound_to_def using assms by simp

lemma spacedD:
  assumes "spaced message data actor s" and "arrived (rc_taps s i) = Some a"
  shows "a \<le> rc_now s"
    and "\<exists>v x. rc_seen s (callback_key (actor i) message data) = Some (v, x) \<and> a + seconds 2 \<le> x"
    and "i \<noteq> j \<Longrightarrow> actor i = actor j \<Longrightarrow> arrived (rc_taps s j) = Some b \<Longrightarrow>
      a + seconds 2 \<le> b \<or> b + seconds 2 \<le> a"
  using assms by (simp_all add: spaced_def)

lemma handed_outD:
  assumes "handed_out token s" and "rc_taps s i = Answered a x (Some act)"
  shows "rc_store s token = None"
    and "holds_action (rc_taps s j) \<Longrightarrow> arrived (rc_taps s j) = Some b \<Longrightarrow> b \<le> x"
  using assms unfolding handed_out_def by blast+

lemma arrived_unchanged:
  "rc_taps s i = Waiting a \<Longrightarrow> arrived (rc_taps (fetch token i a s) j) = arrived (rc_taps s j)"
  "rc_taps s i = Fetched a o' a' \<Longrightarrow> arrived (rc_taps (remove token i u a o' a' s) j) = arrived (rc_taps s j)"
  by (auto simp: fetch_def remove_def split: option.split)

lemma clock_unchanged [simp]:
  "rc_now (fetch token i a s) = rc_now s" "rc_seen (fetch token i a s) = rc_seen s"
  "rc_now (remove token i u a o' a' s) = rc_now s" "rc_seen (remove token i u a o' a' s) = rc_seen s"
  "rc_store (fetch token i a s) = rc_store s"
  by (simp_all add: fetch_def remove_def)

lemma arrive_cases:
  obtains (fresh) "live (rc_seen s) (rc_now s) key = None"
      "arrive key i s = s\<lparr>rc_seen := (rc_seen s)(key \<mapsto> (Text ''1'', rc_now s + seconds 2)),
         rc_taps := (rc_taps s)(i := Waiting (rc_now s))\<rparr>"
    | (repeated) "arrive key i s = s\<lparr>rc_taps := (rc_taps s)(i := Dropped)\<rparr>"
  by (cases "live (rc_seen s) (rc_now s) key = None") (auto simp: arrive_def dedupe_def set_nx_def Let_def)

lemma tap_step_bound:
  assumes "tap_step message data token actor s t" and "bound_to token actor holder act s"
  shows "bound_to token actor holder act t"
  using assms
proof (induction rule: tap_step.induct)
  case (tap s i)
  then show ?case by (cases rule: arrive_cases [of s "callback_key (actor i) message data" i]) (auto simp: bound_to_def)
next
  case (get s i arrival)
  then show ?case unfolding bound_to_def by (simp add: fetch_def split: option.split)
next
  case (del s i arrival o' a')
  note ok = bound_toD [OF del(2)]
  have "o' = holder" "a' = act" using ok(2) [OF del(1)] by simp_all
  then show ?case
    by (intro bound_toI) (auto simp: remove_def split: if_splits dest: ok(2,3))
qed (auto simp: bound_to_def)

lemma spaced_cong:
  "(\<And>j. arrived (rc_taps t j) = arrived (rc_taps s j)) \<Longrightarrow> rc_now t = rc_now s \<Longrightarrow> rc_seen t = rc_seen s \<Longrightarrow>
   spaced message data actor s \<Longrightarrow> spaced message data actor t"
  unfolding spaced_def by simp

lemma spaced_new:
  assumes ok: "spaced message data actor s" and idle: "rc_taps s i = Idle"
    and free: "live (rc_seen s) (rc_now s) (callback_key (actor i) message data) = None"
  shows "spaced message data actor
    (s\<lparr>rc_seen := (rc_seen s)(callback_key (actor i) message data \<mapsto> (Text ''1'', rc_now s + seconds 2)),
       rc_taps := (rc_taps s)(i := Waiting (rc_now s))\<rparr>)"
proof -
  have early: "a + seconds 2 \<le> rc_now s" if a: "arrived (rc_taps s j) = Some a" and "actor j = actor i" for j a
  proof -
    obtain v x where "rc_seen s (callback_key (actor j) message data) = Some (v, x)" "a + seconds 2 \<le> x"
      using spacedD(2) [OF ok a] by blast
    with free \<open>actor j = actor i\<close> show ?thesis by (auto simp: live_def split: if_splits)
  qed
  let ?k = "callback_key (actor i) message data"
  let ?t = "s\<lparr>rc_seen := (rc_seen s)(?k \<mapsto> (Text ''1'', rc_now s + seconds 2)), rc_taps := (rc_taps s)(i := Waiting (rc_now s))\<rparr>"
  have old: "arrived (rc_taps ?t j) = (if j = i then Some (rc_now s) else arrived (rc_taps s j))" for j by simp
  have "a \<le> rc_now s \<and> (\<exists>v x. rc_seen ?t (callback_key (actor j) message data) = Some (v, x) \<and> a + seconds 2 \<le> x)"
    if "arrived (rc_taps ?t j) = Some a" for j a
  proof (cases "j = i")
    case False
    with that have a: "arrived (rc_taps s j) = Some a" by simp
    from spacedD(1,2) [OF ok a] show ?thesis by (cases "callback_key (actor j) message data = ?k") auto
  qed (use that in simp)
  moreover have "a + seconds 2 \<le> b \<or> b + seconds 2 \<le> a"
    if "j \<noteq> k" "actor j = actor k" "arrived (rc_taps ?t j) = Some a" "arrived (rc_taps ?t k) = Some b" for j k a b
  proof -
    consider "j = i" "k \<noteq> i" | "j \<noteq> i" "k = i" | "j \<noteq> i" "k \<noteq> i" using \<open>j \<noteq> k\<close> by blast
    then show ?thesis
    proof cases
      case 1
      with that early [of k b] show ?thesis by simp
    next
      case 2
      with that early [of j a] show ?thesis by simp
    next
      case 3
      then have "arrived (rc_taps s j) = Some a" "arrived (rc_taps s k) = Some b" using that(3,4) by simp_all
      with spacedD(3) [OF ok _ that(1,2)] show ?thesis by blast
    qed
  qed
  ultimately show ?thesis unfolding spaced_def by simp
qed

lemma tap_step_spaced:
  assumes "tap_step message data token actor s t" and "spaced message data actor s"
  shows "spaced message data actor t"
  using assms
proof (induction rule: tap_step.induct)
  case (wait s later)
  then show ?case unfolding spaced_def by (auto intro: order_trans)
next
  case (limited s i)
  then show ?case by - (rule spaced_cong [where s = s], auto split: if_splits)
next
  case (tap s i)
  show ?case
  proof (cases rule: arrive_cases [of s "callback_key (actor i) message data" i])
    case fresh
    with spaced_new [OF tap(2,1)] show ?thesis by simp
  next
    case repeated
    with tap show ?thesis by - (rule spaced_cong [where s = s], auto split: if_splits)
  qed
next
  case (get s i arrival)
  then show ?case by - (rule spaced_cong [where s = s], simp_all add: arrived_unchanged)
next
  case (del s i arrival o' a')
  then show ?case by - (rule spaced_cong [where s = s], simp_all add: arrived_unchanged)
qed

lemma tap_step_handed_out:
  assumes "tap_step message data token actor s t" and "handed_out token s" and "spaced message data actor s"
  shows "handed_out token t"
  using assms
proof (induction rule: tap_step.induct)
  case (wait s later)
  then show ?case by (simp add: handed_out_def)
next
  case (limited s i)
  then show ?case unfolding handed_out_def by (auto split: if_splits)
next
  case (tap s i)
  then show ?case
    by (cases rule: arrive_cases [of s "callback_key (actor i) message data" i])
      (auto simp: handed_out_def split: if_splits)
next
  case (get s i arrival)
  then show ?case unfolding handed_out_def fetch_def by (auto split: if_splits option.splits)
next
  case (del s i arrival o' a')
  have "b \<le> rc_now s" if "arrived (rc_taps s j) = Some b" for j b
    using del(3) that by (simp add: spaced_def)
  moreover have "arrived (rc_taps s i) = Some arrival" "holds_action (rc_taps s i)" using del(1) by simp_all
  ultimately show ?case using del(2) unfolding handed_out_def remove_def by (fastforce split: if_splits)
qed

lemma taps_keep_ok:
  "taps_reach message data token actor s t \<Longrightarrow> taps_ok message data token actor holder act s \<Longrightarrow>
   taps_ok message data token actor holder act t"
  by (induction rule: rtranclp_induct)
    (auto simp: taps_ok_def intro: tap_step_bound tap_step_spaced tap_step_handed_out)

abbreviation untouched :: "time \<Rightarrow> redis \<Rightarrow> confirmations \<Rightarrow> race" where
  "untouched now seen store \<equiv> \<lparr>rc_now = now, rc_seen = seen, rc_store = store, rc_taps = \<lambda>_. Idle\<rparr>"

section \<open>The property\<close>

text \<open>
  C38: a confirmation is taken by its operator, and once unless a tap is slow. However the taps on the button interleave, its
  action is only ever handed to the operator it was stored for; and if two taps are both handed the action, then one of them took
  two seconds or more from passing the middleware to its \<^verbatim>\<open>DELETE\<close>. A double tap whose first half is answered
  within two seconds executes the action once.
\<close>

theorem confirmation_taken_once:
  assumes "taps_reach message data token actor (untouched now seen store) s"
    and "store token = Some ((holder, act), expires)"
  shows "(\<forall>i a x act'. rc_taps s i = Answered a x (Some act') \<longrightarrow> actor i = holder \<and> act' = act)
    \<and> (\<forall>i j a x b y act1 act2. i \<noteq> j \<longrightarrow> rc_taps s i = Answered a x (Some act1) \<longrightarrow>
         rc_taps s j = Answered b y (Some act2) \<longrightarrow> seconds 2 \<le> x - a \<or> seconds 2 \<le> y - b)"
proof -
  have "taps_ok message data token actor holder act (untouched now seen store)"
    using assms(2) by (simp add: taps_ok_def bound_to_def spaced_def handed_out_def)
  then have "taps_ok message data token actor holder act s" by (rule taps_keep_ok [OF assms(1)])
  then have ok: "bound_to token actor holder act s" "spaced message data actor s" "handed_out token s"
    by (simp_all add: taps_ok_def)
  note bound = bound_toD(3) [OF ok(1)]
  have "seconds 2 \<le> x - a \<or> seconds 2 \<le> y - b"
    if "i \<noteq> j" and i: "rc_taps s i = Answered a x (Some act1)" and j: "rc_taps s j = Answered b y (Some act2)"
    for i j a x b y act1 act2
  proof -
    have "actor i = actor j" using bound [OF i] bound [OF j] by simp
    moreover have "b \<le> x" "a \<le> y"
      using handed_outD(2) [OF ok(3) i, of j b] handed_outD(2) [OF ok(3) j, of i a] i j by simp_all
    ultimately show ?thesis using spacedD(3) [OF ok(2), of i a j b] that(1) i j by auto
  qed
  with bound show ?thesis by blast
qed

text \<open>
  Two slow taps of the operator are both handed the action: the second passes the middleware when the mark of the first has
  expired, and reads the entry before the first deletes it. \<^verbatim>\<open>GETDEL\<close> in place of the two calls would not allow it.
\<close>

lemma slow_taps_both_take:
  assumes "store token = Some ((holder, act), expires)" and "now + seconds 2 < expires"
    and "actor 0 = holder" and "actor 1 = holder" and "seen (callback_key holder message data) = None"
  shows "\<exists>s. taps_reach message data token actor (untouched now seen store) s
    \<and> rc_taps s 0 = Answered now (now + seconds 2) (Some act)
    \<and> rc_taps s 1 = Answered (now + seconds 2) (now + seconds 2) (Some act)"
proof -
  let ?k = "callback_key holder message data" and ?later = "now + seconds 2"
  let ?mark = "\<lambda>x. seen(?k \<mapsto> (Text ''1'', x + seconds 2))" and ?gone = "store(token := None)"
  let ?taps = "\<lambda>a b. (\<lambda>_. Idle)(0 := a, 1 := b)"
  let ?at = "\<lambda>clock r c a b. \<lparr>rc_now = clock, rc_seen = r, rc_store = c, rc_taps = ?taps a b\<rparr>"
  let ?held = "\<lambda>a. Fetched a holder act" and ?got = "\<lambda>a. Answered a ?later (Some act)"
  let ?go = "tap_step message data token actor"
  have idle: "untouched now seen store = ?at now seen store Idle Idle" by (simp add: fun_eq_iff)
  have "?go (?at now seen store Idle Idle) (?at now (?mark now) store (Waiting now) Idle)"
    by (rule tapI [where i = 0]) (use assms(3,5) in \<open>simp_all add: arrive_def dedupe_def set_nx_def live_def fun_upd_twist\<close>)
  moreover have "?go (?at now (?mark now) store (Waiting now) Idle) (?at now (?mark now) store (?held now) Idle)"
    by (rule getI [where i = 0]) (use assms(1,2) in \<open>simp_all add: fetch_def fun_upd_twist\<close>)
  moreover have "?go (?at now (?mark now) store (?held now) Idle) (?at ?later (?mark now) store (?held now) Idle)"
    using wait [of "?at now (?mark now) store (?held now) Idle" ?later message data token actor] by simp
  moreover have "?go (?at ?later (?mark now) store (?held now) Idle)
      (?at ?later (?mark ?later) store (?held now) (Waiting ?later))"
    by (rule tapI [where i = 1]) (use assms(4) in \<open>simp_all add: arrive_def dedupe_def set_nx_def live_def\<close>)
  moreover have "?go (?at ?later (?mark ?later) store (?held now) (Waiting ?later))
      (?at ?later (?mark ?later) store (?held now) (?held ?later))"
    by (rule getI [where i = 1]) (use assms(1,2) in \<open>simp_all add: fetch_def\<close>)
  moreover have "?go (?at ?later (?mark ?later) store (?held now) (?held ?later))
      (?at ?later (?mark ?later) ?gone (?got now) (?held ?later))"
    by (rule delI [where i = 0]) (use assms(3) in \<open>auto simp: remove_def fun_eq_iff\<close>)
  moreover have "?go (?at ?later (?mark ?later) ?gone (?got now) (?held ?later))
      (?at ?later (?mark ?later) ?gone (?got now) (?got ?later))"
    by (rule delI [where i = 1]) (use assms(4) in \<open>auto simp: remove_def fun_eq_iff\<close>)
  ultimately have "taps_reach message data token actor (untouched now seen store)
      (?at ?later (?mark ?later) ?gone (?got now) (?got ?later))"
    unfolding idle by (meson converse_rtranclp_into_rtranclp rtranclp.rtrancl_refl)
  then show ?thesis by - (rule exI, rule conjI, assumption, simp)
qed

theorem confirmation_taken_once_witness:
  "\<exists>s. taps_reach 5 ''c'' ''tok'' (\<lambda>_. 7) (untouched 0 (\<lambda>_. None) [''tok'' \<mapsto> ((7, MethodContract 2 ''c''), seconds 300)]) s
     \<and> rc_taps s 1 = Answered (seconds 2) (seconds 2) (Some (MethodContract 2 ''c''))
     \<and> (\<forall>a x act. rc_taps s 0 = Answered a x (Some act) \<longrightarrow> seconds 2 \<le> x - a)"
proof -
  let ?store = "[''tok'' \<mapsto> ((7, MethodContract 2 ''c''), seconds 300)] :: confirmations"
  have entry: "?store ''tok'' = Some ((7, MethodContract 2 ''c''), seconds 300)" by simp
  have "\<exists>s. taps_reach 5 ''c'' ''tok'' (\<lambda>_. 7) (untouched 0 (\<lambda>_. None) ?store) s
      \<and> rc_taps s 0 = Answered 0 (0 + seconds 2) (Some (MethodContract 2 ''c''))
      \<and> rc_taps s 1 = Answered (0 + seconds 2) (0 + seconds 2) (Some (MethodContract 2 ''c''))"
    by (rule slow_taps_both_take) auto
  then obtain s where s: "taps_reach 5 ''c'' ''tok'' (\<lambda>_. 7) (untouched 0 (\<lambda>_. None) ?store) s"
    "rc_taps s 1 = Answered (0 + seconds 2) (0 + seconds 2) (Some (MethodContract 2 ''c''))"
    by blast
  moreover have "seconds 2 \<le> x - a" if "rc_taps s 0 = Answered a x (Some act)" for a x act
    using conjunct2 [OF confirmation_taken_once [OF s(1) entry], rule_format, OF zero_neq_one that s(2)]
    by simp
  ultimately show ?thesis by auto
qed

end
