(* ===== verification/Spec2Isabelle.thy ===== *)
theory Spec2Isabelle
  imports AdapterFacts Confirmations
begin

text \<open>
  A model of the shop of this repository: a Telegram bot and a reseller API that sell digital goods for
  cryptocurrency, a panel for its operators, and the workers that verify payments, deliver goods and
  reconcile the books. The theories follow the source; names in typewriter are files and functions under
  \<^verbatim>\<open>src/\<close>.

  Parts and how they interact. A handler of the bot (\<^verbatim>\<open>app/bot/handlers\<close>), of the API (\<^verbatim>\<open>app/api/routes\<close>), of the panel
  (\<^verbatim>\<open>app/admin/handlers\<close>) or a worker (\<^verbatim>\<open>app/workers\<close>) opens a session, calls the services of
  \<^verbatim>\<open>app/domain\<close>, and commits when it returns or rolls back when it raises. The services share the
  tables: an order is created with a stock reservation and a coupon, a payment intent freezes what has to be paid, a
  verification pass asks the adapter of a provider for transfers, judges them, consumes the transfer that
  matches and marks intent and order, a delivery hands over the reserved stock, a refund and a referral
  reward are journalled.

  How the model is laid out.
  \<^item> \<open>Prelude\<close>: errors (\<^verbatim>\<open>app/core/exceptions.py\<close>), strings as Python treats them, the state-and-error
    monad \<open>svc\<close> of a service call, tables, and the locales \<open>step_rel\<close> (relations that compose along a
    program) and \<open>row_store\<close>.
  \<^item> \<open>Enums\<close>, \<open>StateMachines\<close>: the status enums, the transition tables and the path search.
  \<^item> \<open>Money\<close>, \<open>Fingerprint\<close>, \<open>Verification\<close>: decimal arithmetic with the default context of \<^verbatim>\<open>decimal\<close> (28 digits), integers read back as floats,
    the identity of a transfer, and the engine that judges it.
  \<^item> \<open>Store\<close>: a record per table and the record \<open>db\<close> of all tables with the next primary key; insertions raise
    \<open>IntegrityError\<close> under the constraints of \<^verbatim>\<open>app/db/models\<close>. The record \<open>env\<close> holds what a call reads
    from outside: the clock, the settings, the digest and cipher, the adapters of the providers.
  \<^item> \<open>History\<close>: the invariant \<open>db_ok\<close>, the relation \<open>evolves\<close> between the tables before and after, and the proof
    that every write of the services respects both. \<open>Runs\<close>: total and partial postconditions.
  \<^item> \<open>Inventory\<close>, \<open>Ledger\<close>, \<open>Coupons\<close>, \<open>Orders\<close>, \<open>Payments\<close>, \<open>Settlement\<close>, \<open>Fulfilment\<close>,
    \<open>Refunds\<close>: the services with their repositories, one definition per method; \<open>Workers\<close>: the passes of the workers.
  \<^item> \<open>System\<close>: the commands of the application, each run as its transaction, and the states that a set of commands reaches; only the
    approval of the panel verifies a payment without a transaction of its own.
  \<^item> \<open>Scenario\<close>: a concrete sale, evaluated by the kernel, from which the witnesses are taken.
  \<^item> \<open>Crediting\<close>: what a verification pass does to its payment. \<open>Checkout\<close>: what reserving stock, creating a payment and
    releasing stock do.
  \<^item> \<open>PyValues\<close>: the values of a JSON answer and what Python does with them, each operation with the exception it raises;
    \<open>Transport\<close>: the request loop of \<^verbatim>\<open>integrations/base.py\<close>; \<open>Chains\<close> (EVM, TRON), \<open>Indexed\<close> (UTXO, Solana, TON),
    \<open>Exchanges\<close> (Binance, Binance Pay, Bybit, OKX): the adapters, which turn answers into observed transfers; \<open>Adapters\<close>:
    the registry that builds them; \<open>Reports\<close>, \<open>AdapterFacts\<close>: what their reports mean for the engine. The answers are
    parameters: a function from the call to the JSON value or the exception.
  \<^item> \<open>Checksums\<close>, \<open>Addresses\<close>, \<open>AddressFacts\<close>: the checksums of Bech32 and TON addresses, the validation of a receiving
    address (\<^verbatim>\<open>domain/payments/addresses.py\<close>), and what it catches. \<open>Access\<close>: permissions and roles of operators. \<open>Panel\<close>: the
    dialogues that change how a payment method is paid, as commands on a state of tables, pending confirmations and dialogues.
    \<open>Coordination\<close>: locks, rate limits and the guard against repeated taps in Redis. \<open>Confirmations\<close>: overlapping taps on one
    confirmation behind that guard, with the time that passes between the calls of each.

  What the lemmas show. Theories of values hold functional, round trip and bound properties. Each service theory shows that
  its operations are steps (\<open>resp (step X)\<close>), that is, preserve \<open>db_ok\<close> and evolve the tables; \<open>System\<close> lifts this to
  every command and every reachable state, and this theory draws the guarantees of the whole system from it. \<open>Panel\<close> has its own
  machine and invariant: what the panel changes of a payment method is what \<open>create_intent\<close> later freezes in an intent.

  Bounds. The recursion of the model is structural or has a measure; there is no fuel except the fifty
  attempts of \<^verbatim>\<open>_next_reference\<close>, which the source has too. The breadth-first search of
  \<^verbatim>\<open>payment_path\<close> terminates because a status enters the queue once.

  Not modelled. Free text (log lines, user-facing messages, failure reasons, audit details), correlation ids and
  timestamps nothing depends on are left out of the records. Transactions run one after the other: row locks and
  the branches that repair a lost race by rolling the session back are not modelled, and the constraints they rely on
  are. A verification pass reads the transfers from \<open>env_fetch\<close>, which \<open>find_transactions\<close> of \<open>Adapters\<close> describes
  (an exception that is no application error aborts the pass either way). Signatures of requests, base58 and SHA-256 are
  parameters; Telegram, the web framework, rendering, translations, configuration loading, support tickets, the wizards and statistics of the panel and migrations are outside the
  model.
\<close>

section \<open>Guarantees over every reachable state\<close>

lemma texists_iff: "texists P t \<longleftrightarrow> (\<exists>k r. (k, r) \<in> set t \<and> P r)"
  by (simp add: texists_def Bex_def)

lemma reaches_backed:
  "reaches C empty_db s \<Longrightarrow> tget (payment_intents s) i = Some r \<Longrightarrow> i_status r = PaymentStatus.VERIFIED \<Longrightarrow>
   has_claim i s \<or> (\<exists>actor. PanelApprove i actor \<in> C)"
  using reaches_ok [of C s] by (auto simp: db_ok_def backed_ok_def approved_by_hand_def)

text \<open>
  C1: no goods and no refunds without money. In every reachable state a paid order, an order one of whose
  deliveries is complete and an order with a recorded refund has a payment intent that is verified,
  whatever handlers ran and failed before.
\<close>

theorem nothing_without_payment:
  assumes "reachable s"
  shows "(\<forall>oid r. tget (orders s) oid = Some r \<longrightarrow> order_is_paid (o_status r) \<longrightarrow> has_verified oid s)
    \<and> (\<forall>k d. tget (deliveries s) k = Some d \<longrightarrow> d_status d = DeliveryStatus.COMPLETED \<longrightarrow>
      has_verified (d_order_id d) s)
    \<and> (\<forall>j f. tget (refunds s) j = Some f \<longrightarrow> has_verified (rf_order_id f) s)"
  using reachable_ok [OF assms] by (auto simp: db_ok_def paid_ok_def delivered_ok_def refunds_ok_def)

theorem nothing_without_payment_witness:
  "has_verified 7 demo_done \<and> order_is_paid OrderStatus.REFUNDED"
proof -
  have "tget (orders demo_done) 7 = Some (snd (hd (orders demo_done)))"
    "order_is_paid (o_status (snd (hd (orders demo_done))))"
    by (simp_all add: demo_done_def tget_def order_is_paid_def)
  with nothing_without_payment [OF demo_reachable(3)] have "has_verified 7 demo_done" by blast
  then show ?thesis by (simp add: order_is_paid_def)
qed

text \<open>
  C2: every credited payment is backed. In any run of the application, whatever commands it issues and however they fail, an
  intent that is verified holds a consumed transaction of its own, or an operator approved this very intent in the
  panel during the run; nothing else verifies a payment.
\<close>

theorem verified_payment_is_backed:
  assumes "reaches C empty_db s" and "tget (payment_intents s) i = Some r" and "i_status r = PaymentStatus.VERIFIED"
  shows "(\<exists>k c. (k, c) \<in> set (payment_consumptions s) \<and> pc_payment_intent_id c = i)
     \<or> (\<exists>actor. PanelApprove i actor \<in> C)"
  using reaches_backed [OF assms] by (auto simp: has_claim_def texists_iff)

theorem verified_payment_is_backed_witness:
  "\<exists>k c. (k, c) \<in> set (payment_consumptions demo_paid) \<and> pc_payment_intent_id c = 11"
proof -
  have "reaches guarded_commands empty_db demo_paid" by (rule reaches_trans [OF demo_guarded(2) demo_guarded(1)])
  moreover have "tget (payment_intents demo_paid) 11 = Some (snd (hd (payment_intents demo_paid)))"
    "i_status (snd (hd (payment_intents demo_paid))) = PaymentStatus.VERIFIED"
    by (simp_all add: demo_paid_def tget_def)
  moreover have "\<not> (\<exists>actor. PanelApprove 11 actor \<in> guarded_commands)" by (simp add: guarded_commands_def)
  ultimately show ?thesis using verified_payment_is_backed by blast
qed

text \<open>
  C3: one transfer, one credit. Two payments that are verified in a run without an operator having approved either of them
  hold exactly one consumed transaction each, and these are different transfers.
\<close>

theorem transfer_consumed_once:
  assumes "reaches C empty_db s" and "i \<noteq> j"
    and "tget (payment_intents s) i = Some r" and "i_status r = PaymentStatus.VERIFIED" and "\<nexists>actor. PanelApprove i actor \<in> C"
    and "tget (payment_intents s) j = Some q" and "i_status q = PaymentStatus.VERIFIED" and "\<nexists>actor. PanelApprove j actor \<in> C"
  shows "\<exists>k c l d. {x \<in> set (payment_consumptions s). pc_payment_intent_id (snd x) = i} = {(k, c)}
    \<and> {x \<in> set (payment_consumptions s). pc_payment_intent_id (snd x) = j} = {(l, d)}
    \<and> pc_fingerprint c \<noteq> pc_fingerprint d"
proof -
  have u: "uniq pc_fingerprint (payment_consumptions s)" "uniq pc_payment_intent_id (payment_consumptions s)"
    using reaches_ok [OF assms(1)] by (simp_all add: db_ok_def constraints_ok_def)
  have only: "{x \<in> set (payment_consumptions s). pc_payment_intent_id (snd x) = n} = {(k, c)}"
    if "(k, c) \<in> set (payment_consumptions s)" "pc_payment_intent_id c = n" for n k c
  proof -
    have "x = (k, c)" if x: "x \<in> set (payment_consumptions s)" "pc_payment_intent_id (snd x) = n" for x
      using uniqD [OF u(2), of x "(k, c)"] x \<open>(k, c) \<in> set (payment_consumptions s)\<close> \<open>pc_payment_intent_id c = n\<close>
      by simp
    moreover have "(k, c) \<in> {x \<in> set (payment_consumptions s). pc_payment_intent_id (snd x) = n}"
      using that by simp
    ultimately show ?thesis by blast
  qed
  obtain k c l d where c: "(k, c) \<in> set (payment_consumptions s)" "pc_payment_intent_id c = i"
    and d: "(l, d) \<in> set (payment_consumptions s)" "pc_payment_intent_id d = j"
    using reaches_backed [OF assms(1,3,4)] reaches_backed [OF assms(1,6,7)] assms(5,8)
    by (auto simp: has_claim_def texists_iff)
  moreover have "pc_fingerprint c \<noteq> pc_fingerprint d" using uniqD [OF u(1) c(1) d(1)] assms(2) c(2) d(2) by auto
  ultimately show ?thesis using only by blast
qed

text \<open>The second sale of the scenario, paid by a transfer of its own.\<close>

definition second_payment_env :: env where
  "second_payment_env = demo_env\<lparr>env_fetch := (\<lambda>p m e ref. Inr [demo_transfer\<lparr>tx_external_id := ''cd''\<rparr>])\<rparr>"

definition both_paid :: db where
  "both_paid = run_all second_payment_env [VerificationPass] second_sale"

lemma both_paid_guarded: "reaches guarded_commands empty_db both_paid"
proof -
  have "set [ConfirmOrder 0 3 1 None, SelectMethod 18 ''usdt'', ClaimPaid 18 None] \<subseteq> guarded_commands"
    "set [VerificationPass] \<subseteq> guarded_commands" by (simp_all add: guarded_commands_def)
  moreover have "iteration_order (env_succ second_payment_env)" by (simp add: second_payment_env_def)
  ultimately have "reaches guarded_commands demo_paid both_paid"
    unfolding both_paid_def second_sale_def by (intro reaches_run_all demo_env_order reaches_refl)
  then show ?thesis by (rule reaches_trans [OF _ reaches_trans [OF demo_guarded(2) demo_guarded(1)]])
qed

lemma both_paid_rows:
  "map (\<lambda>x. (fst x, i_status (snd x))) (payment_intents both_paid)
     = [(11, PaymentStatus.VERIFIED), (22, PaymentStatus.VERIFIED)]"
  by code_simp

theorem transfer_consumed_once_witness:
  "\<exists>k c l d. {x \<in> set (payment_consumptions both_paid). pc_payment_intent_id (snd x) = 11} = {(k, c)}
    \<and> {x \<in> set (payment_consumptions both_paid). pc_payment_intent_id (snd x) = 22} = {(l, d)}
    \<and> pc_fingerprint c \<noteq> pc_fingerprint d"
proof -
  obtain r q where "payment_intents both_paid = [(11, r), (22, q)]" "i_status r = PaymentStatus.VERIFIED"
    "i_status q = PaymentStatus.VERIFIED"
    using both_paid_rows by (auto simp: map_eq_Cons_conv)
  then show ?thesis
    by (intro transfer_consumed_once [OF both_paid_guarded, of 11 22 r q]) (simp_all add: tget_def guarded_commands_def)
qed

text \<open>
  C4: the terms of a payment are frozen. Whatever commands run between two reachable states, an intent is still there with
  the destination, amount, network, memo and deadline it was created with, its status has moved
  along transitions of the table only, and a verified intent is still verified.
\<close>

theorem intents_keep_their_terms:
  assumes "reachable s" and "reaches C s t" and "tget (payment_intents s) i = Some r"
  shows "\<exists>r' p. tget (payment_intents t) i = Some r' \<and> i_snap r' = i_snap r
     \<and> legal_walk (i_status r) p (i_status r')
     \<and> (i_status r = PaymentStatus.VERIFIED \<longrightarrow> i_status r' = PaymentStatus.VERIFIED)"
proof -
  have "table_step intent_step (payment_intents s) (payment_intents t)"
    using reachable_evolves [OF assms(1,2)] by (simp add: evolves_def)
  then obtain r' where "tget (payment_intents t) i = Some r'" "i_snap r' = i_snap r"
    "pay_reach (i_status r) (i_status r')"
    using assms(3) by (auto simp: table_step_def intent_step_def)
  then show ?thesis using legal_walk_VERIFIED by (auto simp: pay_reach_def)
qed

theorem intents_keep_their_terms_witness:
  "\<exists>p. legal_walk PaymentStatus.SUBMITTED p PaymentStatus.VERIFIED"
proof -
  have 1: "tget (payment_intents demo_open) 11 = Some (snd (hd (payment_intents demo_open)))"
    by (simp add: demo_open_def tget_def)
  have 2: "reaches UNIV demo_open demo_paid" by (rule reaches_mono [OF demo_guarded(2) subset_UNIV])
  from intents_keep_their_terms [OF demo_reachable(1) 2 1] show ?thesis
    by (auto simp: demo_open_def demo_paid_def tget_def)
qed

text \<open>
  C15: the price of an order is frozen. Between two reachable states an order keeps its reference, owner,
  currency, subtotal, discount and total, and moves along transitions of the table only.
\<close>

theorem orders_keep_their_price:
  assumes "reachable s" and "reaches C s t" and "tget (orders s) oid = Some r"
  shows "\<exists>r' p. tget (orders t) oid = Some r' \<and> order_frozen r' = order_frozen r
     \<and> legal_order_walk (o_status r) p (o_status r')"
proof -
  have "table_step order_step (orders s) (orders t)"
    using reachable_evolves [OF assms(1,2)] by (simp add: evolves_def)
  with assms(3) show ?thesis by (auto simp: table_step_def order_step_def order_reach_def)
qed

theorem orders_keep_their_price_witness:
  "\<exists>p. legal_order_walk OrderStatus.PAYMENT_PENDING p OrderStatus.FULFILLING"
proof -
  have 1: "tget (orders demo_open) 7 = Some (snd (hd (orders demo_open)))"
    by (simp add: demo_open_def tget_def)
  have 2: "reaches UNIV demo_open demo_paid" by (rule reaches_mono [OF demo_guarded(2) subset_UNIV])
  from orders_keep_their_price [OF demo_reachable(1) 2 1] show ?thesis
    by (auto simp: demo_open_def demo_paid_def tget_def)
qed

text \<open>
  C16: the books are append-only. Between two reachable states no ledger entry and no consumption record is
  removed or changed, and in every reachable state no two ledger entries share a dedupe key.
\<close>

theorem books_are_append_only:
  assumes "reachable s" and "reaches C s t"
  shows "prefix (ledger_entries s) (ledger_entries t)
    \<and> prefix (payment_consumptions s) (payment_consumptions t)
    \<and> distinct (map (\<lambda>x. l_dedupe_key (snd x)) (ledger_entries s))"
  using reachable_evolves [OF assms] reachable_ok [OF assms(1)]
  by (simp_all add: evolves_def db_ok_def constraints_ok_def uniq_def comp_def)

theorem books_are_append_only_witness:
  "prefix (ledger_entries demo_open) (ledger_entries demo_paid)"
  using books_are_append_only [OF demo_reachable(1) reaches_mono [OF demo_guarded(2) subset_UNIV]] by simp

text \<open>
  C17: stock is sold once. Between two reachable states a stored item keeps its product and payload and a sold
  item stays sold, and in every reachable state an item is held by at most one active reservation.
\<close>

theorem stock_is_sold_once:
  assumes "reachable s" and "reaches C s t"
  shows "(\<forall>k r. tget (inventory_items s) k = Some r \<longrightarrow>
      (\<exists>r'. tget (inventory_items t) k = Some r' \<and> ii_product_id r' = ii_product_id r
        \<and> ii_secret_payload r' = ii_secret_payload r
        \<and> (ii_status r = StockItemStatus.SOLD \<longrightarrow> ii_status r' = StockItemStatus.SOLD)))
    \<and> (\<forall>j x j' x'. (j, x) \<in> set (inventory_reservations s) \<longrightarrow> (j', x') \<in> set (inventory_reservations s) \<longrightarrow>
      ir_status x = ReservationStatus.ACTIVE \<longrightarrow> ir_status x' = ReservationStatus.ACTIVE \<longrightarrow>
      ir_inventory_item_id x = ir_inventory_item_id x' \<longrightarrow> j = j')"
proof (intro conjI allI impI)
  have "table_step item_step (inventory_items s) (inventory_items t)"
    using reachable_evolves [OF assms] by (simp add: evolves_def)
  then show "\<exists>r'. tget (inventory_items t) k = Some r' \<and> ii_product_id r' = ii_product_id r
        \<and> ii_secret_payload r' = ii_secret_payload r
        \<and> (ii_status r = StockItemStatus.SOLD \<longrightarrow> ii_status r' = StockItemStatus.SOLD)"
    if "tget (inventory_items s) k = Some r" for k r
    using that by (auto simp: table_step_def item_step_def)
  have u: "uniq (\<lambda>x. (ir_inventory_item_id x, ir_status x)) (inventory_reservations s)"
    using reachable_ok [OF assms(1)] by (simp add: db_ok_def constraints_ok_def)
  show "j = j'" if "(j, x) \<in> set (inventory_reservations s)" "(j', x') \<in> set (inventory_reservations s)"
    "ir_status x = ReservationStatus.ACTIVE" "ir_status x' = ReservationStatus.ACTIVE"
    "ir_inventory_item_id x = ir_inventory_item_id x'" for j x j' x'
    using uniqD [OF u that(1,2)] that by simp
qed

theorem stock_is_sold_once_witness:
  "\<exists>r'. tget (inventory_items demo_done) 4 = Some r' \<and> ii_secret_payload r' = ''1k''"
proof -
  have 1: "tget (inventory_items demo_paid) 4 = Some (snd (hd (inventory_items demo_paid)))"
    by (simp add: demo_paid_def tget_def)
  have 2: "reaches UNIV demo_paid demo_done" by (rule reaches_mono [OF demo_guarded(3) subset_UNIV])
  have 3: "ii_secret_payload (snd (hd (inventory_items demo_paid))) = ''1k''" by (simp add: demo_paid_def)
  from stock_is_sold_once [OF demo_reachable(2) 2] 1 have
    "\<exists>r'. tget (inventory_items demo_done) 4 = Some r'
      \<and> ii_secret_payload r' = ii_secret_payload (snd (hd (inventory_items demo_paid)))" by blast
  then show ?thesis unfolding 3 .
qed

text \<open>
  C18: an approval that the panel reports as impossible can still credit the payment. Approving an
  expired payment of an expired order moves the intent to VERIFIED before the order refuses to follow; the handler
  catches the error, so the transaction commits. The intent is verified with no transfer and no
  approval behind it, no money is journalled, and a forced delivery then hands over the goods of an expired order.
\<close>

theorem failed_panel_approval_credits:
  "\<exists>s. reachable s \<and> has_verified 7 s \<and> payment_consumptions s = []
     \<and> map (\<lambda>x. l_dedupe_key (snd x)) (ledger_entries s) = [''order_created:7'']
     \<and> map (\<lambda>x. (fst x, o_status (snd x))) (orders s) = [(7, OrderStatus.EXPIRED)]
     \<and> map (\<lambda>x. d_status (snd x)) (deliveries s) = [DeliveryStatus.COMPLETED]"
proof -
  let ?s = "run_all late_env late_commands demo_open"
  have "iteration_order (env_succ late_env)" by (simp add: late_env_def)
  with demo_reachable(1) have "reachable ?s" by (intro reaches_run_all) simp_all
  moreover have "has_verified 7 ?s"
  proof -
    obtain r where r: "payment_intents ?s = [(11, r)]" "sn_order_id (i_snap r) = 7"
      "i_status r = PaymentStatus.VERIFIED"
      using late_rows(1) by (auto simp only: map_eq_Cons_conv prod.inject list.map Nil_is_map_conv fst_conv snd_conv)
    have "tget (payment_intents ?s) 11 = Some r" unfolding r(1) by (simp add: tget_def)
    with r(2,3) show ?thesis unfolding has_verified_def by blast
  qed
  ultimately show ?thesis using late_rows(2-5) by (intro exI [of _ ?s] conjI)
qed

end
